(* ===== verification/Prelude.thy ===== *)
theory Prelude
  imports Main
begin

text \<open>
  Shared vocabulary of the development.

  \<^item> \<open>comp\<close>: an async method of the program, run to its end.  It takes the state it works
    on and returns the state it leaves together with what the promise does: \<open>Inl e\<close> is a
    rejection (a thrown exception), \<open>Inr x\<close> a fulfilment.  Outside the file repository
    the code opens no transaction, so the writes made before a throw stay: the state is returned in both cases.
  \<^item> \<open>find_row\<close>, \<open>update_rows\<close>: the SQL that the drizzle query builder emits, on a table kept as
    the list of its rows.  A \<open>select ... limit 1\<close> without \<open>order by\<close> gives the first matching
    row; an \<open>update ... where\<close> rewrites every matching row in place.
  \<^item> \<open>transitions\<close>: the locale by which every state machine of the development proves its
    invariants.
\<close>

section \<open>Fact collections\<close>

named_theorems comp_simps \<open>evaluation rules of computations\<close>
named_theorems row_simps \<open>what a lookup returns after a table operation\<close>

section \<open>Computations\<close>

type_synonym ('s, 'e, 'a) comp = "'s \<Rightarrow> ('e + 'a) \<times> 's"

definition ret :: "'a \<Rightarrow> ('s, 'e, 'a) comp" where
  "ret x = (\<lambda>s. (Inr x, s))"

definition throw :: "'e \<Rightarrow> ('s, 'e, 'a) comp" where
  "throw e = (\<lambda>s. (Inl e, s))"

definition andThen :: "('s, 'e, 'a) comp \<Rightarrow> ('a \<Rightarrow> ('s, 'e, 'b) comp) \<Rightarrow> ('s, 'e, 'b) comp" where
  "andThen m k = (\<lambda>s. case m s of (Inl e, s') \<Rightarrow> (Inl e, s') | (Inr x, s') \<Rightarrow> k x s')"

text \<open>\<open>fetch\<close> reads from the state, \<open>modify\<close> writes it.\<close>

definition fetch :: "('s \<Rightarrow> 'a) \<Rightarrow> ('s, 'e, 'a) comp" where
  "fetch f = (\<lambda>s. (Inr (f s), s))"

definition modify :: "('s \<Rightarrow> 's) \<Rightarrow> ('s, 'e, unit) comp" where
  "modify f = (\<lambda>s. (Inr (), f s))"

text \<open>\<open>swallow\<close> is \<open>try \<dots> catch\<close> with a handler that only logs.\<close>

definition swallow :: "('s, 'e, unit) comp \<Rightarrow> ('s, 'e, unit) comp" where
  "swallow m = (\<lambda>s. (Inr (), snd (m s)))"

definition whenever :: "bool \<Rightarrow> ('s, 'e, unit) comp \<Rightarrow> ('s, 'e, unit) comp" where
  "whenever b m = (if b then m else ret ())"

text \<open>\<open>lift r\<close> is a call that touches no state and may throw.\<close>

definition lift :: "('e + 'a) \<Rightarrow> ('s, 'e, 'a) comp" where
  "lift r = (\<lambda>s. (r, s))"

lemma lift_run [comp_simps, simp]: "lift r s = (r, s)"
  by (simp add: lift_def)

lemma ret_run [comp_simps, simp]: "ret x s = (Inr x, s)"
  by (simp add: ret_def)

lemma throw_run [comp_simps, simp]: "throw e s = (Inl e, s)"
  by (simp add: throw_def)

lemma fetch_run [comp_simps, simp]: "fetch f s = (Inr (f s), s)"
  by (simp add: fetch_def)

lemma modify_run [comp_simps, simp]: "modify f s = (Inr (), f s)"
  by (simp add: modify_def)

lemma swallow_run [comp_simps, simp]: "swallow m s = (Inr (), snd (m s))"
  by (simp add: swallow_def)

lemma whenever_run [comp_simps]: "whenever b m s = (if b then m s else (Inr (), s))"
  by (simp add: whenever_def)

lemma andThen_run [comp_simps]:
  "andThen m k s = (case m s of (Inl e, s') \<Rightarrow> (Inl e, s') | (Inr x, s') \<Rightarrow> k x s')"
  by (simp add: andThen_def)

lemma andThen_ok [simp]: "m s = (Inr x, s') \<Longrightarrow> andThen m k s = k x s'"
  by (simp add: andThen_def)

lemma andThen_err [simp]: "m s = (Inl e, s') \<Longrightarrow> andThen m k s = (Inl e, s')"
  by (simp add: andThen_def)

lemma andThen_InrE:
  assumes "andThen m k s = (Inr y, t)"
  obtains x s' where "m s = (Inr x, s')" "k x s' = (Inr y, t)"
  using assms by (auto simp: andThen_def split: prod.splits sum.splits)

lemma andThen_assoc: "andThen (andThen m k) h = andThen m (\<lambda>x. andThen (k x) h)"
  by (auto simp: andThen_def fun_eq_iff split: prod.splits sum.splits)

text \<open>A property that every step of a computation keeps is kept by their composition.\<close>

definition keeps :: "('s \<Rightarrow> bool) \<Rightarrow> ('s, 'e, 'a) comp \<Rightarrow> bool" where
  "keeps I m = (\<forall>s. I s \<longrightarrow> I (snd (m s)))"

lemma keepsI: "(\<And>s. I s \<Longrightarrow> I (snd (m s))) \<Longrightarrow> keeps I m"
  by (simp add: keeps_def)

lemma keepsD: "keeps I m \<Longrightarrow> I s \<Longrightarrow> I (snd (m s))"
  by (simp add: keeps_def)

lemma keeps_ret [intro, simp]: "keeps I (ret x)"
  by (simp add: keeps_def)

lemma keeps_throw [intro, simp]: "keeps I (throw e)"
  by (simp add: keeps_def)

lemma keeps_fetch [intro, simp]: "keeps I (fetch f)"
  by (simp add: keeps_def)

lemma keeps_lift [intro, simp]: "keeps I (lift r)"
  by (simp add: keeps_def)

lemma keeps_modify: "(\<And>s. I s \<Longrightarrow> I (f s)) \<Longrightarrow> keeps I (modify f)"
  by (simp add: keeps_def)

lemma keeps_whenever [intro]: "keeps I m \<Longrightarrow> keeps I (whenever b m)"
  by (simp add: whenever_def)

lemma keeps_swallow [intro]: "keeps I m \<Longrightarrow> keeps I (swallow m)"
  by (simp add: keeps_def)

lemma keeps_andThen [intro]:
  assumes "keeps I m" and "\<And>x. keeps I (k x)"
  shows "keeps I (andThen m k)"
  using assms by (force simp: keeps_def andThen_def split: prod.splits sum.splits)

section \<open>JavaScript values\<close>

text \<open>\<open>null\<close> and \<open>undefined\<close> are \<open>None\<close>.  \<open>truthy\<close> is the test of \<open>if (s)\<close> on a nullable string,
  \<open>or_else\<close> is \<open>a || b\<close> on strings, \<open>coalesce\<close> is \<open>a ?? b\<close>.\<close>

fun truthy :: "string option \<Rightarrow> bool" where
  "truthy None = False"
| "truthy (Some s) = (s \<noteq> [])"

fun or_else :: "string option \<Rightarrow> string \<Rightarrow> string" where
  "or_else None d = d"
| "or_else (Some s) d = (if s = [] then d else s)"

fun coalesce :: "'a option \<Rightarrow> 'a \<Rightarrow> 'a" where
  "coalesce None d = d"
| "coalesce (Some x) d = x"

lemma truthy_iff: "truthy x \<longleftrightarrow> (\<exists>s. x = Some s \<and> s \<noteq> [])"
  by (cases x) auto

section \<open>Tables\<close>

definition find_row :: "('r \<Rightarrow> bool) \<Rightarrow> 'r list \<Rightarrow> 'r option" where
  "find_row P rows = List.find P rows"

definition update_rows :: "('r \<Rightarrow> bool) \<Rightarrow> ('r \<Rightarrow> 'r) \<Rightarrow> 'r list \<Rightarrow> 'r list" where
  "update_rows P f rows = map (\<lambda>r. if P r then f r else r) rows"

definition some_row :: "('r \<Rightarrow> bool) \<Rightarrow> 'r list \<Rightarrow> bool" where
  "some_row P rows = list_ex P rows"

definition count_rows :: "('r \<Rightarrow> bool) \<Rightarrow> 'r list \<Rightarrow> nat" where
  "count_rows P rows = length (filter P rows)"

lemma find_row_simps [simp]:
  "find_row P [] = None"
  "find_row P (r # rs) = (if P r then Some r else find_row P rs)"
  by (simp_all add: find_row_def)

lemma update_rows_simps [simp]:
  "update_rows P f [] = []"
  "update_rows P f (r # rs) = (if P r then f r else r) # update_rows P f rs"
  "update_rows P f (rs @ rs') = update_rows P f rs @ update_rows P f rs'"
  by (simp_all add: update_rows_def)

lemma some_row_simps [simp]:
  "some_row P [] = False"
  "some_row P (r # rs) = (P r \<or> some_row P rs)"
  "some_row P (rs @ rs') = (some_row P rs \<or> some_row P rs')"
  by (simp_all add: some_row_def)

lemma count_rows_simps [simp]:
  "count_rows P [] = 0"
  "count_rows P (r # rs) = (if P r then Suc (count_rows P rs) else count_rows P rs)"
  "count_rows P (rs @ rs') = count_rows P rs + count_rows P rs'"
  by (simp_all add: count_rows_def)

lemma some_row_iff: "some_row P rows \<longleftrightarrow> (\<exists>r\<in>set rows. P r)"
  by (induction rows) auto

lemma some_row_find: "some_row P rows \<longleftrightarrow> find_row P rows \<noteq> None"
  by (induction rows) auto

lemma count_rows_zero [simp]: "count_rows P rows = 0 \<longleftrightarrow> \<not> some_row P rows"
  by (induction rows) auto

lemma count_rows_pos [simp]: "0 < count_rows P rows \<longleftrightarrow> some_row P rows"
  by (induction rows) auto

lemma length_update_rows [simp]: "length (update_rows P f rows) = length rows"
  by (simp add: update_rows_def)

lemma map_update_rows:
  assumes "\<And>r. P r \<Longrightarrow> g (f r) = g r"
  shows "map g (update_rows P f rows) = map g rows"
  using assms by (simp add: update_rows_def)

lemma set_update_rows:
  "set (update_rows P f rows) = {f r |r. r \<in> set rows \<and> P r} \<union> {r \<in> set rows. \<not> P r}"
  by (auto simp: update_rows_def)

lemma in_update_rowsE:
  assumes "r \<in> set (update_rows P f rows)"
  obtains r0 where "r0 \<in> set rows" "r = (if P r0 then f r0 else r0)"
  using assms by (auto simp: update_rows_def)

lemma find_row_SomeD: "find_row P rows = Some r \<Longrightarrow> r \<in> set rows \<and> P r"
  by (induction rows) (auto split: if_splits)

lemma find_row_None: "find_row P rows = None \<longleftrightarrow> (\<forall>r\<in>set rows. \<not> P r)"
  by (induction rows) auto

lemma find_row_append [row_simps]:
  "find_row P (rs @ rs') = (case find_row P rs of Some r \<Rightarrow> Some r | None \<Rightarrow> find_row P rs')"
  by (induction rs) auto

lemma find_row_update_same [row_simps]:
  assumes "\<And>r. P r \<Longrightarrow> Q (f r) = Q r"
  shows "find_row Q (update_rows P f rows)
       = map_option (\<lambda>r. if P r then f r else r) (find_row Q rows)"
  using assms by (induction rows) auto

lemma find_row_cong: "(\<And>r. r \<in> set rows \<Longrightarrow> P r = Q r) \<Longrightarrow> find_row P rows = find_row Q rows"
  by (induction rows) auto

lemma update_rows_cong:
  "(\<And>r. r \<in> set rows \<Longrightarrow> P r = Q r) \<Longrightarrow> (\<And>r. r \<in> set rows \<Longrightarrow> Q r \<Longrightarrow> f r = g r)
   \<Longrightarrow> update_rows P f rows = update_rows Q g rows"
  by (auto simp: update_rows_def)

lemma update_rows_none: "\<not> some_row P rows \<Longrightarrow> update_rows P f rows = rows"
  by (induction rows) auto

lemma update_rows_all: "(\<And>r. r \<in> set rows \<Longrightarrow> P r \<Longrightarrow> I r \<Longrightarrow> I (f r))
   \<Longrightarrow> \<forall>r\<in>set rows. I r \<Longrightarrow> \<forall>r\<in>set (update_rows P f rows). I r"
  by (auto simp: update_rows_def)

lemma count_update_rows_le:
  assumes "\<And>r. P r \<Longrightarrow> Q (f r) \<Longrightarrow> Q r"
  shows "count_rows Q (update_rows P f rows) \<le> count_rows Q rows"
  using assms by (induction rows) (auto simp: le_SucI)

lemma unique_key_eq:
  assumes "distinct (map k rows)" "r \<in> set rows" "r' \<in> set rows" "k r = k r'"
  shows "r = r'"
  using assms by (induction rows) (auto simp: image_iff)

lemma find_row_unique_key:
  assumes "distinct (map k rows)" "r \<in> set rows" "P r" "\<And>r'. P r' \<Longrightarrow> k r' = k r"
  shows "find_row P rows = Some r"
proof (cases "find_row P rows")
  case None
  with assms(2,3) show ?thesis by (metis find_row_None)
next
  case (Some r')
  then have "r' \<in> set rows" "P r'" by (auto dest: find_row_SomeD)
  with unique_key_eq [OF assms(1) this(1) assms(2)] assms(4) Some show ?thesis by blast
qed

lemma sorted_le_last: "sorted xs \<Longrightarrow> \<forall>x\<in>set xs. x \<le> last xs"
  by (induction xs) auto

section \<open>State machines\<close>

inductive reach :: "('s \<Rightarrow> bool) \<Rightarrow> ('s \<Rightarrow> 's \<Rightarrow> bool) \<Rightarrow> 's \<Rightarrow> bool"
  for start :: "'s \<Rightarrow> bool" and step :: "'s \<Rightarrow> 's \<Rightarrow> bool" where
  reach_start: "start s \<Longrightarrow> reach start step s"
| reach_step: "reach start step s \<Longrightarrow> step s s' \<Longrightarrow> reach start step s'"

locale transitions =
  fixes start :: "'s \<Rightarrow> bool"
    and step :: "'s \<Rightarrow> 's \<Rightarrow> bool"
    and inv :: "'s \<Rightarrow> bool"
  assumes start_inv: "start s \<Longrightarrow> inv s"
    and step_inv: "inv s \<Longrightarrow> step s s' \<Longrightarrow> inv s'"
begin

lemma reach_inv: "reach start step s \<Longrightarrow> inv s"
  by (induction rule: reach.induct) (auto intro: start_inv step_inv)

lemma steps_inv: "step\<^sup>*\<^sup>* s s' \<Longrightarrow> inv s \<Longrightarrow> inv s'"
  by (induction rule: rtranclp_induct) (auto intro: step_inv)

end

end
