(* ===== verification/Js_Values.thy ===== *)
theory Js_Values
  imports Prelude "HOL-Library.Char_ord" "HOL-Library.Sublist"
begin

text \<open>
  The JavaScript standard library the sources use: decimal printing, \<open>Date.toISOString\<close>,
  \<open>String.startsWith\<close> and \<open>endsWith\<close>, hexadecimal and byte buffers.  A string is a list of
  8-bit characters, one per UTF-16 code unit: the model covers Latin-1 text, and \<open>length\<close> is the
  source's \<open>.length\<close>.  A time is the integer of \<open>Date.getTime()\<close>, in milliseconds.
\<close>

section \<open>Decimal numbers\<close>

definition digit_char :: "int \<Rightarrow> char" where
  "digit_char d = char_of (48 + d)"

function decimal_rev :: "int \<Rightarrow> string" where
  "decimal_rev n = (if n < 10 then [digit_char n] else digit_char (n mod 10) # decimal_rev (n div 10))"
  by auto
termination decimal_rev
  by (relation "measure nat") (auto simp: nat_less_iff)

declare decimal_rev.simps [simp del]

definition show_pos :: "int \<Rightarrow> string" where
  "show_pos n = rev (decimal_rev n)"

definition show_int :: "int \<Rightarrow> string" where
  "show_int i = (if i < 0 then ''-'' @ show_pos (- i) else show_pos i)"

definition char_digit :: "char \<Rightarrow> int" where
  "char_digit c = of_char c - 48"

definition read_pos :: "string \<Rightarrow> int" where
  "read_pos s = foldl (\<lambda>n c. 10 * n + char_digit c) 0 s"

lemma char_digit_digit_char [simp]: "0 \<le> d \<Longrightarrow> d < 10 \<Longrightarrow> char_digit (digit_char d) = d"
  by (simp add: char_digit_def digit_char_def)

lemma read_pos_append [simp]: "read_pos (s @ [c]) = 10 * read_pos s + char_digit c"
  by (simp add: read_pos_def)

lemma read_pos_show_pos [simp]: "0 \<le> n \<Longrightarrow> read_pos (show_pos n) = n"
proof (induction n rule: decimal_rev.induct)
  case (1 n)
  then show ?case
    by (cases "n < 10") (simp_all add: show_pos_def decimal_rev.simps [of n] read_pos_def)
qed

lemma show_pos_inj: "0 \<le> m \<Longrightarrow> 0 \<le> n \<Longrightarrow> show_pos m = show_pos n \<longleftrightarrow> m = n"
  by (metis read_pos_show_pos)

lemma show_pos_not_Nil [simp]: "show_pos n \<noteq> []"
  by (simp add: show_pos_def decimal_rev.simps [of n])

text \<open>The ranges of a regular expression's character class.\<close>

definition char_between :: "char \<Rightarrow> char \<Rightarrow> char \<Rightarrow> bool" where
  "char_between lo hi c = (lo \<le> c \<and> c \<le> hi)"

definition is_lower :: "char \<Rightarrow> bool" where
  "is_lower = char_between CHR ''a'' CHR ''z''"

definition is_upper :: "char \<Rightarrow> bool" where
  "is_upper = char_between CHR ''A'' CHR ''Z''"

definition is_decimal :: "char \<Rightarrow> bool" where
  "is_decimal = char_between CHR ''0'' CHR ''9''"

lemmas char_classes = char_between_def is_lower_def is_upper_def is_decimal_def

text \<open>\<open>padStart(k, '0')\<close>.\<close>

definition pad_zero :: "nat \<Rightarrow> string \<Rightarrow> string" where
  "pad_zero k s = replicate (k - length s) CHR ''0'' @ s"

lemma length_pad_zero: "length (pad_zero k s) = max k (length s)"
  by (simp add: pad_zero_def)

lemma read_pos_replicate_zero: "read_pos (replicate k CHR ''0'' @ s) = read_pos s"
  by (induction k) (simp_all add: read_pos_def char_digit_def)

lemma read_pos_pad_zero [simp]: "read_pos (pad_zero k s) = read_pos s"
  by (simp add: pad_zero_def read_pos_replicate_zero)

section \<open>Dates\<close>

text \<open>The proleptic Gregorian date of a day number counted from 1970-01-01.\<close>

definition civil_of_days :: "int \<Rightarrow> int \<times> int \<times> int" where
  "civil_of_days z0 = (let
     z = z0 + 719468;
     era = z div 146097;
     doe = z mod 146097;
     yoe = (doe - doe div 1460 + doe div 36524 - doe div 146096) div 365;
     doy = doe - (365 * yoe + yoe div 4 - yoe div 100);
     mp = (5 * doy + 2) div 153;
     d = doy - (153 * mp + 2) div 5 + 1;
     m = (if mp < 10 then mp + 3 else mp - 9)
   in (yoe + era * 400 + (if m \<le> 2 then 1 else 0), m, d))"

definition show_year :: "int \<Rightarrow> string" where
  "show_year y = (if 0 \<le> y \<and> y \<le> 9999 then pad_zero 4 (show_pos y)
     else (if y < 0 then ''-'' else ''+'') @ pad_zero 6 (show_pos \<bar>y\<bar>))"

definition to_iso_string :: "int \<Rightarrow> string" where
  "to_iso_string t = (let
     days = t div 86400000; ms = t mod 86400000;
     (y, m, d) = civil_of_days days;
     two = (\<lambda>i. pad_zero 2 (show_pos i))
   in show_year y @ ''-'' @ two m @ ''-'' @ two d @ ''T'' @ two (ms div 3600000) @ '':''
      @ two (ms div 60000 mod 60) @ '':'' @ two (ms div 1000 mod 60) @ ''.''
      @ pad_zero 3 (show_pos (ms mod 1000)) @ ''Z'')"

lemma to_iso_string_not_Nil [simp]: "to_iso_string t \<noteq> []"
  by (simp add: to_iso_string_def Let_def split: prod.split)

section \<open>JSON values and exceptions\<close>

datatype json =
    J_Null
  | J_Bool bool
  | J_Num int
  | J_Str string
  | J_Arr "json list"
  | J_Obj "(string \<times> json) list"

text \<open>
  What a method can throw: a Nest \<open>HttpException\<close> with its status, its message key and the other
  properties of its response body; a driver error of node-postgres with its SQLSTATE code; any
  other \<open>Error\<close> with its message.
\<close>

datatype exn =
    Http_Exn nat string "(string \<times> json) list"
  | Pg_Exn string
  | Js_Exn string

abbreviation bad_request :: "string \<Rightarrow> exn" where
  "bad_request k \<equiv> Http_Exn 400 k []"

abbreviation unauthorized :: "string \<Rightarrow> exn" where
  "unauthorized k \<equiv> Http_Exn 401 k []"

abbreviation forbidden :: "string \<Rightarrow> exn" where
  "forbidden k \<equiv> Http_Exn 403 k []"

abbreviation not_found :: "string \<Rightarrow> exn" where
  "not_found k \<equiv> Http_Exn 404 k []"

abbreviation conflict :: "string \<Rightarrow> exn" where
  "conflict k \<equiv> Http_Exn 409 k []"

abbreviation gone :: "string \<Rightarrow> exn" where
  "gone k \<equiv> Http_Exn 410 k []"

abbreviation unprocessable :: "string \<Rightarrow> exn" where
  "unprocessable k \<equiv> Http_Exn 422 k []"

abbreviation service_unavailable :: "string \<Rightarrow> exn" where
  "service_unavailable k \<equiv> Http_Exn 503 k []"

section \<open>Strings\<close>

definition starts_with :: "string \<Rightarrow> string \<Rightarrow> bool" where
  "starts_with s p = (take (length p) s = p)"

definition ends_with :: "string \<Rightarrow> string \<Rightarrow> bool" where
  "ends_with s p = (length p \<le> length s \<and> drop (length s - length p) s = p)"

lemma starts_with_append [simp]: "starts_with (p @ s) p"
  by (simp add: starts_with_def)

lemma starts_with_iff: "starts_with s p \<longleftrightarrow> (\<exists>r. s = p @ r)"
  by (metis append_take_drop_id starts_with_append starts_with_def)

lemma ends_with_iff: "ends_with s p \<longleftrightarrow> (\<exists>r. s = r @ p)"
  by (auto simp: ends_with_def) (metis append_take_drop_id)

text \<open>White space and \<open>String.trim\<close> on Latin-1 text.\<close>

definition js_space :: "char \<Rightarrow> bool" where
  "js_space c = (let n = of_char c :: nat in 9 \<le> n \<and> n \<le> 13 \<or> n = 32 \<or> n = 160)"

definition js_trim :: "string \<Rightarrow> string" where
  "js_trim s = rev (dropWhile js_space (rev (dropWhile js_space s)))"

text \<open>Upper-case letters of Latin-1 and \<open>toLowerCase\<close>.\<close>

definition js_upper :: "char \<Rightarrow> bool" where
  "js_upper c = (let n = of_char c :: nat in 65 \<le> n \<and> n \<le> 90 \<or> 192 \<le> n \<and> n \<le> 222 \<and> n \<noteq> 215)"

definition js_lower_char :: "char \<Rightarrow> char" where
  "js_lower_char c = (if js_upper c then char_of (of_char c + 32 :: nat) else c)"

text \<open>\<open>s.split(c)\<close> for a single character: never empty.\<close>

fun split_at :: "char \<Rightarrow> string \<Rightarrow> string list" where
  "split_at c [] = [[]]"
| "split_at c (x # xs) = (if x = c then [] # split_at c xs
     else (case split_at c xs of p # ps \<Rightarrow> (x # p) # ps | [] \<Rightarrow> [[x]]))"

lemma split_at_set: "set s \<subseteq> insert c (\<Union> (set ` set (split_at c s)))"
  by (induction s) (auto split: list.splits, blast)

lemma split_at_not_Nil [simp]: "split_at c s \<noteq> []"
  by (induction s) (auto split: list.splits)

lemma split_at_single: "c \<notin> set s \<Longrightarrow> split_at c s = [s]"
  by (induction s) auto

lemma split_at_append: "c \<notin> set s \<Longrightarrow> split_at c (s @ c # t) = s # split_at c t"
  by (induction s) auto

text \<open>\<open>Buffer.toString('hex')\<close> and \<open>Buffer.from(\<dots>, 'hex')\<close> on bytes below 256.\<close>

definition hex_char :: "nat \<Rightarrow> char" where
  "hex_char d = char_of (if d < 10 then 48 + d else 87 + d)"

definition hex_encode :: "nat list \<Rightarrow> string" where
  "hex_encode bs = concat (map (\<lambda>b. [hex_char (b div 16), hex_char (b mod 16)]) bs)"

lemma length_hex_encode [simp]: "length (hex_encode bs) = 2 * length bs"
  by (induction bs) (simp_all add: hex_encode_def)

lemma hex_char_inj:
  assumes "a < 16" "b < 16"
  shows "hex_char a = hex_char b \<longleftrightarrow> a = b"
proof
  assume "hex_char a = hex_char b"
  then have "(of_char (hex_char a) :: nat) = of_char (hex_char b)" by simp
  with assms show "a = b" by (auto simp: hex_char_def split: if_splits)
qed simp

lemma hex_encode_Cons: "hex_encode (b # bs) = hex_char (b div 16) # hex_char (b mod 16) # hex_encode bs"
  by (simp add: hex_encode_def)

lemma hex_encode_inj:
  assumes "hex_encode xs = hex_encode ys" "\<forall>b\<in>set xs. b < 256" "\<forall>b\<in>set ys. b < 256"
  shows "xs = ys"
  using assms
proof (induction xs arbitrary: ys)
  case Nil
  then show ?case by (cases ys) (simp_all add: hex_encode_def)
next
  case (Cons x xs)
  then obtain y ys' where ys: "ys = y # ys'" by (cases ys) (simp_all add: hex_encode_def)
  have "x div 16 = y div 16" "x mod 16 = y mod 16"
    using Cons.prems hex_char_inj [of "x div 16" "y div 16"] hex_char_inj [of "x mod 16" "y mod 16"]
    by (auto simp: ys hex_encode_Cons)
  then have "x = y" by (metis div_mult_mod_eq)
  with Cons ys show ?case by (simp add: hex_encode_Cons)
qed

end
