(* ===== verification/Users_Schema.thy ===== *)
theory Users_Schema
  imports Js_Values
begin

text \<open>
  The tables both applications share: \<open>libs/database/users.schema.ts\<close>, the role types of
  \<open>libs/contracts/users/role-type.enum.ts\<close> and the mail tables.  A row is a record with the
  column names of the schema behind a table prefix; a nullable column is an \<open>option\<close>.  The
  database is a record of tables, extended by the mail tables and the BullMQ queue \<open>mail\<close>, which
  the auth service writes and the backend reads.
\<close>

section \<open>Enumerations\<close>

type_synonym ident = string

datatype role_type = ADMIN | MANAGER | USER | PUBLIC

fun role_type_str :: "role_type \<Rightarrow> string" where
  "role_type_str ADMIN = ''admin''"
| "role_type_str MANAGER = ''manager''"
| "role_type_str USER = ''user''"
| "role_type_str PUBLIC = ''public''"

definition role_type_display_name :: "role_type \<Rightarrow> string" where
  "role_type_display_name r = (case r of ADMIN \<Rightarrow> ''Administrator'' | MANAGER \<Rightarrow> ''Manager''
     | USER \<Rightarrow> ''User'' | PUBLIC \<Rightarrow> ''Public'')"

definition all_role_types :: "role_type list" where
  "all_role_types = [ADMIN, MANAGER, USER, PUBLIC]"

definition parse_role_type :: "string \<Rightarrow> role_type option" where
  "parse_role_type s = List.find (\<lambda>r. role_type_str r = s) all_role_types"

lemma role_type_str_inj: "role_type_str a = role_type_str b \<longleftrightarrow> a = b"
  by (cases a; cases b) simp_all

lemma parse_role_type_str [simp]: "parse_role_type (role_type_str r) = Some r"
  by (cases r) (simp_all add: parse_role_type_def all_role_types_def)

datatype perm_action = Create | Read | Update | Delete

datatype perm_subject =
    S_User | S_UserAdmin | S_UserRole | S_File | S_FileAdmin | S_Notification
  | S_AdminDashboard | S_AdminAccessLog | S_AdminSettings | S_CaptchaAdmin

datatype gender = Male | Female

datatype theme = Light | Dark | Auto | System

section \<open>Rows\<close>

record role_row =
  ur_id :: ident
  ur_createdAt :: int
  ur_updatedAt :: int
  ur_deletedAt :: "int option"
  ur_name :: string
  ur_description :: "string option"
  ur_type :: role_type

record user_row =
  u_id :: ident
  u_createdAt :: int
  u_updatedAt :: int
  u_deletedAt :: "int option"
  u_email :: string
  u_forgotConfirmKey :: "string option"
  u_emailConfirmKey :: "string option"
  u_verified :: "bool option"
  u_password :: "string option"
  u_name :: string
  u_surname :: string
  u_middleName :: "string option"
  u_phone :: "string option"
  u_roleId :: ident
  u_gender :: "gender option"
  u_birthday :: "int option"
  u_blocked :: "bool option"
  u_failedLoginAttempts :: int
  u_failedLoginWindowStartedAt :: "int option"
  u_lockedUntil :: "int option"
  u_tokenVersion :: int
  u_country :: "string option"
  u_language :: "string option"
  u_locale :: "string option"
  u_theme :: "theme option"
  u_notificationChannels :: "string list option"

record perm_row =
  rp_id :: ident
  rp_createdAt :: int
  rp_updatedAt :: int
  rp_deletedAt :: "int option"
  rp_roleType :: role_type
  rp_action :: perm_action
  rp_subject :: perm_subject
  rp_description :: "string option"
  rp_isActive :: "bool option"

record refresh_row =
  rf_id :: ident
  rf_createdAt :: int
  rf_updatedAt :: int
  rf_deletedAt :: "int option"
  rf_userId :: ident
  rf_refreshToken :: string
  rf_expiresAt :: int
  rf_isRevoked :: bool
  rf_fingerprint :: string
  rf_userAgent :: string

record reset_row =
  prt_id :: ident
  prt_createdAt :: int
  prt_userId :: ident
  prt_token :: string
  prt_expiresAt :: int
  prt_isUsed :: bool

record magic_row =
  ml_id :: ident
  ml_createdAt :: int
  ml_updatedAt :: int
  ml_deletedAt :: "int option"
  ml_email :: string
  ml_token :: string
  ml_expiresAt :: int
  ml_isUsed :: "bool option"
  ml_fingerprint :: string
  ml_userAgent :: string

section \<open>Mail tables\<close>

datatype mail_status = Mail_Pending | Mail_Sent | Mail_Failed

datatype mail_template_type =
    Welcome | Reset_Password | Contact_Form | Magic_Link_Login | OAuth_First_Login
  | OAuth_Account_Linked | Notification_Template

fun mail_template_type_str :: "mail_template_type \<Rightarrow> string" where
  "mail_template_type_str Welcome = ''welcome''"
| "mail_template_type_str Reset_Password = ''reset-password''"
| "mail_template_type_str Contact_Form = ''contact-form''"
| "mail_template_type_str Magic_Link_Login = ''magic-link-login''"
| "mail_template_type_str OAuth_First_Login = ''oauth-first-login''"
| "mail_template_type_str OAuth_Account_Linked = ''oauth-account-linked''"
| "mail_template_type_str Notification_Template = ''notification''"

record mail_template_row =
  mt_id :: ident
  mt_createdAt :: int
  mt_updatedAt :: int
  mt_deletedAt :: "int option"
  mt_name :: mail_template_type
  mt_subject :: string
  mt_content :: "string option"
  mt_isActive :: "bool option"

record mail_row =
  m_id :: ident
  m_createdAt :: int
  m_updatedAt :: int
  m_deletedAt :: "int option"
  m_to :: string
  m_subject :: string
  m_templateId :: ident
  m_status :: "mail_status option"
  m_variables :: "(string \<times> json) list"
  m_attempts :: "int option"
  m_errorMessage :: "string option"
  m_sentAt :: "int option"

text \<open>A job of the queue \<open>mail\<close>, the argument of \<open>mailQueue.add('send-mail', \<dots>)\<close>.\<close>

record mail_job =
  mj_mailId :: ident
  mj_to :: string
  mj_subject :: string
  mj_template :: mail_template_type
  mj_context :: "(string \<times> json) list"

text \<open>What \<open>mailerService.sendMail\<close> of \<open>@nestjs-modules/mailer\<close> was given and accepted.\<close>

record sent_mail =
  sm_to :: string
  sm_subject :: string
  sm_html :: string

section \<open>The database\<close>

record users_db =
  users :: "user_row list"
  roles :: "role_row list"
  permissions :: "perm_row list"
  refreshes :: "refresh_row list"
  resets :: "reset_row list"
  magics :: "magic_row list"

record app_db = users_db +
  mail_templates :: "mail_template_row list"
  mails :: "mail_row list"
  mail_queue :: "mail_job list"
  outbox :: "sent_mail list"

text \<open>Primary keys and unique indexes.\<close>

definition users_keys :: "'x users_db_scheme \<Rightarrow> bool" where
  "users_keys d = (distinct (map u_id (users d)) \<and> distinct (map u_email (users d))
     \<and> distinct (map ur_id (roles d)) \<and> distinct (map ur_name (roles d))
     \<and> distinct (map rf_id (refreshes d)) \<and> distinct (map prt_id (resets d))
     \<and> distinct (map prt_token (resets d)) \<and> distinct (map ml_token (magics d)))"

end
