(* ===== verification/Auth_Repositories.thy ===== *)
theory Auth_Repositories
  imports Users_Schema
begin

text \<open>
  The repositories of the auth service, \<open>apps/auth-service/src/modules/auth/infrastructure/
  repositories/drizzle\<close>: users (with the role join and the lockout columns), refresh tokens and
  password reset tokens.  Identifiers and times that the database fills in by a column default are
  arguments.  A violated unique index is the PostgreSQL error 23505.
\<close>

section \<open>Users\<close>

record auth_user =
  au_id :: ident
  au_email :: string
  au_password :: "string option"
  au_roleId :: ident
  au_roleType :: role_type
  au_verified :: bool
  au_blocked :: bool
  au_failedLoginAttempts :: int
  au_failedLoginWindowStartedAt :: "int option"
  au_lockedUntil :: "int option"
  au_tokenVersion :: int
  au_language :: string

definition to_auth_user :: "user_row \<Rightarrow> role_row \<Rightarrow> auth_user" where
  "to_auth_user row role = \<lparr>
     au_id = u_id row,
     au_email = u_email row,
     au_password = u_password row,
     au_roleId = u_roleId row,
     au_roleType = ur_type role,
     au_verified = coalesce (u_verified row) False,
     au_blocked = coalesce (u_blocked row) False,
     au_failedLoginAttempts = u_failedLoginAttempts row,
     au_failedLoginWindowStartedAt = u_failedLoginWindowStartedAt row,
     au_lockedUntil = u_lockedUntil row,
     au_tokenVersion = u_tokenVersion row,
     au_language = coalesce (u_language row) ''ru'' \<rparr>"

text \<open>\<open>from user inner join user_role on user.roleId = user_role.id where \<dots> limit 1\<close>.\<close>

fun join_role :: "role_row list \<Rightarrow> (user_row \<Rightarrow> bool) \<Rightarrow> user_row list \<Rightarrow> (user_row \<times> role_row) option" where
  "join_role rs P [] = None"
| "join_role rs P (u # us) = (if P u
     then (case find_row (\<lambda>r. ur_id r = u_roleId u) rs of
             Some r \<Rightarrow> Some (u, r) | None \<Rightarrow> join_role rs P us)
     else join_role rs P us)"

definition live_email :: "string \<Rightarrow> user_row \<Rightarrow> bool" where
  "live_email email u = (u_email u = email \<and> u_deletedAt u = None)"

definition live_id :: "ident \<Rightarrow> user_row \<Rightarrow> bool" where
  "live_id i u = (u_id u = i \<and> u_deletedAt u = None)"

definition find_by_email :: "string \<Rightarrow> bool \<Rightarrow> 'x users_db_scheme \<Rightarrow> auth_user option" where
  "find_by_email email include_password d =
     (if include_password
      then map_option (\<lambda>(u, r). to_auth_user u r) (join_role (roles d) (live_email email) (users d))
      else map_option (\<lambda>(u, r). to_auth_user (u\<lparr>u_password := None\<rparr>) r)
             (join_role (roles d) (live_email email) (users d)))"

definition find_by_id :: "ident \<Rightarrow> 'x users_db_scheme \<Rightarrow> auth_user option" where
  "find_by_id i d = map_option (\<lambda>(u, r). to_auth_user u r) (join_role (roles d) (live_id i) (users d))"

text \<open>A \<open>Partial<Pick<AuthUser, \<dots>>>\<close>: \<open>None\<close> is a property that the payload does not have.\<close>

record auth_user_update =
  up_password :: "string option option"
  up_failedLoginAttempts :: "int option"
  up_failedLoginWindowStartedAt :: "int option option"
  up_lockedUntil :: "int option option"
  up_tokenVersion :: "int option"

definition no_update :: auth_user_update where
  "no_update = \<lparr>up_password = None, up_failedLoginAttempts = None,
     up_failedLoginWindowStartedAt = None, up_lockedUntil = None, up_tokenVersion = None\<rparr>"

definition apply_auth_update :: "auth_user_update \<Rightarrow> user_row \<Rightarrow> user_row" where
  "apply_auth_update p u = u\<lparr>
     u_password := coalesce (up_password p) (u_password u),
     u_failedLoginAttempts := coalesce (up_failedLoginAttempts p) (u_failedLoginAttempts u),
     u_failedLoginWindowStartedAt :=
       coalesce (up_failedLoginWindowStartedAt p) (u_failedLoginWindowStartedAt u),
     u_lockedUntil := coalesce (up_lockedUntil p) (u_lockedUntil u),
     u_tokenVersion := coalesce (up_tokenVersion p) (u_tokenVersion u)\<rparr>"

definition auth_user_update_row ::
    "ident \<Rightarrow> auth_user_update \<Rightarrow> ('x users_db_scheme, exn, unit) comp" where
  "auth_user_update_row i p d =
     (let d' = d\<lparr>users := update_rows (\<lambda>u. u_id u = i) (apply_auth_update p) (users d)\<rparr>
      in if some_row (\<lambda>u. u_id u = i) (users d) then (Inr (), d')
         else (Inl (not_found ''user.notFound''), d'))"

section \<open>Refresh tokens\<close>

record refresh_record =
  rt_id :: ident
  rt_userId :: ident
  rt_refreshToken :: string
  rt_expiresAt :: int
  rt_isRevoked :: bool

definition to_refresh_record :: "refresh_row \<Rightarrow> refresh_record" where
  "to_refresh_record row = \<lparr>rt_id = rf_id row, rt_userId = rf_userId row,
     rt_refreshToken = rf_refreshToken row, rt_expiresAt = rf_expiresAt row,
     rt_isRevoked = rf_isRevoked row\<rparr>"

record refresh_create_payload =
  rc_userId :: ident
  rc_refreshToken :: string
  rc_expiresAt :: int
  rc_fingerprint :: string
  rc_userAgent :: string

definition refresh_create ::
    "ident \<Rightarrow> int \<Rightarrow> refresh_create_payload \<Rightarrow> ('x users_db_scheme, exn, unit) comp" where
  "refresh_create new_id now p = modify (\<lambda>d. d\<lparr>refreshes := refreshes d @ [\<lparr>
     rf_id = new_id, rf_createdAt = now, rf_updatedAt = now, rf_deletedAt = None,
     rf_userId = rc_userId p, rf_refreshToken = rc_refreshToken p,
     rf_expiresAt = rc_expiresAt p, rf_isRevoked = False,
     rf_fingerprint = rc_fingerprint p, rf_userAgent = rc_userAgent p\<rparr>]\<rparr>)"

definition refresh_find_by_token :: "string \<Rightarrow> 'x users_db_scheme \<Rightarrow> refresh_record option" where
  "refresh_find_by_token token d =
     map_option to_refresh_record (find_row (\<lambda>r. rf_refreshToken r = token) (refreshes d))"

definition revoke_row :: "refresh_row \<Rightarrow> refresh_row" where
  "revoke_row r = r\<lparr>rf_isRevoked := True\<rparr>"

definition refresh_revoke_by_id :: "ident \<Rightarrow> ('x users_db_scheme, exn, unit) comp" where
  "refresh_revoke_by_id i = modify (\<lambda>d. d\<lparr>refreshes :=
     update_rows (\<lambda>r. rf_id r = i) revoke_row (refreshes d)\<rparr>)"

definition refresh_revoke_by_token :: "string \<Rightarrow> ('x users_db_scheme, exn, bool) comp" where
  "refresh_revoke_by_token token d = (let hit = (\<lambda>r. rf_refreshToken r = token \<and> \<not> rf_isRevoked r) in
     (Inr (some_row hit (refreshes d)), d\<lparr>refreshes := update_rows hit revoke_row (refreshes d)\<rparr>))"

definition refresh_revoke_all_for_user :: "ident \<Rightarrow> ('x users_db_scheme, exn, unit) comp" where
  "refresh_revoke_all_for_user uid = modify (\<lambda>d. d\<lparr>refreshes :=
     update_rows (\<lambda>r. rf_userId r = uid) revoke_row (refreshes d)\<rparr>)"

section \<open>Password reset tokens\<close>

record reset_token =
  pt_id :: ident
  pt_userId :: ident
  pt_token :: string
  pt_expiresAt :: int
  pt_isUsed :: bool
  pt_createdAt :: int

text \<open>\<open>PasswordResetToken.create\<close>: what is inserted, without id and creation time.\<close>

record new_reset_token =
  nt_userId :: ident
  nt_token :: string
  nt_expiresAt :: int
  nt_isUsed :: bool

definition reset_token_create :: "ident \<Rightarrow> string \<Rightarrow> int \<Rightarrow> new_reset_token" where
  "reset_token_create user_id token expires_at =
     \<lparr>nt_userId = user_id, nt_token = token, nt_expiresAt = expires_at, nt_isUsed = False\<rparr>"

definition reset_is_expired :: "int \<Rightarrow> reset_token \<Rightarrow> bool" where
  "reset_is_expired now t = (now \<ge> pt_expiresAt t)"

definition reset_is_valid :: "int \<Rightarrow> reset_token \<Rightarrow> bool" where
  "reset_is_valid now t = (\<not> pt_isUsed t \<and> \<not> reset_is_expired now t)"

definition to_reset_token :: "reset_row \<Rightarrow> reset_token" where
  "to_reset_token row = \<lparr>pt_id = prt_id row, pt_userId = prt_userId row, pt_token = prt_token row,
     pt_expiresAt = prt_expiresAt row, pt_isUsed = prt_isUsed row, pt_createdAt = prt_createdAt row\<rparr>"

definition reset_create ::
    "ident \<Rightarrow> int \<Rightarrow> new_reset_token \<Rightarrow> ('x users_db_scheme, exn, reset_token) comp" where
  "reset_create new_id now n d =
     (let row = \<lparr>prt_id = new_id, prt_createdAt = now, prt_userId = nt_userId n,
        prt_token = nt_token n, prt_expiresAt = nt_expiresAt n, prt_isUsed = nt_isUsed n\<rparr>
      in if some_row (\<lambda>r. prt_token r = nt_token n \<or> prt_id r = new_id) (resets d)
         then (Inl (Pg_Exn ''23505''), d)
         else (Inr (to_reset_token row), d\<lparr>resets := resets d @ [row]\<rparr>))"

definition reset_find_by_token :: "string \<Rightarrow> 'x users_db_scheme \<Rightarrow> reset_token option" where
  "reset_find_by_token token d =
     map_option to_reset_token (find_row (\<lambda>r. prt_token r = token) (resets d))"

definition reset_mark_used :: "ident \<Rightarrow> ('x users_db_scheme, exn, unit) comp" where
  "reset_mark_used i = modify (\<lambda>d. d\<lparr>resets :=
     update_rows (\<lambda>r. prt_id r = i) (\<lambda>r. r\<lparr>prt_isUsed := True\<rparr>) (resets d)\<rparr>)"

section \<open>Lemmas: the role join\<close>

lemma join_role_SomeD:
  "join_role rs P us = Some (u, r) \<Longrightarrow> u \<in> set us \<and> P u \<and> r \<in> set rs \<and> ur_id r = u_roleId u"
  by (induction us) (auto split: if_splits option.splits dest: find_row_SomeD)

lemma join_role_update:
  assumes "\<And>u. Q u \<Longrightarrow> P (f u) = P u" and "\<And>u. Q u \<Longrightarrow> u_roleId (f u) = u_roleId u"
  shows "join_role rs P (update_rows Q f us)
       = map_option (\<lambda>(u, r). (if Q u then f u else u, r)) (join_role rs P us)"
  using assms by (induction us) (auto split: option.split)

lemma apply_auth_update_simps [simp]:
  "u_id (apply_auth_update p u) = u_id u"
  "u_email (apply_auth_update p u) = u_email u"
  "u_deletedAt (apply_auth_update p u) = u_deletedAt u"
  "u_roleId (apply_auth_update p u) = u_roleId u"
  "u_verified (apply_auth_update p u) = u_verified u"
  "u_blocked (apply_auth_update p u) = u_blocked u"
  "live_email e (apply_auth_update p u) = live_email e u"
  "live_id i (apply_auth_update p u) = live_id i u"
  by (simp_all add: apply_auth_update_def live_email_def live_id_def)

lemma find_by_email_SomeD:
  assumes "find_by_email e True d = Some u"
  obtains row role where "row \<in> set (users d)" "live_email e row" "role \<in> set (roles d)"
    "ur_id role = u_roleId row" "u = to_auth_user row role"
  using assms by (auto simp: find_by_email_def dest: join_role_SomeD)

lemma find_by_email_some_row:
  assumes "find_by_email e b d = Some u"
  shows "some_row (\<lambda>r. u_id r = au_id u) (users d)"
  using assms
  by (cases b) (auto simp: find_by_email_def some_row_iff to_auth_user_def dest!: join_role_SomeD)

lemma find_by_id_some_row:
  assumes "find_by_id i d = Some u"
  shows "some_row (\<lambda>r. u_id r = i) (users d)" and "au_id u = i"
  using assms
  by (auto simp: find_by_id_def some_row_iff to_auth_user_def live_id_def dest!: join_role_SomeD)

section \<open>Lemmas: refresh tokens\<close>

lemma revoke_row_simps [simp]:
  "rf_id (revoke_row r) = rf_id r" "rf_userId (revoke_row r) = rf_userId r"
  "rf_refreshToken (revoke_row r) = rf_refreshToken r" "rf_isRevoked (revoke_row r)"
  "rf_expiresAt (revoke_row r) = rf_expiresAt r"
  by (simp_all add: revoke_row_def)

lemma refresh_run [comp_simps]:
  "refresh_revoke_by_id i d = (Inr (), d\<lparr>refreshes := update_rows (\<lambda>r. rf_id r = i) revoke_row (refreshes d)\<rparr>)"
  "refresh_revoke_all_for_user uid d
     = (Inr (), d\<lparr>refreshes := update_rows (\<lambda>r. rf_userId r = uid) revoke_row (refreshes d)\<rparr>)"
  by (simp_all add: refresh_revoke_by_id_def refresh_revoke_all_for_user_def)

text \<open>\<open>revoked_in d tok\<close>: every row that carries the token is revoked.\<close>

definition revoked_in :: "string \<Rightarrow> 'x users_db_scheme \<Rightarrow> bool" where
  "revoked_in tok d = (\<forall>r\<in>set (refreshes d). rf_refreshToken r = tok \<longrightarrow> rf_isRevoked r)"

definition user_revoked :: "ident \<Rightarrow> 'x users_db_scheme \<Rightarrow> bool" where
  "user_revoked uid d = (\<forall>r\<in>set (refreshes d). rf_userId r = uid \<longrightarrow> rf_isRevoked r)"

lemma update_refresh_revoked_in:
  "revoked_in tok d \<Longrightarrow> revoked_in tok (d\<lparr>refreshes := update_rows P revoke_row (refreshes d)\<rparr>)"
  by (auto simp: revoked_in_def update_rows_def)

lemma update_refresh_user_revoked:
  "user_revoked uid d \<Longrightarrow> user_revoked uid (d\<lparr>refreshes := update_rows P revoke_row (refreshes d)\<rparr>)"
  by (auto simp: user_revoked_def update_rows_def)

lemma revoke_all_user_revoked [simp]:
  "user_revoked uid (snd (refresh_revoke_all_for_user uid d))"
  unfolding refresh_run user_revoked_def
proof (simp, intro ballI impI)
  fix r assume r: "r \<in> set (update_rows (\<lambda>r. rf_userId r = uid) revoke_row (refreshes d))"
    and *: "rf_userId r = uid"
  from r obtain r0 where "r = (if rf_userId r0 = uid then revoke_row r0 else r0)"
    by (rule in_update_rowsE)
  with * show "rf_isRevoked r" by (cases "rf_userId r0 = uid") simp_all
qed

lemma refresh_find_SomeD:
  assumes "refresh_find_by_token tok d = Some r"
  obtains row where "row \<in> set (refreshes d)" "rf_refreshToken row = tok" "r = to_refresh_record row"
proof -
  from assms obtain row where "find_row (\<lambda>r. rf_refreshToken r = tok) (refreshes d) = Some row"
    and "r = to_refresh_record row" by (auto simp: refresh_find_by_token_def)
  with that [of row] find_row_SomeD [OF this(1)] show thesis by blast
qed

lemma revoked_in_find:
  assumes "revoked_in tok d" "refresh_find_by_token tok d = Some r"
  shows "rt_isRevoked r"
  using assms(2)
proof (rule refresh_find_SomeD)
  fix row assume "row \<in> set (refreshes d)" "rf_refreshToken row = tok" "r = to_refresh_record row"
  with assms(1) show ?thesis by (simp add: revoked_in_def to_refresh_record_def)
qed

end
