(* ===== verification/Token_Issuer.thy ===== *)
theory Token_Issuer
  imports Auth_Repositories
begin

text \<open>
  \<open>token-issuer.service.ts\<close> (signing and checking JWTs) and \<open>mail-producer.service.ts\<close> (the row
  and the queue job of an outgoing mail).  Signing and verification are the library
  \<open>jsonwebtoken\<close>: the fields of \<open>jwt_lib\<close>.  \<open>jwt_ok\<close> is its documented contract.
\<close>

section \<open>JSON web tokens\<close>

text \<open>\<open>JwtPayloadApp\<close>: each claim may be missing from a token.  \<open>c_tv\<close> is \<open>None\<close> also for a value
  that \<open>Number.isInteger\<close> rejects.\<close>

record jwt_claims =
  c_sub :: "string option"
  c_rid :: "string option"
  c_rty :: "string option"
  c_lng :: "string option"
  c_tv :: "int option"

text \<open>The options of \<open>signAsync\<close>: secret, algorithm, token id, life time in milliseconds.\<close>

record sign_options =
  so_secret :: string
  so_algorithm :: string
  so_jti :: "string option"
  so_expires_in :: int

text \<open>\<open>jwt_verify\<close> is \<open>None\<close> where \<open>verifyAsync\<close> rejects.\<close>

record jwt_lib =
  jwt_sign :: "sign_options \<Rightarrow> int \<Rightarrow> jwt_claims \<Rightarrow> string"
  jwt_verify :: "string \<Rightarrow> string \<Rightarrow> int \<Rightarrow> string \<Rightarrow> jwt_claims option"

text \<open>A token is accepted with its own secret and algorithm before its expiry, which the library
  counts in whole seconds.\<close>

definition jwt_ok :: "jwt_lib \<Rightarrow> bool" where
  "jwt_ok J \<longleftrightarrow>
     (\<forall>opts iat claims now. iat \<le> now \<longrightarrow> now div 1000 < iat div 1000 + so_expires_in opts div 1000 \<longrightarrow>
        jwt_verify J (so_secret opts) (so_algorithm opts) now (jwt_sign J opts iat claims) = Some claims)"

text \<open>\<open>ValidateJWT\<close>.\<close>

record validate_jwt =
  vj_userId :: ident
  vj_roleId :: ident
  vj_roleType :: string
  vj_language :: string
  vj_tokenVersion :: "int option"

record token_config =
  access_secret :: string
  access_algorithm :: string
  access_expires :: int
  refresh_secret :: string
  refresh_algorithm :: string
  refresh_expires :: int

definition generate_access_token ::
    "jwt_lib \<Rightarrow> token_config \<Rightarrow> int \<Rightarrow> validate_jwt \<Rightarrow> exn + string" where
  "generate_access_token J cfg now v =
     (if vj_tokenVersion v = None then Inl (unauthorized ''user.auth.invalidJwtPayload'')
      else Inr (jwt_sign J
        \<lparr>so_secret = access_secret cfg, so_algorithm = access_algorithm cfg,
          so_jti = None, so_expires_in = access_expires cfg\<rparr> now
        \<lparr>c_sub = Some (vj_userId v), c_rid = Some (vj_roleId v), c_rty = Some (vj_roleType v),
          c_lng = Some (vj_language v), c_tv = vj_tokenVersion v\<rparr>))"

definition generate_refresh_token ::
    "jwt_lib \<Rightarrow> token_config \<Rightarrow> string \<Rightarrow> int \<Rightarrow> validate_jwt \<Rightarrow> exn + (string \<times> int)" where
  "generate_refresh_token J cfg jti now v =
     (if vj_tokenVersion v = None then Inl (unauthorized ''user.auth.invalidJwtPayload'')
      else Inr (jwt_sign J
        \<lparr>so_secret = refresh_secret cfg, so_algorithm = refresh_algorithm cfg,
          so_jti = Some jti, so_expires_in = refresh_expires cfg\<rparr> now
        \<lparr>c_sub = Some (vj_userId v), c_rid = Some (vj_roleId v), c_rty = Some (vj_roleType v),
          c_lng = Some (vj_language v), c_tv = vj_tokenVersion v\<rparr>,
        now + refresh_expires cfg))"

definition validate_refresh_token ::
    "jwt_lib \<Rightarrow> token_config \<Rightarrow> int \<Rightarrow> string \<Rightarrow> validate_jwt option" where
  "validate_refresh_token J cfg now token =
     (case jwt_verify J (refresh_secret cfg) (refresh_algorithm cfg) now token of
        None \<Rightarrow> None
      | Some c \<Rightarrow>
          if \<not> truthy (c_sub c) \<or> \<not> truthy (c_rid c) \<or> \<not> truthy (c_rty c) \<or> \<not> truthy (c_lng c)
          then None
          else Some \<lparr>vj_userId = the (c_sub c), vj_roleId = the (c_rid c),
            vj_roleType = the (c_rty c), vj_language = the (c_lng c), vj_tokenVersion = c_tv c\<rparr>)"

text \<open>The payload both token generators get for a user.\<close>

definition jwt_of_user :: "auth_user \<Rightarrow> validate_jwt" where
  "jwt_of_user u = \<lparr>vj_userId = au_id u, vj_roleId = au_roleId u,
     vj_roleType = role_type_str (au_roleType u), vj_language = au_language u,
     vj_tokenVersion = Some (au_tokenVersion u)\<rparr>"

section \<open>The mail producer\<close>

record queue_mail_payload =
  qm_to :: string
  qm_subject :: string
  qm_template :: mail_template_type
  qm_context :: "(string \<times> json) list"

definition queue_mail ::
    "ident \<Rightarrow> int \<Rightarrow> queue_mail_payload \<Rightarrow> ('x app_db_scheme, exn, unit) comp" where
  "queue_mail new_id now p d =
     (case find_row (\<lambda>t. mt_name t = qm_template p \<and> mt_deletedAt t = None) (mail_templates d) of
        None \<Rightarrow> (Inl (bad_request ''mail.templateNotFound''), d)
      | Some template \<Rightarrow>
          (Inr (), d\<lparr>
             mails := mails d @ [\<lparr>m_id = new_id, m_createdAt = now, m_updatedAt = now,
               m_deletedAt = None, m_to = qm_to p, m_subject = qm_subject p,
               m_templateId = mt_id template, m_status = Some Mail_Pending,
               m_variables = qm_context p, m_attempts = Some 0, m_errorMessage = None,
               m_sentAt = None\<rparr>],
             mail_queue := mail_queue d @ [\<lparr>mj_mailId = new_id, mj_to = qm_to p,
               mj_subject = qm_subject p, mj_template = qm_template p, mj_context = qm_context p\<rparr>]\<rparr>))"

section \<open>Lemmas\<close>

lemma jwt_okD:
  assumes "jwt_ok J" "iat \<le> now" "now div 1000 < iat div 1000 + so_expires_in opts div 1000"
  shows "jwt_verify J (so_secret opts) (so_algorithm opts) now (jwt_sign J opts iat claims) = Some claims"
  using assms by (simp add: jwt_ok_def)

lemma validate_generated_refresh:
  assumes "jwt_ok J" "generate_refresh_token J cfg jti iat v = Inr (t, e)" "iat \<le> now"
    and "now div 1000 < iat div 1000 + refresh_expires cfg div 1000"
    and "vj_userId v \<noteq> []" "vj_roleId v \<noteq> []" "vj_roleType v \<noteq> []" "vj_language v \<noteq> []"
  shows "validate_refresh_token J cfg now t = Some v"
  using assms(2,4-) jwt_okD [OF assms(1,3), of "\<lparr>so_secret = refresh_secret cfg,
      so_algorithm = refresh_algorithm cfg, so_jti = Some jti, so_expires_in = refresh_expires cfg\<rparr>"]
  by (auto simp: generate_refresh_token_def validate_refresh_token_def split: if_splits)

lemma role_type_str_not_Nil [simp]: "role_type_str r \<noteq> []"
  by (cases r) simp_all

lemma generate_of_user [simp]:
  "isl (generate_access_token J cfg now (jwt_of_user u)) = False"
  "isl (generate_refresh_token J cfg jti now (jwt_of_user u)) = False"
  by (simp_all add: generate_access_token_def generate_refresh_token_def jwt_of_user_def)

lemma generate_of_userE:
  obtains a r e where "generate_access_token J cfg now (jwt_of_user u) = Inr a"
    and "generate_refresh_token J cfg jti now (jwt_of_user u) = Inr (r, e)"
    and "e = now + refresh_expires cfg"
  by (simp add: generate_access_token_def generate_refresh_token_def jwt_of_user_def)

lemma queue_mail_users [simp]:
  "users (snd (queue_mail i now p d)) = users d"
  "roles (snd (queue_mail i now p d)) = roles d"
  "refreshes (snd (queue_mail i now p d)) = refreshes d"
  "resets (snd (queue_mail i now p d)) = resets d"
  "mail_templates (snd (queue_mail i now p d)) = mail_templates d"
  by (simp_all add: queue_mail_def split: option.split)

lemma queue_mail_ok:
  "fst (queue_mail i now p d) = Inr () \<longleftrightarrow>
     some_row (\<lambda>t. mt_name t = qm_template p \<and> mt_deletedAt t = None) (mail_templates d)"
  by (auto simp: queue_mail_def some_row_find split: option.split)

end
