(* ===== verification/Password_Service.thy ===== *)
theory Password_Service
  imports Js_Values
begin

text \<open>
  \<open>libs/auth/password-service.adapter.ts\<close>: Argon2id hashes with the smooth migration from the
  legacy HMAC-SHA256 hashes.  Argon2, HMAC and Unicode normalisation are code outside the
  repository: they are the fields of \<open>crypto\<close>, an argument of every definition that uses them.
  \<open>argon2_ok\<close> and \<open>hmac_ok\<close> are what the documentation of the argon2 package and of
  \<open>node:crypto\<close> promises of them.
\<close>

section \<open>The primitives the service calls\<close>

text \<open>\<open>argon2_hash salt pw\<close> is \<open>argon2.hash\<close> with the service's options and the salt the package
  draws; \<open>None\<close> is a throw of \<open>argon2.verify\<close> or \<open>argon2.needsRehash\<close>.\<close>

record crypto =
  argon2_hash :: "string \<Rightarrow> string \<Rightarrow> string"
  argon2_verify :: "string \<Rightarrow> string \<Rightarrow> bool option"
  argon2_needs_rehash :: "string \<Rightarrow> bool option"
  hmac_hex :: "string \<Rightarrow> string"
  nfc :: "string \<Rightarrow> string"

section \<open>The service\<close>

datatype password_hash_type = HMAC_SHA256 | ARGON2ID

definition argon2id_prefix :: string where
  "argon2id_prefix = ''$argon2id$''"

definition detect_hash_type :: "string \<Rightarrow> password_hash_type" where
  "detect_hash_type hash = (if starts_with hash argon2id_prefix then ARGON2ID else HMAC_SHA256)"

definition hash_password :: "crypto \<Rightarrow> string \<Rightarrow> string \<Rightarrow> string" where
  "hash_password C salt password = argon2_hash C salt (nfc C password)"

text \<open>\<open>Buffer.from(s, 'utf8')\<close> on Latin-1 text.\<close>

definition utf8_char :: "char \<Rightarrow> nat list" where
  "utf8_char c = (let n = of_char c in if n < 128 then [n] else [192 + n div 64, 128 + n mod 64])"

definition utf8_bytes :: "string \<Rightarrow> nat list" where
  "utf8_bytes s = concat (map utf8_char s)"

definition verify_hmac_password :: "crypto \<Rightarrow> string \<Rightarrow> string \<Rightarrow> bool" where
  "verify_hmac_password C stored password = (let
     computed = hmac_hex C (nfc C password);
     stored_buffer = utf8_bytes stored;
     computed_buffer = utf8_bytes computed
   in if length stored_buffer \<noteq> length computed_buffer then False
      else stored_buffer = computed_buffer)"

definition verify_password :: "crypto \<Rightarrow> string \<Rightarrow> string \<Rightarrow> bool" where
  "verify_password C stored password =
     (if detect_hash_type stored = ARGON2ID
      then (case argon2_verify C stored (nfc C password) of Some b \<Rightarrow> b | None \<Rightarrow> False)
      else verify_hmac_password C stored password)"

definition needs_rehash :: "crypto \<Rightarrow> string \<Rightarrow> bool" where
  "needs_rehash C hash =
     (if detect_hash_type hash = HMAC_SHA256 then True
      else (case argon2_needs_rehash C hash of Some b \<Rightarrow> b | None \<Rightarrow> True))"

section \<open>Documented behaviour of the primitives\<close>

definition argon2_ok :: "crypto \<Rightarrow> bool" where
  "argon2_ok C \<longleftrightarrow>
     (\<forall>salt pw. starts_with (argon2_hash C salt pw) argon2id_prefix)
   \<and> (\<forall>salt pw. argon2_verify C (argon2_hash C salt pw) pw = Some True)
   \<and> (\<forall>salt pw. argon2_needs_rehash C (argon2_hash C salt pw) = Some False)"

definition hmac_ok :: "crypto \<Rightarrow> bool" where
  "hmac_ok C \<longleftrightarrow> (\<forall>pw. \<not> starts_with (hmac_hex C pw) ''$'')"

section \<open>Lemmas\<close>

lemma utf8_char_inj:
  assumes "utf8_char c @ xs = utf8_char d @ ys"
  shows "c = d \<and> xs = ys"
proof -
  have "(of_char c :: nat) = of_char d \<and> xs = ys"
  proof (cases "(of_char c :: nat) < 128 \<or> (of_char d :: nat) < 128")
    case True
    with assms show ?thesis by (auto simp: utf8_char_def Let_def split: if_splits)
  next
    case False
    with assms have "of_char c div 64 = (of_char d :: nat) div 64" "of_char c mod 64 = (of_char d :: nat) mod 64"
      "xs = ys" by (auto simp: utf8_char_def Let_def)
    then show ?thesis by (metis div_mult_mod_eq)
  qed
  then show ?thesis by simp
qed

lemma utf8_bytes_Cons: "utf8_bytes (c # s) = utf8_char c @ utf8_bytes s"
  by (simp add: utf8_bytes_def)

lemma utf8_char_not_Nil [simp]: "utf8_char c \<noteq> []"
  by (simp add: utf8_char_def Let_def)

lemma utf8_bytes_inj [simp]: "utf8_bytes s = utf8_bytes t \<longleftrightarrow> s = t"
proof (induction s arbitrary: t)
  case Nil
  show ?case by (cases t) (simp_all add: utf8_bytes_def)
next
  case (Cons c s)
  show ?case
  proof (cases t)
    case Nil
    then show ?thesis by (simp add: utf8_bytes_def)
  next
    case (Cons d t')
    then show ?thesis using Cons.IH by (auto simp: utf8_bytes_Cons dest: utf8_char_inj)
  qed
qed

lemma verify_hmac_password_iff:
  "verify_hmac_password C stored password \<longleftrightarrow> stored = hmac_hex C (nfc C password)"
  by (auto simp: verify_hmac_password_def Let_def dest: arg_cong [of _ _ length])

lemma detect_hash_password [simp]: "argon2_ok C \<Longrightarrow> detect_hash_type (hash_password C salt pw) = ARGON2ID"
  by (simp add: detect_hash_type_def hash_password_def argon2_ok_def)

lemma verify_hash_password [simp]: "argon2_ok C \<Longrightarrow> verify_password C (hash_password C salt pw) pw"
  using detect_hash_password [of C salt pw]
  by (simp add: verify_password_def) (simp add: hash_password_def argon2_ok_def)

lemma needs_rehash_hash_password [simp]: "argon2_ok C \<Longrightarrow> \<not> needs_rehash C (hash_password C salt pw)"
  using detect_hash_password [of C salt pw]
  by (simp add: needs_rehash_def) (simp add: hash_password_def argon2_ok_def)

lemma argon2id_prefix_dollar: "starts_with s argon2id_prefix \<Longrightarrow> starts_with s ''$''"
  by (cases s) (simp_all add: starts_with_def argon2id_prefix_def)

lemma detect_hmac [simp]: "hmac_ok C \<Longrightarrow> detect_hash_type (hmac_hex C pw) = HMAC_SHA256"
  using argon2id_prefix_dollar [of "hmac_hex C pw"] by (auto simp: detect_hash_type_def hmac_ok_def)

lemma verify_hmac [simp]: "hmac_ok C \<Longrightarrow> verify_password C (hmac_hex C (nfc C pw)) pw"
  by (simp add: verify_password_def verify_hmac_password_iff)

lemma needs_rehash_hmac [simp]: "hmac_ok C \<Longrightarrow> needs_rehash C (hmac_hex C pw)"
  by (simp add: needs_rehash_def)

lemma detect_hash_Nil [simp]: "detect_hash_type [] = HMAC_SHA256"
  by (simp add: detect_hash_type_def starts_with_def argon2id_prefix_def)

lemma hash_password_not_Nil [simp]:
  assumes "argon2_ok C"
  shows "hash_password C salt pw \<noteq> []"
proof
  assume "hash_password C salt pw = []"
  with detect_hash_password [OF assms, of salt pw] show False by simp
qed

lemma not_needs_rehash: "\<not> needs_rehash C h \<Longrightarrow> detect_hash_type h = ARGON2ID"
  by (cases "detect_hash_type h") (simp_all add: needs_rehash_def)

end
