(* ===== verification/Login.thy ===== *)
theory Login
  imports Token_Issuer Password_Service
begin

text \<open>
  \<open>login.handler.ts\<close> of the auth service: password login with the failed-attempt window, the
  captcha threshold and the temporary lock, then the issue of an access and a refresh token.
\<close>

section \<open>Contract\<close>

record login_command =
  lc_email :: string
  lc_password :: string
  lc_requestIp :: string
  lc_userAgent :: string

record login_response =
  lr_success :: bool
  lr_accessToken :: string
  lr_refreshToken :: string
  lr_csrfToken :: string
  lr_userId :: string
  lr_email :: string
  lr_failureReason :: string
  lr_lockedUntil :: string
  lr_requiresCaptcha :: bool

datatype login_failure_reason =
  L_USER_NOT_FOUND | L_NOT_VERIFIED | L_BLOCKED | L_ACCOUNT_LOCKED | L_INVALID_CREDENTIALS

fun login_reason_str :: "login_failure_reason \<Rightarrow> string" where
  "login_reason_str L_USER_NOT_FOUND = ''USER_NOT_FOUND''"
| "login_reason_str L_NOT_VERIFIED = ''NOT_VERIFIED''"
| "login_reason_str L_BLOCKED = ''BLOCKED''"
| "login_reason_str L_ACCOUNT_LOCKED = ''ACCOUNT_LOCKED''"
| "login_reason_str L_INVALID_CREDENTIALS = ''INVALID_CREDENTIALS''"

text \<open>\<open>{ ...NO_TOKENS, success: false, failureReason, lockedUntil, requiresCaptcha }\<close>.\<close>

definition login_failed :: "login_failure_reason \<Rightarrow> string \<Rightarrow> bool \<Rightarrow> login_response" where
  "login_failed reason locked captcha = \<lparr>lr_success = False, lr_accessToken = [],
     lr_refreshToken = [], lr_csrfToken = [], lr_userId = [], lr_email = [],
     lr_failureReason = login_reason_str reason, lr_lockedUntil = locked,
     lr_requiresCaptcha = captcha\<rparr>"

text \<open>What the service is built from, and the values the runtime draws during one request.\<close>

record auth_env =
  ae_crypto :: crypto
  ae_jwt :: jwt_lib
  ae_tokens :: token_config
  ae_host_origin :: string

record login_fresh =
  fr_salt :: string
  fr_jti :: string
  fr_refresh_id :: ident
  fr_csrf :: string
  fr_mail_id :: ident

section \<open>The handler\<close>

definition CAPTCHA_ATTEMPT_THRESHOLD :: int where
  "CAPTCHA_ATTEMPT_THRESHOLD = 3"

definition LOCK_ATTEMPT_THRESHOLD :: int where
  "LOCK_ATTEMPT_THRESHOLD = 5"

definition LOCK_DURATION_MS :: int where
  "LOCK_DURATION_MS = 30 * 60 * 1000"

definition FAILED_LOGIN_WINDOW_MS :: int where
  "FAILED_LOGIN_WINDOW_MS = 15 * 60 * 1000"

text \<open>The second component says whether the returned \<open>Date\<close> is the stored object, which the
  caller tests with \<open>===\<close>.\<close>

definition resolve_failed_login_window_start :: "int option \<Rightarrow> int \<Rightarrow> int \<times> bool" where
  "resolve_failed_login_window_start current now =
     (case current of
        None \<Rightarrow> (now, False)
      | Some c \<Rightarrow> if now - c > FAILED_LOGIN_WINDOW_MS then (now, False) else (c, True))"

definition queue_account_locked_email ::
    "login_fresh \<Rightarrow> int \<Rightarrow> auth_user \<Rightarrow> int \<Rightarrow> ('x app_db_scheme, exn, unit) comp" where
  "queue_account_locked_email fr now u locked_until = swallow (queue_mail (fr_mail_id fr) now
     \<lparr>qm_to = au_email u,
      qm_subject = ''Security alert: account temporarily locked'',
      qm_template = Notification_Template,
      qm_context = [(''title'', J_Str ''Account temporarily locked''),
        (''message'', J_Str ''We detected too many failed login attempts for your account. Login has been temporarily locked for security reasons.''),
        (''lockedUntil'', J_Str (to_iso_string locked_until))]\<rparr>)"

definition reject_invalid_credentials ::
    "login_fresh \<Rightarrow> int \<Rightarrow> auth_user \<Rightarrow> ('x app_db_scheme, exn, login_response) comp" where
  "reject_invalid_credentials fr now u = (let
     (window_start, same_object) =
       resolve_failed_login_window_start (au_failedLoginWindowStartedAt u) now;
     attempts = (if same_object then au_failedLoginAttempts u + 1 else 1);
     should_lock = (attempts \<ge> LOCK_ATTEMPT_THRESHOLD);
     locked_until = (if should_lock then Some (now + LOCK_DURATION_MS) else None)
   in andThen (auth_user_update_row (au_id u) (no_update\<lparr>
          up_failedLoginAttempts := Some attempts,
          up_failedLoginWindowStartedAt := Some (Some window_start),
          up_lockedUntil := Some locked_until\<rparr>)) (\<lambda>_.
      andThen (case locked_until of
          Some l \<Rightarrow> queue_account_locked_email fr now u l
        | None \<Rightarrow> ret ()) (\<lambda>_.
      ret (login_failed L_INVALID_CREDENTIALS [] (attempts \<ge> CAPTCHA_ATTEMPT_THRESHOLD)))))"

definition issue_login_tokens ::
    "auth_env \<Rightarrow> login_fresh \<Rightarrow> int \<Rightarrow> login_command \<Rightarrow> auth_user
      \<Rightarrow> ('x app_db_scheme, exn, login_response) comp" where
  "issue_login_tokens E fr now cmd u =
     andThen (lift (generate_access_token (ae_jwt E) (ae_tokens E) now (jwt_of_user u))) (\<lambda>access.
     andThen (lift (generate_refresh_token (ae_jwt E) (ae_tokens E) (fr_jti fr) now (jwt_of_user u)))
       (\<lambda>(refresh, expires_at).
     andThen (refresh_create (fr_refresh_id fr) now \<lparr>rc_userId = au_id u, rc_refreshToken = refresh,
         rc_expiresAt = expires_at,
         rc_fingerprint = or_else (Some (lc_requestIp cmd)) ''unknown'',
         rc_userAgent = or_else (Some (lc_userAgent cmd)) ''unknown''\<rparr>) (\<lambda>_.
     ret \<lparr>lr_success = True, lr_accessToken = access, lr_refreshToken = refresh,
       lr_csrfToken = fr_csrf fr, lr_userId = au_id u, lr_email = au_email u,
       lr_failureReason = [], lr_lockedUntil = [], lr_requiresCaptcha = False\<rparr>)))"

definition migrate_password_hash ::
    "auth_env \<Rightarrow> login_fresh \<Rightarrow> string \<Rightarrow> string \<Rightarrow> auth_user \<Rightarrow> ('x app_db_scheme, exn, unit) comp" where
  "migrate_password_hash E fr stored password u =
     whenever (needs_rehash (ae_crypto E) stored)
       (auth_user_update_row (au_id u) (no_update\<lparr>
          up_password := Some (Some (hash_password (ae_crypto E) (fr_salt fr) password))\<rparr>))"

definition clear_failed_logins :: "auth_user \<Rightarrow> ('x app_db_scheme, exn, unit) comp" where
  "clear_failed_logins u =
     whenever (au_failedLoginAttempts u \<noteq> 0 \<or> au_lockedUntil u \<noteq> None
         \<or> au_failedLoginWindowStartedAt u \<noteq> None)
       (auth_user_update_row (au_id u) (no_update\<lparr>
          up_failedLoginAttempts := Some 0,
          up_failedLoginWindowStartedAt := Some None,
          up_lockedUntil := Some None\<rparr>))"

text \<open>\<open>user.lockedUntil && user.lockedUntil.getTime() > Date.now()\<close>.\<close>

definition locked_at :: "int \<Rightarrow> auth_user \<Rightarrow> bool" where
  "locked_at now u = (case au_lockedUntil u of None \<Rightarrow> False | Some l \<Rightarrow> l > now)"

definition login_handler ::
    "auth_env \<Rightarrow> login_fresh \<Rightarrow> int \<Rightarrow> login_command \<Rightarrow> ('x app_db_scheme, exn, login_response) comp" where
  "login_handler E fr now cmd = andThen (fetch (find_by_email (lc_email cmd) True)) (\<lambda>found.
     case found of
       None \<Rightarrow> ret (login_failed L_USER_NOT_FOUND [] False)
     | Some u \<Rightarrow>
         if \<not> au_verified u then ret (login_failed L_NOT_VERIFIED [] False)
         else if au_blocked u then ret (login_failed L_BLOCKED [] False)
         else if locked_at now u
           then ret (login_failed L_ACCOUNT_LOCKED (to_iso_string (the (au_lockedUntil u))) False)
         else if \<not> truthy (au_password u) then reject_invalid_credentials fr now u
         else (let stored = the (au_password u) in
           if \<not> verify_password (ae_crypto E) stored (lc_password cmd)
           then reject_invalid_credentials fr now u
           else
             andThen (migrate_password_hash E fr stored (lc_password cmd) u) (\<lambda>_.
             andThen (clear_failed_logins u) (\<lambda>_.
             issue_login_tokens E fr now cmd u))))"

end
