(* ===== verification/Account_Handlers.thy ===== *)
theory Account_Handlers
  imports Login
begin

text \<open>
  The other handlers of the auth service: \<open>refresh-tokens.handler.ts\<close> (rotation with detection of
  reuse), \<open>logout.handler.ts\<close>, \<open>forgot-password.handler.ts\<close>, \<open>reset-password.handler.ts\<close> and
  \<open>change-password.handler.ts\<close>, and the dispatch of \<open>auth.grpc.controller.ts\<close>.
\<close>

section \<open>Refresh\<close>

record refresh_command =
  rq_refreshToken :: string
  rq_requestIp :: string
  rq_userAgent :: string

record refresh_response =
  rr_success :: bool
  rr_accessToken :: string
  rr_refreshToken :: string
  rr_csrfToken :: string
  rr_failureReason :: string

datatype refresh_failure_reason =
    R_INVALID_JWT_PAYLOAD | R_TOKEN_NOT_FOUND | R_TOKEN_REVOKED | R_TOKEN_EXPIRED
  | R_USER_NOT_FOUND | R_NOT_VERIFIED | R_BLOCKED

fun refresh_reason_str :: "refresh_failure_reason \<Rightarrow> string" where
  "refresh_reason_str R_INVALID_JWT_PAYLOAD = ''INVALID_JWT_PAYLOAD''"
| "refresh_reason_str R_TOKEN_NOT_FOUND = ''TOKEN_NOT_FOUND''"
| "refresh_reason_str R_TOKEN_REVOKED = ''TOKEN_REVOKED''"
| "refresh_reason_str R_TOKEN_EXPIRED = ''TOKEN_EXPIRED''"
| "refresh_reason_str R_USER_NOT_FOUND = ''USER_NOT_FOUND''"
| "refresh_reason_str R_NOT_VERIFIED = ''NOT_VERIFIED''"
| "refresh_reason_str R_BLOCKED = ''BLOCKED''"

definition refresh_failed :: "refresh_failure_reason \<Rightarrow> refresh_response" where
  "refresh_failed reason = \<lparr>rr_success = False, rr_accessToken = [], rr_refreshToken = [],
     rr_csrfToken = [], rr_failureReason = refresh_reason_str reason\<rparr>"

definition rotate_tokens ::
    "auth_env \<Rightarrow> login_fresh \<Rightarrow> int \<Rightarrow> refresh_command \<Rightarrow> refresh_record \<Rightarrow> auth_user
      \<Rightarrow> ('x app_db_scheme, exn, refresh_response) comp" where
  "rotate_tokens E fr now cmd record u =
     andThen (refresh_revoke_by_id (rt_id record)) (\<lambda>_.
     andThen (lift (generate_access_token (ae_jwt E) (ae_tokens E) now (jwt_of_user u))) (\<lambda>access.
     andThen (lift (generate_refresh_token (ae_jwt E) (ae_tokens E) (fr_jti fr) now (jwt_of_user u)))
       (\<lambda>(refresh, expires_at).
     andThen (refresh_create (fr_refresh_id fr) now \<lparr>rc_userId = au_id u, rc_refreshToken = refresh,
         rc_expiresAt = expires_at,
         rc_fingerprint = or_else (Some (rq_requestIp cmd)) ''unknown'',
         rc_userAgent = or_else (Some (rq_userAgent cmd)) ''unknown''\<rparr>) (\<lambda>_.
     ret \<lparr>rr_success = True, rr_accessToken = access, rr_refreshToken = refresh,
       rr_csrfToken = fr_csrf fr, rr_failureReason = []\<rparr>))))"

definition refresh_handler ::
    "auth_env \<Rightarrow> login_fresh \<Rightarrow> int \<Rightarrow> refresh_command \<Rightarrow> ('x app_db_scheme, exn, refresh_response) comp" where
  "refresh_handler E fr now cmd =
     (case validate_refresh_token (ae_jwt E) (ae_tokens E) now (rq_refreshToken cmd) of
        None \<Rightarrow> ret (refresh_failed R_INVALID_JWT_PAYLOAD)
      | Some credentials \<Rightarrow>
     andThen (fetch (refresh_find_by_token (rq_refreshToken cmd))) (\<lambda>found. case found of
        None \<Rightarrow> ret (refresh_failed R_TOKEN_NOT_FOUND)
      | Some record \<Rightarrow>
          if rt_isRevoked record then
            andThen (refresh_revoke_all_for_user (vj_userId credentials)) (\<lambda>_.
            ret (refresh_failed R_TOKEN_REVOKED))
          else if now > rt_expiresAt record then ret (refresh_failed R_TOKEN_EXPIRED)
          else andThen (fetch (find_by_id (vj_userId credentials))) (\<lambda>user. case user of
            None \<Rightarrow> ret (refresh_failed R_USER_NOT_FOUND)
          | Some u \<Rightarrow>
              if \<not> au_verified u then ret (refresh_failed R_NOT_VERIFIED)
              else if au_blocked u then ret (refresh_failed R_BLOCKED)
              else rotate_tokens E fr now cmd record u)))"

section \<open>Logout\<close>

definition logout_handler ::
    "auth_env \<Rightarrow> int \<Rightarrow> string \<Rightarrow> ('x app_db_scheme, exn, bool) comp" where
  "logout_handler E now token =
     (case validate_refresh_token (ae_jwt E) (ae_tokens E) now token of
        None \<Rightarrow> ret False
      | Some _ \<Rightarrow> refresh_revoke_by_token token)"

section \<open>Forgotten passwords\<close>

record forgot_response =
  fg_success :: bool
  fg_userId :: string

text \<open>The subject is Cyrillic in the source; here it is transliterated.\<close>

definition reset_subject :: string where
  "reset_subject = ''Sbros parolya''"

definition reset_url :: "string \<Rightarrow> string \<Rightarrow> string" where
  "reset_url base token = base @ ''/reset-password?token='' @ token"

text \<open>\<open>bytes\<close> is the result of \<open>randomBytes(32)\<close>, \<open>row_id\<close> the id the table gives the token.\<close>

record forgot_fresh =
  ff_bytes :: "nat list"
  ff_row_id :: ident
  ff_mail_id :: ident

definition forgot_password_handler ::
    "auth_env \<Rightarrow> forgot_fresh \<Rightarrow> int \<Rightarrow> string \<Rightarrow> ('x app_db_scheme, exn, forgot_response) comp" where
  "forgot_password_handler E ff now email =
     andThen (fetch (find_by_email email False)) (\<lambda>found. case found of
       None \<Rightarrow> ret \<lparr>fg_success = True, fg_userId = []\<rparr>
     | Some u \<Rightarrow>
         if au_blocked u then ret \<lparr>fg_success = True, fg_userId = []\<rparr>
         else (let token = hex_encode (ff_bytes ff); expires_at = now + 60 * 60 * 1000 in
           andThen (reset_create (ff_row_id ff) now (reset_token_create (au_id u) token expires_at)) (\<lambda>_.
           andThen (queue_mail (ff_mail_id ff) now \<lparr>qm_to = email, qm_subject = reset_subject,
               qm_template = Reset_Password,
               qm_context = [(''resetUrl'', J_Str (reset_url (ae_host_origin E) token)),
                 (''expiryMinutes'', J_Num 60)]\<rparr>) (\<lambda>_.
           ret \<lparr>fg_success = True, fg_userId = au_id u\<rparr>))))"

section \<open>Reset and change of passwords\<close>

record reset_response =
  rs_success :: bool
  rs_userId :: string
  rs_failureReason :: string

definition reset_password_handler ::
    "auth_env \<Rightarrow> string \<Rightarrow> int \<Rightarrow> string \<Rightarrow> string \<Rightarrow> ('x app_db_scheme, exn, reset_response) comp" where
  "reset_password_handler E salt now token new_password =
     (if length new_password < 12
      then ret \<lparr>rs_success = False, rs_userId = [], rs_failureReason = ''WEAK_PASSWORD''\<rparr>
      else andThen (fetch (reset_find_by_token token)) (\<lambda>found. case found of
        None \<Rightarrow> ret \<lparr>rs_success = False, rs_userId = [], rs_failureReason = ''TOKEN_INVALID_OR_EXPIRED''\<rparr>
      | Some record \<Rightarrow>
          if \<not> reset_is_valid now record
          then ret \<lparr>rs_success = False, rs_userId = [], rs_failureReason = ''TOKEN_INVALID_OR_EXPIRED''\<rparr>
          else
            andThen (auth_user_update_row (pt_userId record) (no_update\<lparr>
              up_password := Some (Some (hash_password (ae_crypto E) salt new_password))\<rparr>)) (\<lambda>_.
            andThen (reset_mark_used (pt_id record)) (\<lambda>_.
            andThen (refresh_revoke_all_for_user (pt_userId record)) (\<lambda>_.
            ret \<lparr>rs_success = True, rs_userId = pt_userId record, rs_failureReason = []\<rparr>)))))"

record change_response =
  cp_success :: bool
  cp_failureReason :: string

definition change_failed :: "string \<Rightarrow> change_response" where
  "change_failed reason = \<lparr>cp_success = False, cp_failureReason = reason\<rparr>"

definition change_password_handler ::
    "auth_env \<Rightarrow> string \<Rightarrow> ident \<Rightarrow> string \<Rightarrow> string \<Rightarrow> ('x app_db_scheme, exn, change_response) comp" where
  "change_password_handler E salt user_id current_password new_password =
     (if length new_password < 12 then ret (change_failed ''WEAK_PASSWORD'')
      else andThen (fetch (find_by_id user_id)) (\<lambda>found. case found of
        None \<Rightarrow> ret (change_failed ''USER_NOT_FOUND'')
      | Some u \<Rightarrow>
          if \<not> truthy (au_password u) then ret (change_failed ''PASSWORD_NOT_CONFIGURED'')
          else if \<not> verify_password (ae_crypto E) (the (au_password u)) current_password
          then ret (change_failed ''CURRENT_PASSWORD_INVALID'')
          else
            andThen (auth_user_update_row user_id (no_update\<lparr>
              up_password := Some (Some (hash_password (ae_crypto E) salt new_password))\<rparr>)) (\<lambda>_.
            andThen (refresh_revoke_all_for_user user_id) (\<lambda>_.
            ret \<lparr>cp_success = True, cp_failureReason = []\<rparr>))))"

section \<open>The gRPC controller\<close>

datatype grpc_request =
    Grpc_Login string string string string
  | Grpc_Refresh string string string
  | Grpc_Logout string
  | Grpc_Forgot string
  | Grpc_Reset string string
  | Grpc_Change ident string string

datatype grpc_response =
    Login_Response login_response
  | Refresh_Response refresh_response
  | Logout_Response bool
  | Forgot_Response forgot_response
  | Reset_Response reset_response
  | Change_Response change_response

record grpc_fresh =
  gf_login :: login_fresh
  gf_forgot :: forgot_fresh

definition grpc_controller ::
    "auth_env \<Rightarrow> grpc_fresh \<Rightarrow> int \<Rightarrow> grpc_request \<Rightarrow> ('x app_db_scheme, exn, grpc_response) comp" where
  "grpc_controller E gf now req = (case req of
     Grpc_Login email password ip agent \<Rightarrow>
       andThen (login_handler E (gf_login gf) now \<lparr>lc_email = email, lc_password = password,
         lc_requestIp = ip, lc_userAgent = agent\<rparr>) (\<lambda>r. ret (Login_Response r))
   | Grpc_Refresh token ip agent \<Rightarrow>
       andThen (refresh_handler E (gf_login gf) now \<lparr>rq_refreshToken = token, rq_requestIp = ip,
         rq_userAgent = agent\<rparr>) (\<lambda>r. ret (Refresh_Response r))
   | Grpc_Logout token \<Rightarrow> andThen (logout_handler E now token) (\<lambda>r. ret (Logout_Response r))
   | Grpc_Forgot email \<Rightarrow>
       andThen (forgot_password_handler E (gf_forgot gf) now email) (\<lambda>r. ret (Forgot_Response r))
   | Grpc_Reset token pw \<Rightarrow>
       andThen (reset_password_handler E (fr_salt (gf_login gf)) now token pw) (\<lambda>r. ret (Reset_Response r))
   | Grpc_Change uid cur pw \<Rightarrow>
       andThen (change_password_handler E (fr_salt (gf_login gf)) uid cur pw) (\<lambda>r. ret (Change_Response r)))"

fun grpc_run ::
    "auth_env \<Rightarrow> (grpc_fresh \<times> int \<times> grpc_request) list \<Rightarrow> 'x app_db_scheme \<Rightarrow> 'x app_db_scheme" where
  "grpc_run E [] d = d"
| "grpc_run E ((gf, now, req) # rest) d = grpc_run E rest (snd (grpc_controller E gf now req d))"

end
