(* ===== verification/One_Way.thy ===== *)
theory One_Way
  imports Account_Handlers
begin

text \<open>
  Credentials that can be closed and never reopened.  Refresh tokens are revoked, password reset
  tokens and magic links are used up: in each of the three tables a row is appended, its flag may be
  set later, and nothing clears the flag or removes the row.  The locale \<open>one_way\<close> states what a
  table needs for that and proves once that a closed credential stays closed through any evolution
  of its table.
\<close>

definition evolves :: "('r \<Rightarrow> 'r) \<Rightarrow> 'r list \<Rightarrow> 'r list \<Rightarrow> bool" where
  "evolves close rs rs' = (\<exists>f news. rs' = map f rs @ news \<and> (\<forall>r. f r = r \<or> f r = close r))"

definition all_closed :: "('r \<Rightarrow> 'k) \<Rightarrow> ('r \<Rightarrow> bool) \<Rightarrow> 'k \<Rightarrow> 'r list \<Rightarrow> bool" where
  "all_closed key closed k rs = (\<forall>r\<in>set rs. key r = k \<longrightarrow> closed r)"

definition copies :: "('r \<Rightarrow> 'k) \<Rightarrow> 'k \<Rightarrow> 'r list \<Rightarrow> nat" where
  "copies key k rs = count_rows (\<lambda>r. key r = k) rs"

lemma evolves_refl [simp, intro]: "evolves close rs rs"
  unfolding evolves_def by (rule exI [of _ id], rule exI [of _ "[]"]) simp

lemma evolves_append [simp, intro]: "evolves close rs (rs @ news)"
  unfolding evolves_def by (rule exI [of _ id], rule exI [of _ news]) simp

lemma evolves_update [simp, intro]: "evolves close rs (update_rows P close rs)"
  unfolding evolves_def
  by (rule exI [of _ "\<lambda>r. if P r then close r else r"], rule exI [of _ "[]"]) (simp add: update_rows_def)

lemma copies_append [simp]: "copies key k (rs @ rs') = copies key k rs + copies key k rs'"
  by (simp add: copies_def)

lemma copies_one_unique:
  assumes "copies key k rs = 1" "r \<in> set rs" "key r = k" "r' \<in> set rs" "key r' = k"
  shows "r = r'"
proof -
  from assms(1) obtain x where "filter (\<lambda>r. key r = k) rs = [x]"
    by (auto simp: copies_def count_rows_def length_Suc_conv)
  then have "{r \<in> set rs. key r = k} = {x}" using set_filter [of "\<lambda>r. key r = k" rs] by simp
  then have "\<forall>r\<in>set rs. key r = k \<longrightarrow> r = x" by blast
  with assms show ?thesis by blast
qed

lemma copies_distinct: "distinct (map key rs) \<Longrightarrow> copies key k rs \<le> 1"
proof (induction rs)
  case (Cons r rs)
  then have "key r = k \<Longrightarrow> copies key k rs = 0" by (auto simp: copies_def some_row_iff image_iff)
  with Cons show ?case by (auto simp: copies_def)
qed (simp add: copies_def)

lemma copies_pos: "r \<in> set rs \<Longrightarrow> key r = k \<Longrightarrow> 1 \<le> copies key k rs"
  by (induction rs) (auto simp: copies_def)

locale one_way =
  fixes close :: "'r \<Rightarrow> 'r" and key :: "'r \<Rightarrow> 'k" and closed :: "'r \<Rightarrow> bool"
  assumes close_idem: "close (close r) = close r"
    and key_close: "key (close r) = key r"
    and closed_close: "closed (close r)"
begin

lemma evolves_trans: "evolves close rs rs' \<Longrightarrow> evolves close rs' rs'' \<Longrightarrow> evolves close rs rs''"
proof -
  assume "evolves close rs rs'" "evolves close rs' rs''"
  then obtain f g ns ms where f: "rs' = map f rs @ ns" "\<forall>r. f r = r \<or> f r = close r"
    and g: "rs'' = map g rs' @ ms" "\<forall>r. g r = r \<or> g r = close r"
    unfolding evolves_def by blast
  have "rs'' = map (g \<circ> f) rs @ (map g ns @ ms)" using f g by simp
  moreover have "(g \<circ> f) r = r \<or> (g \<circ> f) r = close r" for r
    using f(2) g(2) close_idem by (metis comp_apply)
  ultimately show ?thesis unfolding evolves_def by blast
qed

lemma copies_map:
  assumes "\<forall>r. f r = r \<or> f r = close r"
  shows "copies key k (map f rs) = copies key k rs"
proof (induction rs)
  case (Cons r rs)
  have "key (f r) = key r" using assms key_close by metis
  with Cons show ?case by (simp add: copies_def)
qed (simp add: copies_def)

lemma copies_evolves: "evolves close rs rs' \<Longrightarrow> copies key k rs \<le> copies key k rs'"
  unfolding evolves_def using copies_map by fastforce

lemma all_closed_evolves:
  assumes "evolves close rs rs'" "all_closed key closed k rs" "copies key k rs' = copies key k rs"
  shows "all_closed key closed k rs'"
proof -
  from assms(1) obtain f ns where f: "rs' = map f rs @ ns" "\<forall>r. f r = r \<or> f r = close r"
    unfolding evolves_def by blast
  then have none: "\<forall>r\<in>set ns. key r \<noteq> k"
    using assms(3) copies_map by (simp add: copies_def some_row_iff)
  have "closed (f r)" if "r \<in> set rs" "key (f r) = k" for r
    using assms(2) f(2) that key_close closed_close unfolding all_closed_def by metis
  with f(1) none show ?thesis by (auto simp: all_closed_def)
qed

lemma closed_row_dead:
  assumes "all_closed key closed k rs" "find_row (\<lambda>r. key r = k) rs = Some r"
  shows "closed r"
  using assms find_row_SomeD [OF assms(2)] by (simp add: all_closed_def)

lemma close_all_closed:
  assumes "\<And>r. r \<in> set rs \<Longrightarrow> key r = k \<Longrightarrow> P r \<or> closed r"
  shows "all_closed key closed k (update_rows P close rs)"
  unfolding all_closed_def
proof (intro ballI impI)
  fix r assume r: "r \<in> set (update_rows P close rs)" "key r = k"
  from r(1) obtain r0 where "r0 \<in> set rs" "r = (if P r0 then close r0 else r0)" by (rule in_update_rowsE)
  with r(2) assms [of r0] show "closed r" by (auto simp: key_close closed_close split: if_splits)
qed

end

definition use_reset_row :: "reset_row \<Rightarrow> reset_row" where
  "use_reset_row r = r\<lparr>prt_isUsed := True\<rparr>"

interpretation refresh_tokens: one_way revoke_row rf_refreshToken rf_isRevoked
  by unfold_locales (simp_all add: revoke_row_def)

interpretation refresh_owner: one_way revoke_row rf_userId rf_isRevoked
  by unfold_locales (simp_all add: revoke_row_def)

interpretation reset_tokens: one_way use_reset_row prt_token prt_isUsed
  by unfold_locales (simp_all add: use_reset_row_def)

lemma reset_mark_used_run: "reset_mark_used i d
    = (Inr (), d\<lparr>resets := update_rows (\<lambda>r. prt_id r = i) use_reset_row (resets d)\<rparr>)"
  by (simp add: reset_mark_used_def use_reset_row_def [abs_def])

lemma revoked_in_all_closed: "revoked_in tok d = all_closed rf_refreshToken rf_isRevoked tok (refreshes d)"
  by (simp add: revoked_in_def all_closed_def)

lemma user_revoked_all_closed: "user_revoked uid d = all_closed rf_userId rf_isRevoked uid (refreshes d)"
  by (simp add: user_revoked_def all_closed_def)

end
