(* ===== verification/Demo_World.thy ===== *)
theory Demo_World
  imports Login
begin

text \<open>
  Concrete instances of the code outside the repository, and a small database: the inputs at which
  the witnesses apply the properties.  The password primitives concatenate, the token library packs
  its claims into a string and unpacks them, so both satisfy the documented contracts
  \<open>argon2_ok\<close>, \<open>hmac_ok\<close> and \<open>jwt_ok\<close>.
\<close>

section \<open>Password primitives\<close>

definition demo_crypto :: crypto where
  "demo_crypto = \<lparr>argon2_hash = (\<lambda>salt pw. argon2id_prefix @ pw),
     argon2_verify = (\<lambda>h pw. Some (h = argon2id_prefix @ pw)),
     argon2_needs_rehash = (\<lambda>h. Some False),
     hmac_hex = (\<lambda>pw. CHR ''h'' # pw),
     nfc = (\<lambda>pw. pw)\<rparr>"

lemma demo_crypto_ok: "argon2_ok demo_crypto" "hmac_ok demo_crypto"
  by (simp_all add: argon2_ok_def hmac_ok_def demo_crypto_def starts_with_def)

section \<open>Tokens\<close>

definition pack :: "string list \<Rightarrow> string" where
  "pack xs = concat (map (\<lambda>s. replicate (length s) CHR ''1'' @ CHR ''0'' # s) xs)"

fun unpack :: "nat \<Rightarrow> string \<Rightarrow> string list" where
  "unpack 0 s = []"
| "unpack (Suc k) s = (let n = length (takeWhile (\<lambda>c. c = CHR ''1'') s); rest = drop (Suc n) s in
     take n rest # unpack k (drop n rest))"

lemma takeWhile_replicate_sep:
  "takeWhile (\<lambda>c. c = CHR ''1'') (replicate n CHR ''1'' @ CHR ''0'' # r) = replicate n CHR ''1''"
  by (induction n) simp_all

lemma drop_replicate_sep: "drop (Suc n) (replicate n c @ d # r) = r"
  by (induction n) simp_all

lemma unpack_pack [simp]: "unpack (length xs) (pack xs) = xs"
  by (induction xs) (simp_all add: pack_def takeWhile_replicate_sep drop_replicate_sep Let_def)

definition int_field :: "int \<Rightarrow> string" where
  "int_field i = (if i < 0 then ''-'' else ''+'') @ show_pos \<bar>i\<bar>"

definition field_int :: "string \<Rightarrow> int" where
  "field_int s = (if hd s = CHR ''-'' then - read_pos (tl s) else read_pos (tl s))"

lemma field_int_int_field [simp]: "field_int (int_field i) = i"
  by (simp add: field_int_def int_field_def)

definition opt_field :: "string option \<Rightarrow> string" where
  "opt_field x = (case x of None \<Rightarrow> [] | Some s \<Rightarrow> CHR ''s'' # s)"

definition field_opt :: "string \<Rightarrow> string option" where
  "field_opt s = (case s of [] \<Rightarrow> None | _ # t \<Rightarrow> Some t)"

lemma field_opt_opt_field [simp]: "field_opt (opt_field x) = x"
  by (simp add: field_opt_def opt_field_def split: option.split)

definition demo_sign :: "sign_options \<Rightarrow> int \<Rightarrow> jwt_claims \<Rightarrow> string" where
  "demo_sign opts iat c = pack [so_secret opts, so_algorithm opts,
     int_field (iat div 1000 + so_expires_in opts div 1000),
     opt_field (c_sub c), opt_field (c_rid c), opt_field (c_rty c), opt_field (c_lng c),
     opt_field (map_option int_field (c_tv c)), opt_field (so_jti opts)]"

definition demo_verify :: "string \<Rightarrow> string \<Rightarrow> int \<Rightarrow> string \<Rightarrow> jwt_claims option" where
  "demo_verify secret alg now token = (let f = unpack 9 token in
     if pack f = token \<and> f ! 0 = secret \<and> f ! 1 = alg \<and> now div 1000 < field_int (f ! 2)
     then Some \<lparr>c_sub = field_opt (f ! 3), c_rid = field_opt (f ! 4), c_rty = field_opt (f ! 5),
       c_lng = field_opt (f ! 6), c_tv = map_option field_int (field_opt (f ! 7))\<rparr>
     else None)"

definition demo_jwt :: jwt_lib where
  "demo_jwt = \<lparr>jwt_sign = demo_sign, jwt_verify = demo_verify\<rparr>"

lemma unpack_demo_sign:
  "unpack 9 (demo_sign opts iat c) = [so_secret opts, so_algorithm opts,
     int_field (iat div 1000 + so_expires_in opts div 1000),
     opt_field (c_sub c), opt_field (c_rid c), opt_field (c_rty c), opt_field (c_lng c),
     opt_field (map_option int_field (c_tv c)), opt_field (so_jti opts)]" (is "_ = ?fields")
proof -
  have "length ?fields = 9" by simp
  with unpack_pack [of ?fields] have "unpack 9 (pack ?fields) = ?fields" by (simp only:)
  then show ?thesis by (simp only: demo_sign_def)
qed

lemma demo_jwt_ok: "jwt_ok demo_jwt"
proof -
  have "demo_verify (so_secret opts) (so_algorithm opts) now (demo_sign opts iat c) = Some c"
    if "now div 1000 < iat div 1000 + so_expires_in opts div 1000" for opts iat now and c :: jwt_claims
    using that
    by (simp add: demo_verify_def unpack_demo_sign Let_def option.map_comp comp_def option.map_ident)
      (simp add: demo_sign_def)
  then show ?thesis by (simp add: jwt_ok_def demo_jwt_def)
qed

section \<open>A service and a database\<close>

definition demo_tokens :: token_config where
  "demo_tokens = \<lparr>access_secret = ''access'', access_algorithm = ''HS256'', access_expires = 900000,
     refresh_secret = ''refresh'', refresh_algorithm = ''HS256'', refresh_expires = 604800000\<rparr>"

definition demo_env :: auth_env where
  "demo_env = \<lparr>ae_crypto = demo_crypto, ae_jwt = demo_jwt, ae_tokens = demo_tokens,
     ae_host_origin = ''https://app''\<rparr>"

definition demo_fresh :: login_fresh where
  "demo_fresh = \<lparr>fr_salt = ''salt'', fr_jti = ''jti-1'', fr_refresh_id = ''refresh-1'',
     fr_csrf = ''csrf-1'', fr_mail_id = ''mail-1''\<rparr>"

definition demo_role :: role_row where
  "demo_role = \<lparr>ur_id = ''role-user'', ur_createdAt = 0, ur_updatedAt = 0, ur_deletedAt = None,
     ur_name = ''User'', ur_description = None, ur_type = USER\<rparr>"

definition demo_user :: "ident \<Rightarrow> string \<Rightarrow> string option \<Rightarrow> user_row" where
  "demo_user i email password = \<lparr>u_id = i, u_createdAt = 0, u_updatedAt = 0, u_deletedAt = None,
     u_email = email, u_forgotConfirmKey = None, u_emailConfirmKey = None,
     u_verified = Some True, u_password = password, u_name = ''Ann'', u_surname = ''Lee'',
     u_middleName = None, u_phone = None, u_roleId = ''role-user'', u_gender = Some Female,
     u_birthday = None, u_blocked = Some False, u_failedLoginAttempts = 0,
     u_failedLoginWindowStartedAt = None, u_lockedUntil = None, u_tokenVersion = 1,
     u_country = Some ''RU'', u_language = Some ''ru'', u_locale = Some ''ru_RU'',
     u_theme = Some Light, u_notificationChannels = None\<rparr>"

definition demo_template :: "mail_template_type \<Rightarrow> mail_template_row" where
  "demo_template t = \<lparr>mt_id = mail_template_type_str t, mt_createdAt = 0, mt_updatedAt = 0,
     mt_deletedAt = None, mt_name = t, mt_subject = ''Subject'', mt_content = Some ''Body'',
     mt_isActive = Some True\<rparr>"

text \<open>One account with an Argon2id password and one with a legacy HMAC password.\<close>

definition demo_db :: app_db where
  "demo_db = \<lparr>users = [demo_user ''u1'' ''ann@x'' (Some (hash_password demo_crypto ''salt'' ''correct horse'')),
       demo_user ''u2'' ''bob@x'' (Some (hmac_hex demo_crypto ''battery staple''))],
     roles = [demo_role], permissions = [], refreshes = [], resets = [], magics = [],
     mail_templates = [demo_template Notification_Template, demo_template Reset_Password,
       demo_template Magic_Link_Login, demo_template Welcome],
     mails = [], mail_queue = [], outbox = []\<rparr>"

definition demo_login :: "string \<Rightarrow> string \<Rightarrow> login_command" where
  "demo_login email password = \<lparr>lc_email = email, lc_password = password,
     lc_requestIp = ''10.0.0.1'', lc_userAgent = ''agent''\<rparr>"

definition demo_ann :: auth_user where
  "demo_ann = \<lparr>au_id = ''u1'', au_email = ''ann@x'', au_password = Some ''$argon2id$correct horse'',
     au_roleId = ''role-user'', au_roleType = USER, au_verified = True, au_blocked = False,
     au_failedLoginAttempts = 0, au_failedLoginWindowStartedAt = None, au_lockedUntil = None,
     au_tokenVersion = 1, au_language = ''ru''\<rparr>"

lemma demo_find_ann: "find_by_email ''ann@x'' True demo_db = Some demo_ann"
  by code_simp

end
