(* ===== verification/Login_Properties.thy ===== *)
theory Login_Properties
  imports Login_Lockout
begin

text \<open>
  What the refinement of \<open>Login_Lockout\<close> gives for sequences of logins: the invariant of the
  failed-login columns in every reachable database, the bound on password guesses, and the sessions
  a login creates.
\<close>

section \<open>The invariant of the counter\<close>

definition lo_ok :: "int \<Rightarrow> lockout \<Rightarrow> bool" where
  "lo_ok now L \<longleftrightarrow> 0 \<le> lo_attempts L \<and> lo_attempts L \<le> LOCK_ATTEMPT_THRESHOLD
     \<and> (lo_window L = None \<longleftrightarrow> lo_attempts L = 0)
     \<and> (\<forall>w. lo_window L = Some w \<longrightarrow> w \<le> now)
     \<and> (lo_until L \<noteq> None \<longleftrightarrow> lo_attempts L = LOCK_ATTEMPT_THRESHOLD)
     \<and> (\<forall>l w. lo_until L = Some l \<longrightarrow> lo_window L = Some w \<longrightarrow>
          w + LOCK_DURATION_MS \<le> l \<and> l \<le> now + LOCK_DURATION_MS)"

lemmas lockout_consts =
  LOCK_ATTEMPT_THRESHOLD_def LOCK_DURATION_MS_def FAILED_LOGIN_WINDOW_MS_def CAPTCHA_ATTEMPT_THRESHOLD_def

lemma lo_ok_clean [simp]: "lo_ok now clean"
  by (simp add: lo_ok_def clean_def lockout_consts)

lemma lo_ok_mono: "lo_ok now L \<Longrightarrow> now \<le> now' \<Longrightarrow> lo_ok now' L"
  by (force simp: lo_ok_def)

lemma lo_ok_failure:
  assumes "lo_ok now L" "now \<le> now'" "\<not> is_locked now' L"
  shows "lo_ok now' (record_failure now' L)"
proof (cases "lo_window L")
  case None
  then show ?thesis
    by (simp add: record_failure_def window_open_def lo_ok_def lockout_consts)
next
  case (Some w)
  show ?thesis
  proof (cases "lo_until L")
    case None
    then show ?thesis using assms(1,2) Some
      by (auto simp: record_failure_def window_open_def lo_ok_def lockout_consts)
  next
    case until: (Some l)
    then have "\<not> window_open now' L"
      using assms Some by (auto simp: window_open_def lo_ok_def is_locked_def lockout_consts)
    then show ?thesis by (simp add: record_failure_def lo_ok_def lockout_consts)
  qed
qed

section \<open>The bound on password guesses\<close>

fun refused_passwords :: "lockout \<Rightarrow> int list \<Rightarrow> int" where
  "refused_passwords L [] = 0"
| "refused_passwords L (t # ts) =
     (if is_locked t L then refused_passwords L ts
      else 1 + refused_passwords (record_failure t L) ts)"

text \<open>Windows start more than fifteen minutes apart and take at most five refusals each.\<close>

definition guess_bound :: "int \<Rightarrow> int \<Rightarrow> int" where
  "guess_bound from until =
     LOCK_ATTEMPT_THRESHOLD * ((until - from) div (FAILED_LOGIN_WINDOW_MS + 1) + 1)"

lemma guess_bound_next:
  assumes "from + FAILED_LOGIN_WINDOW_MS < from'"
  shows "guess_bound from' until + LOCK_ATTEMPT_THRESHOLD \<le> guess_bound from until"
proof -
  have "(until - from') + (FAILED_LOGIN_WINDOW_MS + 1) \<le> until - from" using assms by simp
  then have "((until - from') + (FAILED_LOGIN_WINDOW_MS + 1)) div (FAILED_LOGIN_WINDOW_MS + 1)
      \<le> (until - from) div (FAILED_LOGIN_WINDOW_MS + 1)"
    by (rule zdiv_mono1) (simp add: lockout_consts)
  then have "(until - from') div (FAILED_LOGIN_WINDOW_MS + 1) + 1
      \<le> (until - from) div (FAILED_LOGIN_WINDOW_MS + 1)"
    by (subst (asm) div_add_self2) (simp_all add: lockout_consts)
  then show ?thesis unfolding guess_bound_def LOCK_ATTEMPT_THRESHOLD_def by (simp add: algebra_simps)
qed

lemma guess_bound_pos: "from \<le> until \<Longrightarrow> LOCK_ATTEMPT_THRESHOLD \<le> guess_bound from until"
  by (simp add: guess_bound_def lockout_consts pos_imp_zdiv_nonneg_iff)

lemma refused_window:
  assumes "lo_ok now L" "lo_window L = Some w" "sorted (now # ts)" "\<forall>t\<in>set ts. t \<le> until" "now \<le> until"
  shows "refused_passwords L ts + lo_attempts L \<le> guess_bound w until"
  using assms
proof (induction ts arbitrary: now L w)
  case Nil
  then have "lo_attempts L \<le> LOCK_ATTEMPT_THRESHOLD" "w \<le> until" by (auto simp: lo_ok_def)
  then show ?case using guess_bound_pos [of w until] by simp
next
  case (Cons t ts)
  have t: "now \<le> t" "sorted (t # ts)" "t \<le> until" "\<forall>t\<in>set ts. t \<le> until" using Cons.prems by auto
  have ok: "lo_ok t L" using lo_ok_mono Cons.prems(1) t(1) by blast
  show ?case
  proof (cases "is_locked t L")
    case True
    with Cons.IH [OF ok Cons.prems(2) t(2,4,3)] show ?thesis by simp
  next
    case unlocked: False
    have ok': "lo_ok t (record_failure t L)" by (rule lo_ok_failure [OF ok]) (use unlocked in simp_all)
    show ?thesis
    proof (cases "window_open t L")
      case True
      then have "lo_window (record_failure t L) = Some w" "lo_attempts (record_failure t L) = lo_attempts L + 1"
        using Cons.prems(2) by (simp_all add: record_failure_def Let_def)
      with Cons.IH [OF ok' _ t(2,4,3)] unlocked show ?thesis by simp
    next
      case False
      then have "lo_window (record_failure t L) = Some t" "lo_attempts (record_failure t L) = 1"
        by (simp_all add: record_failure_def Let_def)
      with Cons.IH [OF ok' _ t(2,4,3)] have "refused_passwords (record_failure t L) ts + 1 \<le> guess_bound t until"
        by simp
      moreover have "guess_bound t until + LOCK_ATTEMPT_THRESHOLD \<le> guess_bound w until"
        using False Cons.prems(2) by (intro guess_bound_next) (simp add: window_open_def)
      moreover have "lo_attempts L \<le> LOCK_ATTEMPT_THRESHOLD" using ok by (simp add: lo_ok_def)
      ultimately show ?thesis using unlocked by simp
    qed
  qed
qed

lemma refused_clean:
  assumes "sorted (t # ts)"
  shows "refused_passwords clean (t # ts) \<le> guess_bound t (last (t # ts))"
proof -
  have le: "\<forall>x\<in>set (t # ts). x \<le> last (t # ts)"
    by (rule sorted_le_last [OF assms])
  have L: "lo_window (record_failure t clean) = Some t" "lo_attempts (record_failure t clean) = 1"
    by (simp_all add: record_failure_def window_open_def clean_def)
  have "lo_ok t (record_failure t clean)"
    by (rule lo_ok_failure [OF lo_ok_clean order_refl]) (simp_all add: is_locked_def clean_def)
  from refused_window [OF this L(1) assms, of "last (t # ts)"] le L(2)
  show ?thesis by (simp add: is_locked_def clean_def)
qed

section \<open>Sequences of logins\<close>

text \<open>A login request with the moment it is served and the values the runtime draws for it.\<close>

type_synonym login_event = "login_fresh \<times> int \<times> login_command"

fun login_run ::
    "auth_env \<Rightarrow> login_event list \<Rightarrow> 'x app_db_scheme \<Rightarrow> (exn + login_response) list \<times> 'x app_db_scheme" where
  "login_run E [] d = ([], d)"
| "login_run E ((fr, now, cmd) # evs) d =
     (let (r, d') = login_handler E fr now cmd d; (rs, d'') = login_run E evs d' in (r # rs, d''))"

definition event_time :: "login_event \<Rightarrow> int" where
  "event_time ev = fst (snd ev)"

definition event_command :: "login_event \<Rightarrow> login_command" where
  "event_command ev = snd (snd ev)"

lemma event_simps [simp]:
  "event_time (fr, now, cmd) = now" "event_command (fr, now, cmd) = cmd"
  by (simp_all add: event_time_def event_command_def)

definition password_refused :: "exn + login_response \<Rightarrow> bool" where
  "password_refused r = (case r of Inl _ \<Rightarrow> False | Inr x \<Rightarrow> verdict_of x = Some Refused_Password)"

definition count_refused :: "(exn + login_response) list \<Rightarrow> int" where
  "count_refused rs = int (length (filter password_refused rs))"

lemma count_refused_simps [simp]:
  "count_refused [] = 0"
  "count_refused (r # rs) = (if password_refused r then 1 else 0) + count_refused rs"
  by (simp_all add: count_refused_def)

lemma fst_login_run_Cons:
  "fst (login_run E ((fr, now, cmd) # evs) d) =
     fst (login_handler E fr now cmd d) # fst (login_run E evs (snd (login_handler E fr now cmd d)))"
  by (simp add: Let_def split: prod.split)

lemma password_right_failure [simp]:
  "password_right E (update_auth_user (failure_update now u) u') pw = password_right E u' pw"
  by (simp add: password_right_def update_auth_user_def failure_update_def no_update_def Let_def)

lemma wrong_login_step:
  assumes found: "find_by_email (lc_email cmd) True d = Some u" and "au_verified u" "\<not> au_blocked u"
    and wrong: "\<not> password_right E u (lc_password cmd)" and "\<not> is_locked now (lockout_of u)"
  obtains x d' where "login_handler E fr now cmd d = (Inr x, d')"
    and "verdict_of x = Some Refused_Password"
    and "find_by_email (lc_email cmd) True d' = Some (update_auth_user (failure_update now u) u)"
proof -
  have row: "some_row (\<lambda>r. u_id r = au_id u) (users d)" by (rule find_by_email_some_row [OF found])
  obtain x d' where run: "reject_invalid_credentials fr now u d = (Inr x, d')"
      "verdict_of x = Some Refused_Password"
    using reject_run [OF row, of fr now] by (metis login_failed_verdict(2))
  moreover have "find_by_email (lc_email cmd) True d' = Some (update_auth_user (failure_update now u) u)"
    using find_after_reject [OF found row, of fr now] by (simp add: run)
  moreover have "login_handler E fr now cmd d = (Inr x, d')"
    using assms run by (simp add: login_wrong)
  ultimately show thesis by (blast intro: that)
qed

lemma wrong_logins_count:
  assumes "find_by_email e True d = Some u" "au_verified u" "\<not> au_blocked u"
    and "\<forall>ev\<in>set evs. lc_email (event_command ev) = e
           \<and> \<not> password_right E u (lc_password (event_command ev))"
  shows "count_refused (fst (login_run E evs d)) = refused_passwords (lockout_of u) (map event_time evs)"
  using assms
proof (induction evs arbitrary: d u)
  case Nil
  then show ?case by simp
next
  case (Cons ev evs)
  obtain fr now cmd where ev: "ev = (fr, now, cmd)" by (cases ev)
  have cmd: "lc_email cmd = e" "\<not> password_right E u (lc_password cmd)"
    using Cons.prems(4) by (auto simp: ev)
  show ?case
  proof (cases "is_locked now (lockout_of u)")
    case True
    then have "login_handler E fr now cmd d =
        (Inr (login_failed L_ACCOUNT_LOCKED (to_iso_string (the (au_lockedUntil u))) False), d)"
      using Cons.prems(1-3) cmd(1) by (simp add: login_locked)
    moreover have "count_refused (fst (login_run E evs d)) = refused_passwords (lockout_of u) (map event_time evs)"
      using Cons.IH Cons.prems by simp
    ultimately show ?thesis using True
      by (simp add: ev fst_login_run_Cons password_refused_def del: login_run.simps)
  next
    case False
    let ?u = "update_auth_user (failure_update now u) u"
    obtain x d' where run: "login_handler E fr now cmd d = (Inr x, d')"
        "verdict_of x = Some Refused_Password" "find_by_email e True d' = Some ?u"
      using wrong_login_step [OF _ Cons.prems(2,3) cmd(2) False] Cons.prems(1) cmd(1) by metis
    have "au_verified ?u" "\<not> au_blocked ?u" using Cons.prems(2,3) by (simp_all add: update_auth_user_def)
    moreover have "\<forall>ev\<in>set evs. lc_email (event_command ev) = e
        \<and> \<not> password_right E ?u (lc_password (event_command ev))" using Cons.prems(4) by simp
    ultimately have "count_refused (fst (login_run E evs d')) = refused_passwords (lockout_of ?u) (map event_time evs)"
      using Cons.IH run(3) by blast
    with run(1,2) False show ?thesis
      by (simp add: ev fst_login_run_Cons password_refused_def del: login_run.simps)
  qed
qed

text \<open>
  C1.  Brute force is bounded: however many wrong passwords are sent for an account over time, the
  service compares at most five of them per fifteen-minute window, counted from the first request;
  every further one is refused by the lock before the password is looked at.
\<close>

theorem brute_force_bound:
  assumes found: "find_by_email e True d = Some u" and "au_verified u" "\<not> au_blocked u"
    and fresh: "lockout_of u = clean"
    and wrong: "\<forall>ev\<in>set (ev0 # evs). lc_email (event_command ev) = e
           \<and> \<not> password_right E u (lc_password (event_command ev))"
    and ordered: "sorted (map event_time (ev0 # evs))"
  shows "count_refused (fst (login_run E (ev0 # evs) d))
       \<le> 5 * ((event_time (last (ev0 # evs)) - event_time ev0) div 900001 + 1)"
proof -
  have "count_refused (fst (login_run E (ev0 # evs) d)) = refused_passwords clean (map event_time (ev0 # evs))"
    using wrong_logins_count [OF assms(1-3) wrong] fresh by simp
  also have "\<dots> \<le> guess_bound (event_time ev0) (last (map event_time (ev0 # evs)))"
    using refused_clean [of "event_time ev0" "map event_time evs"] ordered by simp
  also have "last (map event_time (ev0 # evs)) = event_time (last (ev0 # evs))"
    by (rule last_map) simp
  finally show ?thesis
    by (simp add: guess_bound_def lockout_consts del: last.simps)
qed

theorem brute_force_bound_witness:
  "count_refused (fst (login_run demo_env
     [(demo_fresh, 0, demo_login ''ann@x'' ''a''), (demo_fresh, 10, demo_login ''ann@x'' ''b'')] demo_db)) \<le> 5"
proof -
  have "au_verified demo_ann" "\<not> au_blocked demo_ann" "lockout_of demo_ann = clean"
    "\<not> password_right demo_env demo_ann ''a''" "\<not> password_right demo_env demo_ann ''b''"
    by code_simp+
  then show ?thesis
    using brute_force_bound [OF demo_find_ann, of "(demo_fresh, 0, demo_login ''ann@x'' ''a'')"
        "[(demo_fresh, 10, demo_login ''ann@x'' ''b'')]" demo_env]
    by (simp add: demo_login_def del: login_run.simps)
qed

text \<open>
  The window is fixed, not rolling: seven wrong passwords in less than two seconds leave the
  account unlocked when they straddle the end of a window that an earlier failure opened.
\<close>

theorem window_is_not_rolling:
  "refused_passwords clean [0, 899500, 899600, 899700, 900500, 900600, 900700, 900800] = 8
   \<and> lo_until (foldl (\<lambda>L t. record_failure t L) clean
        [0, 899500, 899600, 899700, 900500, 900600, 900700, 900800]) = None"
  by (simp add: record_failure_def clean_def window_open_def is_locked_def lockout_consts)

section \<open>The counter in every reachable database\<close>

definition row_lockout :: "user_row \<Rightarrow> lockout" where
  "row_lockout u = \<lparr>lo_attempts = u_failedLoginAttempts u,
     lo_window = u_failedLoginWindowStartedAt u, lo_until = u_lockedUntil u\<rparr>"

definition accounts_ok :: "int \<times> 'x app_db_scheme \<Rightarrow> bool" where
  "accounts_ok s = (distinct (map u_id (users (snd s))) \<and>
     (\<forall>u\<in>set (users (snd s)). lo_ok (fst s) (row_lockout u)))"

definition fresh_accounts :: "int \<times> 'x app_db_scheme \<Rightarrow> bool" where
  "fresh_accounts s = (distinct (map u_id (users (snd s))) \<and>
     (\<forall>u\<in>set (users (snd s)). row_lockout u = clean))"

text \<open>Any client may send any login at any later moment.\<close>

inductive login_step :: "auth_env \<Rightarrow> int \<times> 'x app_db_scheme \<Rightarrow> int \<times> 'x app_db_scheme \<Rightarrow> bool" for E where
  login_step: "now \<le> now' \<Longrightarrow> login_step E (now, d) (now', snd (login_handler E fr now' cmd d))"

inductive_cases login_stepE: "login_step E s s'"

lemma to_auth_user_lockout: "lockout_of (to_auth_user u r) = row_lockout u"
  by (simp add: lockout_of_def row_lockout_def to_auth_user_def)

lemma accounts_ok_rows:
  assumes "accounts_ok (now, d)" "now \<le> now'"
    and "users d' = update_rows (\<lambda>r. u_id r = i) (apply_auth_update p) (users d)"
    and "\<And>r. r \<in> set (users d) \<Longrightarrow> u_id r = i \<Longrightarrow> lo_ok now' (row_lockout (apply_auth_update p r))"
  shows "accounts_ok (now', d')"
proof -
  have "lo_ok now' (row_lockout r)" if r: "r \<in> set (users d')" for r
  proof -
    from r assms(3) obtain r0 where "r0 \<in> set (users d)"
      "r = (if u_id r0 = i then apply_auth_update p r0 else r0)" by (auto elim: in_update_rowsE)
    then show ?thesis using assms(1,2,4) by (auto simp: accounts_ok_def intro: lo_ok_mono)
  qed
  moreover have "map u_id (users d') = map u_id (users d)"
    unfolding assms(3) by (rule map_update_rows) simp
  ultimately show ?thesis using assms(1) by (auto simp: accounts_ok_def)
qed

lemma accounts_ok_same:
  "accounts_ok (now, d) \<Longrightarrow> now \<le> now' \<Longrightarrow> users d' = users d \<Longrightarrow> accounts_ok (now', d')"
  by (auto simp: accounts_ok_def intro: lo_ok_mono)

lemma row_lockout_apply:
  "row_lockout (apply_auth_update p r) = \<lparr>
     lo_attempts = coalesce (up_failedLoginAttempts p) (u_failedLoginAttempts r),
     lo_window = coalesce (up_failedLoginWindowStartedAt p) (u_failedLoginWindowStartedAt r),
     lo_until = coalesce (up_lockedUntil p) (u_lockedUntil r)\<rparr>"
  by (simp add: row_lockout_def apply_auth_update_def)

lemma row_lockout_failure [simp]:
  "row_lockout (apply_auth_update (failure_update now u) r) = record_failure now (lockout_of u)"
  by (simp add: row_lockout_apply failure_update_def no_update_def Let_def)

lemma accounts_ok_login:
  assumes ok: "accounts_ok (now, d)" and le: "now \<le> now'"
  shows "accounts_ok (now', snd (login_handler E fr now' cmd d))"
proof (cases "find_by_email (lc_email cmd) True d")
  case None
  then show ?thesis using assms by (simp add: login_not_found) (blast intro: accounts_ok_same)
next
  case (Some u)
  have row: "some_row (\<lambda>r. u_id r = au_id u) (users d)" by (rule find_by_email_some_row [OF Some])
  obtain ur where ur: "ur \<in> set (users d)" "row_lockout ur = lockout_of u" "u_id ur = au_id u"
    using Some by (rule find_by_email_SomeD) (simp add: to_auth_user_lockout)
  then have lo: "lo_ok now (lockout_of u)" using ok by (auto simp: accounts_ok_def)
  consider (off) "\<not> au_verified u \<or> au_blocked u \<or> is_locked now' (lockout_of u)"
    | (right) "au_verified u" "\<not> au_blocked u" "\<not> is_locked now' (lockout_of u)" "password_right E u (lc_password cmd)"
    | (wrong) "au_verified u" "\<not> au_blocked u" "\<not> is_locked now' (lockout_of u)" "\<not> password_right E u (lc_password cmd)"
    by blast
  then show ?thesis
  proof cases
    case off
    then have "snd (login_handler E fr now' cmd d) = d"
      using Some by (cases "au_verified u"; cases "au_blocked u")
        (simp_all add: login_unverified login_blocked login_locked)
    then show ?thesis using assms by simp (blast intro: accounts_ok_same)
  next
    case right
    let ?m = "after_migration E fr (lc_password cmd) u d"
    let ?c = "after_clear E fr (lc_password cmd) u d"
    have "accounts_ok (now', ?m)"
    proof (cases "needs_rehash (ae_crypto E) (the (au_password u))")
      case True
      show ?thesis
      proof (rule accounts_ok_rows [OF ok le])
        show "users ?m = update_rows (\<lambda>r. u_id r = au_id u) (apply_auth_update (no_update\<lparr>
           up_password := Some (Some (hash_password (ae_crypto E) (fr_salt fr) (lc_password cmd)))\<rparr>)) (users d)"
          using True by (simp add: after_migration_def migrate_run row)
      qed (use ok lo_ok_mono [OF _ le] in \<open>auto simp: row_lockout_apply no_update_def accounts_ok_def simp flip: row_lockout_def\<close>)
    next
      case False
      then show ?thesis
        by (intro accounts_ok_same [OF ok le]) (simp add: after_migration_def migrate_run row)
    qed
    then have "accounts_ok (now', ?c)"
    proof (cases "was_clean u")
      case True
      with \<open>accounts_ok (now', ?m)\<close> show ?thesis
        by (simp add: after_clear_def clear_run after_migration_db row)
    next
      case False
      show ?thesis
      proof (rule accounts_ok_rows [OF \<open>accounts_ok (now', ?m)\<close> order_refl])
        show "users ?c = update_rows (\<lambda>r. u_id r = au_id u) (apply_auth_update (no_update\<lparr>
           up_failedLoginAttempts := Some 0, up_failedLoginWindowStartedAt := Some None,
           up_lockedUntil := Some None\<rparr>)) (users ?m)"
          using False by (simp add: after_clear_def clear_run after_migration_db row)
      qed (use lo_ok_clean in \<open>simp add: row_lockout_apply clean_def\<close>)
    qed
    then show ?thesis
      using Some right by (simp add: login_success accounts_ok_def)
  next
    case wrong
    have "accounts_ok (now', write_failure now' u d)"
      by (rule accounts_ok_rows [OF ok le, where i = "au_id u" and p = "failure_update now' u"])
        (use lo_ok_failure [OF lo le wrong(3)] in \<open>simp_all add: write_failure_def\<close>)
    then have "accounts_ok (now', snd (reject_invalid_credentials fr now' u d))"
      by (auto simp: reject_run row accounts_ok_def split: option.split)
    then show ?thesis using Some wrong by (simp add: login_wrong)
  qed
qed

interpretation login_machine: transitions fresh_accounts "login_step E" accounts_ok for E
proof unfold_locales
  show "fresh_accounts s \<Longrightarrow> accounts_ok s" for s :: "int \<times> 'a app_db_scheme"
    by (simp add: fresh_accounts_def accounts_ok_def)
  show "accounts_ok s \<Longrightarrow> login_step E s s' \<Longrightarrow> accounts_ok s'" for s s' :: "int \<times> 'a app_db_scheme"
    by (auto elim!: login_stepE intro: accounts_ok_login)
qed



section \<open>The session a login creates\<close>

lemma reject_refreshes:
  assumes "some_row (\<lambda>r. u_id r = au_id u) (users d)"
  shows "refreshes (snd (reject_invalid_credentials fr now u d)) = refreshes d"
  using assms by (simp add: reject_run write_failure_def split: option.split)

text \<open>Which logins succeed.\<close>

definition login_permitted :: "auth_env \<Rightarrow> int \<Rightarrow> login_command \<Rightarrow> auth_user \<Rightarrow> bool" where
  "login_permitted E now cmd u = (au_verified u \<and> \<not> au_blocked u \<and> \<not> locked_at now u
     \<and> password_right E u (lc_password cmd))"

lemma login_permitted_run:
  assumes "find_by_email (lc_email cmd) True d = Some u" "login_permitted E now cmd u"
  shows "login_handler E fr now cmd d = (Inr (login_success_response E fr now u),
    (after_clear E fr (lc_password cmd) u d)\<lparr>refreshes := refreshes d @ [issued_row E fr now cmd u]\<rparr>)"
  using assms by (simp add: login_success login_permitted_def locked_at_is_locked)

lemma login_denied_run:
  assumes "\<forall>u. find_by_email (lc_email cmd) True d = Some u \<longrightarrow> \<not> login_permitted E now cmd u"
  obtains x d' reason l c where "login_handler E fr now cmd d = (Inr x, d')"
    and "x = login_failed reason l c" and "refreshes d' = refreshes d"
proof (cases "find_by_email (lc_email cmd) True d")
  case None
  then show thesis using that login_not_found by blast
next
  case (Some u)
  have row: "some_row (\<lambda>r. u_id r = au_id u) (users d)" by (rule find_by_email_some_row [OF Some])
  have "\<not> login_permitted E now cmd u" using assms Some by blast
  then consider (unverified) "\<not> au_verified u" | (blocked) "au_verified u" "au_blocked u"
    | (locked) "au_verified u" "\<not> au_blocked u" "is_locked now (lockout_of u)"
    | (wrong) "au_verified u" "\<not> au_blocked u" "\<not> is_locked now (lockout_of u)"
        "\<not> password_right E u (lc_password cmd)"
    by (auto simp: login_permitted_def locked_at_is_locked)
  then show thesis
  proof cases
    case wrong
    then have "login_handler E fr now cmd d = reject_invalid_credentials fr now u d"
      using Some by (simp add: login_wrong)
    then show thesis
      using that reject_run [OF row, of fr now] reject_refreshes [OF row, of fr now] by (metis snd_conv)
  next
    case unverified
    then show thesis by (rule that [OF login_unverified [OF Some] refl refl])
  next
    case blocked
    then show thesis by (rule that [OF login_blocked [OF Some] refl refl])
  next
    case locked
    then show thesis by (rule that [OF login_locked [OF Some] refl refl])
  qed
qed

lemma div_seconds: "t + 2000 \<le> a + b \<Longrightarrow> t div 1000 < a div 1000 + b div (1000 :: int)"
  using div_mult_mod_eq [of t 1000] div_mult_mod_eq [of a 1000] div_mult_mod_eq [of b 1000]
    pos_mod_bound [of 1000 a] pos_mod_bound [of 1000 b] pos_mod_sign [of 1000 t] by linarith

text \<open>
  C20.  A login never throws.  It succeeds exactly for an existing, verified, unblocked, unlocked
  account whose stored hash accepts the password; then exactly one refresh token is stored: unrevoked,
  for that user, the one handed out, which validates as that user until it is about to expire; the access token
  carries the user's id, role and current token version.  Any other login hands out no token and
  stores none.
\<close>

theorem login_session:
  assumes "jwt_ok (ae_jwt E)" "900000 \<le> refresh_expires (ae_tokens E)" "1000 \<le> access_expires (ae_tokens E)"
  shows "\<exists>x d'. login_handler E fr now cmd d = (Inr x, d') \<and>
    (case find_by_email (lc_email cmd) True d of
       Some u \<Rightarrow> if login_permitted E now cmd u
         then lr_success x \<and> lr_userId x = au_id u
           \<and> (\<exists>row. refreshes d' = refreshes d @ [row] \<and> rf_userId row = au_id u \<and> \<not> rf_isRevoked row
                \<and> rf_refreshToken row = lr_refreshToken x
                \<and> rf_expiresAt row = now + refresh_expires (ae_tokens E))
           \<and> (\<exists>c. jwt_verify (ae_jwt E) (access_secret (ae_tokens E)) (access_algorithm (ae_tokens E)) now
                  (lr_accessToken x) = Some c \<and> c_sub c = Some (au_id u) \<and> c_rid c = Some (au_roleId u)
                  \<and> c_rty c = Some (role_type_str (au_roleType u)) \<and> c_tv c = Some (au_tokenVersion u))
           \<and> (au_id u \<noteq> [] \<and> au_roleId u \<noteq> [] \<and> au_language u \<noteq> [] \<longrightarrow>
                (\<forall>t. now \<le> t \<and> t + 2000 \<le> rf_expiresAt (last (refreshes d')) \<longrightarrow>
                  validate_refresh_token (ae_jwt E) (ae_tokens E) t (lr_refreshToken x) = Some (jwt_of_user u)))
         else \<not> lr_success x \<and> refreshes d' = refreshes d
           \<and> lr_accessToken x = [] \<and> lr_refreshToken x = [] \<and> lr_csrfToken x = []
     | None \<Rightarrow> \<not> lr_success x \<and> refreshes d' = refreshes d
           \<and> lr_accessToken x = [] \<and> lr_refreshToken x = [] \<and> lr_csrfToken x = [])"
proof (cases "\<exists>u. find_by_email (lc_email cmd) True d = Some u \<and> login_permitted E now cmd u")
  case True
  then obtain u where u: "find_by_email (lc_email cmd) True d = Some u" "login_permitted E now cmd u" by blast
  have acc: "issued_access E now u = jwt_sign (ae_jwt E) \<lparr>so_secret = access_secret (ae_tokens E),
      so_algorithm = access_algorithm (ae_tokens E), so_jti = None,
      so_expires_in = access_expires (ae_tokens E)\<rparr> now \<lparr>c_sub = Some (au_id u), c_rid = Some (au_roleId u),
      c_rty = Some (role_type_str (au_roleType u)), c_lng = Some (au_language u),
      c_tv = Some (au_tokenVersion u)\<rparr>" (is "_ = jwt_sign _ ?o _ ?c")
    by (simp add: issued_access_def generate_access_token_def jwt_of_user_def)
  have "jwt_verify (ae_jwt E) (so_secret ?o) (so_algorithm ?o) now (jwt_sign (ae_jwt E) ?o now ?c) = Some ?c"
    by (rule jwt_okD [OF assms(1)]) (use assms(3) in simp_all)
  moreover have "validate_refresh_token (ae_jwt E) (ae_tokens E) t (issued_refresh E fr now u) = Some (jwt_of_user u)"
    if t: "au_id u \<noteq> []" "au_roleId u \<noteq> []" "au_language u \<noteq> []" "now \<le> t"
      "t + 2000 \<le> now + refresh_expires (ae_tokens E)" for t
  proof (rule validate_generated_refresh [OF assms(1)])
    show "generate_refresh_token (ae_jwt E) (ae_tokens E) (fr_jti fr) now (jwt_of_user u)
        = Inr (issued_refresh E fr now u, now + refresh_expires (ae_tokens E))"
      by (simp add: issued_refresh_def generate_refresh_token_def jwt_of_user_def)
    show "t div 1000 < now div 1000 + refresh_expires (ae_tokens E) div 1000"
      using t(5) by (rule div_seconds)
  qed (use t in \<open>simp_all add: jwt_of_user_def\<close>)
  ultimately show ?thesis
    using u by (simp add: login_permitted_run login_success_response_def issued_row_def acc)
next
  case False
  then have "\<forall>u. find_by_email (lc_email cmd) True d = Some u \<longrightarrow> \<not> login_permitted E now cmd u" by blast
  then obtain x d' reason l c where "login_handler E fr now cmd d = (Inr x, d')"
    "x = login_failed reason l c" "refreshes d' = refreshes d" by (rule login_denied_run)
  moreover have "\<not> login_permitted E now cmd u" if "find_by_email (lc_email cmd) True d = Some u" for u
    using False that by blast
  ultimately show ?thesis
    by (cases "find_by_email (lc_email cmd) True d") (simp_all add: login_failed_def)
qed

theorem login_session_witness:
  "\<exists>x d'. login_handler demo_env demo_fresh 7 (demo_login ''ann@x'' ''correct horse'') demo_db = (Inr x, d')
     \<and> lr_success x \<and> lr_userId x = ''u1'' \<and> (\<exists>row. refreshes d' = [row] \<and> \<not> rf_isRevoked row)"
proof -
  have "jwt_ok (ae_jwt demo_env)" "900000 \<le> refresh_expires (ae_tokens demo_env)"
    "1000 \<le> access_expires (ae_tokens demo_env)"
    by (simp_all add: demo_env_def demo_jwt_ok demo_tokens_def)
  note session = login_session [OF this, of demo_fresh 7 "demo_login ''ann@x'' ''correct horse''" demo_db]
  have "login_permitted demo_env 7 (demo_login ''ann@x'' ''correct horse'') demo_ann"
    "lc_email (demo_login ''ann@x'' ''correct horse'') = ''ann@x''" "au_id demo_ann = ''u1''"
    "refreshes demo_db = []" by code_simp+
  with session show ?thesis by (simp add: demo_find_ann) blast
qed

text \<open>
  Smooth migration of password hashes: after any successful login the stored hash is one that
  accepts the same password and needs no further rehash, whether it was a legacy HMAC-SHA256 hash, an
  Argon2id hash with old parameters or a current one; and a current hash is not replaced.
\<close>

theorem login_migrates_hash:
  assumes "argon2_ok (ae_crypto E)"
    and "find_by_email (lc_email cmd) True d = Some u" "login_permitted E now cmd u"
  shows "\<exists>u' h. find_by_email (lc_email cmd) True (snd (login_handler E fr now cmd d)) = Some u'
    \<and> au_password u' = Some h \<and> verify_password (ae_crypto E) h (lc_password cmd)
    \<and> \<not> needs_rehash (ae_crypto E) h
    \<and> (\<not> needs_rehash (ae_crypto E) (the (au_password u)) \<longrightarrow> au_password u' = au_password u)"
proof -
  have row: "some_row (\<lambda>r. u_id r = au_id u) (users d)" by (rule find_by_email_some_row [OF assms(2)])
  obtain pw where "au_password u = Some pw" "verify_password (ae_crypto E) pw (lc_password cmd)"
    using assms(3) by (auto simp: login_permitted_def password_right_def truthy_iff)
  with assms show ?thesis
    by (simp add: login_permitted_run find_after_clear [OF _ row] Let_def)
qed

theorem login_migrates_hash_witness:
  "\<exists>u' h. find_by_email ''bob@x'' True
      (snd (login_handler demo_env demo_fresh 7 (demo_login ''bob@x'' ''battery staple'') demo_db)) = Some u'
    \<and> au_password u' = Some h \<and> detect_hash_type h = ARGON2ID"
proof -
  let ?cmd = "demo_login ''bob@x'' ''battery staple''"
  obtain u where u: "find_by_email ''bob@x'' True demo_db = Some u" "login_permitted demo_env 7 ?cmd u"
    by (rule that [of "the (find_by_email ''bob@x'' True demo_db)"]; code_simp)
  have "argon2_ok (ae_crypto demo_env)" "lc_email ?cmd = ''bob@x''"
    by (simp_all add: demo_env_def demo_crypto_ok demo_login_def)
  with login_migrates_hash [of demo_env ?cmd demo_db u 7 demo_fresh] u show ?thesis
    by (metis not_needs_rehash)
qed

end
