(* ===== verification/Account_Properties.thy ===== *)
theory Account_Properties
  imports One_Way Login_Properties
begin

text \<open>
  What the auth service guarantees about its credentials over any sequence of gRPC requests: refresh
  tokens are single use, their reuse ends every session of the user, reset tokens are single use,
  and a new password ends every session.
\<close>

section \<open>Every handler only appends and closes credentials\<close>

definition tokens_from :: "'x app_db_scheme \<Rightarrow> 'x app_db_scheme \<Rightarrow> bool" where
  "tokens_from d0 d = (evolves revoke_row (refreshes d0) (refreshes d)
     \<and> evolves use_reset_row (resets d0) (resets d)
     \<and> (distinct (map prt_token (resets d0)) \<longrightarrow> distinct (map prt_token (resets d))))"

named_theorems keeps_intro \<open>what each repository call keeps\<close>

lemma keeps_user_update [keeps_intro]: "keeps (tokens_from d0) (auth_user_update_row i p)"
  by (rule keepsI) (simp add: tokens_from_def auth_user_update_row_def Let_def)

lemma keeps_refresh_create [keeps_intro]: "keeps (tokens_from d0) (refresh_create i now p)"
  by (rule keepsI)
    (auto simp: tokens_from_def refresh_create_def intro: refresh_tokens.evolves_trans)

lemma keeps_revoke_id [keeps_intro]: "keeps (tokens_from d0) (refresh_revoke_by_id i)"
  by (rule keepsI)
    (auto simp: tokens_from_def refresh_run intro: refresh_tokens.evolves_trans)

lemma keeps_revoke_user [keeps_intro]: "keeps (tokens_from d0) (refresh_revoke_all_for_user i)"
  by (rule keepsI)
    (auto simp: tokens_from_def refresh_run intro: refresh_tokens.evolves_trans)

lemma keeps_revoke_token [keeps_intro]: "keeps (tokens_from d0) (refresh_revoke_by_token t)"
  by (rule keepsI)
    (auto simp: tokens_from_def refresh_revoke_by_token_def Let_def intro: refresh_tokens.evolves_trans)

lemma keeps_reset_create [keeps_intro]: "keeps (tokens_from d0) (reset_create i now n)"
  by (rule keepsI)
    (auto simp: tokens_from_def reset_create_def Let_def some_row_iff intro: reset_tokens.evolves_trans)

lemma keeps_reset_used [keeps_intro]: "keeps (tokens_from d0) (reset_mark_used i)"
  by (rule keepsI)
    (auto simp: tokens_from_def reset_mark_used_run map_update_rows use_reset_row_def
      intro: reset_tokens.evolves_trans)

lemma keeps_queue_mail [keeps_intro]: "keeps (tokens_from d0) (queue_mail i now p)"
  by (rule keepsI) (simp add: tokens_from_def)

lemma keeps_reject: "keeps (tokens_from d0) (reject_invalid_credentials fr now u)"
  by (auto simp: reject_invalid_credentials_def queue_account_locked_email_def Let_def
      intro!: keeps_andThen keeps_swallow keeps_intro split: prod.split option.split)

lemma keeps_issue: "keeps (tokens_from d0) (issue_login_tokens E fr now cmd u)"
  by (auto simp: issue_login_tokens_def intro!: keeps_andThen keeps_intro split: prod.split)

lemma keeps_login [keeps_intro]: "keeps (tokens_from d0) (login_handler E fr now cmd)"
  by (auto simp: login_handler_def migrate_password_hash_def clear_failed_logins_def Let_def
      intro!: keeps_andThen keeps_whenever keeps_reject keeps_issue keeps_intro split: option.split)

lemma keeps_rotate: "keeps (tokens_from d0) (rotate_tokens E fr now cmd r u)"
  by (auto simp: rotate_tokens_def intro!: keeps_andThen keeps_intro split: prod.split)

lemma keeps_refresh [keeps_intro]: "keeps (tokens_from d0) (refresh_handler E fr now cmd)"
  by (auto simp: refresh_handler_def intro!: keeps_andThen keeps_rotate keeps_intro split: option.split)

lemma keeps_logout [keeps_intro]: "keeps (tokens_from d0) (logout_handler E now t)"
  by (auto simp: logout_handler_def intro!: keeps_intro split: option.split)

lemma keeps_forgot [keeps_intro]: "keeps (tokens_from d0) (forgot_password_handler E ff now e)"
  by (auto simp: forgot_password_handler_def Let_def intro!: keeps_andThen keeps_intro split: option.split)

lemma keeps_reset [keeps_intro]: "keeps (tokens_from d0) (reset_password_handler E salt now t pw)"
  by (auto simp: reset_password_handler_def intro!: keeps_andThen keeps_intro split: option.split)

lemma keeps_change [keeps_intro]: "keeps (tokens_from d0) (change_password_handler E salt uid cur pw)"
  by (auto simp: change_password_handler_def intro!: keeps_andThen keeps_intro split: option.split)

lemma keeps_grpc: "keeps (tokens_from d0) (grpc_controller E gf now req)"
  by (cases req) (auto simp: grpc_controller_def intro!: keeps_andThen keeps_intro)

lemma grpc_run_tokens: "tokens_from d0 d \<Longrightarrow> tokens_from d0 (grpc_run E reqs d)"
proof (induction reqs arbitrary: d)
  case (Cons x reqs)
  obtain gf now req where "x = (gf, now, req)" by (cases x)
  with Cons.IH keepsD [OF keeps_grpc Cons.prems] show ?case by simp
qed simp

lemma tokens_from_refl [simp]: "tokens_from d d"
  by (simp add: tokens_from_def)

lemma grpc_run_revoked:
  assumes "revoked_in tok d"
    and "copies rf_refreshToken tok (refreshes (grpc_run E reqs d)) = copies rf_refreshToken tok (refreshes d)"
  shows "revoked_in tok (grpc_run E reqs d)"
  using assms grpc_run_tokens [OF tokens_from_refl, of d E reqs] refresh_tokens.all_closed_evolves
  by (auto simp: revoked_in_all_closed tokens_from_def)

section \<open>Refresh\<close>

text \<open>Which refreshes succeed, and for whom.\<close>

definition refresh_accepts ::
    "auth_env \<Rightarrow> int \<Rightarrow> string \<Rightarrow> 'x app_db_scheme \<Rightarrow> (refresh_record \<times> auth_user) option" where
  "refresh_accepts E now tok d =
     (case (validate_refresh_token (ae_jwt E) (ae_tokens E) now tok, refresh_find_by_token tok d) of
        (Some v, Some r) \<Rightarrow>
          (case find_by_id (vj_userId v) d of
             Some u \<Rightarrow> if \<not> rt_isRevoked r \<and> now \<le> rt_expiresAt r \<and> au_verified u \<and> \<not> au_blocked u
                       then Some (r, u) else None
           | None \<Rightarrow> None)
      | _ \<Rightarrow> None)"

definition rotated_row :: "auth_env \<Rightarrow> login_fresh \<Rightarrow> int \<Rightarrow> refresh_command \<Rightarrow> auth_user \<Rightarrow> refresh_row" where
  "rotated_row E fr now cmd u = \<lparr>rf_id = fr_refresh_id fr, rf_createdAt = now, rf_updatedAt = now,
     rf_deletedAt = None, rf_userId = au_id u, rf_refreshToken = issued_refresh E fr now u,
     rf_expiresAt = now + refresh_expires (ae_tokens E), rf_isRevoked = False,
     rf_fingerprint = or_else (Some (rq_requestIp cmd)) ''unknown'',
     rf_userAgent = or_else (Some (rq_userAgent cmd)) ''unknown''\<rparr>"

lemma rotate_run:
  "rotate_tokens E fr now cmd r u d =
    (Inr \<lparr>rr_success = True, rr_accessToken = issued_access E now u,
       rr_refreshToken = issued_refresh E fr now u, rr_csrfToken = fr_csrf fr, rr_failureReason = []\<rparr>,
     d\<lparr>refreshes := update_rows (\<lambda>x. rf_id x = rt_id r) revoke_row (refreshes d)
         @ [rotated_row E fr now cmd u]\<rparr>)"
  by (simp add: rotate_tokens_def refresh_run generate_access_token_def generate_refresh_token_def
      jwt_of_user_def refresh_create_def issued_access_def issued_refresh_def rotated_row_def
      andThen_def)

lemma refresh_accepted:
  assumes "refresh_accepts E now (rq_refreshToken cmd) d = Some (r, u)"
  shows "refresh_handler E fr now cmd d = rotate_tokens E fr now cmd r u d"
  using assms
  by (auto simp: refresh_accepts_def refresh_handler_def andThen_def split: option.splits if_splits)

lemma refresh_rejected:
  assumes "refresh_accepts E now (rq_refreshToken cmd) d = None"
  shows "\<exists>reason d'. refresh_handler E fr now cmd d = (Inr (refresh_failed reason), d')
    \<and> (reason \<noteq> R_TOKEN_REVOKED \<longrightarrow> d' = d)"
  using assms
  by (auto simp: refresh_accepts_def refresh_handler_def andThen_def refresh_run
      split: option.splits if_splits)

lemma refresh_reused:
  assumes "validate_refresh_token (ae_jwt E) (ae_tokens E) now (rq_refreshToken cmd) = Some v"
    and "refresh_find_by_token (rq_refreshToken cmd) d = Some r" "rt_isRevoked r"
  shows "refresh_handler E fr now cmd d =
    (Inr (refresh_failed R_TOKEN_REVOKED), snd (refresh_revoke_all_for_user (vj_userId v) d))"
  using assms by (simp add: refresh_handler_def andThen_def refresh_run)

lemma find_rotated_revoked:
  assumes "refresh_find_by_token tok d = Some r" "copies rf_refreshToken tok (refreshes d) = 1"
  shows "all_closed rf_refreshToken rf_isRevoked tok
    (update_rows (\<lambda>x. rf_id x = rt_id r) revoke_row (refreshes d))"
proof (rule refresh_tokens.close_all_closed)
  fix x assume x: "x \<in> set (refreshes d)" "rf_refreshToken x = tok"
  from assms(1) obtain row where row: "row \<in> set (refreshes d)" "rf_refreshToken row = tok"
    "r = to_refresh_record row" by (rule refresh_find_SomeD)
  have "x = row" by (rule copies_one_unique [OF assms(2) x row(1,2)])
  then show "rf_id x = rt_id r \<or> rf_isRevoked x" by (simp add: row(3) to_refresh_record_def)
qed

text \<open>
  C3.  A refresh token is single use.  When a token was exchanged successfully, then whatever requests
  the service handled since, presenting the token again is refused; and as long as the JWT itself is
  accepted, the refusal is \<open>TOKEN_REVOKED\<close> and revokes every refresh token of the user.
  The hypothesis on copies says that no other row carries the same token string, which the random
  token id of \<open>generateRefreshToken\<close> is for.
\<close>

theorem refresh_token_single_use:
  fixes d :: "'x app_db_scheme"
  assumes "refresh_handler E fr now cmd d = (Inr resp, d1)" "rr_success resp"
    and "copies rf_refreshToken (rq_refreshToken cmd) (refreshes d) = 1"
    and "copies rf_refreshToken (rq_refreshToken cmd) (refreshes (grpc_run E reqs d1)) = 1"
    and "rq_refreshToken cmd' = rq_refreshToken cmd"
  shows "\<exists>reason d3. refresh_handler E fr' now' cmd' (grpc_run E reqs d1) = (Inr (refresh_failed reason), d3)
    \<and> (\<forall>v. validate_refresh_token (ae_jwt E) (ae_tokens E) now' (rq_refreshToken cmd) = Some v \<longrightarrow>
         reason = R_TOKEN_REVOKED \<and> user_revoked (vj_userId v) d3)"
proof -
  let ?tok = "rq_refreshToken cmd" and ?d2 = "grpc_run E reqs d1"
  obtain r u where ru: "refresh_accepts E now ?tok d = Some (r, u)"
  proof (cases "refresh_accepts E now ?tok d")
    case None
    with refresh_rejected [OF None, of fr] assms(1,2) show thesis by (auto simp: refresh_failed_def)
  qed auto
  then have find: "refresh_find_by_token ?tok d = Some r"
    by (auto simp: refresh_accepts_def split: option.splits if_splits)
  have d1: "refreshes d1 = update_rows (\<lambda>x. rf_id x = rt_id r) revoke_row (refreshes d) @ [rotated_row E fr now cmd u]"
    using assms(1) by (auto simp: refresh_accepted [OF ru] rotate_run)
  have "copies rf_refreshToken ?tok (refreshes d1) \<le> 1"
    using grpc_run_tokens [OF tokens_from_refl, of d1 E reqs] assms(4) refresh_tokens.copies_evolves
    unfolding tokens_from_def by metis
  moreover have "copies rf_refreshToken ?tok (update_rows (\<lambda>x. rf_id x = rt_id r) revoke_row (refreshes d)) \<ge> 1"
    using refresh_tokens.copies_evolves [OF evolves_update, of ?tok "refreshes d"] assms(3) by metis
  ultimately have one: "copies rf_refreshToken ?tok (refreshes d1) = 1"
    and new: "rf_refreshToken (rotated_row E fr now cmd u) \<noteq> ?tok"
    by (auto simp: d1 copies_def split: if_splits)
  have "revoked_in ?tok d1"
    using find_rotated_revoked [OF find assms(3)] new by (auto simp: revoked_in_all_closed d1 all_closed_def)
  then have revoked: "revoked_in ?tok ?d2" by (rule grpc_run_revoked) (simp add: assms(4) one)
  obtain r2 where r2: "refresh_find_by_token ?tok ?d2 = Some r2"
    using assms(4) by (cases "refresh_find_by_token ?tok ?d2")
      (auto simp: refresh_find_by_token_def copies_def count_rows_def some_row_find
        find_row_None filter_empty_conv)
  with revoked have "rt_isRevoked r2" by (rule revoked_in_find)
  show ?thesis
  proof (cases "validate_refresh_token (ae_jwt E) (ae_tokens E) now' ?tok")
    case None
    then have "refresh_accepts E now' (rq_refreshToken cmd') ?d2 = None"
      by (simp add: refresh_accepts_def assms(5))
    from refresh_rejected [OF this, of fr'] None show ?thesis by auto
  next
    case (Some v)
    with refresh_reused [of E now' cmd' v ?d2 r2 fr'] r2 \<open>rt_isRevoked r2\<close> assms(5) show ?thesis
      by auto
  qed
qed

section \<open>Password reset and change\<close>

lemma reset_find_SomeD:
  assumes "reset_find_by_token tok d = Some t"
  obtains row where "row \<in> set (resets d)" "prt_token row = tok" "t = to_reset_token row"
proof -
  from assms obtain row where "find_row (\<lambda>r. prt_token r = tok) (resets d) = Some row"
    and "t = to_reset_token row" by (auto simp: reset_find_by_token_def)
  with that [of row] find_row_SomeD [OF this(1)] show thesis by blast
qed

text \<open>The database a completed reset leaves.\<close>

definition after_reset :: "auth_env \<Rightarrow> string \<Rightarrow> reset_token \<Rightarrow> string \<Rightarrow> 'x app_db_scheme \<Rightarrow> 'x app_db_scheme" where
  "after_reset E salt t pw d = d\<lparr>
     users := update_rows (\<lambda>u. u_id u = pt_userId t) (apply_auth_update (no_update\<lparr>
       up_password := Some (Some (hash_password (ae_crypto E) salt pw))\<rparr>)) (users d),
     resets := update_rows (\<lambda>r. prt_id r = pt_id t) use_reset_row (resets d),
     refreshes := update_rows (\<lambda>r. rf_userId r = pt_userId t) revoke_row (refreshes d)\<rparr>"

lemma reset_accepted:
  assumes "12 \<le> length pw" "reset_find_by_token tok d = Some t" "reset_is_valid now t"
    and "some_row (\<lambda>u. u_id u = pt_userId t) (users d)"
  shows "reset_password_handler E salt now tok pw d =
    (Inr \<lparr>rs_success = True, rs_userId = pt_userId t, rs_failureReason = []\<rparr>, after_reset E salt t pw d)"
  using assms
  by (simp add: reset_password_handler_def andThen_def auth_user_update_row_ok reset_mark_used_run
      refresh_run after_reset_def)

lemma reset_succeeded:
  assumes "reset_password_handler E salt now tok pw d = (Inr resp, d')" "rs_success resp"
  obtains t where "12 \<le> length pw" "reset_find_by_token tok d = Some t" "reset_is_valid now t"
    "some_row (\<lambda>u. u_id u = pt_userId t) (users d)" "d' = after_reset E salt t pw d"
    "rs_userId resp = pt_userId t"
proof -
  have len: "12 \<le> length pw" using assms by (auto simp: reset_password_handler_def split: if_splits)
  obtain t where t: "reset_find_by_token tok d = Some t" "reset_is_valid now t"
    using assms len by (auto simp: reset_password_handler_def andThen_def split: option.splits if_splits)
  have row: "some_row (\<lambda>u. u_id u = pt_userId t) (users d)"
    using assms len t by (auto simp: reset_password_handler_def andThen_def auth_user_update_row_def Let_def
        split: if_splits)
  show thesis using that [OF len t row] reset_accepted [OF len t row, of E salt] assms(1) by simp
qed

lemma reset_refused:
  assumes "\<And>t. reset_find_by_token tok d = Some t \<Longrightarrow> \<not> reset_is_valid now t" "12 \<le> length pw"
  shows "reset_password_handler E salt now tok pw d =
    (Inr \<lparr>rs_success = False, rs_userId = [], rs_failureReason = ''TOKEN_INVALID_OR_EXPIRED''\<rparr>, d)"
  using assms by (cases "reset_find_by_token tok d") (simp_all add: reset_password_handler_def andThen_def)

lemma find_by_id_update:
  "find_by_id i (d\<lparr>users := update_rows (\<lambda>u. u_id u = j) (apply_auth_update p) (users d), resets := rs,
      refreshes := fs\<rparr>)
   = map_option (\<lambda>u. if au_id u = j then update_auth_user p u else u) (find_by_id i d)"
  by (cases "join_role (roles d) (live_id i) (users d)")
    (auto simp: find_by_id_def join_role_update to_auth_user_update)

text \<open>
  C4.  A password reset succeeds only with a password of at least twelve characters and an unused,
  unexpired token; then the account of the token's owner has a hash that accepts the new password,
  its token version is unchanged, every refresh token of the owner is revoked, and from then on, whatever
  requests are served and whenever, the same reset token is refused.
\<close>

theorem reset_token_single_use:
  fixes d :: "'x app_db_scheme"
  assumes "argon2_ok (ae_crypto E)" "distinct (map prt_token (resets d))"
    and "reset_password_handler E salt now tok pw d = (Inr resp, d1)" "rs_success resp"
  shows "12 \<le> length pw \<and> user_revoked (rs_userId resp) d1
    \<and> (\<forall>u. find_by_id (rs_userId resp) d = Some u \<longrightarrow> (\<exists>u' h. find_by_id (rs_userId resp) d1 = Some u'
         \<and> au_password u' = Some h \<and> verify_password (ae_crypto E) h pw \<and> au_tokenVersion u' = au_tokenVersion u))
    \<and> (\<forall>reqs salt' now' pw'. 12 \<le> length pw' \<longrightarrow>
         reset_password_handler E salt' now' tok pw' (grpc_run E reqs d1)
         = (Inr \<lparr>rs_success = False, rs_userId = [], rs_failureReason = ''TOKEN_INVALID_OR_EXPIRED''\<rparr>,
            grpc_run E reqs d1))"
proof -
  obtain t where t: "12 \<le> length pw" "reset_find_by_token tok d = Some t" "reset_is_valid now t"
    "d1 = after_reset E salt t pw d" "rs_userId resp = pt_userId t"
    using assms(3,4) by (rule reset_succeeded)
  have "user_revoked (pt_userId t) d1"
    using revoke_all_user_revoked [of "pt_userId t" d]
    by (simp add: t(4) user_revoked_def after_reset_def refresh_run)
  moreover have "\<exists>u' h. find_by_id (pt_userId t) d1 = Some u' \<and> au_password u' = Some h
      \<and> verify_password (ae_crypto E) h pw \<and> au_tokenVersion u' = au_tokenVersion u"
    if "find_by_id (pt_userId t) d = Some u" for u
    using that assms(1) find_by_id_some_row(2) [OF that]
    by (simp add: t(4) after_reset_def find_by_id_update)
      (simp add: update_auth_user_def no_update_def)
  moreover have "reset_password_handler E salt' now' tok pw' (grpc_run E reqs d1)
      = (Inr \<lparr>rs_success = False, rs_userId = [], rs_failureReason = ''TOKEN_INVALID_OR_EXPIRED''\<rparr>,
         grpc_run E reqs d1)" if pw': "12 \<le> length pw'" for reqs salt' now' pw'
  proof (rule reset_refused [OF _ pw'])
    let ?d2 = "grpc_run E reqs d1"
    obtain row where row: "row \<in> set (resets d)" "prt_token row = tok" "t = to_reset_token row"
      using t(2) by (rule reset_find_SomeD)
    have one: "copies prt_token tok (resets d) = 1"
      using copies_distinct [OF assms(2), of tok] copies_pos [of row "resets d" prt_token tok] row by simp
    have ev: "tokens_from d d1" using keepsD [OF keeps_reset [of d E salt now tok pw] tokens_from_refl] assms(3) by simp
    then have dist: "distinct (map prt_token (resets d1))" using assms(2) by (simp add: tokens_from_def)
    have ev2: "tokens_from d1 ?d2" by (rule grpc_run_tokens) simp
    have "all_closed prt_token prt_isUsed tok (resets d1)"
      unfolding t(4) after_reset_def
      by simp (rule reset_tokens.close_all_closed, use copies_one_unique [OF one _ _ row(1,2)] row(3) in
          \<open>auto simp: to_reset_token_def\<close>)
    moreover have "copies prt_token tok (resets ?d2) \<le> 1"
      by (rule copies_distinct) (use ev2 dist in \<open>simp add: tokens_from_def\<close>)
    moreover have "1 \<le> copies prt_token tok (resets d1)"
      using ev one reset_tokens.copies_evolves [of "resets d" "resets d1" tok] by (simp add: tokens_from_def)
    moreover have "copies prt_token tok (resets d1) \<le> copies prt_token tok (resets ?d2)"
      using ev2 reset_tokens.copies_evolves by (simp add: tokens_from_def)
    ultimately have dead: "all_closed prt_token prt_isUsed tok (resets ?d2)"
      using reset_tokens.all_closed_evolves [of "resets d1" "resets ?d2" tok] ev2
      by (simp add: tokens_from_def)
    fix t2 assume "reset_find_by_token tok ?d2 = Some t2"
    then obtain row2 where "row2 \<in> set (resets ?d2)" "prt_token row2 = tok" "t2 = to_reset_token row2"
      by (rule reset_find_SomeD)
    with dead show "\<not> reset_is_valid now' t2"
      by (simp add: all_closed_def reset_is_valid_def to_reset_token_def)
  qed
  ultimately show ?thesis using t(1,5) by simp
qed

text \<open>
  A password change succeeds exactly when the new password has at least twelve characters, the
  user exists with a password and the current password is right; then the new password is accepted and
  every refresh token of the user is revoked.  In every other case nothing is written.
\<close>

theorem change_password_effect:
  fixes d :: "'x app_db_scheme"
  assumes "argon2_ok (ae_crypto E)"
  shows "\<exists>r d'. change_password_handler E salt uid cur pw d = (Inr r, d') \<and>
    (cp_success r \<longleftrightarrow> 12 \<le> length pw \<and> (\<exists>u. find_by_id uid d = Some u \<and> password_right E u cur)) \<and>
    (if cp_success r
     then user_revoked uid d' \<and> (\<exists>u'. find_by_id uid d' = Some u' \<and> password_right E u' pw)
     else d' = d \<and> cp_failureReason r \<noteq> [])"
proof (cases "12 \<le> length pw \<and> (\<exists>u. find_by_id uid d = Some u \<and> password_right E u cur)")
  case True
  then obtain u where u: "find_by_id uid d = Some u" "password_right E u cur" "12 \<le> length pw" by blast
  have row: "some_row (\<lambda>u. u_id u = uid) (users d)" and id: "au_id u = uid"
    using find_by_id_some_row [OF u(1)] by simp_all
  let ?p = "no_update\<lparr>up_password := Some (Some (hash_password (ae_crypto E) salt pw))\<rparr>"
  let ?d = "d\<lparr>users := update_rows (\<lambda>u. u_id u = uid) (apply_auth_update ?p) (users d),
    refreshes := update_rows (\<lambda>r. rf_userId r = uid) revoke_row (refreshes d)\<rparr>"
  have run: "change_password_handler E salt uid cur pw d = (Inr \<lparr>cp_success = True, cp_failureReason = []\<rparr>, ?d)"
    using u row by (simp add: change_password_handler_def andThen_def password_right_def
        auth_user_update_row_ok refresh_run)
  have "find_by_id uid ?d = Some (update_auth_user ?p u)"
    using find_by_id_update [where i = uid and d = d and j = uid and p = ?p and rs = "resets d"] u(1) id by simp
  moreover have "password_right E (update_auth_user ?p u) pw"
    using assms by (simp add: password_right_def update_auth_user_def)
  moreover have "user_revoked uid ?d"
    using revoke_all_user_revoked [of uid d] by (simp add: user_revoked_def refresh_run)
  ultimately show ?thesis using u by (simp add: run)
next
  case False
  then show ?thesis
    by (cases "find_by_id uid d")
      (auto simp: change_password_handler_def andThen_def change_failed_def password_right_def)
qed

section \<open>Forgotten passwords\<close>

definition forgot_job :: "auth_env \<Rightarrow> forgot_fresh \<Rightarrow> string \<Rightarrow> mail_job" where
  "forgot_job E ff email = \<lparr>mj_mailId = ff_mail_id ff, mj_to = email, mj_subject = reset_subject,
     mj_template = Reset_Password,
     mj_context = [(''resetUrl'', J_Str (reset_url (ae_host_origin E) (hex_encode (ff_bytes ff)))),
       (''expiryMinutes'', J_Num 60)]\<rparr>"

lemma forgot_known:
  assumes "find_by_email email False d = Some u" "\<not> au_blocked u"
    and "some_row (\<lambda>t. mt_name t = Reset_Password \<and> mt_deletedAt t = None) (mail_templates d)"
    and "\<not> some_row (\<lambda>r. prt_token r = hex_encode (ff_bytes ff) \<or> prt_id r = ff_row_id ff) (resets d)"
  obtains d' where "forgot_password_handler E ff now email d = (Inr \<lparr>fg_success = True, fg_userId = au_id u\<rparr>, d')"
    and "resets d' = resets d @ [\<lparr>prt_id = ff_row_id ff, prt_createdAt = now, prt_userId = au_id u,
          prt_token = hex_encode (ff_bytes ff), prt_expiresAt = now + 3600000, prt_isUsed = False\<rparr>]"
    and "mail_queue d' = mail_queue d @ [forgot_job E ff email]" "users d' = users d"
proof -
  from assms(3) obtain template where
    "find_row (\<lambda>t. mt_name t = Reset_Password \<and> mt_deletedAt t = None) (mail_templates d) = Some template"
    by (auto simp: some_row_find)
  with assms(1,2,4) show thesis
    by (intro that [of "snd (forgot_password_handler E ff now email d)"])
      (simp_all add: forgot_password_handler_def andThen_def reset_create_def
        reset_token_create_def queue_mail_def forgot_job_def Let_def)
qed


section \<open>Witnesses\<close>

definition demo_forgot :: forgot_fresh where
  "demo_forgot = \<lparr>ff_bytes = [222, 173], ff_row_id = ''reset-1'', ff_mail_id = ''mail-2''\<rparr>"


definition demo_signed_in :: app_db where
  "demo_signed_in = snd (login_handler demo_env demo_fresh 0 (demo_login ''ann@x'' ''correct horse'') demo_db)"

definition demo_token :: string where
  "demo_token = issued_refresh demo_env demo_fresh 0 demo_ann"

definition demo_fresh2 :: login_fresh where
  "demo_fresh2 = \<lparr>fr_salt = ''salt'', fr_jti = ''jti-2'', fr_refresh_id = ''refresh-2'',
     fr_csrf = ''csrf-2'', fr_mail_id = ''mail-2''\<rparr>"

definition demo_refresh :: refresh_command where
  "demo_refresh = \<lparr>rq_refreshToken = demo_token, rq_requestIp = ''10.0.0.1'', rq_userAgent = ''agent''\<rparr>"

theorem refresh_token_single_use_witness:
  "\<exists>d3. refresh_handler demo_env demo_fresh2 20 demo_refresh
      (snd (refresh_handler demo_env demo_fresh2 10 demo_refresh demo_signed_in))
    = (Inr (refresh_failed R_TOKEN_REVOKED), d3) \<and> user_revoked ''u1'' d3"
proof -
  let ?run = "refresh_handler demo_env demo_fresh2 10 demo_refresh demo_signed_in"
  have "fst ?run = Inr (projr (fst ?run))" by code_simp
  then have run: "?run = (Inr (projr (fst ?run)), snd ?run)" by (metis prod.collapse)
  have 1: "rr_success (projr (fst ?run))" by code_simp
  have 2: "copies rf_refreshToken (rq_refreshToken demo_refresh) (refreshes demo_signed_in) = 1" by code_simp
  have 3: "copies rf_refreshToken (rq_refreshToken demo_refresh) (refreshes (grpc_run demo_env [] (snd ?run))) = 1"
    by code_simp
  have 4: "validate_refresh_token (ae_jwt demo_env) (ae_tokens demo_env) 20 (rq_refreshToken demo_refresh)
      = Some (jwt_of_user demo_ann)" "vj_userId (jwt_of_user demo_ann) = ''u1''" by code_simp+
  show ?thesis
    using refresh_token_single_use [OF run 1 2 3 refl, of demo_fresh2 20] 4 by simp
qed

theorem change_password_effect_witness:
  "\<exists>r d'. change_password_handler demo_env ''s'' ''u1'' ''correct horse'' ''battery staple'' demo_signed_in = (Inr r, d')
     \<and> user_revoked ''u1'' d'"
proof -
  have "argon2_ok (ae_crypto demo_env)" by (simp add: demo_env_def demo_crypto_ok)
  note ch = change_password_effect [OF this, of "''s''" "''u1''" "''correct horse''" "''battery staple''" demo_signed_in]
  have "find_by_id ''u1'' demo_signed_in = Some demo_ann" "password_right demo_env demo_ann ''correct horse''"
    by code_simp+
  with ch show ?thesis by auto
qed

theorem reset_token_single_use_witness:
  "reset_password_handler demo_env ''s'' 30 ''dead'' ''another password'' (snd (reset_password_handler demo_env ''s'' 9 ''dead''
      ''a long password'' (snd (forgot_password_handler demo_env demo_forgot 5 ''ann@x'' demo_db))))
   = (Inr \<lparr>rs_success = False, rs_userId = [], rs_failureReason = ''TOKEN_INVALID_OR_EXPIRED''\<rparr>,
      snd (reset_password_handler demo_env ''s'' 9 ''dead''
      ''a long password'' (snd (forgot_password_handler demo_env demo_forgot 5 ''ann@x'' demo_db))))"
proof -
  let ?d = "snd (forgot_password_handler demo_env demo_forgot 5 ''ann@x'' demo_db)"
  let ?run = "reset_password_handler demo_env ''s'' 9 ''dead'' ''a long password'' ?d"
  have ok: "argon2_ok (ae_crypto demo_env)" by (simp add: demo_env_def demo_crypto_ok)
  have dist: "distinct (map prt_token (resets ?d))" by code_simp
  have res: "fst ?run = Inr \<lparr>rs_success = True, rs_userId = ''u1'', rs_failureReason = []\<rparr>" by code_simp
  then have "?run = (Inr \<lparr>rs_success = True, rs_userId = ''u1'', rs_failureReason = []\<rparr>, snd ?run)"
    by (metis prod.collapse)
  from reset_token_single_use [OF ok dist this] have
    "\<forall>reqs salt' now' pw'. 12 \<le> length pw' \<longrightarrow>
         reset_password_handler demo_env salt' now' ''dead'' pw' (grpc_run demo_env reqs (snd ?run))
         = (Inr \<lparr>rs_success = False, rs_userId = [], rs_failureReason = ''TOKEN_INVALID_OR_EXPIRED''\<rparr>,
            grpc_run demo_env reqs (snd ?run))" by simp
  from this [rule_format, of "''another password''" "''s''" 30 "[]"] show ?thesis by simp
qed

end
