(* ===== verification/Pagination.thy ===== *)
theory Pagination
  imports Js_Values
begin

text \<open>
  \<open>common/Paginated.ts\<close>: the page metadata of every list endpoint and the SQL window it reads.  A
  query \<open>limit l offset o\<close> gives the rows \<open>take l (drop o rows)\<close>.
\<close>

record page_meta =
  pm_total :: int
  pm_page :: int
  pm_per_page :: int
  pm_pages :: int

record 'a paginated =
  pg_data :: "'a list"
  pg_meta :: page_meta

text \<open>\<open>Math.ceil(a / b)\<close> for integers that doubles represent exactly and a positive divisor.\<close>

definition ceil_div :: "int \<Rightarrow> int \<Rightarrow> int" where
  "ceil_div a b = - ((- a) div b)"

definition build_paginated :: "'a list \<Rightarrow> int \<Rightarrow> int \<Rightarrow> int \<Rightarrow> 'a paginated" where
  "build_paginated xs tot page per_page = \<lparr>pg_data = xs, pg_meta =
     \<lparr>pm_total = tot, pm_page = page, pm_per_page = per_page,
      pm_pages = (if per_page > 0 then ceil_div tot per_page else 1)\<rparr>\<rparr>"

definition to_sql_pagination :: "int \<Rightarrow> int \<Rightarrow> int \<times> int" where
  "to_sql_pagination page per_page = (per_page, (page - 1) * per_page)"

definition sql_window :: "int \<Rightarrow> int \<Rightarrow> 'a list \<Rightarrow> 'a list" where
  "sql_window limit offset rows = take (nat limit) (drop (nat offset) rows)"

definition page_of :: "int \<Rightarrow> int \<Rightarrow> 'a list \<Rightarrow> 'a list" where
  "page_of page per_page rows = (case to_sql_pagination page per_page of (l, off) \<Rightarrow> sql_window l off rows)"

lemma ceil_div_bounds:
  assumes "0 < b"
  shows "a \<le> ceil_div a b * b" "ceil_div a b * b < a + b"
  using pos_mod_bound [OF assms, of "- a"] pos_mod_sign [OF assms, of "- a"] div_mult_mod_eq [of "- a" b]
  unfolding ceil_div_def by linarith+

lemma page_of_nat: "1 \<le> page \<Longrightarrow> 0 \<le> per_page \<Longrightarrow>
  page_of page per_page rows = take (nat per_page) (drop (nat (page - 1) * nat per_page) rows)"
  by (simp add: page_of_def to_sql_pagination_def sql_window_def nat_mult_distrib)

lemma take_concat_pages:
  "concat (map (\<lambda>i. take k (drop (i * k) rows)) [0..<n]) = take (n * k) rows"
proof (induction n)
  case (Suc n)
  have "take (Suc n * k) rows = take (n * k) rows @ take k (drop (n * k) rows)"
    by (simp add: take_add [symmetric] add.commute)
  with Suc show ?case by simp
qed simp

lemma ceil_div_nonneg: "0 < b \<Longrightarrow> 0 \<le> a \<Longrightarrow> 0 \<le> ceil_div a b"
  using ceil_div_bounds(1) [of b a] by (smt (verit) mult_nonneg_nonpos mult_neg_pos)

text \<open>
  The pages that the metadata announces are the whole list: reading page 1 to page \<open>pages\<close> and
  concatenating gives every row once and in order, every announced page holds at least one row, and
  the page after the last is empty.
\<close>

theorem pages_partition:
  fixes rows :: "'a list"
  assumes "1 \<le> per_page"
  defines "pages \<equiv> pm_pages (pg_meta (build_paginated rows (int (length rows)) 1 per_page))"
  shows "concat (map (\<lambda>i. page_of (int i + 1) per_page rows) [0..<nat pages]) = rows
    \<and> (\<forall>i. 1 \<le> i \<longrightarrow> i \<le> pages \<longrightarrow> page_of i per_page rows \<noteq> [])
    \<and> page_of (pages + 1) per_page rows = []"
proof -
  let ?k = "nat per_page" and ?n = "nat pages"
  have pages: "pages = ceil_div (int (length rows)) per_page"
    using assms by (simp add: build_paginated_def)
  have nn: "0 \<le> pages" unfolding pages using assms(1) by (intro ceil_div_nonneg) simp_all
  have up: "int (length rows) \<le> pages * per_page" and low: "pages * per_page < int (length rows) + per_page"
    using ceil_div_bounds [of per_page "int (length rows)"] assms(1) by (simp_all add: pages)
  have len: "length rows \<le> ?n * ?k"
    using up nn assms(1) by (simp add: le_nat_iff nat_mult_distrib [symmetric])
  have page: "page_of (int i + 1) per_page rows = take ?k (drop (i * ?k) rows)" for i
    using assms(1) page_of_nat [of "int i + 1" per_page rows] by simp
  have "concat (map (\<lambda>i. page_of (int i + 1) per_page rows) [0..<?n]) = rows"
    unfolding page take_concat_pages using len by simp
  moreover have "page_of i per_page rows \<noteq> []" if "1 \<le> i" "i \<le> pages" for i
  proof -
    have "(i - 1) * per_page \<le> (pages - 1) * per_page" using that assms(1) by (intro mult_right_mono) auto
    also have "\<dots> < int (length rows)" using low by (simp add: algebra_simps)
    finally have "nat (i - 1) * ?k < length rows"
      using that assms(1) by (simp add: nat_less_iff nat_mult_distrib [symmetric])
    then show ?thesis using that assms(1) page_of_nat [of i per_page rows] by auto
  qed
  moreover have "page_of (pages + 1) per_page rows = []"
    using len nn assms(1) page_of_nat [of "pages + 1" per_page rows] by simp
  ultimately show ?thesis by blast
qed

theorem pages_partition_witness:
  "concat (map (\<lambda>i. page_of (int i + 1) 2 [7, 8, 9 :: nat]) [0..<2]) = [7, 8, 9 :: nat]"
proof -
  have "pm_pages (pg_meta (build_paginated [7, 8, 9 :: nat] (int (length [7, 8, 9 :: nat])) 1 2)) = 2"
    by (simp add: build_paginated_def ceil_div_def)
  with pages_partition [of 2 "[7, 8, 9 :: nat]"] show ?thesis by simp
qed

end
