(* ===== verification/Backend_Users.thy ===== *)
theory Backend_Users
  imports Auth_Repositories Password_Service Pagination
begin

text \<open>
  The users module of the backend, without authentication: the domain entities, the drizzle
  repositories of users and roles, the mappers to DTOs and the command and query handlers.  The
  backend's state is the shared database with the Redis keys it uses, the events it publishes and the
  cookie operations on the reply.
\<close>

section \<open>State\<close>

datatype auth_event =
    User_Login_Succeeded ident string
  | User_Login_Failed string
  | User_Logged_Out bool
  | Password_Reset_Requested string "ident option"
  | Password_Reset_Completed ident
  | Password_Changed ident
  | Admin_Password_Reset_Requested ident
  | User_Created ident string string "string option"

record cookie =
  ck_name :: string
  ck_value :: string
  ck_httpOnly :: bool
  ck_secure :: bool
  ck_sameSite :: string
  ck_maxAge :: int

datatype cookie_op = Set_Cookie cookie | Clear_Cookie string

record backend = app_db +
  redis :: "string \<Rightarrow> string option"
  events :: "auth_event list"
  reply :: "cookie_op list"

definition publish :: "auth_event \<Rightarrow> ('x backend_scheme, exn, unit) comp" where
  "publish e = modify (\<lambda>s. s\<lparr>events := events s @ [e]\<rparr>)"

section \<open>Entities\<close>

record user_role =
  ro_id :: ident
  ro_name :: string
  ro_description :: "string option"
  ro_type :: role_type
  ro_createdAt :: int
  ro_updatedAt :: int
  ro_deletedAt :: "int option"

record user =
  us_id :: ident
  us_email :: string
  us_forgotConfirmKey :: "string option"
  us_emailConfirmKey :: "string option"
  us_verified :: bool
  us_password :: "string option"
  us_name :: string
  us_surname :: string
  us_middleName :: "string option"
  us_phone :: "string option"
  us_role :: "user_role option"
  us_roleId :: ident
  us_gender :: gender
  us_birthday :: "int option"
  us_blocked :: bool
  us_failedLoginAttempts :: int
  us_failedLoginWindowStartedAt :: "int option"
  us_lockedUntil :: "int option"
  us_tokenVersion :: int
  us_country :: string
  us_language :: string
  us_locale :: string
  us_theme :: theme
  us_notificationChannels :: "string list option"
  us_createdAt :: int
  us_updatedAt :: int
  us_deletedAt :: "int option"

text \<open>What \<open>User.create\<close> gives \<open>UserRepository.create\<close>: a column that is \<open>None\<close> is left to its default.\<close>

record new_user =
  nu_email :: string
  nu_forgotConfirmKey :: "string option"
  nu_emailConfirmKey :: "string option"
  nu_verified :: bool
  nu_password :: "string option"
  nu_name :: string
  nu_surname :: string
  nu_middleName :: "string option"
  nu_phone :: "string option"
  nu_roleId :: ident
  nu_gender :: "gender option"
  nu_birthday :: "int option"
  nu_blocked :: bool
  nu_failedLoginAttempts :: int
  nu_failedLoginWindowStartedAt :: "int option"
  nu_lockedUntil :: "int option"
  nu_tokenVersion :: int

record create_user_body =
  cu_email :: string
  cu_password :: string
  cu_name :: string
  cu_surname :: string
  cu_middleName :: "string option"
  cu_phone :: "string option"
  cu_gender :: "gender option"
  cu_birthday :: "int option"
  cu_roleId :: ident

definition user_create_entity :: "create_user_body \<Rightarrow> string \<Rightarrow> bool \<Rightarrow> new_user" where
  "user_create_entity b hashed verified = \<lparr>nu_email = cu_email b, nu_forgotConfirmKey = None,
     nu_emailConfirmKey = None, nu_verified = verified, nu_password = Some hashed,
     nu_name = cu_name b, nu_surname = cu_surname b, nu_middleName = cu_middleName b,
     nu_phone = cu_phone b, nu_roleId = cu_roleId b, nu_gender = cu_gender b,
     nu_birthday = cu_birthday b, nu_blocked = False, nu_failedLoginAttempts = 0,
     nu_failedLoginWindowStartedAt = None, nu_lockedUntil = None, nu_tokenVersion = 1\<rparr>"

section \<open>The user repository\<close>

definition to_role :: "role_row \<Rightarrow> user_role" where
  "to_role row = \<lparr>ro_id = ur_id row, ro_name = ur_name row, ro_description = ur_description row,
     ro_type = ur_type row, ro_createdAt = ur_createdAt row, ro_updatedAt = ur_updatedAt row,
     ro_deletedAt = ur_deletedAt row\<rparr>"

definition to_user :: "user_row \<Rightarrow> role_row option \<Rightarrow> user" where
  "to_user row role = \<lparr>
     us_id = u_id row,
     us_email = u_email row,
     us_forgotConfirmKey = u_forgotConfirmKey row,
     us_emailConfirmKey = u_emailConfirmKey row,
     us_verified = coalesce (u_verified row) False,
     us_password = u_password row,
     us_name = u_name row,
     us_surname = u_surname row,
     us_middleName = u_middleName row,
     us_phone = u_phone row,
     us_role = map_option to_role role,
     us_roleId = u_roleId row,
     us_gender = coalesce (u_gender row) Male,
     us_birthday = u_birthday row,
     us_blocked = coalesce (u_blocked row) False,
     us_failedLoginAttempts = u_failedLoginAttempts row,
     us_failedLoginWindowStartedAt = u_failedLoginWindowStartedAt row,
     us_lockedUntil = u_lockedUntil row,
     us_tokenVersion = u_tokenVersion row,
     us_country = coalesce (u_country row) ''RU'',
     us_language = coalesce (u_language row) ''ru'',
     us_locale = coalesce (u_locale row) ''ru_RU'',
     us_theme = coalesce (u_theme row) Light,
     us_notificationChannels = u_notificationChannels row,
     us_createdAt = u_createdAt row,
     us_updatedAt = u_updatedAt row,
     us_deletedAt = u_deletedAt row\<rparr>"

text \<open>\<open>left join user_role\<close>: the primary key of \<open>user_role\<close> gives at most one role per user.\<close>

definition with_role :: "'x users_db_scheme \<Rightarrow> user_row \<Rightarrow> user" where
  "with_role d u = to_user u (find_row (\<lambda>r. ur_id r = u_roleId u) (roles d))"

record user_filter =
  uf_ids :: "ident list option"
  uf_email :: "string option"
  uf_roleId :: "string option"
  uf_blocked :: "bool option"
  uf_verified :: "bool option"
  uf_limit :: "int option"
  uf_offset :: "int option"
  uf_includeDeleted :: bool

definition no_filter :: user_filter where
  "no_filter = \<lparr>uf_ids = None, uf_email = None, uf_roleId = None, uf_blocked = None,
     uf_verified = None, uf_limit = None, uf_offset = None, uf_includeDeleted = False\<rparr>"

text \<open>A comparison with a null column is not true in SQL.\<close>

definition user_where :: "user_filter \<Rightarrow> user_row \<Rightarrow> bool" where
  "user_where f u = (
     (\<not> uf_includeDeleted f \<longrightarrow> u_deletedAt u = None)
   \<and> (truthy (uf_email f) \<longrightarrow> Some (u_email u) = uf_email f)
   \<and> (truthy (uf_roleId f) \<longrightarrow> Some (u_roleId u) = uf_roleId f)
   \<and> (case uf_ids f of Some (i # is) \<Rightarrow> u_id u \<in> set (i # is) | _ \<Rightarrow> True)
   \<and> (uf_blocked f \<noteq> None \<longrightarrow> u_blocked u = uf_blocked f)
   \<and> (uf_verified f \<noteq> None \<longrightarrow> u_verified u = uf_verified f))"

definition user_repo_find :: "user_filter \<Rightarrow> 'x users_db_scheme \<Rightarrow> user list \<times> int" where
  "user_repo_find f d = (let matching = filter (user_where f) (users d);
     rows = (case uf_limit f of Some l \<Rightarrow> sql_window l (coalesce (uf_offset f) 0) matching | None \<Rightarrow> matching)
   in (map (with_role d) rows, int (length matching)))"

definition user_repo_find_one :: "user_filter \<Rightarrow> bool \<Rightarrow> 'x users_db_scheme \<Rightarrow> user option" where
  "user_repo_find_one f include_deleted d = map_option (with_role d) (find_row (\<lambda>u.
     (\<not> include_deleted \<longrightarrow> u_deletedAt u = None)
   \<and> (truthy (uf_email f) \<longrightarrow> Some (u_email u) = uf_email f)
   \<and> (truthy (uf_roleId f) \<longrightarrow> Some (u_roleId u) = uf_roleId f)) (users d))"

definition user_repo_find_by_id :: "ident \<Rightarrow> 'x users_db_scheme \<Rightarrow> user option" where
  "user_repo_find_by_id i d = map_option (with_role d) (find_row (live_id i) (users d))"

definition user_repo_find_by_ids :: "ident list \<Rightarrow> 'x users_db_scheme \<Rightarrow> user list \<times> int" where
  "user_repo_find_by_ids is d = (let us = map (with_role d)
     (filter (\<lambda>u. u_id u \<in> set is \<and> u_deletedAt u = None) (users d)) in (us, int (length us)))"

definition user_repo_find_by_email :: "string \<Rightarrow> bool \<Rightarrow> 'x users_db_scheme \<Rightarrow> user option" where
  "user_repo_find_by_email email include_password d =
     (if include_password
      then map_option (with_role d) (find_row (live_email email) (users d))
      else map_option (\<lambda>u. with_role d (u\<lparr>u_password := None\<rparr>)) (find_row (live_email email) (users d)))"

definition user_repo_exists_by_email :: "string \<Rightarrow> 'x users_db_scheme \<Rightarrow> bool" where
  "user_repo_exists_by_email email d = some_row (live_email email) (users d)"

definition new_user_row :: "ident \<Rightarrow> int \<Rightarrow> new_user \<Rightarrow> user_row" where
  "new_user_row new_id now n = \<lparr>u_id = new_id, u_createdAt = now, u_updatedAt = now, u_deletedAt = None,
     u_email = nu_email n, u_forgotConfirmKey = nu_forgotConfirmKey n,
     u_emailConfirmKey = nu_emailConfirmKey n, u_verified = Some (nu_verified n),
     u_password = nu_password n, u_name = nu_name n, u_surname = nu_surname n,
     u_middleName = nu_middleName n, u_phone = nu_phone n, u_roleId = nu_roleId n,
     u_gender = Some (coalesce (nu_gender n) Male), u_birthday = nu_birthday n,
     u_blocked = Some (nu_blocked n), u_failedLoginAttempts = nu_failedLoginAttempts n,
     u_failedLoginWindowStartedAt = nu_failedLoginWindowStartedAt n,
     u_lockedUntil = nu_lockedUntil n, u_tokenVersion = nu_tokenVersion n,
     u_country = Some ''RU'', u_language = Some ''ru'', u_locale = Some ''ru_RU'',
     u_theme = Some Light, u_notificationChannels = None\<rparr>"

text \<open>The unique index on \<open>email\<close> also covers deleted rows.\<close>

definition user_repo_create ::
    "ident \<Rightarrow> int \<Rightarrow> new_user \<Rightarrow> ('x users_db_scheme, exn, user) comp" where
  "user_repo_create new_id now n d =
     (if some_row (\<lambda>u. u_email u = nu_email n \<or> u_id u = new_id) (users d)
      then (Inl (Pg_Exn ''23505''), d)
      else (let d' = d\<lparr>users := users d @ [new_user_row new_id now n]\<rparr> in
        (case user_repo_find_by_id new_id d' of
           None \<Rightarrow> (Inl (bad_request ''user.failedToSave''), d')
         | Some u \<Rightarrow> (Inr u, d'))))"

text \<open>\<open>UserUpdatePayload\<close>: \<open>None\<close> is an absent or undefined property, which drizzle leaves out of
  the \<open>SET\<close> clause; it refuses a clause without any column.\<close>

record user_update =
  uu_email :: "string option"
  uu_name :: "string option"
  uu_surname :: "string option"
  uu_middleName :: "string option"
  uu_phone :: "string option"
  uu_gender :: "gender option"
  uu_birthday :: "int option"
  uu_roleId :: "ident option"
  uu_blocked :: "bool option"
  uu_failedLoginAttempts :: "int option"
  uu_failedLoginWindowStartedAt :: "int option option"
  uu_lockedUntil :: "int option option"
  uu_theme :: "theme option"
  uu_notificationChannels :: "string list option"

definition empty_user_update :: user_update where
  "empty_user_update = \<lparr>uu_email = None, uu_name = None, uu_surname = None, uu_middleName = None,
     uu_phone = None, uu_gender = None, uu_birthday = None, uu_roleId = None, uu_blocked = None,
     uu_failedLoginAttempts = None, uu_failedLoginWindowStartedAt = None, uu_lockedUntil = None,
     uu_theme = None, uu_notificationChannels = None\<rparr>"

definition some_or :: "'a option \<Rightarrow> 'a option \<Rightarrow> 'a option" where
  "some_or x y = (case x of None \<Rightarrow> y | Some v \<Rightarrow> Some v)"

definition apply_user_update :: "user_update \<Rightarrow> user_row \<Rightarrow> user_row" where
  "apply_user_update p u = u\<lparr>
     u_email := coalesce (uu_email p) (u_email u),
     u_name := coalesce (uu_name p) (u_name u),
     u_surname := coalesce (uu_surname p) (u_surname u),
     u_middleName := some_or (uu_middleName p) (u_middleName u),
     u_phone := some_or (uu_phone p) (u_phone u),
     u_gender := some_or (uu_gender p) (u_gender u),
     u_birthday := some_or (uu_birthday p) (u_birthday u),
     u_roleId := coalesce (uu_roleId p) (u_roleId u),
     u_blocked := some_or (uu_blocked p) (u_blocked u),
     u_failedLoginAttempts := coalesce (uu_failedLoginAttempts p) (u_failedLoginAttempts u),
     u_failedLoginWindowStartedAt :=
       coalesce (uu_failedLoginWindowStartedAt p) (u_failedLoginWindowStartedAt u),
     u_lockedUntil := coalesce (uu_lockedUntil p) (u_lockedUntil u),
     u_theme := some_or (uu_theme p) (u_theme u),
     u_notificationChannels := some_or (uu_notificationChannels p) (u_notificationChannels u)\<rparr>"

definition user_repo_update ::
    "ident \<Rightarrow> user_update \<Rightarrow> ('x users_db_scheme, exn, unit) comp" where
  "user_repo_update i p d =
     (if p = empty_user_update then (Inl (Js_Exn ''No values to set''), d)
      else if \<not> some_row (\<lambda>u. u_id u = i) (users d) then (Inl (not_found ''user.notFound''), d)
      else if (case uu_email p of None \<Rightarrow> False
               | Some e \<Rightarrow> some_row (\<lambda>u. u_email u = e \<and> u_id u \<noteq> i) (users d))
      then (Inl (Pg_Exn ''23505''), d)
      else (Inr (), d\<lparr>users := update_rows (\<lambda>u. u_id u = i) (apply_user_update p) (users d)\<rparr>))"

definition user_repo_increment_token_version :: "ident \<Rightarrow> ('x users_db_scheme, exn, int) comp" where
  "user_repo_increment_token_version i d =
     (let d' = d\<lparr>users := update_rows (\<lambda>u. u_id u = i)
            (\<lambda>u. u\<lparr>u_tokenVersion := u_tokenVersion u + 1\<rparr>) (users d)\<rparr>
      in case find_row (\<lambda>u. u_id u = i) (users d') of
           None \<Rightarrow> (Inl (not_found ''user.notFound''), d')
         | Some row \<Rightarrow> (Inr (u_tokenVersion row), d'))"

text \<open>Soft delete; the result is the number of affected rows.\<close>

definition user_repo_delete :: "int \<Rightarrow> ident \<Rightarrow> ('x users_db_scheme, exn, nat) comp" where
  "user_repo_delete now i d = (Inr (count_rows (live_id i) (users d)),
     d\<lparr>users := update_rows (live_id i) (\<lambda>u. u\<lparr>u_deletedAt := Some now\<rparr>) (users d)\<rparr>)"

definition role_type_of_user :: "'x users_db_scheme \<Rightarrow> user_row \<Rightarrow> role_type option" where
  "role_type_of_user d u = map_option ur_type (find_row (\<lambda>r. ur_id r = u_roleId u) (roles d))"

definition user_repo_count_by_role_access :: "role_type \<Rightarrow> 'x users_db_scheme \<Rightarrow> nat" where
  "user_repo_count_by_role_access rt d =
     count_rows (\<lambda>u. role_type_of_user d u = Some rt \<and> u_deletedAt u = None) (users d)"

definition user_repo_find_id_with_role_type :: "role_type \<Rightarrow> 'x users_db_scheme \<Rightarrow> ident option" where
  "user_repo_find_id_with_role_type rt d = map_option u_id
     (find_row (\<lambda>u. role_type_of_user d u = Some rt \<and> u_deletedAt u = None) (users d))"

section \<open>The role repository\<close>

record role_filter =
  rf_ids :: "ident list option"
  rf_type :: "role_type option"
  rf_name :: "string option"
  rf_includeDeleted :: bool
  rf_limit :: "int option"
  rf_offset :: "int option"

definition no_role_filter :: role_filter where
  "no_role_filter = \<lparr>rf_ids = None, rf_type = None, rf_name = None, rf_includeDeleted = False,
     rf_limit = None, rf_offset = None\<rparr>"

definition role_where :: "role_filter \<Rightarrow> role_row \<Rightarrow> bool" where
  "role_where f r = (
     (\<not> rf_includeDeleted f \<longrightarrow> ur_deletedAt r = None)
   \<and> (rf_type f \<noteq> None \<longrightarrow> Some (ur_type r) = rf_type f)
   \<and> (truthy (rf_name f) \<longrightarrow> Some (ur_name r) = rf_name f)
   \<and> (case rf_ids f of Some (i # is) \<Rightarrow> ur_id r \<in> set (i # is) | _ \<Rightarrow> True))"

definition role_repo_find :: "role_filter \<Rightarrow> 'x users_db_scheme \<Rightarrow> user_role list \<times> int" where
  "role_repo_find f d = (let matching = filter (role_where f) (roles d);
     rows = (case rf_limit f of Some l \<Rightarrow> sql_window l (coalesce (rf_offset f) 0) matching | None \<Rightarrow> matching)
   in (map to_role rows, int (length matching)))"

definition role_repo_find_one :: "role_filter \<Rightarrow> 'x users_db_scheme \<Rightarrow> user_role option" where
  "role_repo_find_one f d = map_option to_role (find_row (role_where f) (roles d))"

definition live_role :: "ident \<Rightarrow> role_row \<Rightarrow> bool" where
  "live_role i r = (ur_id r = i \<and> ur_deletedAt r = None)"

definition role_repo_find_by_id :: "ident \<Rightarrow> 'x users_db_scheme \<Rightarrow> user_role option" where
  "role_repo_find_by_id i d = map_option to_role (find_row (live_role i) (roles d))"

text \<open>\<open>order by createdAt limit 1\<close>: the oldest live role of the type.\<close>

definition role_repo_find_by_type :: "role_type \<Rightarrow> 'x users_db_scheme \<Rightarrow> user_role option" where
  "role_repo_find_by_type rt d = (case sort_key ur_createdAt
       (filter (\<lambda>r. ur_type r = rt \<and> ur_deletedAt r = None) (roles d)) of
     [] \<Rightarrow> None | r # _ \<Rightarrow> Some (to_role r))"

definition role_repo_create ::
    "ident \<Rightarrow> int \<Rightarrow> string \<Rightarrow> string option \<Rightarrow> role_type \<Rightarrow> ('x users_db_scheme, exn, user_role) comp" where
  "role_repo_create new_id now name description rt d =
     (let row = \<lparr>ur_id = new_id, ur_createdAt = now, ur_updatedAt = now, ur_deletedAt = None,
        ur_name = name, ur_description = Some (coalesce description []), ur_type = rt\<rparr>
      in if some_row (\<lambda>r. ur_name r = name \<or> ur_id r = new_id) (roles d) then (Inl (Pg_Exn ''23505''), d)
         else (Inr (to_role row), d\<lparr>roles := roles d @ [row]\<rparr>))"

record role_update =
  rup_name :: "string option"
  rup_description :: "string option"
  rup_type :: "role_type option"

definition apply_role_update :: "int \<Rightarrow> role_update \<Rightarrow> role_row \<Rightarrow> role_row" where
  "apply_role_update now p r = r\<lparr>ur_name := coalesce (rup_name p) (ur_name r),
     ur_description := some_or (rup_description p) (ur_description r),
     ur_type := coalesce (rup_type p) (ur_type r), ur_updatedAt := now\<rparr>"

definition role_repo_update ::
    "int \<Rightarrow> ident \<Rightarrow> role_update \<Rightarrow> ('x users_db_scheme, exn, unit) comp" where
  "role_repo_update now i p d =
     (if \<not> some_row (live_role i) (roles d) then (Inl (not_found ''user.role.notFound''), d)
      else if (case rup_name p of None \<Rightarrow> False
               | Some n \<Rightarrow> some_row (\<lambda>r. ur_name r = n \<and> ur_id r \<noteq> i) (roles d))
      then (Inl (Pg_Exn ''23505''), d)
      else (Inr (), d\<lparr>roles := update_rows (live_role i) (apply_role_update now p) (roles d)\<rparr>))"

definition role_repo_delete :: "int \<Rightarrow> ident \<Rightarrow> ('x users_db_scheme, exn, nat) comp" where
  "role_repo_delete now i d =
     (if \<not> some_row (live_role i) (roles d) then (Inl (not_found ''user.role.notFound''), d)
      else (Inr (count_rows (live_role i) (roles d)),
        d\<lparr>roles := update_rows (live_role i) (\<lambda>r. r\<lparr>ur_deletedAt := Some now\<rparr>) (roles d)\<rparr>))"

end
