(* ===== verification/Token_Version.thy ===== *)
theory Token_Version
  imports Backend_Users Demo_World
begin

text \<open>
  \<open>auth-token-version.service.ts\<close>: the version number that revokes access tokens, kept in the
  database and cached in Redis, and \<open>jwt.strategy.ts\<close>, which checks it on every authenticated
  request.  Redis may fail on any call: \<open>redis_faults\<close> says which calls of one request fail.
\<close>

section \<open>The cache\<close>

definition KEY_PREFIX :: string where
  "KEY_PREFIX = ''auth:user''"

definition version_key :: "ident \<Rightarrow> string" where
  "version_key i = KEY_PREFIX @ '':'' @ i @ '':tokenVersion''"

record redis_faults =
  get_fails :: bool
  set_fails :: bool
  del_fails :: bool
  del_again_fails :: bool

definition redis_up :: redis_faults where
  "redis_up = \<lparr>get_fails = False, set_fails = False, del_fails = False, del_again_fails = False\<rparr>"

text \<open>\<open>Number(s)\<close> followed by \<open>Number.isInteger\<close>, for decimal text; the empty string is 0.  Other
  numeric notations of JavaScript, which the service never writes, give \<open>None\<close>.\<close>

definition is_digit :: "char \<Rightarrow> bool" where
  "is_digit c = (0 \<le> char_digit c \<and> char_digit c < 10)"

definition js_integer :: "string \<Rightarrow> int option" where
  "js_integer s = (case s of [] \<Rightarrow> Some 0
     | c # cs \<Rightarrow> if c = CHR ''-'' then (if cs \<noteq> [] \<and> list_all is_digit cs then Some (- read_pos cs) else None)
                else if list_all is_digit s then Some (read_pos s) else None)"

definition set_version :: "bool \<Rightarrow> ident \<Rightarrow> int \<Rightarrow> ('x backend_scheme, exn, unit) comp" where
  "set_version fails i version s =
     (if fails then (Inl (Js_Exn ''redis''), s)
      else (Inr (), s\<lparr>redis := (redis s)(version_key i \<mapsto> show_int version)\<rparr>))"

definition clear_cached_version :: "bool \<Rightarrow> ident \<Rightarrow> ('x backend_scheme, exn, unit) comp" where
  "clear_cached_version fails i s =
     (if fails then (Inr (), s) else (Inr (), s\<lparr>redis := (redis s)(version_key i := None)\<rparr>))"

definition restore_version_from_database ::
    "redis_faults \<Rightarrow> ident \<Rightarrow> ('x backend_scheme, exn, int) comp" where
  "restore_version_from_database fl i =
     andThen (fetch (user_repo_find_by_id i)) (\<lambda>found. case found of
       None \<Rightarrow> throw (unauthorized ''user.notFound'')
     | Some u \<Rightarrow> andThen (swallow (set_version (set_fails fl) i (us_tokenVersion u))) (\<lambda>_.
         ret (us_tokenVersion u)))"

definition cached_version :: "redis_faults \<Rightarrow> ident \<Rightarrow> 'x backend_scheme \<Rightarrow> int option" where
  "cached_version fl i s = (if get_fails fl then None
     else case redis s (version_key i) of None \<Rightarrow> None | Some cached \<Rightarrow> js_integer cached)"

definition get_current_version :: "redis_faults \<Rightarrow> ident \<Rightarrow> ('x backend_scheme, exn, int) comp" where
  "get_current_version fl i s = (case cached_version fl i s of
     Some parsed \<Rightarrow> (Inr parsed, s)
   | None \<Rightarrow> restore_version_from_database fl i s)"

definition bump_version :: "redis_faults \<Rightarrow> ident \<Rightarrow> ('x backend_scheme, exn, int) comp" where
  "bump_version fl i =
     andThen (clear_cached_version (del_fails fl) i) (\<lambda>_.
     andThen (user_repo_increment_token_version i) (\<lambda>version.
     andThen (\<lambda>s. case set_version (set_fails fl) i version s of
         (Inr _, s') \<Rightarrow> (Inr (), s')
       | (Inl _, s') \<Rightarrow> clear_cached_version (del_again_fails fl) i s') (\<lambda>_.
     ret version)))"

definition assert_current ::
    "redis_faults \<Rightarrow> ident \<Rightarrow> int option \<Rightarrow> ('x backend_scheme, exn, unit) comp" where
  "assert_current fl i token_version = (case token_version of
     None \<Rightarrow> throw (unauthorized ''user.auth.invalidJwtPayload'')
   | Some tv \<Rightarrow> andThen (get_current_version fl i) (\<lambda>current.
       if current \<noteq> tv then throw (unauthorized ''user.auth.tokenStale'') else ret ()))"

section \<open>The JWT strategy\<close>

record http_request =
  hr_method :: string
  hr_url :: string
  hr_headers :: "(string \<times> string) list"
  hr_cookies :: "(string \<times> string) list"
  hr_ip :: "string option"

text \<open>\<open>ExtractJwt.fromAuthHeaderAsBearerToken\<close> of passport-jwt: the word after the scheme
  \<open>bearer\<close>, compared without case.\<close>

definition ascii_lower :: "char \<Rightarrow> char" where
  "ascii_lower c = (let n = of_char c in if 65 \<le> n \<and> n \<le> 90 then char_of (n + 32 :: nat) else c)"

definition bearer_token :: "http_request \<Rightarrow> string option" where
  "bearer_token req = (case map_of (hr_headers req) ''authorization'' of
     None \<Rightarrow> None
   | Some h \<Rightarrow> if map ascii_lower (take 7 h) = ''bearer '' \<and> drop 7 h \<noteq> [] then Some (drop 7 h) else None)"

definition extract_from_cookie :: "string \<Rightarrow> http_request \<Rightarrow> string option" where
  "extract_from_cookie cookie_name req = (let c = map_of (hr_cookies req) cookie_name in
     if truthy c then c else None)"

definition jwt_extractor :: "string \<Rightarrow> http_request \<Rightarrow> string option" where
  "jwt_extractor cookie_name req = (case bearer_token req of
     Some t \<Rightarrow> Some t | None \<Rightarrow> extract_from_cookie cookie_name req)"

definition jwt_validate ::
    "redis_faults \<Rightarrow> jwt_claims \<Rightarrow> ('x backend_scheme, exn, validate_jwt) comp" where
  "jwt_validate fl c =
     (if \<not> truthy (c_sub c) \<or> \<not> truthy (c_rid c) \<or> \<not> truthy (c_rty c) \<or> \<not> truthy (c_lng c)
      then throw (unauthorized ''user.auth.invalidJwtPayload'')
      else andThen (assert_current fl (the (c_sub c)) (c_tv c)) (\<lambda>_.
        ret \<lparr>vj_userId = the (c_sub c), vj_roleId = the (c_rid c), vj_roleType = the (c_rty c),
          vj_language = the (c_lng c), vj_tokenVersion = c_tv c\<rparr>))"

text \<open>The guard \<open>AuthGuard('jwt')\<close>: extract, verify, validate.\<close>

definition jwt_authenticate ::
    "jwt_lib \<Rightarrow> token_config \<Rightarrow> string \<Rightarrow> redis_faults \<Rightarrow> int \<Rightarrow> http_request
      \<Rightarrow> ('x backend_scheme, exn, validate_jwt) comp" where
  "jwt_authenticate J cfg cookie_name fl now req = (case jwt_extractor cookie_name req of
     None \<Rightarrow> throw (unauthorized ''Unauthorized'')
   | Some t \<Rightarrow> (case jwt_verify J (access_secret cfg) (access_algorithm cfg) now t of
       None \<Rightarrow> throw (unauthorized ''Unauthorized'')
     | Some c \<Rightarrow> jwt_validate fl c))"

section \<open>Lemmas\<close>

lemma version_key_inj [simp]: "version_key i = version_key j \<longleftrightarrow> i = j"
  by (simp add: version_key_def)

lemma is_digit_digit_char [simp]: "0 \<le> d \<Longrightarrow> d < 10 \<Longrightarrow> is_digit (digit_char d)"
  by (simp add: is_digit_def)

lemma digits_decimal_rev: "0 \<le> n \<Longrightarrow> list_all is_digit (decimal_rev n)"
proof (induction n rule: decimal_rev.induct)
  case (1 n)
  then show ?case by (cases "n < 10") (simp_all add: decimal_rev.simps [of n])
qed

lemma digits_show_pos: "0 \<le> n \<Longrightarrow> list_all is_digit (show_pos n)"
  by (simp add: show_pos_def digits_decimal_rev)

lemma minus_not_digit: "\<not> is_digit CHR ''-''"
  by (simp add: is_digit_def char_digit_def)

lemma js_integer_show_int [simp]: "js_integer (show_int v) = Some v"
proof (cases "v < 0")
  case True
  then show ?thesis using digits_show_pos [of "- v"]
    by (simp add: js_integer_def show_int_def)
next
  case False
  then have d: "list_all is_digit (show_pos v)" by (simp add: digits_show_pos)
  obtain c cs where eq: "show_pos v = c # cs" by (cases "show_pos v") auto
  have "c \<noteq> CHR ''-''" using d eq minus_not_digit by auto
  then have "js_integer (show_pos v) = Some (read_pos (show_pos v))"
    using d unfolding js_integer_def eq by simp
  with False show ?thesis by (simp add: show_int_def)
qed

text \<open>The cache never disagrees with the database.\<close>

definition version_of :: "ident \<Rightarrow> 'x users_db_scheme \<Rightarrow> int option" where
  "version_of i d = map_option u_tokenVersion (find_row (\<lambda>u. u_id u = i) (users d))"

definition cache_coherent :: "ident \<Rightarrow> 'x backend_scheme \<Rightarrow> bool" where
  "cache_coherent i s = (\<forall>c. redis s (version_key i) = Some c \<longrightarrow> js_integer c = version_of i s)"

lemma find_live_id:
  assumes "distinct (map u_id us)" "find_row (live_id i) us = Some u"
  shows "find_row (\<lambda>u. u_id u = i) us = Some u"
  by (rule find_row_unique_key [OF assms(1)])
    (use find_row_SomeD [OF assms(2)] in \<open>auto simp: live_id_def\<close>)

lemma us_tokenVersion_with_role [simp]: "us_tokenVersion (with_role d u) = u_tokenVersion u"
  by (simp add: with_role_def to_user_def)

lemma restore_version:
  assumes "distinct (map u_id (users s))" "restore_version_from_database fl i s = (Inr v, s')"
  shows "version_of i s = Some v \<and> users s' = users s
    \<and> redis s' = (if set_fails fl then redis s else (redis s)(version_key i \<mapsto> show_int v))"
  using assms find_live_id [OF assms(1), of i]
  by (auto simp: restore_version_from_database_def andThen_def user_repo_find_by_id_def set_version_def
      version_of_def split: option.splits if_splits)

lemma restore_version_fails:
  assumes "restore_version_from_database fl i s = (Inl e, s')"
  shows "s' = s \<and> e = unauthorized ''user.notFound''"
  using assms by (auto simp: restore_version_from_database_def andThen_def split: option.splits)

lemma increment_version:
  assumes "find_row (\<lambda>u. u_id u = i) (users s) = Some u"
  shows "user_repo_increment_token_version i s = (Inr (u_tokenVersion u + 1),
    s\<lparr>users := update_rows (\<lambda>u. u_id u = i) (\<lambda>u. u\<lparr>u_tokenVersion := u_tokenVersion u + 1\<rparr>) (users s)\<rparr>)"
  using assms find_row_SomeD [OF assms]
  by (simp add: user_repo_increment_token_version_def Let_def find_row_update_same)

lemma version_of_increment:
  "version_of i (s\<lparr>users := update_rows (\<lambda>u. u_id u = j) (\<lambda>u. u\<lparr>u_tokenVersion := u_tokenVersion u + 1\<rparr>) (users s)\<rparr>)
   = map_option (\<lambda>v. if i = j then v + 1 else v) (version_of i s)"
  by (cases "find_row (\<lambda>u. u_id u = i) (users s)")
    (auto simp: version_of_def find_row_update_same dest: find_row_SomeD)

lemma version_of_redis [simp]: "version_of i (s\<lparr>redis := r\<rparr>) = version_of i s"
  by (simp add: version_of_def)

end
