(* ===== verification/User_Handlers.thy ===== *)
theory User_Handlers
  imports Token_Version
begin

text \<open>
  The command and query handlers of the users module that do not sign in or out, the mappers to DTOs
  and the checks of the user and role controllers.
\<close>

section \<open>DTOs\<close>

record role_dto =
  rd_id :: ident
  rd_name :: string
  rd_description :: "string option"
  rd_type :: role_type
  rd_createdAt :: int
  rd_updatedAt :: int

definition role_to_dto :: "user_role \<Rightarrow> role_dto" where
  "role_to_dto r = \<lparr>rd_id = ro_id r, rd_name = ro_name r, rd_description = ro_description r,
     rd_type = ro_type r, rd_createdAt = ro_createdAt r, rd_updatedAt = ro_updatedAt r\<rparr>"

datatype notification_channel = IN_APP | EMAIL | TELEGRAM | SMS

fun channel_str :: "notification_channel \<Rightarrow> string" where
  "channel_str IN_APP = ''in_app''"
| "channel_str EMAIL = ''email''"
| "channel_str TELEGRAM = ''telegram''"
| "channel_str SMS = ''sms''"

definition is_notification_channel :: "string \<Rightarrow> bool" where
  "is_notification_channel v = (v \<in> set (map channel_str [IN_APP, EMAIL, TELEGRAM, SMS]))"

record user_dto =
  ud_id :: ident
  ud_email :: string
  ud_name :: string
  ud_surname :: string
  ud_middleName :: "string option"
  ud_phone :: "string option"
  ud_gender :: gender
  ud_birthday :: "int option"
  ud_verified :: bool
  ud_blocked :: bool
  ud_country :: string
  ud_language :: string
  ud_locale :: string
  ud_theme :: theme
  ud_notificationChannels :: "string list option"
  ud_role :: "role_dto option"
  ud_createdAt :: int
  ud_updatedAt :: int

definition user_to_dto :: "user \<Rightarrow> user_dto" where
  "user_to_dto u = \<lparr>
     ud_id = us_id u,
     ud_email = us_email u,
     ud_name = us_name u,
     ud_surname = us_surname u,
     ud_middleName = us_middleName u,
     ud_phone = us_phone u,
     ud_gender = us_gender u,
     ud_birthday = us_birthday u,
     ud_verified = us_verified u,
     ud_blocked = us_blocked u,
     ud_country = us_country u,
     ud_language = us_language u,
     ud_locale = us_locale u,
     ud_theme = us_theme u,
     ud_notificationChannels = map_option (filter is_notification_channel) (us_notificationChannels u),
     ud_role = map_option role_to_dto (us_role u),
     ud_createdAt = us_createdAt u,
     ud_updatedAt = us_updatedAt u\<rparr>"

section \<open>Queries on users\<close>

definition or_not_found :: "string \<Rightarrow> 'a option \<Rightarrow> ('s, exn, 'a) comp" where
  "or_not_found key x = (case x of None \<Rightarrow> throw (not_found key) | Some y \<Rightarrow> ret y)"

definition user_get_by_id_handler :: "ident \<Rightarrow> ('x backend_scheme, exn, user_dto) comp" where
  "user_get_by_id_handler i = andThen (fetch (user_repo_find_by_id i)) (\<lambda>x.
     andThen (or_not_found ''user.notFound'' x) (\<lambda>u. ret (user_to_dto u)))"

definition user_get_by_email_handler :: "string \<Rightarrow> ('x backend_scheme, exn, user_dto) comp" where
  "user_get_by_email_handler e = andThen (fetch (user_repo_find_by_email e False)) (\<lambda>x.
     andThen (or_not_found ''user.notFound'' x) (\<lambda>u. ret (user_to_dto u)))"

definition user_get_handler :: "user_filter \<Rightarrow> bool \<Rightarrow> ('x backend_scheme, exn, user_dto) comp" where
  "user_get_handler f include_deleted = andThen (fetch (user_repo_find_one f include_deleted)) (\<lambda>x.
     andThen (or_not_found ''user.notFound'' x) (\<lambda>u. ret (user_to_dto u)))"

text \<open>\<open>{ ...query.filter, ...toSqlPagination(page, perPage) }\<close>; the controller's query has only the
  page and the page size.\<close>

definition users_get_handler ::
    "int option \<Rightarrow> int option \<Rightarrow> ('x backend_scheme, exn, user_dto paginated) comp" where
  "users_get_handler page per_page = (let p = coalesce page 1; pp = coalesce per_page 20;
     (limit, off) = to_sql_pagination p pp in
     andThen (fetch (user_repo_find (no_filter\<lparr>uf_limit := Some limit, uf_offset := Some off\<rparr>)))
       (\<lambda>(us, n). ret (build_paginated (map user_to_dto us) n p pp)))"

section \<open>Queries and commands on roles\<close>

definition role_get_by_id_handler :: "ident \<Rightarrow> ('x backend_scheme, exn, role_dto) comp" where
  "role_get_by_id_handler i = andThen (fetch (role_repo_find_by_id i)) (\<lambda>x.
     andThen (or_not_found ''user.role.notFound'' x) (\<lambda>r. ret (role_to_dto r)))"

definition roles_get_handler ::
    "int option \<Rightarrow> int option \<Rightarrow> ('x backend_scheme, exn, role_dto paginated) comp" where
  "roles_get_handler page per_page = (let p = coalesce page 1; pp = coalesce per_page 20;
     (limit, off) = to_sql_pagination p pp in
     andThen (fetch (role_repo_find (no_role_filter\<lparr>rf_limit := Some limit, rf_offset := Some off\<rparr>)))
       (\<lambda>(rs, n). ret (build_paginated (map role_to_dto rs) n p pp)))"

definition role_create_handler ::
    "ident \<Rightarrow> int \<Rightarrow> string \<Rightarrow> string option \<Rightarrow> role_type \<Rightarrow> ('x backend_scheme, exn, role_dto) comp" where
  "role_create_handler new_id now name description rt =
     andThen (role_repo_create new_id now name description rt) (\<lambda>r. ret (role_to_dto r))"

definition role_update_handler ::
    "int \<Rightarrow> ident \<Rightarrow> role_update \<Rightarrow> ('x backend_scheme, exn, role_dto) comp" where
  "role_update_handler now i p =
     andThen (role_repo_update now i p) (\<lambda>_.
     andThen (fetch (role_repo_find_by_id i)) (\<lambda>x.
     andThen (or_not_found ''user.role.notFound'' x) (\<lambda>r. ret (role_to_dto r))))"

definition role_delete_handler :: "int \<Rightarrow> ident \<Rightarrow> ('x backend_scheme, exn, string) comp" where
  "role_delete_handler now i = andThen (role_repo_delete now i) (\<lambda>affected.
     ret (if affected > 0 then ''OK'' else ''ERROR''))"

section \<open>Commands on users\<close>

definition user_create_handler ::
    "crypto \<Rightarrow> string \<Rightarrow> ident \<Rightarrow> int \<Rightarrow> create_user_body \<Rightarrow> ('x backend_scheme, exn, user_dto) comp" where
  "user_create_handler C salt new_id now b =
     andThen (fetch (user_repo_exists_by_email (cu_email b))) (\<lambda>exists.
     if exists then throw (bad_request ''user.email.alreadyExists'')
     else
       andThen (if cu_roleId b \<noteq> [] then andThen (role_get_by_id_handler (cu_roleId b)) (\<lambda>_. ret ()) else ret ()) (\<lambda>_.
       andThen (user_repo_create new_id now
         (user_create_entity b (hash_password C salt (cu_password b)) True)) (\<lambda>created.
       andThen (publish (User_Created (us_id created) (us_email created) (us_name created)
         (Some (us_surname created)))) (\<lambda>_.
       ret (user_to_dto created)))))"

definition user_delete_handler :: "int \<Rightarrow> ident \<Rightarrow> ('x backend_scheme, exn, string) comp" where
  "user_delete_handler now i = andThen (user_repo_delete now i) (\<lambda>affected.
     ret (if affected > 0 then ''OK'' else ''ERROR''))"

definition user_unlock_handler :: "ident \<Rightarrow> ('x backend_scheme, exn, bool) comp" where
  "user_unlock_handler i = andThen (fetch (user_repo_find_by_id i)) (\<lambda>x. case x of
     None \<Rightarrow> throw (not_found ''user.notFound'')
   | Some u \<Rightarrow> andThen (user_repo_update i (empty_user_update\<lparr>uu_blocked := Some False,
       uu_failedLoginAttempts := Some 0, uu_failedLoginWindowStartedAt := Some None,
       uu_lockedUntil := Some None\<rparr>)) (\<lambda>_. ret True))"

record update_user_body =
  ub_email :: "string option"
  ub_name :: "string option"
  ub_surname :: "string option"
  ub_middleName :: "string option"
  ub_phone :: "string option"
  ub_gender :: "gender option"
  ub_birthday :: "int option"
  ub_roleId :: "ident option"
  ub_blocked :: "bool option"

definition body_update :: "update_user_body \<Rightarrow> user_update" where
  "body_update b = empty_user_update\<lparr>uu_email := ub_email b, uu_name := ub_name b,
     uu_surname := ub_surname b, uu_middleName := ub_middleName b, uu_phone := ub_phone b,
     uu_gender := ub_gender b, uu_birthday := ub_birthday b, uu_roleId := ub_roleId b,
     uu_blocked := ub_blocked b\<rparr>"

definition should_invalidate_access_tokens :: "ident \<Rightarrow> bool \<Rightarrow> update_user_body \<Rightarrow> bool" where
  "should_invalidate_access_tokens previous_role previous_blocked b =
     ((ub_roleId b \<noteq> None \<and> ub_roleId b \<noteq> Some previous_role)
    \<or> (ub_blocked b \<noteq> None \<and> ub_blocked b \<noteq> Some previous_blocked))"

definition user_update_handler ::
    "redis_faults \<Rightarrow> ident \<Rightarrow> update_user_body \<Rightarrow> ('x backend_scheme, exn, user_dto) comp" where
  "user_update_handler fl i b = andThen (fetch (user_repo_find_by_id i)) (\<lambda>x. case x of
     None \<Rightarrow> throw (not_found ''user.notFound'')
   | Some previous \<Rightarrow>
       andThen (user_repo_update i (body_update b)) (\<lambda>_.
       andThen (if should_invalidate_access_tokens (us_roleId previous) (us_blocked previous) b
                then andThen (bump_version fl i) (\<lambda>_. ret ()) else ret ()) (\<lambda>_.
       andThen (fetch (user_repo_find_by_id i)) (\<lambda>y.
       andThen (or_not_found ''user.notFound'' y) (\<lambda>u. ret (user_to_dto u))))))"

definition user_update_theme_handler :: "ident \<Rightarrow> theme \<Rightarrow> ('x backend_scheme, exn, user_dto) comp" where
  "user_update_theme_handler i t =
     andThen (user_repo_update i (empty_user_update\<lparr>uu_theme := Some t\<rparr>)) (\<lambda>_.
     andThen (fetch (user_repo_find_by_id i)) (\<lambda>x.
     andThen (or_not_found ''user.notFound'' x) (\<lambda>u. ret (user_to_dto u))))"

definition user_update_channels_handler ::
    "ident \<Rightarrow> string list \<Rightarrow> ('x backend_scheme, exn, unit) comp" where
  "user_update_channels_handler i channels =
     user_repo_update i (empty_user_update\<lparr>uu_notificationChannels := Some channels\<rparr>)"

section \<open>Controllers\<close>

definition user_get_by_id_endpoint ::
    "ident \<Rightarrow> ident \<Rightarrow> role_type \<Rightarrow> ('x backend_scheme, exn, user_dto) comp" where
  "user_get_by_id_endpoint i current_user rt =
     (if i \<noteq> current_user \<and> rt \<noteq> ADMIN \<and> rt \<noteq> MANAGER then throw (forbidden ''common.auth.forbidden'')
      else user_get_by_id_handler i)"

definition user_delete_endpoint :: "int \<Rightarrow> ident \<Rightarrow> ('x backend_scheme, exn, bool) comp" where
  "user_delete_endpoint now i = andThen (user_delete_handler now i) (\<lambda>r. ret (r = ''OK''))"

definition get_notification_preferences_endpoint :: "ident \<Rightarrow> ('x backend_scheme, exn, string list) comp" where
  "get_notification_preferences_endpoint i =
     andThen (user_get_by_id_handler i) (\<lambda>u. ret (coalesce (ud_notificationChannels u) []))"

definition update_notification_preferences_endpoint ::
    "ident \<Rightarrow> string list \<Rightarrow> ('x backend_scheme, exn, string list) comp" where
  "update_notification_preferences_endpoint i channels =
     andThen (user_update_channels_handler i channels) (\<lambda>_. ret channels)"

definition user_roles_endpoint :: "('x backend_scheme, exn, role_dto paginated) comp" where
  "user_roles_endpoint = roles_get_handler None None"

definition user_role_delete_endpoint :: "int \<Rightarrow> ident \<Rightarrow> ('x backend_scheme, exn, bool) comp" where
  "user_role_delete_endpoint now i = andThen (role_delete_handler now i) (\<lambda>r. ret (r = ''OK''))"

end
