(* ===== verification/Mail_Service.thy ===== *)
theory Mail_Service
  imports Token_Issuer
begin

text \<open>
  The mail module of the backend: the entities \<open>mail.entity.ts\<close> and \<open>template.entity.ts\<close>, their
  drizzle repositories, \<open>mail.service.ts\<close> with the queue processor, the command, query and event
  handlers and the seeding of templates.  Handlebars and the SMTP transport are the fields of
  \<open>mail_env\<close>; BullMQ is the list of waiting jobs.
\<close>

section \<open>Entities\<close>

record mail =
  ma_id :: ident
  ma_to :: string
  ma_subject :: string
  ma_template :: mail_template_type
  ma_context :: "(string \<times> json) list"
  ma_status :: mail_status
  ma_attempts :: int
  ma_createdAt :: int
  ma_sentAt :: "int option"
  ma_errorMessage :: "string option"

record new_mail =
  nm_to :: string
  nm_subject :: string
  nm_template :: mail_template_type
  nm_context :: "(string \<times> json) list"
  nm_status :: mail_status
  nm_attempts :: int

definition mail_create ::
    "string \<Rightarrow> string \<Rightarrow> mail_template_type \<Rightarrow> (string \<times> json) list \<Rightarrow> new_mail" where
  "mail_create to subject template ctx = \<lparr>nm_to = to, nm_subject = subject, nm_template = template,
     nm_context = ctx, nm_status = Mail_Pending, nm_attempts = 0\<rparr>"

definition mark_as_sent :: "int \<Rightarrow> mail \<Rightarrow> mail" where
  "mark_as_sent now m = m\<lparr>ma_status := Mail_Sent, ma_sentAt := Some now\<rparr>"

definition mark_as_failed :: "string \<Rightarrow> mail \<Rightarrow> mail" where
  "mark_as_failed message m = m\<lparr>ma_status := Mail_Failed, ma_attempts := ma_attempts m + 1,
     ma_errorMessage := Some message\<rparr>"

definition can_retry :: "mail \<Rightarrow> bool" where
  "can_retry m = (ma_status m = Mail_Failed \<and> ma_attempts m < 5)"

definition mark_for_retry :: "mail \<Rightarrow> mail" where
  "mark_for_retry m = m\<lparr>ma_status := Mail_Pending\<rparr>"

record mail_template =
  te_id :: ident
  te_name :: mail_template_type
  te_subject :: string
  te_content :: "string option"
  te_isActive :: bool
  te_createdAt :: int
  te_updatedAt :: int

record template_update =
  tu_subject :: "string option"
  tu_content :: "string option"
  tu_isActive :: "bool option"

definition template_entity_update :: "int \<Rightarrow> template_update \<Rightarrow> mail_template \<Rightarrow> mail_template" where
  "template_entity_update now p t = t\<lparr>te_subject := coalesce (tu_subject p) (te_subject t),
     te_content := (case tu_content p of None \<Rightarrow> te_content t | Some c \<Rightarrow> Some c),
     te_isActive := coalesce (tu_isActive p) (te_isActive t), te_updatedAt := now\<rparr>"

definition template_deactivate :: "int \<Rightarrow> mail_template \<Rightarrow> mail_template" where
  "template_deactivate now t = t\<lparr>te_isActive := False, te_updatedAt := now\<rparr>"

definition template_activate :: "int \<Rightarrow> mail_template \<Rightarrow> mail_template" where
  "template_activate now t = t\<lparr>te_isActive := True, te_updatedAt := now\<rparr>"

section \<open>The template repository\<close>

definition to_template :: "mail_template_row \<Rightarrow> mail_template" where
  "to_template row = \<lparr>te_id = mt_id row, te_name = mt_name row, te_subject = mt_subject row,
     te_content = mt_content row, te_isActive = coalesce (mt_isActive row) True,
     te_createdAt = mt_createdAt row, te_updatedAt = mt_updatedAt row\<rparr>"

definition template_repo_count :: "'x app_db_scheme \<Rightarrow> nat" where
  "template_repo_count d = count_rows (\<lambda>t. mt_deletedAt t = None) (mail_templates d)"

text \<open>The unique index on the name also covers deleted templates.\<close>

definition template_repo_create :: "ident \<Rightarrow> int \<Rightarrow> mail_template_type \<Rightarrow> string \<Rightarrow> string option \<Rightarrow> bool option
    \<Rightarrow> ('x app_db_scheme, exn, mail_template) comp" where
  "template_repo_create new_id now name subject content active d =
     (let row = \<lparr>mt_id = new_id, mt_createdAt = now, mt_updatedAt = now, mt_deletedAt = None,
        mt_name = name, mt_subject = subject, mt_content = content,
        mt_isActive = Some (coalesce active True)\<rparr>
      in if some_row (\<lambda>t. mt_name t = name \<or> mt_id t = new_id) (mail_templates d)
         then (Inl (Pg_Exn ''23505''), d)
         else (Inr (to_template row), d\<lparr>mail_templates := mail_templates d @ [row]\<rparr>))"

definition live_template_id :: "ident \<Rightarrow> mail_template_row \<Rightarrow> bool" where
  "live_template_id i t = (mt_id t = i \<and> mt_deletedAt t = None)"

definition live_template_name :: "mail_template_type \<Rightarrow> mail_template_row \<Rightarrow> bool" where
  "live_template_name n t = (mt_name t = n \<and> mt_deletedAt t = None)"

definition template_repo_find_by_id :: "ident \<Rightarrow> 'x app_db_scheme \<Rightarrow> mail_template option" where
  "template_repo_find_by_id i d = map_option to_template (find_row (live_template_id i) (mail_templates d))"

definition template_repo_find_by_name :: "mail_template_type \<Rightarrow> 'x app_db_scheme \<Rightarrow> mail_template option" where
  "template_repo_find_by_name n d = map_option to_template (find_row (live_template_name n) (mail_templates d))"

definition template_repo_find_all :: "'x app_db_scheme \<Rightarrow> mail_template list" where
  "template_repo_find_all d = map to_template (filter (\<lambda>t. mt_deletedAt t = None) (mail_templates d))"

definition template_repo_find_active :: "'x app_db_scheme \<Rightarrow> mail_template list" where
  "template_repo_find_active d = map to_template
     (filter (\<lambda>t. mt_isActive t = Some True \<and> mt_deletedAt t = None) (mail_templates d))"

definition apply_template_update :: "int \<Rightarrow> template_update \<Rightarrow> mail_template_row \<Rightarrow> mail_template_row" where
  "apply_template_update now p t = t\<lparr>mt_subject := coalesce (tu_subject p) (mt_subject t),
     mt_content := (case tu_content p of None \<Rightarrow> mt_content t | Some c \<Rightarrow> Some c),
     mt_isActive := (case tu_isActive p of None \<Rightarrow> mt_isActive t | Some b \<Rightarrow> Some b), mt_updatedAt := now\<rparr>"

definition template_repo_update ::
    "int \<Rightarrow> ident \<Rightarrow> template_update \<Rightarrow> ('x app_db_scheme, exn, mail_template) comp" where
  "template_repo_update now i p d =
     (let d' = d\<lparr>mail_templates := update_rows (live_template_id i) (apply_template_update now p) (mail_templates d)\<rparr>
      in case template_repo_find_by_id i d' of
           None \<Rightarrow> (Inl (Js_Exn ''mail.templateNotFound''), d')
         | Some t \<Rightarrow> (Inr t, d'))"

definition template_repo_delete :: "int \<Rightarrow> ident \<Rightarrow> ('x app_db_scheme, exn, unit) comp" where
  "template_repo_delete now i = modify (\<lambda>d. d\<lparr>mail_templates := update_rows (\<lambda>t. mt_id t = i)
     (\<lambda>t. t\<lparr>mt_deletedAt := Some now, mt_updatedAt := now\<rparr>) (mail_templates d)\<rparr>)"

section \<open>The mail repository\<close>

definition to_mail :: "mail_row \<Rightarrow> mail_template_row \<Rightarrow> mail" where
  "to_mail row template = \<lparr>ma_id = m_id row, ma_to = m_to row, ma_subject = m_subject row,
     ma_template = mt_name template, ma_context = m_variables row,
     ma_status = coalesce (m_status row) Mail_Pending, ma_attempts = coalesce (m_attempts row) 0,
     ma_createdAt = m_createdAt row, ma_sentAt = m_sentAt row, ma_errorMessage = m_errorMessage row\<rparr>"

definition mail_repo_create :: "ident \<Rightarrow> int \<Rightarrow> new_mail \<Rightarrow> ('x app_db_scheme, exn, mail) comp" where
  "mail_repo_create new_id now n d = (case find_row (live_template_name (nm_template n)) (mail_templates d) of
     None \<Rightarrow> (Inl (bad_request ''mail.templateNotFound''), d)
   | Some template \<Rightarrow> (let row = \<lparr>m_id = new_id, m_createdAt = now, m_updatedAt = now, m_deletedAt = None,
         m_to = nm_to n, m_subject = nm_subject n, m_templateId = mt_id template,
         m_status = Some (nm_status n), m_variables = nm_context n, m_attempts = Some (nm_attempts n),
         m_errorMessage = None, m_sentAt = None\<rparr>
       in (Inr (to_mail row template), d\<lparr>mails := mails d @ [row]\<rparr>)))"

text \<open>\<open>inner join mail_template on mail.templateId = mail_template.id\<close>.\<close>

definition template_of :: "'x app_db_scheme \<Rightarrow> mail_row \<Rightarrow> mail_template_row option" where
  "template_of d m = find_row (\<lambda>t. mt_id t = m_templateId m) (mail_templates d)"

definition mail_repo_find_by_id :: "ident \<Rightarrow> 'x app_db_scheme \<Rightarrow> mail option" where
  "mail_repo_find_by_id i d = (case find_row (\<lambda>m. m_id m = i \<and> m_deletedAt m = None
       \<and> template_of d m \<noteq> None) (mails d) of
     None \<Rightarrow> None | Some m \<Rightarrow> map_option (to_mail m) (template_of d m))"

definition mail_repo_find_by_status :: "mail_status \<Rightarrow> 'x app_db_scheme \<Rightarrow> mail list" where
  "mail_repo_find_by_status st d = map (\<lambda>m. to_mail m (the (template_of d m)))
     (filter (\<lambda>m. m_status m = Some st \<and> m_deletedAt m = None \<and> template_of d m \<noteq> None) (mails d))"

record mail_update =
  mu_status :: "mail_status option"
  mu_attempts :: "int option"
  mu_sentAt :: "int option"
  mu_errorMessage :: "string option"
  mu_context :: "(string \<times> json) list option"

definition no_mail_update :: mail_update where
  "no_mail_update = \<lparr>mu_status = None, mu_attempts = None, mu_sentAt = None, mu_errorMessage = None,
     mu_context = None\<rparr>"

definition keep_or :: "'a option \<Rightarrow> 'a option \<Rightarrow> 'a option" where
  "keep_or p old = (case p of None \<Rightarrow> old | Some v \<Rightarrow> Some v)"

definition apply_mail_update :: "int \<Rightarrow> mail_update \<Rightarrow> mail_row \<Rightarrow> mail_row" where
  "apply_mail_update now p m = m\<lparr>m_status := keep_or (mu_status p) (m_status m),
     m_attempts := keep_or (mu_attempts p) (m_attempts m), m_sentAt := keep_or (mu_sentAt p) (m_sentAt m),
     m_errorMessage := keep_or (mu_errorMessage p) (m_errorMessage m),
     m_variables := coalesce (mu_context p) (m_variables m), m_updatedAt := now\<rparr>"

definition mail_repo_update :: "int \<Rightarrow> ident \<Rightarrow> mail_update \<Rightarrow> ('x app_db_scheme, exn, mail) comp" where
  "mail_repo_update now i p d =
     (let d' = d\<lparr>mails := update_rows (\<lambda>m. m_id m = i) (apply_mail_update now p) (mails d)\<rparr>
      in case mail_repo_find_by_id i d' of
           None \<Rightarrow> (Inl (Js_Exn ''mail.notFound''), d') | Some m \<Rightarrow> (Inr m, d'))"

definition mail_repo_delete :: "int \<Rightarrow> ident \<Rightarrow> ('x app_db_scheme, exn, unit) comp" where
  "mail_repo_delete now i = modify (\<lambda>d. d\<lparr>mails := update_rows (\<lambda>m. m_id m = i)
     (\<lambda>m. m\<lparr>m_deletedAt := Some now, m_updatedAt := now\<rparr>) (mails d)\<rparr>)"

section \<open>The mail service\<close>

text \<open>
  \<open>me_file\<close> is \<open>readFileSync\<close> of a template file, \<open>me_render\<close> is \<open>Handlebars.compile\<close> followed by
  the compiled function, \<open>me_send\<close> is the transport; the last two give an error message when they throw.
\<close>

record mail_env =
  me_file :: "string \<Rightarrow> string option"
  me_render :: "string \<Rightarrow> (string \<times> json) list \<Rightarrow> string + string"
  me_send :: "sent_mail \<Rightarrow> string option"

definition add_to_queue :: "mail \<Rightarrow> ('x app_db_scheme, exn, unit) comp" where
  "add_to_queue m = modify (\<lambda>d. d\<lparr>mail_queue := mail_queue d @ [\<lparr>mj_mailId = ma_id m, mj_to = ma_to m,
     mj_subject = ma_subject m, mj_template = ma_template m, mj_context = ma_context m\<rparr>]\<rparr>)"

definition template_content :: "mail_env \<Rightarrow> mail_template_type \<Rightarrow> mail_template \<Rightarrow> exn + string" where
  "template_content E name t = (if truthy (te_content t) then Inr (the (te_content t))
     else (case me_file E (mail_template_type_str name @ ''.hbs'') of
        None \<Rightarrow> Inl (Js_Exn ''mail.templateFileNotFound'') | Some content \<Rightarrow> Inr content))"

definition deliver :: "mail_env \<Rightarrow> sent_mail \<Rightarrow> ('x app_db_scheme, exn, unit) comp" where
  "deliver E m d = (case me_send E m of
     Some message \<Rightarrow> (Inl (Js_Exn message), d) | None \<Rightarrow> (Inr (), d\<lparr>outbox := outbox d @ [m]\<rparr>))"

definition render :: "mail_env \<Rightarrow> string \<Rightarrow> (string \<times> json) list \<Rightarrow> exn + string" where
  "render E content ctx = (case me_render E content ctx of Inl message \<Rightarrow> Inl (Js_Exn message) | Inr html \<Rightarrow> Inr html)"

definition send_attempt :: "mail_env \<Rightarrow> int \<Rightarrow> mail_job \<Rightarrow> ('x app_db_scheme, exn, unit) comp" where
  "send_attempt E now j = andThen (fetch (template_repo_find_by_name (mj_template j))) (\<lambda>found. case found of
     None \<Rightarrow> throw (Js_Exn ''mail.templateNotFound'')
   | Some t \<Rightarrow>
       if \<not> te_isActive t then throw (Js_Exn ''mail.templateInactive'')
       else
         andThen (lift (template_content E (mj_template j) t)) (\<lambda>content.
         andThen (lift (render E content (mj_context j))) (\<lambda>html.
         andThen (deliver E \<lparr>sm_to = mj_to j, sm_subject = or_else (Some (mj_subject j)) (te_subject t), sm_html = html\<rparr>) (\<lambda>_.
         andThen (mail_repo_update now (mj_mailId j) (no_mail_update\<lparr>mu_status := Some Mail_Sent,
           mu_sentAt := Some now\<rparr>)) (\<lambda>_. ret ())))))"

definition error_message :: "exn \<Rightarrow> string" where
  "error_message e = (case e of Http_Exn _ key _ \<Rightarrow> key | Js_Exn message \<Rightarrow> message | Pg_Exn code \<Rightarrow> code)"

definition send_mail :: "mail_env \<Rightarrow> int \<Rightarrow> mail_job \<Rightarrow> ('x app_db_scheme, exn, unit) comp" where
  "send_mail E now j d = (case send_attempt E now j d of
     (Inr _, d') \<Rightarrow> (Inr (), d')
   | (Inl e, d') \<Rightarrow> andThen (fetch (mail_repo_find_by_id (mj_mailId j))) (\<lambda>m.
       andThen (mail_repo_update now (mj_mailId j) (no_mail_update\<lparr>mu_status := Some Mail_Failed,
         mu_attempts := Some ((case m of None \<Rightarrow> 0 | Some m \<Rightarrow> ma_attempts m) + 1),
         mu_errorMessage := Some (error_message e)\<rparr>)) (\<lambda>_. throw e)) d')"

text \<open>The worker of the queue: a job is attempted once, and BullMQ removes it either way.\<close>

definition mail_processor :: "mail_env \<Rightarrow> int \<Rightarrow> nat \<Rightarrow> 'x app_db_scheme \<Rightarrow> 'x app_db_scheme" where
  "mail_processor E now k d = (if k < length (mail_queue d)
     then snd (send_mail E now (mail_queue d ! k)
       (d\<lparr>mail_queue := take k (mail_queue d) @ drop (Suc k) (mail_queue d)\<rparr>)) else d)"

text \<open>\<open>chunkArray\<close>; with a chunk size of 0 the source would not return.\<close>

function chunk_array :: "nat \<Rightarrow> 'a list \<Rightarrow> 'a list list" where
  "chunk_array k xs = (if xs = [] \<or> k = 0 then [] else take k xs # chunk_array k (drop k xs))"
  by auto
termination chunk_array
  by (relation "measure (length \<circ> snd)") auto

declare chunk_array.simps [simp del]

definition job_of :: "mail \<Rightarrow> mail_job" where
  "job_of m = \<lparr>mj_mailId = ma_id m, mj_to = ma_to m, mj_subject = ma_subject m,
     mj_template = ma_template m, mj_context = ma_context m\<rparr>"

definition send_all :: "mail_env \<Rightarrow> int \<Rightarrow> mail list \<Rightarrow> 'x app_db_scheme \<Rightarrow> 'x app_db_scheme" where
  "send_all E now ms d = fold (\<lambda>m d. snd (send_mail E now (job_of m) d)) ms d"

text \<open>The mails of a chunk are sent concurrently and their failures are logged; here in order.\<close>

definition process_queue :: "mail_env \<Rightarrow> int \<Rightarrow> nat \<Rightarrow> nat \<Rightarrow> 'x app_db_scheme \<Rightarrow> 'x app_db_scheme" where
  "process_queue E now concurrency batch_size d =
     fold (\<lambda>batch d. fold (\<lambda>chunk d. send_all E now chunk d) (chunk_array concurrency batch) d)
       (chunk_array batch_size (mail_repo_find_by_status Mail_Pending d)) d"

section \<open>Handlers\<close>

definition send_mail_handler :: "ident \<Rightarrow> int \<Rightarrow> string \<Rightarrow> string \<Rightarrow> mail_template_type \<Rightarrow> (string \<times> json) list
    \<Rightarrow> ('x app_db_scheme, exn, ident) comp" where
  "send_mail_handler new_id now to subject template ctx =
     (if to = [] \<or> subject = [] then throw (bad_request ''mail.sendRequiredFields'')
      else andThen (mail_repo_create new_id now (mail_create to subject template ctx)) (\<lambda>saved.
           andThen (add_to_queue saved) (\<lambda>_. ret (ma_id saved))))"

fun retry_mails :: "int \<Rightarrow> mail list \<Rightarrow> ('x app_db_scheme, exn, unit) comp" where
  "retry_mails now [] = ret ()"
| "retry_mails now (m # ms) =
     andThen (mail_repo_update now (ma_id m) (no_mail_update\<lparr>mu_status := Some Mail_Pending\<rparr>)) (\<lambda>_.
     andThen (add_to_queue m) (\<lambda>_. retry_mails now ms))"

definition retry_failed_mails_handler :: "int \<Rightarrow> ('x app_db_scheme, exn, nat) comp" where
  "retry_failed_mails_handler now = andThen (fetch (mail_repo_find_by_status Mail_Failed)) (\<lambda>failed.
     let retryable = filter can_retry failed in
     andThen (retry_mails now retryable) (\<lambda>_. ret (length retryable)))"

definition get_mail_status_handler :: "ident \<Rightarrow> ('x app_db_scheme, exn, mail) comp" where
  "get_mail_status_handler i = andThen (fetch (mail_repo_find_by_id i)) (\<lambda>m. case m of
     None \<Rightarrow> throw (not_found ''mail.notFound'') | Some m \<Rightarrow> ret m)"

definition get_mails_by_status_handler :: "mail_status \<Rightarrow> ('x app_db_scheme, exn, mail list) comp" where
  "get_mails_by_status_handler st = fetch (mail_repo_find_by_status st)"

definition create_template_handler :: "ident \<Rightarrow> int \<Rightarrow> mail_template_type \<Rightarrow> string \<Rightarrow> string \<Rightarrow> bool option
    \<Rightarrow> ('x app_db_scheme, exn, ident) comp" where
  "create_template_handler new_id now name subject content active =
     andThen (template_repo_create new_id now name subject (Some content) active) (\<lambda>t. ret (te_id t))"

definition update_template_handler ::
    "int \<Rightarrow> ident \<Rightarrow> template_update \<Rightarrow> ('x app_db_scheme, exn, ident) comp" where
  "update_template_handler now i p = andThen (template_repo_update now i p) (\<lambda>t. ret (te_id t))"

definition delete_template_handler :: "int \<Rightarrow> ident \<Rightarrow> ('x app_db_scheme, exn, unit) comp" where
  "delete_template_handler now i = template_repo_delete now i"

text \<open>\<open>app_name\<close>, \<open>frontend\<close> and \<open>year\<close> are the configuration and the clock.\<close>

definition user_created_email_handler :: "ident \<Rightarrow> int \<Rightarrow> string \<Rightarrow> string \<Rightarrow> int \<Rightarrow> string \<Rightarrow> string \<Rightarrow> string option
    \<Rightarrow> ('x app_db_scheme, exn, unit) comp" where
  "user_created_email_handler new_id now app_name frontend year email name surname =
     (let full_name = (if truthy surname then name @ '' '' @ the surname else name) in
      swallow (andThen (mail_repo_create new_id now (mail_create email (''Welcome to '' @ app_name @ ''!'') Welcome
          [(''userName'', J_Str full_name), (''appName'', J_Str app_name), (''loginUrl'', J_Str frontend),
           (''year'', J_Num year)])) (\<lambda>saved. add_to_queue saved)))"

section \<open>Seeding\<close>

definition seed_templates :: "(mail_template_type \<times> string) list" where
  "seed_templates = [
     (Welcome, ''Welcome to {{appName}}!''),
     (Reset_Password, ''Reset your password - {{appName}}''),
     (Contact_Form, ''New contact form submission - {{appName}}''),
     (Magic_Link_Login, ''Your magic login link - {{appName}}''),
     (OAuth_First_Login, ''Welcome to {{appName}}!''),
     (OAuth_Account_Linked, ''OAuth account linked - {{appName}}''),
     (Notification_Template, ''{{title}}'')]"

fun seed_template_list :: "(mail_template_type \<Rightarrow> ident) \<Rightarrow> int \<Rightarrow> (mail_template_type \<times> string) list
    \<Rightarrow> ('x app_db_scheme, exn, unit) comp" where
  "seed_template_list ids now [] = ret ()"
| "seed_template_list ids now ((name, subject) # rest) =
     andThen (fetch (template_repo_find_by_name name)) (\<lambda>found.
     andThen (case found of Some _ \<Rightarrow> ret ()
       | None \<Rightarrow> andThen (template_repo_create (ids name) now name subject None (Some True)) (\<lambda>_. ret ())) (\<lambda>_.
     seed_template_list ids now rest))"

definition template_seed :: "(mail_template_type \<Rightarrow> ident) \<Rightarrow> int \<Rightarrow> ('x app_db_scheme, exn, unit) comp" where
  "template_seed ids now = seed_template_list ids now seed_templates"

text \<open>The files of \<open>src/options/templates\<close>.\<close>

definition template_files :: "string list" where
  "template_files = [''notification.hbs'', ''welcome.hbs'']"

end
