(* ===== verification/Backend_Auth.thy ===== *)
theory Backend_Auth
  imports User_Handlers Mail_Service Account_Handlers
begin

text \<open>
  Authentication over HTTP: \<open>auth-cookies.helper.ts\<close>, the port \<open>AuthGatewayPort\<close> with its gRPC
  adapter, the command handlers that call it, \<open>auth.controller.ts\<close>, \<open>csrf.guard.ts\<close>, the magic link
  tokens and the reset of a password by an administrator.
\<close>

section \<open>Configuration\<close>

datatype auth_mode = COOKIES_ONLY | RESPONSE_ONLY | HYBRID

record cookie_config =
  cc_name :: "string option"
  cc_httpOnly :: "bool option"
  cc_secure :: "bool option"
  cc_sameSite :: "string option"
  cc_maxAge :: "int option"

record backend_config =
  bc_mode :: "auth_mode option"
  bc_access :: cookie_config
  bc_refresh :: cookie_config
  bc_csrf :: cookie_config
  bc_csrf_enabled :: "bool option"
  bc_magic_ttl :: "int option"
  bc_magic_baseUrl :: "string option"
  bc_host_origin :: "string option"

definition mode_of :: "backend_config \<Rightarrow> auth_mode" where
  "mode_of cfg = coalesce (bc_mode cfg) HYBRID"

definition csrf_enabled :: "backend_config \<Rightarrow> bool" where
  "csrf_enabled cfg = coalesce (bc_csrf_enabled cfg) False"

definition access_cookie_name :: "backend_config \<Rightarrow> string" where
  "access_cookie_name cfg = coalesce (cc_name (bc_access cfg)) ''accessToken''"

definition refresh_cookie_name :: "backend_config \<Rightarrow> string" where
  "refresh_cookie_name cfg = coalesce (cc_name (bc_refresh cfg)) ''refreshToken''"

definition csrf_cookie_name :: "backend_config \<Rightarrow> string" where
  "csrf_cookie_name cfg = coalesce (cc_name (bc_csrf cfg)) ''csrf-token''"

text \<open>\<open>configService.getOrThrow\<close>.\<close>

definition get_or_throw :: "string \<Rightarrow> 'a option \<Rightarrow> ('s, exn, 'a) comp" where
  "get_or_throw key v = (case v of
     None \<Rightarrow> throw (Js_Exn (''Configuration key \"'' @ key @ ''\" does not exist'')) | Some x \<Rightarrow> ret x)"

section \<open>Cookies\<close>

record auth_tokens =
  to_access :: string
  to_refresh :: string
  to_csrf :: string

definition auth_cookies :: "backend_config \<Rightarrow> auth_tokens \<Rightarrow> cookie_op list" where
  "auth_cookies cfg t = (if mode_of cfg = RESPONSE_ONLY then [] else
     [Set_Cookie \<lparr>ck_name = access_cookie_name cfg, ck_value = to_access t,
        ck_httpOnly = coalesce (cc_httpOnly (bc_access cfg)) True,
        ck_secure = coalesce (cc_secure (bc_access cfg)) True,
        ck_sameSite = coalesce (cc_sameSite (bc_access cfg)) ''lax'',
        ck_maxAge = coalesce (cc_maxAge (bc_access cfg)) 900000\<rparr>,
      Set_Cookie \<lparr>ck_name = refresh_cookie_name cfg, ck_value = to_refresh t,
        ck_httpOnly = coalesce (cc_httpOnly (bc_refresh cfg)) True,
        ck_secure = coalesce (cc_secure (bc_refresh cfg)) True,
        ck_sameSite = coalesce (cc_sameSite (bc_refresh cfg)) ''lax'',
        ck_maxAge = coalesce (cc_maxAge (bc_refresh cfg)) 604800000\<rparr>] @
     (if csrf_enabled cfg then
       [Set_Cookie \<lparr>ck_name = csrf_cookie_name cfg, ck_value = to_csrf t, ck_httpOnly = False,
         ck_secure = coalesce (cc_secure (bc_csrf cfg)) True,
         ck_sameSite = coalesce (cc_sameSite (bc_csrf cfg)) ''lax'',
         ck_maxAge = coalesce (cc_maxAge (bc_csrf cfg)) 604800000\<rparr>] else []))"

definition set_auth_cookies :: "backend_config \<Rightarrow> auth_tokens \<Rightarrow> ('x backend_scheme, exn, unit) comp" where
  "set_auth_cookies cfg t = modify (\<lambda>s. s\<lparr>reply := reply s @ auth_cookies cfg t\<rparr>)"

definition clear_auth_cookies :: "backend_config \<Rightarrow> ('x backend_scheme, exn, unit) comp" where
  "clear_auth_cookies cfg = modify (\<lambda>s. s\<lparr>reply := reply s @ [Clear_Cookie (access_cookie_name cfg),
     Clear_Cookie (refresh_cookie_name cfg), Clear_Cookie (csrf_cookie_name cfg)]\<rparr>)"

section \<open>The auth gateway\<close>

text \<open>\<open>AuthGatewayPort\<close>.\<close>

record 's auth_port =
  gw_login :: "login_command \<Rightarrow> ('s, exn, login_response) comp"
  gw_refresh :: "refresh_command \<Rightarrow> ('s, exn, refresh_response) comp"
  gw_logout :: "string \<Rightarrow> ('s, exn, bool) comp"
  gw_forgot :: "string \<Rightarrow> ('s, exn, forgot_response) comp"
  gw_reset :: "string \<Rightarrow> string \<Rightarrow> ('s, exn, reset_response) comp"
  gw_change :: "ident \<Rightarrow> string \<Rightarrow> string \<Rightarrow> ('s, exn, change_response) comp"

text \<open>
  \<open>AuthGrpcGatewayAdapter\<close>: each method is one call of the auth service.  \<open>rpc_error\<close> is what the
  gRPC client rejects with when the service throws.
\<close>

definition over_rpc :: "(exn \<Rightarrow> exn) \<Rightarrow> ('s, exn, 'a) comp \<Rightarrow> ('s, exn, 'a) comp" where
  "over_rpc rpc_error m = (\<lambda>s. case m s of (Inl e, s') \<Rightarrow> (Inl (rpc_error e), s') | (Inr x, s') \<Rightarrow> (Inr x, s'))"

definition auth_grpc_gateway ::
    "auth_env \<Rightarrow> (exn \<Rightarrow> exn) \<Rightarrow> grpc_fresh \<Rightarrow> int \<Rightarrow> ('x app_db_scheme) auth_port" where
  "auth_grpc_gateway E rpc_error gf now = \<lparr>
     gw_login = (\<lambda>c. over_rpc rpc_error (login_handler E (gf_login gf) now c)),
     gw_refresh = (\<lambda>c. over_rpc rpc_error (refresh_handler E (gf_login gf) now c)),
     gw_logout = (\<lambda>t. over_rpc rpc_error (logout_handler E now t)),
     gw_forgot = (\<lambda>e. over_rpc rpc_error (forgot_password_handler E (gf_forgot gf) now e)),
     gw_reset = (\<lambda>t pw. over_rpc rpc_error (reset_password_handler E (fr_salt (gf_login gf)) now t pw)),
     gw_change = (\<lambda>i cur pw. over_rpc rpc_error (change_password_handler E (fr_salt (gf_login gf)) i cur pw))\<rparr>"

section \<open>Handlers\<close>

record auth_response_dto =
  ar_accessToken :: "string option"
  ar_refreshToken :: "string option"
  ar_csrfToken :: "string option"
  ar_user :: user_dto

definition request_ip :: "http_request \<Rightarrow> string" where
  "request_ip req = coalesce (map_of (hr_headers req) ''x-real-ip'') (coalesce (hr_ip req) [])"

definition user_agent :: "http_request \<Rightarrow> string" where
  "user_agent req = coalesce (map_of (hr_headers req) ''user-agent'') []"

definition login_error :: "login_response \<Rightarrow> exn" where
  "login_error r = (
     if lr_failureReason r = login_reason_str L_NOT_VERIFIED then unauthorized ''user.auth.verified''
     else if lr_failureReason r = login_reason_str L_BLOCKED then unauthorized ''user.auth.blocked''
     else if lr_failureReason r = login_reason_str L_ACCOUNT_LOCKED
       then Http_Exn 403 ''user.auth.accountLocked'' [(''lockedUntil'', J_Str (lr_lockedUntil r))]
     else if lr_failureReason r = login_reason_str L_INVALID_CREDENTIALS
       then Http_Exn 401 ''user.auth.invalidCredentials'' [(''requiresCaptcha'', J_Bool (lr_requiresCaptcha r))]
     else unauthorized ''user.auth.invalidCredentials'')"

text \<open>\<open>UserMapper.toDto(user!)\<close> of a missing user reads a property of \<open>null\<close>.\<close>

definition user_login_handler :: "'x backend_scheme auth_port \<Rightarrow> backend_config \<Rightarrow> string \<Rightarrow> string \<Rightarrow> http_request
    \<Rightarrow> ('x backend_scheme, exn, auth_response_dto) comp" where
  "user_login_handler gw cfg email password req =
     andThen (gw_login gw \<lparr>lc_email = email, lc_password = password, lc_requestIp = request_ip req,
       lc_userAgent = user_agent req\<rparr>) (\<lambda>result.
     if \<not> lr_success result
     then andThen (publish (User_Login_Failed email)) (\<lambda>_. throw (login_error result))
     else
       andThen (publish (User_Login_Succeeded (lr_userId result) (lr_email result))) (\<lambda>_.
       andThen (set_auth_cookies cfg \<lparr>to_access = lr_accessToken result, to_refresh = lr_refreshToken result,
         to_csrf = lr_csrfToken result\<rparr>) (\<lambda>_.
       andThen (fetch (user_repo_find_by_id (lr_userId result))) (\<lambda>user. case user of
         None \<Rightarrow> throw (Js_Exn ''TypeError'')
       | Some u \<Rightarrow> ret \<lparr>
           ar_accessToken = (if mode_of cfg \<noteq> COOKIES_ONLY then Some (lr_accessToken result) else None),
           ar_refreshToken = (if mode_of cfg \<noteq> COOKIES_ONLY then Some (lr_refreshToken result) else None),
           ar_csrfToken = (if csrf_enabled cfg \<and> mode_of cfg \<noteq> COOKIES_ONLY then Some (lr_csrfToken result) else None),
           ar_user = user_to_dto u\<rparr>))))"

record access_token_dto =
  ad_accessToken :: "string option"
  ad_refreshToken :: "string option"
  ad_csrfToken :: "string option"

definition refresh_error :: "refresh_response \<Rightarrow> exn" where
  "refresh_error r = (
     if rr_failureReason r = refresh_reason_str R_TOKEN_REVOKED then forbidden ''user.auth.tokenRevoked''
     else if rr_failureReason r = refresh_reason_str R_TOKEN_NOT_FOUND then unauthorized ''user.auth.tokenNotFound''
     else if rr_failureReason r = refresh_reason_str R_TOKEN_EXPIRED then unauthorized ''user.auth.tokenExpired''
     else if rr_failureReason r = refresh_reason_str R_USER_NOT_FOUND then unauthorized ''user.notFound''
     else if rr_failureReason r = refresh_reason_str R_NOT_VERIFIED then unauthorized ''user.auth.verified''
     else if rr_failureReason r = refresh_reason_str R_BLOCKED then unauthorized ''user.auth.blocked''
     else unauthorized ''user.auth.invalidJwtPayload'')"

definition refresh_tokens_handler :: "'x backend_scheme auth_port \<Rightarrow> backend_config \<Rightarrow> string \<Rightarrow> http_request
    \<Rightarrow> ('x backend_scheme, exn, access_token_dto) comp" where
  "refresh_tokens_handler gw cfg token req =
     andThen (gw_refresh gw \<lparr>rq_refreshToken = token, rq_requestIp = request_ip req,
       rq_userAgent = user_agent req\<rparr>) (\<lambda>result.
     if \<not> rr_success result then throw (refresh_error result)
     else
       andThen (set_auth_cookies cfg \<lparr>to_access = rr_accessToken result, to_refresh = rr_refreshToken result,
         to_csrf = rr_csrfToken result\<rparr>) (\<lambda>_.
       ret \<lparr>ad_accessToken = (if mode_of cfg \<noteq> COOKIES_ONLY then Some (rr_accessToken result) else None),
         ad_refreshToken = (if mode_of cfg \<noteq> COOKIES_ONLY then Some (rr_refreshToken result) else None),
         ad_csrfToken = Some (rr_csrfToken result)\<rparr>))"

record logout_dto =
  ld_success :: bool
  ld_message :: string

definition user_logout_handler ::
    "'x backend_scheme auth_port \<Rightarrow> backend_config \<Rightarrow> string \<Rightarrow> ('x backend_scheme, exn, logout_dto) comp" where
  "user_logout_handler gw cfg token =
     andThen (gw_logout gw token) (\<lambda>success.
     andThen (clear_auth_cookies cfg) (\<lambda>_.
     andThen (publish (User_Logged_Out success)) (\<lambda>_.
     ret \<lparr>ld_success = success,
       ld_message = (if success then ''user.auth.logout.success'' else ''user.auth.logout.failed'')\<rparr>)))"

definition forgot_password_command :: "'x backend_scheme auth_port \<Rightarrow> string \<Rightarrow> ('x backend_scheme, exn, bool) comp" where
  "forgot_password_command gw email =
     andThen (gw_forgot gw email) (\<lambda>result.
     andThen (publish (Password_Reset_Requested email
       (if fg_userId result \<noteq> [] then Some (fg_userId result) else None))) (\<lambda>_.
     ret (fg_success result)))"

definition reset_password_command ::
    "'x backend_scheme auth_port \<Rightarrow> string \<Rightarrow> string \<Rightarrow> ('x backend_scheme, exn, bool) comp" where
  "reset_password_command gw token new_password =
     andThen (gw_reset gw token new_password) (\<lambda>result.
     if \<not> rs_success result
     then throw (if rs_failureReason result = ''WEAK_PASSWORD'' then bad_request ''user.auth.passwordMinLength''
                 else bad_request ''user.auth.resetTokenInvalidOrExpired'')
     else andThen (publish (Password_Reset_Completed (rs_userId result))) (\<lambda>_. ret True))"

definition change_error :: "change_response \<Rightarrow> exn" where
  "change_error r = (
     if cp_failureReason r = ''WEAK_PASSWORD'' then bad_request ''user.auth.passwordMinLength''
     else if cp_failureReason r = ''USER_NOT_FOUND'' then unauthorized ''user.notFound''
     else if cp_failureReason r = ''PASSWORD_NOT_CONFIGURED'' then unauthorized ''user.auth.passwordNotConfigured''
     else unauthorized ''user.auth.currentPasswordInvalid'')"

definition change_password_command :: "'x backend_scheme auth_port \<Rightarrow> ident \<Rightarrow> string \<Rightarrow> string
    \<Rightarrow> ('x backend_scheme, exn, bool) comp" where
  "change_password_command gw user_id current_password new_password =
     andThen (gw_change gw user_id current_password new_password) (\<lambda>result.
     if \<not> cp_success result then throw (change_error result)
     else andThen (publish (Password_Changed user_id)) (\<lambda>_. ret True))"

section \<open>The controller\<close>

text \<open>\<open>req.cookies?.refreshToken || input?.refreshToken\<close>.\<close>

definition presented_refresh_token :: "http_request \<Rightarrow> string option \<Rightarrow> string option" where
  "presented_refresh_token req body = (let c = map_of (hr_cookies req) ''refreshToken'' in if truthy c then c else body)"

definition login_endpoint :: "'x backend_scheme auth_port \<Rightarrow> backend_config \<Rightarrow> string \<Rightarrow> string \<Rightarrow> http_request
    \<Rightarrow> ('x backend_scheme, exn, auth_response_dto) comp" where
  "login_endpoint gw cfg email password req = user_login_handler gw cfg email password req"

definition refresh_endpoint :: "'x backend_scheme auth_port \<Rightarrow> backend_config \<Rightarrow> string option \<Rightarrow> http_request
    \<Rightarrow> ('x backend_scheme, exn, access_token_dto) comp" where
  "refresh_endpoint gw cfg body req = (let t = presented_refresh_token req body in
     if \<not> truthy t then throw (unauthorized ''user.auth.logout.tokenNotProvided'')
     else refresh_tokens_handler gw cfg (the t) req)"

definition logout_endpoint :: "'x backend_scheme auth_port \<Rightarrow> backend_config \<Rightarrow> string option \<Rightarrow> http_request
    \<Rightarrow> ('x backend_scheme, exn, logout_dto) comp" where
  "logout_endpoint gw cfg body req = (let t = presented_refresh_token req body in
     if \<not> truthy t then ret \<lparr>ld_success = False, ld_message = ''user.auth.logout.tokenNotProvided''\<rparr>
     else user_logout_handler gw cfg (the t))"

text \<open>All requests of the controller, with the user id that \<open>JwtAuthGuard\<close> extracted where it guards.\<close>

datatype auth_request =
    Get_Me ident
  | Post_Login string string
  | Post_Refresh "string option"
  | Post_Logout "string option"
  | Post_Forgot string
  | Post_Reset string string
  | Post_Change ident string string

datatype auth_reply =
    Me_Reply user_dto
  | Login_Reply auth_response_dto
  | Refresh_Reply access_token_dto
  | Logout_Reply logout_dto
  | Success_Reply bool

definition auth_controller :: "'x backend_scheme auth_port \<Rightarrow> backend_config \<Rightarrow> http_request \<Rightarrow> auth_request
    \<Rightarrow> ('x backend_scheme, exn, auth_reply) comp" where
  "auth_controller gw cfg req r = (case r of
     Get_Me i \<Rightarrow> andThen (user_get_by_id_handler i) (\<lambda>u. ret (Me_Reply u))
   | Post_Login email password \<Rightarrow> andThen (login_endpoint gw cfg email password req) (\<lambda>x. ret (Login_Reply x))
   | Post_Refresh body \<Rightarrow> andThen (refresh_endpoint gw cfg body req) (\<lambda>x. ret (Refresh_Reply x))
   | Post_Logout body \<Rightarrow> andThen (logout_endpoint gw cfg body req) (\<lambda>x. ret (Logout_Reply x))
   | Post_Forgot email \<Rightarrow> andThen (forgot_password_command gw email) (\<lambda>x. ret (Success_Reply x))
   | Post_Reset token password \<Rightarrow> andThen (reset_password_command gw token password) (\<lambda>x. ret (Success_Reply x))
   | Post_Change i cur password \<Rightarrow> andThen (change_password_command gw i cur password) (\<lambda>x. ret (Success_Reply x)))"

section \<open>The CSRF guard\<close>

definition PUBLIC_PATHS :: "string list" where
  "PUBLIC_PATHS = [''/auth/login'', ''/auth/refresh'', ''/auth/logout'', ''/auth/magic-link/request'',
     ''/auth/magic-link/authenticate'']"

definition SAFE_METHODS :: "string list" where
  "SAFE_METHODS = [''GET'', ''HEAD'', ''OPTIONS'']"

definition ascii_upper :: "char \<Rightarrow> char" where
  "ascii_upper c = (let n = of_char c in if 97 \<le> n \<and> n \<le> 122 then char_of (n - 32 :: nat) else c)"

text \<open>\<open>url.replace(/\?.*$/, '').replace(/^\/api\/v1/, '')\<close>.\<close>

definition raw_url :: "string \<Rightarrow> string" where
  "raw_url url = (let path = takeWhile (\<lambda>c. c \<noteq> CHR ''?'') url in
     if starts_with path ''/api/v1'' then drop (length ''/api/v1'') path else path)"

definition csrf_guard :: "backend_config \<Rightarrow> http_request \<Rightarrow> exn + bool" where
  "csrf_guard cfg req =
     (if \<not> csrf_enabled cfg then Inr True
      else if map ascii_upper (hr_method req) \<in> set SAFE_METHODS then Inr True
      else if list_ex (ends_with (raw_url (hr_url req))) PUBLIC_PATHS then Inr True
      else (let csrf_cookie = map_of (hr_cookies req) ''csrf-token''; csrf_header = map_of (hr_headers req) ''x-csrf-token'' in
        if \<not> truthy csrf_cookie \<or> \<not> truthy csrf_header \<or> csrf_cookie \<noteq> csrf_header
        then Inl (forbidden ''common.csrf.invalid'') else Inr True))"

section \<open>Magic links\<close>

record magic_link_token =
  mk_id :: ident
  mk_email :: string
  mk_token :: string
  mk_expiresAt :: int
  mk_isUsed :: bool
  mk_fingerprint :: string
  mk_userAgent :: string
  mk_createdAt :: int

definition magic_is_expired :: "int \<Rightarrow> magic_link_token \<Rightarrow> bool" where
  "magic_is_expired now t = (now \<ge> mk_expiresAt t)"

definition magic_is_valid :: "int \<Rightarrow> magic_link_token \<Rightarrow> bool" where
  "magic_is_valid now t = (\<not> mk_isUsed t \<and> \<not> magic_is_expired now t)"

definition magic_matches_fingerprint :: "string \<Rightarrow> magic_link_token \<Rightarrow> bool" where
  "magic_matches_fingerprint f t = (mk_fingerprint t = f)"

definition magic_mark_as_used :: "magic_link_token \<Rightarrow> magic_link_token" where
  "magic_mark_as_used t = t\<lparr>mk_isUsed := True\<rparr>"

definition to_magic_token :: "magic_row \<Rightarrow> magic_link_token" where
  "to_magic_token row = \<lparr>mk_id = ml_id row, mk_email = ml_email row, mk_token = ml_token row,
     mk_expiresAt = ml_expiresAt row, mk_isUsed = coalesce (ml_isUsed row) False,
     mk_fingerprint = ml_fingerprint row, mk_userAgent = ml_userAgent row, mk_createdAt = ml_createdAt row\<rparr>"

definition magic_repo_create :: "ident \<Rightarrow> int \<Rightarrow> string \<Rightarrow> string \<Rightarrow> int \<Rightarrow> string \<Rightarrow> string
    \<Rightarrow> ('x users_db_scheme, exn, magic_link_token) comp" where
  "magic_repo_create new_id now email token expires_at fingerprint agent d =
     (let row = \<lparr>ml_id = new_id, ml_createdAt = now, ml_updatedAt = now, ml_deletedAt = None, ml_email = email,
        ml_token = token, ml_expiresAt = expires_at, ml_isUsed = Some False, ml_fingerprint = fingerprint,
        ml_userAgent = agent\<rparr>
      in if some_row (\<lambda>r. ml_token r = token \<or> ml_id r = new_id) (magics d) then (Inl (Pg_Exn ''23505''), d)
         else (Inr (to_magic_token row), d\<lparr>magics := magics d @ [row]\<rparr>))"

definition magic_repo_find_by_token :: "string \<Rightarrow> 'x users_db_scheme \<Rightarrow> magic_link_token option" where
  "magic_repo_find_by_token token d = map_option to_magic_token (find_row (\<lambda>r. ml_token r = token) (magics d))"

definition magic_repo_find_by_email :: "string \<Rightarrow> 'x users_db_scheme \<Rightarrow> magic_link_token list" where
  "magic_repo_find_by_email email d = map to_magic_token
     (sort_key ml_createdAt (filter (\<lambda>r. ml_email r = email) (magics d)))"

definition use_magic_row :: "magic_row \<Rightarrow> magic_row" where
  "use_magic_row r = r\<lparr>ml_isUsed := Some True\<rparr>"

definition magic_repo_mark_as_used :: "ident \<Rightarrow> ('x users_db_scheme, exn, unit) comp" where
  "magic_repo_mark_as_used i = modify (\<lambda>d. d\<lparr>magics := update_rows (\<lambda>r. ml_id r = i) use_magic_row (magics d)\<rparr>)"

definition magic_repo_delete_expired :: "int \<Rightarrow> ('x users_db_scheme, exn, nat) comp" where
  "magic_repo_delete_expired now d = (Inr (count_rows (\<lambda>r. ml_expiresAt r < now) (magics d)),
     d\<lparr>magics := filter (\<lambda>r. \<not> ml_expiresAt r < now) (magics d)\<rparr>)"

definition magic_repo_delete_by_email :: "string \<Rightarrow> ('x users_db_scheme, exn, unit) comp" where
  "magic_repo_delete_by_email email = modify (\<lambda>d. d\<lparr>magics := filter (\<lambda>r. ml_email r \<noteq> email) (magics d)\<rparr>)"

record magic_fresh =
  mf_token :: string
  mf_row_id :: ident
  mf_mail_id :: ident

definition magic_link_request_handler :: "backend_config \<Rightarrow> magic_fresh \<Rightarrow> int \<Rightarrow> string \<Rightarrow> string \<Rightarrow> string
    \<Rightarrow> ('x app_db_scheme, exn, bool) comp" where
  "magic_link_request_handler cfg mf now email fingerprint agent =
     (let ttl = coalesce (bc_magic_ttl cfg) 600000; expires_at = now + ttl in
      andThen (magic_repo_create (mf_row_id mf) now email (mf_token mf) expires_at fingerprint agent) (\<lambda>_.
      andThen (get_or_throw ''magicLink.baseUrl'' (bc_magic_baseUrl cfg)) (\<lambda>base.
      andThen (mail_repo_create (mf_mail_id mf) now (mail_create email ''Your Login Link'' Magic_Link_Login
        [(''loginUrl'', J_Str (base @ ''?token='' @ mf_token mf)), (''expiryMinutes'', J_Num (ttl div 60000))])) (\<lambda>saved.
      andThen (add_to_queue saved) (\<lambda>_. ret True)))))"

section \<open>Reset by an administrator\<close>

text \<open>The subject is Cyrillic in the source; here it is transliterated.\<close>

definition admin_reset_subject :: string where
  "admin_reset_subject = ''Sbros parolya administratorom''"

definition admin_reset_password_handler :: "backend_config \<Rightarrow> forgot_fresh \<Rightarrow> int \<Rightarrow> ident
    \<Rightarrow> ('x backend_scheme, exn, bool) comp" where
  "admin_reset_password_handler cfg ff now user_id =
     andThen (fetch (user_repo_find_by_id user_id)) (\<lambda>found.
     andThen (or_not_found ''user.notFound'' found) (\<lambda>user.
     let token = hex_encode (ff_bytes ff); expires_at = now + 24 * 60 * 60 * 1000 in
     andThen (reset_create (ff_row_id ff) now (reset_token_create user_id token expires_at)) (\<lambda>_.
     andThen (get_or_throw ''host.origin'' (bc_host_origin cfg)) (\<lambda>base.
     andThen (mail_repo_create (ff_mail_id ff) now (mail_create (us_email user) admin_reset_subject Reset_Password
       [(''resetUrl'', J_Str (reset_url base token)), (''expiryMinutes'', J_Num 1440)])) (\<lambda>saved.
     andThen (add_to_queue saved) (\<lambda>_.
     andThen (publish (Admin_Password_Reset_Requested user_id)) (\<lambda>_. ret True)))))))"

definition reset_repo_delete_expired :: "int \<Rightarrow> ('x users_db_scheme, exn, unit) comp" where
  "reset_repo_delete_expired now = modify (\<lambda>d. d\<lparr>resets := filter (\<lambda>r. \<not> prt_expiresAt r < now) (resets d)\<rparr>)"

end
