(* ===== verification/Token_Version_Properties.thy ===== *)
theory Token_Version_Properties
  imports Token_Version
begin

text \<open>
  When does a version bump revoke the access tokens issued before it?  Always when requests follow
  one another and at least one of the three Redis calls of the bump succeeds; not when a concurrent
  request restores the cache from a row it read before the bump, and not for a deleted account whose
  version is still cached.
\<close>

section \<open>One request after another\<close>

lemma bump_run:
  assumes "find_row (\<lambda>u. u_id u = i) (users s) = Some u"
  shows "\<exists>s'. bump_version fl i s = (Inr (u_tokenVersion u + 1), s')
    \<and> users s' = update_rows (\<lambda>u. u_id u = i) (\<lambda>u. u\<lparr>u_tokenVersion := u_tokenVersion u + 1\<rparr>) (users s)
    \<and> redis s' = (if \<not> set_fails fl then (redis s)(version_key i \<mapsto> show_int (u_tokenVersion u + 1))
        else if \<not> del_fails fl \<or> \<not> del_again_fails fl then (redis s)(version_key i := None)
        else redis s)"
proof -
  have "user_repo_increment_token_version i s1 = (Inr (u_tokenVersion u + 1),
      s1\<lparr>users := update_rows (\<lambda>u. u_id u = i) (\<lambda>u. u\<lparr>u_tokenVersion := u_tokenVersion u + 1\<rparr>) (users s)\<rparr>)"
    if "users s1 = users s" for s1 :: "'a backend_scheme"
    using increment_version [of i s1 u] assms that by simp
  then show ?thesis
    by (cases "del_fails fl"; cases "set_fails fl"; cases "del_again_fails fl")
      (simp_all add: bump_version_def andThen_def set_version_def clear_cached_version_def)
qed

lemma assert_run:
  "assert_current fl i (Some tv) s = (case get_current_version fl i s of
     (Inl e, s') \<Rightarrow> (Inl e, s')
   | (Inr v, s') \<Rightarrow> (if v = tv then Inr () else Inl (unauthorized ''user.auth.tokenStale''), s'))"
  by (simp add: assert_current_def andThen_def split: prod.split sum.split)

lemma get_current_coherent:
  assumes "distinct (map u_id (users s))" "cache_coherent i s" "get_current_version fl i s = (Inr v, s')"
  shows "version_of i s = Some v"
proof (cases "cached_version fl i s")
  case None
  then have "restore_version_from_database fl i s = (Inr v, s')"
    using assms(3) by (simp add: get_current_version_def)
  from restore_version [OF assms(1) this] show ?thesis by simp
next
  case (Some p)
  then show ?thesis using assms
    by (auto simp: get_current_version_def cached_version_def cache_coherent_def split: if_splits option.splits)
qed

lemma get_current_keeps_coherent:
  assumes "distinct (map u_id (users s))" "cache_coherent j s"
  shows "cache_coherent j (snd (get_current_version fl i s)) \<and> users (snd (get_current_version fl i s)) = users s"
proof (cases "cached_version fl i s")
  case (Some p)
  then show ?thesis using assms by (simp add: get_current_version_def)
next
  case None
  obtain r s' where run: "restore_version_from_database fl i s = (r, s')" by fastforce
  show ?thesis
  proof (cases r)
    case (Inl e)
    with run have "restore_version_from_database fl i s = (Inl e, s')" by simp
    from restore_version_fails [OF this] show ?thesis using assms None run by (simp add: get_current_version_def)
  next
    case (Inr v)
    with run have "restore_version_from_database fl i s = (Inr v, s')" by simp
    from restore_version [OF assms(1) this] show ?thesis using assms(2) None run
      by (cases "j = i") (auto simp: get_current_version_def cache_coherent_def version_of_def)
  qed
qed

text \<open>
  C21.  Bumping the version revokes every access token issued before: unless the delete, the set and the
  second delete all fail in Redis, the bump returns the next version, and after it a token that carries
  any other version is refused, whatever the state of the cache was before and whichever Redis calls of the
  later request fail; a token with the new version is accepted for a live account.
\<close>

theorem bump_revokes_tokens:
  fixes s :: "'x backend_scheme"
  assumes "distinct (map u_id (users s))" "find_row (\<lambda>u. u_id u = i) (users s) = Some u"
    and "\<not> (set_fails fl \<and> del_fails fl \<and> del_again_fails fl)"
  shows "\<exists>s'. bump_version fl i s = (Inr (u_tokenVersion u + 1), s')
    \<and> (\<forall>fl' tv. tv \<noteq> u_tokenVersion u + 1 \<longrightarrow> isl (fst (assert_current fl' i (Some tv) s')))
    \<and> (u_deletedAt u = None \<longrightarrow> (\<forall>fl'. fst (assert_current fl' i (Some (u_tokenVersion u + 1)) s') = Inr ()))"
proof -
  obtain s' where s': "bump_version fl i s = (Inr (u_tokenVersion u + 1), s')"
    "users s' = update_rows (\<lambda>u. u_id u = i) (\<lambda>u. u\<lparr>u_tokenVersion := u_tokenVersion u + 1\<rparr>) (users s)"
    "redis s' (version_key i) \<in> {None, Some (show_int (u_tokenVersion u + 1))}"
    using bump_run [OF assms(2), of fl] assms(3) by (auto split: if_splits)
  have ids: "distinct (map u_id (users s'))"
    unfolding s'(2) by (subst map_update_rows) (simp_all add: assms(1))
  have row: "find_row (\<lambda>u. u_id u = i) (users s') = Some (u\<lparr>u_tokenVersion := u_tokenVersion u + 1\<rparr>)"
    unfolding s'(2) using assms(2) find_row_SomeD [OF assms(2)] by (simp add: find_row_update_same)
  then have ver: "version_of i s' = Some (u_tokenVersion u + 1)" by (simp add: version_of_def)
  with s'(3) have coh: "cache_coherent i s'" by (auto simp: cache_coherent_def)
  have refused: "isl (fst (assert_current fl' i (Some tv) s'))" if "tv \<noteq> u_tokenVersion u + 1" for fl' tv
    using get_current_coherent [OF ids coh, of fl'] ver that
    by (auto simp: assert_run split: prod.split sum.split)
  have "fst (assert_current fl' i (Some (u_tokenVersion u + 1)) s') = Inr ()" if "u_deletedAt u = None" for fl'
  proof -
    have "find_row (live_id i) (users s') = Some (u\<lparr>u_tokenVersion := u_tokenVersion u + 1\<rparr>)"
      using find_row_unique_key [OF ids, of _ "live_id i"] find_row_SomeD [OF row] that
      by (auto simp: live_id_def)
    then have "\<exists>v s2. get_current_version fl' i s' = (Inr v, s2)"
      by (auto simp: get_current_version_def restore_version_from_database_def user_repo_find_by_id_def
          andThen_def split: option.split)
    then obtain v s2 where g: "get_current_version fl' i s' = (Inr v, s2)" by blast
    with get_current_coherent [OF ids coh g] ver show ?thesis by (simp add: assert_run)
  qed
  with s'(1) refused show ?thesis by blast
qed

text \<open>Soft-deleting an account neither bumps its version nor clears the cache.\<close>

text \<open>
  A deleted account keeps its access: while its version is cached in Redis, an access token issued
  before the deletion is still accepted after it.
\<close>

theorem deleted_account_token_accepted:
  fixes s :: "'x backend_scheme"
  assumes "redis s (version_key i) = Some (show_int tv)" "\<not> get_fails fl"
  shows "fst (assert_current fl i (Some tv) (snd (user_repo_delete now i s))) = Inr ()"
  using assms by (simp add: assert_run get_current_version_def cached_version_def user_repo_delete_def)

section \<open>Interleaved requests\<close>

text \<open>
  Every call to Redis or to the database is one atomic step.  A reader is \<open>assertCurrent\<close> for a
  token version, a writer is \<open>bumpVersion\<close>; Redis is up.
\<close>

datatype thread =
    Reader int
  | Reader_Missed int
  | Reader_Loaded int int
  | Reader_Done bool
  | Writer
  | Writer_Cleared
  | Writer_Incremented int
  | Writer_Done

definition thread_step ::
    "ident \<Rightarrow> thread \<Rightarrow> 'x backend_scheme \<Rightarrow> (thread \<times> 'x backend_scheme) option" where
  "thread_step i t s = (case t of
     Reader tv \<Rightarrow> (case cached_version redis_up i s of
        Some v \<Rightarrow> Some (Reader_Done (v = tv), s) | None \<Rightarrow> Some (Reader_Missed tv, s))
   | Reader_Missed tv \<Rightarrow> (case user_repo_find_by_id i s of
        None \<Rightarrow> Some (Reader_Done False, s) | Some u \<Rightarrow> Some (Reader_Loaded tv (us_tokenVersion u), s))
   | Reader_Loaded tv v \<Rightarrow> Some (Reader_Done (v = tv), snd (set_version False i v s))
   | Writer \<Rightarrow> Some (Writer_Cleared, snd (clear_cached_version False i s))
   | Writer_Cleared \<Rightarrow> (case user_repo_increment_token_version i s of
        (Inl _, s') \<Rightarrow> Some (Writer_Done, s') | (Inr v, s') \<Rightarrow> Some (Writer_Incremented v, s'))
   | Writer_Incremented v \<Rightarrow> Some (Writer_Done, snd (set_version False i v s))
   | _ \<Rightarrow> None)"

fun schedule :: "ident \<Rightarrow> nat list \<Rightarrow> thread list \<times> 'x backend_scheme \<Rightarrow> thread list \<times> 'x backend_scheme" where
  "schedule i [] c = c"
| "schedule i (k # ks) (ts, s) = (if k < length ts then
     (case thread_step i (ts ! k) s of
        None \<Rightarrow> schedule i ks (ts, s) | Some (t', s') \<Rightarrow> schedule i ks (ts[k := t'], s'))
     else schedule i ks (ts, s))"

text \<open>A thread that runs without interruption is the method of the service.\<close>

lemma reader_alone:
  "schedule i [0, 0, 0] ([Reader tv], s) =
    ([Reader_Done (\<not> isl (fst (assert_current redis_up i (Some tv) s)))], snd (assert_current redis_up i (Some tv) s))"
  by (auto simp: thread_step_def assert_run get_current_version_def restore_version_from_database_def
      andThen_def set_version_def redis_up_def cached_version_def split: option.split)

lemma writer_alone:
  assumes "find_row (\<lambda>u. u_id u = i) (users s) = Some u"
  shows "schedule i [0, 0, 0] ([Writer], s) = ([Writer_Done], snd (bump_version redis_up i s))"
proof -
  let ?s = "snd (clear_cached_version False i s)"
  have "find_row (\<lambda>u. u_id u = i) (users ?s) = Some u" using assms by (simp add: clear_cached_version_def)
  from increment_version [OF this] show ?thesis
    by (simp add: thread_step_def bump_version_def andThen_def clear_cached_version_def set_version_def redis_up_def)
qed

text \<open>
  C38.  A bump can fail to revoke: a request that missed the cache reads the row, the bump clears the cache,
  increments and caches the new version, and the request then caches the old version it read.  From then on
  every token of the old version is accepted, although the database holds the new one and no Redis call failed.
\<close>

theorem bump_race_revives_tokens:
  fixes s :: "'x backend_scheme"
  assumes "distinct (map u_id (users s))" "find_row (live_id i) (users s) = Some u"
    and "redis s (version_key i) = None"
  shows "\<exists>s'. schedule i [0, 0, 1, 1, 1, 0] ([Reader (u_tokenVersion u), Writer], s)
      = ([Reader_Done True, Writer_Done], s')
    \<and> version_of i s' = Some (u_tokenVersion u + 1)
    \<and> fst (assert_current redis_up i (Some (u_tokenVersion u)) s') = Inr ()"
proof -
  have row: "find_row (\<lambda>u. u_id u = i) (users s) = Some u" by (rule find_live_id [OF assms(1,2)])
  let ?s = "snd (clear_cached_version False i s)"
  have "find_row (\<lambda>u. u_id u = i) (users ?s) = Some u" using row by (simp add: clear_cached_version_def)
  from increment_version [OF this] show ?thesis
    using assms(2,3) row find_row_SomeD [OF row]
    by (simp add: thread_step_def cached_version_def redis_up_def user_repo_find_by_id_def
        clear_cached_version_def set_version_def assert_run get_current_version_def version_of_def
        find_row_update_same numeral_2_eq_2)
qed

section \<open>Witnesses\<close>

definition demo_backend :: backend where
  "demo_backend = \<lparr>users = [demo_user ''u1'' ''ann@x'' None], roles = [demo_role], permissions = [],
     refreshes = [], resets = [], magics = [], mail_templates = [], mails = [], mail_queue = [], outbox = [],
     redis = (\<lambda>k. None), events = [], reply = []\<rparr>"

lemma demo_backend_user:
  "distinct (map u_id (users demo_backend))"
  "find_row (\<lambda>u. u_id u = ''u1'') (users demo_backend) = Some (demo_user ''u1'' ''ann@x'' None)"
  "find_row (live_id ''u1'') (users demo_backend) = Some (demo_user ''u1'' ''ann@x'' None)"
  "u_tokenVersion (demo_user ''u1'' ''ann@x'' None) = 1"
  by (simp_all add: demo_backend_def demo_user_def live_id_def)

theorem bump_revokes_tokens_witness:
  "\<exists>s'. bump_version redis_up ''u1'' demo_backend = (Inr 2, s')
    \<and> isl (fst (assert_current redis_up ''u1'' (Some 1) s'))"
proof -
  have "\<not> (set_fails redis_up \<and> del_fails redis_up \<and> del_again_fails redis_up)" by (simp add: redis_up_def)
  from bump_revokes_tokens [OF demo_backend_user(1,2) this] obtain s' where
    "bump_version redis_up ''u1'' demo_backend = (Inr 2, s')"
    "\<forall>fl' tv. tv \<noteq> 2 \<longrightarrow> isl (fst (assert_current fl' ''u1'' (Some tv) s'))"
    by (auto simp: demo_backend_user(4))
  then show ?thesis by (metis one_neq_zero numeral_eq_one_iff semiring_norm(85))
qed

theorem deleted_account_token_accepted_witness:
  "fst (assert_current redis_up ''u1'' (Some 1) (snd (user_repo_delete 9 ''u1''
     (demo_backend\<lparr>redis := [version_key ''u1'' \<mapsto> show_int 1]\<rparr>)))) = Inr ()"
  by (rule deleted_account_token_accepted) (simp_all add: redis_up_def)

theorem bump_race_revives_tokens_witness:
  "\<exists>s'. schedule ''u1'' [0, 0, 1, 1, 1, 0] ([Reader 1, Writer], demo_backend) = ([Reader_Done True, Writer_Done], s')
    \<and> version_of ''u1'' s' = Some 2"
proof -
  have "redis demo_backend (version_key ''u1'') = None" by (simp add: demo_backend_def)
  from bump_race_revives_tokens [OF demo_backend_user(1,3) this] show ?thesis
    by (simp add: demo_backend_user(4)) blast
qed

end
