(* ===== verification/User_Properties.thy ===== *)
theory User_Properties
  imports User_Handlers Token_Version_Properties Login_Properties
begin

text \<open>
  Properties of user administration: which updates revoke access tokens, that a created account can
  sign in and an unlocked one can again, what the list endpoint returns, and who may read a profile.
\<close>

section \<open>Updates\<close>

lemma with_role_cong: "roles d = roles d' \<Longrightarrow> with_role d u = with_role d' u"
  by (simp add: with_role_def)

lemma with_role_redis_free [simp]:
  "with_role (s\<lparr>redis := r\<rparr>) = with_role s" "with_role (s\<lparr>events := ev\<rparr>) = with_role s"
  by (rule ext, rule with_role_cong, simp)+

lemma users_redis_free [simp]:
  "user_repo_find_by_id i (s\<lparr>redis := r\<rparr>) = user_repo_find_by_id i s"
  "user_repo_find_by_id i (s\<lparr>events := ev\<rparr>) = user_repo_find_by_id i s"
  by (simp_all add: user_repo_find_by_id_def)

lemma user_repo_find_row:
  assumes "user_repo_find_by_id i s = Some u"
  obtains row where "find_row (live_id i) (users s) = Some row" "u = with_role s row"
  using assms by (auto simp: user_repo_find_by_id_def)

lemma apply_user_update_id [simp]:
  "u_id (apply_user_update p u) = u_id u" "u_tokenVersion (apply_user_update p u) = u_tokenVersion u"
  "u_deletedAt (apply_user_update p u) = u_deletedAt u"
  "live_id i (apply_user_update p u) = live_id i u"
  by (simp_all add: apply_user_update_def live_id_def)

lemma user_repo_update_ok:
  assumes "user_repo_update i p s = (Inr x, s')"
  shows "s' = s\<lparr>users := update_rows (\<lambda>u. u_id u = i) (apply_user_update p) (users s)\<rparr>"
  using assms by (auto simp: user_repo_update_def split: if_splits)

lemma user_repo_update_err:
  assumes "user_repo_update i p s = (Inl e, s')"
  shows "s' = s"
  using assms by (auto simp: user_repo_update_def split: if_splits)

lemma fst_user_update_Inr:
  assumes "user_update_handler fl i b s = (Inr dto, s')" "user_repo_find_by_id i s = Some previous"
  obtains s1 where "user_repo_update i (body_update b) s = (Inr (), s1)"
    and "if should_invalidate_access_tokens (us_roleId previous) (us_blocked previous) b
         then \<exists>v. bump_version fl i s1 = (Inr v, s') else s' = s1"
proof (cases "user_repo_update i (body_update b) s")
  case (Pair r s1)
  show thesis
  proof (cases r)
    case (Inl e)
    with Pair assms show thesis by (simp add: user_update_handler_def andThen_def)
  next
    case (Inr x)
    show thesis
    proof (rule that [of s1])
      show "user_repo_update i (body_update b) s = (Inr (), s1)" using Pair Inr by simp
      show "if should_invalidate_access_tokens (us_roleId previous) (us_blocked previous) b
         then \<exists>v. bump_version fl i s1 = (Inr v, s') else s' = s1"
      proof (cases "should_invalidate_access_tokens (us_roleId previous) (us_blocked previous) b")
        case True
        obtain w s2 where w: "bump_version fl i s1 = (w, s2)" by fastforce
        with True assms Pair Inr show ?thesis
          by (cases w; cases "user_repo_find_by_id i s2")
            (simp_all add: user_update_handler_def andThen_def or_not_found_def)
      next
        case False
        with assms Pair Inr show ?thesis
          by (cases "user_repo_find_by_id i s1")
            (simp_all add: user_update_handler_def andThen_def or_not_found_def)
      qed
    qed
  qed
qed

text \<open>
  An administrator's update revokes the user's access tokens exactly when it changes the role or the
  blocked flag.  When it does, every token with the previous version is refused from then on (unless all three
  Redis calls of the bump failed); when it does not, the version and the cache are untouched.
\<close>

theorem user_update_revokes_tokens:
  fixes s :: "'x backend_scheme"
  assumes "distinct (map u_id (users s))" "user_repo_find_by_id i s = Some previous"
    and "user_update_handler fl i b s = (Inr dto, s')"
    and "\<not> (set_fails fl \<and> del_fails fl \<and> del_again_fails fl)"
  shows "if should_invalidate_access_tokens (us_roleId previous) (us_blocked previous) b
    then version_of i s' = Some (us_tokenVersion previous + 1)
       \<and> (\<forall>fl' tv. tv \<noteq> us_tokenVersion previous + 1 \<longrightarrow> isl (fst (assert_current fl' i (Some tv) s')))
    else version_of i s' = Some (us_tokenVersion previous) \<and> redis s' = redis s"
proof -
  obtain row where row: "find_row (live_id i) (users s) = Some row" "previous = with_role s row"
    using assms(2) by (rule user_repo_find_row)
  have find: "find_row (\<lambda>u. u_id u = i) (users s) = Some row" by (rule find_live_id [OF assms(1) row(1)])
  obtain s1 where s1: "user_repo_update i (body_update b) s = (Inr (), s1)"
    and rest: "if should_invalidate_access_tokens (us_roleId previous) (us_blocked previous) b
         then \<exists>v. bump_version fl i s1 = (Inr v, s') else s' = s1"
    using assms(3,2) by (rule fst_user_update_Inr)
  have s1': "s1 = s\<lparr>users := update_rows (\<lambda>u. u_id u = i) (apply_user_update (body_update b)) (users s)\<rparr>"
    using s1 by (rule user_repo_update_ok)
  have find1: "find_row (\<lambda>u. u_id u = i) (users s1) = Some (apply_user_update (body_update b) row)"
    using find find_row_SomeD [OF find] by (simp add: s1' find_row_update_same)
  have ids: "distinct (map u_id (users s1))"
    using assms(1) by (simp add: s1' map_update_rows)
  show ?thesis
  proof (cases "should_invalidate_access_tokens (us_roleId previous) (us_blocked previous) b")
    case True
    obtain s2 where s2: "bump_version fl i s1 = (Inr (u_tokenVersion row + 1), s2)"
      "\<forall>fl' tv. tv \<noteq> u_tokenVersion row + 1 \<longrightarrow> isl (fst (assert_current fl' i (Some tv) s2))"
      using bump_revokes_tokens [OF ids find1 assms(4)] by auto
    moreover have "version_of i s2 = Some (u_tokenVersion row + 1)"
      using bump_run [OF find1, of fl] s2(1) find1 find_row_SomeD [OF find1]
      by (auto simp: version_of_def find_row_update_same)
    ultimately show ?thesis using True rest row(2) by auto
  next
    case False
    with rest find1 show ?thesis by (simp add: version_of_def row(2)) (simp add: s1')
  qed
qed

section \<open>Creation\<close>

lemma live_role_find: "find_row (live_role i) rs = Some r \<Longrightarrow> find_row (\<lambda>x. ur_id x = i) rs \<noteq> None"
  using find_row_SomeD [of "live_role i" rs r] by (auto simp: find_row_None live_role_def)

lemma join_role_last:
  assumes "\<not> some_row P us" "P u" "find_row (\<lambda>r. ur_id r = u_roleId u) rs = Some r"
  shows "join_role rs P (us @ [u]) = Some (u, r)"
  using assms by (induction us) auto

text \<open>
  An account that the administrator created can sign in at once: the auth service finds it by its
  address, verified, not blocked, with a clean counter, and accepts the password given at creation.
\<close>

theorem created_user_can_login:
  fixes s :: "'x backend_scheme"
  assumes "argon2_ok (ae_crypto E)" "cu_roleId b \<noteq> []"
    and "user_create_handler (ae_crypto E) salt new_id now b s = (Inr dto, s')"
    and "lc_email cmd = cu_email b" "lc_password cmd = cu_password b"
  shows "\<exists>u. find_by_email (lc_email cmd) True s' = Some u \<and> login_permitted E t cmd u
    \<and> lockout_of u = clean \<and> au_id u = new_id \<and> ud_id dto = new_id"
proof -
  let ?n = "user_create_entity b (hash_password (ae_crypto E) salt (cu_password b)) True"
  let ?row = "new_user_row new_id now ?n"
  have ex: "\<not> user_repo_exists_by_email (cu_email b) s"
    using assms(3) by (auto simp: user_create_handler_def andThen_def)
  obtain role where role: "role_repo_find_by_id (cu_roleId b) s = Some role"
    using assms(2,3) ex by (cases "role_repo_find_by_id (cu_roleId b) s")
      (auto simp: user_create_handler_def andThen_def role_get_by_id_handler_def or_not_found_def)
  have fresh: "\<not> some_row (\<lambda>u. u_email u = cu_email b \<or> u_id u = new_id) (users s)"
    using assms(2,3) ex role
    by (auto simp: user_create_handler_def andThen_def role_get_by_id_handler_def or_not_found_def
        user_repo_create_def user_create_entity_def split: if_splits)
  have find: "find_row (live_id new_id) (users s @ [?row]) = Some ?row"
    using fresh by (auto simp: find_row_append some_row_iff live_id_def new_user_row_def split: option.split
        dest!: find_row_SomeD)
  have s': "users s' = users s @ [?row]" "roles s' = roles s" "ud_id dto = new_id"
    using assms(2,3) ex role fresh find
    by (auto simp: user_create_handler_def andThen_def role_get_by_id_handler_def or_not_found_def
        user_repo_create_def Let_def user_repo_find_by_id_def publish_def user_to_dto_def with_role_def
        to_user_def split: if_splits) (simp_all add: user_create_entity_def new_user_row_def)
  obtain r where r: "find_row (\<lambda>x. ur_id x = cu_roleId b) (roles s) = Some r"
  proof -
    obtain z where "find_row (live_role (cu_roleId b)) (roles s) = Some z"
      using role by (auto simp: role_repo_find_by_id_def)
    from live_role_find [OF this] that show thesis by blast
  qed
  have "join_role (roles s) (live_email (cu_email b)) (users s @ [?row]) = Some (?row, r)"
    by (rule join_role_last) (use fresh r in
        \<open>auto simp: some_row_iff live_email_def new_user_row_def user_create_entity_def\<close>)
  then have "find_by_email (lc_email cmd) True s' = Some (to_auth_user ?row r)"
    by (simp add: find_by_email_def s' assms(4))
  then show ?thesis
    using assms(1) by (simp add: login_permitted_def locked_at_def password_right_def to_auth_user_def
        new_user_row_def user_create_entity_def lockout_of_def clean_def assms(5) s')
qed

text \<open>
  The address of a deleted account cannot be used again: the handler's existence check looks at live
  accounts only, so instead of \<open>user.email.alreadyExists\<close> the insert fails on the unique index.
\<close>

theorem deleted_email_conflicts:
  fixes s :: "'x backend_scheme"
  assumes "u \<in> set (users s)" "u_email u = cu_email b" "\<forall>x\<in>set (users s). u_email x = cu_email b \<longrightarrow> u_deletedAt x \<noteq> None"
    and "role_repo_find_by_id (cu_roleId b) s = Some role"
  shows "user_create_handler C salt new_id now b s = (Inl (Pg_Exn ''23505''), s)"
proof -
  have "\<not> user_repo_exists_by_email (cu_email b) s"
    using assms(3) by (auto simp: user_repo_exists_by_email_def some_row_iff live_email_def)
  moreover have "some_row (\<lambda>x. u_email x = cu_email b \<or> u_id x = new_id) (users s)"
    using assms(1,2) by (auto simp: some_row_iff)
  ultimately show ?thesis
    using assms(4) by (auto simp: user_create_handler_def andThen_def role_get_by_id_handler_def
        or_not_found_def user_repo_create_def user_create_entity_def)
qed

section \<open>Unlocking\<close>

lemma join_role_update_user:
  assumes "\<And>u. P (f u) = P u" "\<And>u. u_roleId (f u) = u_roleId u"
  shows "join_role rs P (update_rows Q f us) = map_option (\<lambda>(u, r). (if Q u then f u else u, r)) (join_role rs P us)"
  using assms by (intro join_role_update) simp_all

text \<open>
  Unlocking by an administrator ends a lock at once: after it, the right password signs in an account
  that is verified, however many failures were recorded and whether it was blocked or not.
\<close>

theorem unlock_allows_login:
  fixes s :: "'x backend_scheme"
  assumes "find_by_email (lc_email cmd) True s = Some u" "au_verified u" "password_right E u (lc_password cmd)"
    and "user_unlock_handler (au_id u) s = (Inr r, s')"
  shows "\<exists>u'. find_by_email (lc_email cmd) True s' = Some u' \<and> login_permitted E t cmd u' \<and> lockout_of u' = clean"
proof -
  let ?p = "empty_user_update\<lparr>uu_blocked := Some False, uu_failedLoginAttempts := Some 0,
    uu_failedLoginWindowStartedAt := Some None, uu_lockedUntil := Some None\<rparr>"
  have "\<exists>x. user_repo_update (au_id u) ?p s = (Inr x, s')"
    using assms(4) by (auto simp: user_unlock_handler_def andThen_def split: option.splits prod.splits sum.splits)
  then have s': "s' = s\<lparr>users := update_rows (\<lambda>x. u_id x = au_id u) (apply_user_update ?p) (users s)\<rparr>"
    using user_repo_update_ok by blast
  have same: "live_email e (apply_user_update ?p x) = live_email e x"
    "u_roleId (apply_user_update ?p x) = u_roleId x" for e x
    by (simp_all add: apply_user_update_def live_email_def empty_user_update_def)
  obtain row role where "join_role (roles s) (live_email (lc_email cmd)) (users s) = Some (row, role)"
    and u: "u = to_auth_user row role"
    using assms(1) by (auto simp: find_by_email_def)
  then have "find_by_email (lc_email cmd) True s' = Some (to_auth_user (apply_user_update ?p row) role)"
    by (simp add: find_by_email_def s'
        join_role_update_user [where P = "live_email (lc_email cmd)" and f = "apply_user_update ?p", OF same(1) same(2)])
  then show ?thesis
    using assms(2,3) by (simp add: u login_permitted_def locked_at_def password_right_def to_auth_user_def
        apply_user_update_def empty_user_update_def some_or_def lockout_of_def clean_def)
qed

section \<open>Reading\<close>

text \<open>
  The list endpoint returns the page of the live accounts that was asked for and the number of live
  accounts, so its pages partition them; page 1 with twenty rows is the default.
\<close>

theorem users_list_is_page:
  "users_get_handler page per_page s =
    (let p = coalesce page 1; pp = coalesce per_page 20;
         live = filter (\<lambda>u. u_deletedAt u = None) (users s)
     in (Inr (build_paginated (map (\<lambda>u. user_to_dto (with_role s u)) (page_of p pp live)) (int (length live)) p pp), s))"
proof -
  have "user_where (no_filter\<lparr>uf_limit := l, uf_offset := o'\<rparr>) = (\<lambda>u. u_deletedAt u = None)" for l o'
    by (simp add: fun_eq_iff user_where_def no_filter_def)
  then show ?thesis
    by (simp add: users_get_handler_def to_sql_pagination_def user_repo_find_def andThen_def page_of_def
        Let_def comp_def)
qed

text \<open>
  A profile is shown to its owner, to administrators and to managers, and to nobody else; what is shown
  does not depend on the password hash, the confirmation keys, the lockout counters or the token version.
\<close>

theorem profile_access:
  "(fst (user_get_by_id_endpoint i current rt s) = Inl (forbidden ''common.auth.forbidden'')
      \<longleftrightarrow> i \<noteq> current \<and> rt \<noteq> ADMIN \<and> rt \<noteq> MANAGER)
   \<and> snd (user_get_by_id_endpoint i current rt s) = s
   \<and> user_to_dto (u\<lparr>us_password := p, us_forgotConfirmKey := k, us_emailConfirmKey := k',
        us_failedLoginAttempts := a, us_failedLoginWindowStartedAt := w, us_lockedUntil := l,
        us_tokenVersion := v\<rparr>) = user_to_dto u"
  by (auto simp: user_get_by_id_endpoint_def user_get_by_id_handler_def andThen_def or_not_found_def
      user_to_dto_def split: option.split)

section \<open>Witnesses\<close>

definition demo_body :: create_user_body where
  "demo_body = \<lparr>cu_email = ''eve@x'', cu_password = ''Str0ng!Password'', cu_name = ''Eve'', cu_surname = ''Fox'',
     cu_middleName = None, cu_phone = None, cu_gender = None, cu_birthday = None, cu_roleId = ''role-user''\<rparr>"

theorem created_user_can_login_witness:
  "\<exists>u. find_by_email ''eve@x'' True (snd (user_create_handler demo_crypto ''s'' ''u9'' 3 demo_body demo_backend)) = Some u
    \<and> au_id u = ''u9''"
proof -
  let ?run = "user_create_handler demo_crypto ''s'' ''u9'' 3 demo_body demo_backend"
  have "isl (fst ?run) = False" by code_simp
  then obtain dto where "?run = (Inr dto, snd ?run)" by (cases ?run; cases "fst ?run") auto
  moreover have "argon2_ok (ae_crypto demo_env)" "ae_crypto demo_env = demo_crypto"
    by (simp_all add: demo_env_def demo_crypto_ok)
  moreover have "cu_roleId demo_body \<noteq> []" "lc_email (demo_login ''eve@x'' ''Str0ng!Password'') = cu_email demo_body"
    "lc_password (demo_login ''eve@x'' ''Str0ng!Password'') = cu_password demo_body" "cu_email demo_body = ''eve@x''"
    by (simp_all add: demo_body_def demo_login_def)
  ultimately show ?thesis
    using created_user_can_login [of demo_env demo_body "''s''" "''u9''" 3 demo_backend dto "snd ?run"
        "demo_login ''eve@x'' ''Str0ng!Password''" 4] by auto
qed

theorem deleted_email_conflicts_witness:
  "user_create_handler demo_crypto ''s'' ''u9'' 3 (demo_body\<lparr>cu_email := ''ann@x''\<rparr>)
      (snd (user_repo_delete 2 ''u1'' demo_backend))
   = (Inl (Pg_Exn ''23505''), snd (user_repo_delete 2 ''u1'' demo_backend))"
  by (rule deleted_email_conflicts [where u = "(demo_user ''u1'' ''ann@x'' None)\<lparr>u_deletedAt := Some 2\<rparr>" and role = "to_role demo_role"])
    (simp_all add: user_repo_delete_def demo_backend_def demo_user_def live_id_def demo_body_def
      role_repo_find_by_id_def live_role_def demo_role_def)

theorem user_update_revokes_tokens_witness:
  "\<exists>s'. user_update_handler redis_up ''u1'' \<lparr>ub_email = None, ub_name = None, ub_surname = None, ub_middleName = None,
       ub_phone = None, ub_gender = None, ub_birthday = None, ub_roleId = None, ub_blocked = Some True\<rparr> demo_backend
     = s' \<and> version_of ''u1'' (snd s') = Some 2"
proof -
  let ?b = "\<lparr>ub_email = None, ub_name = None, ub_surname = None, ub_middleName = None,
       ub_phone = None, ub_gender = None, ub_birthday = None, ub_roleId = None, ub_blocked = Some True\<rparr>"
  let ?run = "user_update_handler redis_up ''u1'' ?b demo_backend"
  have "isl (fst ?run) = False" by code_simp
  then obtain dto where run: "?run = (Inr dto, snd ?run)" by (cases ?run; cases "fst ?run") auto
  have prev: "user_repo_find_by_id ''u1'' demo_backend = Some (with_role demo_backend (demo_user ''u1'' ''ann@x'' None))"
    by (simp add: user_repo_find_by_id_def demo_backend_user)
  have "\<not> (set_fails redis_up \<and> del_fails redis_up \<and> del_again_fails redis_up)" by (simp add: redis_up_def)
  from user_update_revokes_tokens [OF demo_backend_user(1) prev run this]
  have "version_of ''u1'' (snd ?run) = Some 2"
    by (simp add: should_invalidate_access_tokens_def with_role_def to_user_def demo_user_def split: if_splits)
  then show ?thesis by blast
qed

theorem unlock_allows_login_witness:
  "\<exists>u'. find_by_email ''ann@x'' True (snd (user_unlock_handler ''u1'' (demo_backend\<lparr>users := users demo_db\<rparr>))) = Some u'
     \<and> lockout_of u' = clean"
proof -
  let ?s = "demo_backend\<lparr>users := users demo_db\<rparr>"
  have "find_by_email ''ann@x'' True ?s = find_by_email ''ann@x'' True demo_db"
    by (rule find_by_email_cong) (simp_all add: demo_backend_def demo_db_def)
  then have found: "find_by_email (lc_email (demo_login ''ann@x'' ''correct horse'')) True ?s = Some demo_ann"
    by (simp add: demo_find_ann demo_login_def)
  have "au_verified demo_ann" "password_right demo_env demo_ann (lc_password (demo_login ''ann@x'' ''correct horse''))"
    "au_id demo_ann = ''u1''" by code_simp+
  moreover have "fst (user_unlock_handler ''u1'' ?s) = Inr True" by code_simp
  then have "user_unlock_handler ''u1'' ?s = (Inr True, snd (user_unlock_handler ''u1'' ?s))" by (metis prod.collapse)
  ultimately show ?thesis
    using unlock_allows_login [OF found, of demo_env True "snd (user_unlock_handler ''u1'' ?s)" 0]
    by (auto simp: demo_login_def)
qed

end
