(* ===== verification/Mail_Properties.thy ===== *)
theory Mail_Properties
  imports Mail_Service Demo_World
begin

text \<open>
  The life of a queued mail.  The state machine of the queue (create, process one waiting job, retry
  the failed mails, edit the templates) keeps the invariant \<open>mail_inv\<close>: a pending mail has exactly
  one waiting job, a sent or failed one has none, no mail fails more than five times, and the
  transport accepted exactly one message per sent mail.
\<close>

section \<open>Updating one mail\<close>

lemma count_update_unique:
  assumes "distinct (map k rows)" "r \<in> set rows" "k r = i" "k (f r) = i"
  shows "count_rows Q (update_rows (\<lambda>x. k x = i) f rows) + (if Q r then 1 else 0)
    = count_rows Q rows + (if Q (f r) then 1 else 0)"
  using assms
proof (induction rows)
  case (Cons x rows)
  show ?case
  proof (cases "x = r")
    case True
    with Cons.prems have "\<not> some_row (\<lambda>x. k x = i) rows" by (auto simp: some_row_iff image_iff)
    then show ?thesis using True Cons.prems by (simp add: update_rows_none)
  next
    case False
    with Cons show ?thesis by (auto simp: image_iff)
  qed
qed simp

definition jobs :: "ident \<Rightarrow> 'x app_db_scheme \<Rightarrow> nat" where
  "jobs i d = count_rows (\<lambda>j. mj_mailId j = i) (mail_queue d)"

definition mail_row_ok :: "'x app_db_scheme \<Rightarrow> mail_row \<Rightarrow> bool" where
  "mail_row_ok d m = (m_deletedAt m = None \<and> template_of d m \<noteq> None \<and>
     (case (m_status m, m_attempts m) of
        (Some Mail_Pending, Some a) \<Rightarrow> 0 \<le> a \<and> a < 5 \<and> jobs (m_id m) d = 1
      | (Some Mail_Sent, Some a) \<Rightarrow> 0 \<le> a \<and> a < 5 \<and> jobs (m_id m) d = 0
      | (Some Mail_Failed, Some a) \<Rightarrow> 0 < a \<and> a \<le> 5 \<and> jobs (m_id m) d = 0
      | _ \<Rightarrow> False))"

lemma mail_row_ok_cong:
  assumes "jobs (m_id m) d' = jobs (m_id m) d" "mail_templates d' = mail_templates d"
  shows "mail_row_ok d' m = mail_row_ok d m"
  unfolding mail_row_ok_def template_of_def assms by (rule refl)

definition is_sent :: "mail_row \<Rightarrow> bool" where
  "is_sent m = (m_status m = Some Mail_Sent)"

definition mail_inv :: "'x app_db_scheme \<Rightarrow> bool" where
  "mail_inv d = (distinct (map m_id (mails d)) \<and> (\<forall>m\<in>set (mails d). mail_row_ok d m)
     \<and> (\<forall>j\<in>set (mail_queue d). mj_mailId j \<in> m_id ` set (mails d))
     \<and> length (outbox d) = count_rows is_sent (mails d))"

lemma mail_update_one:
  assumes "mail_inv d" "m \<in> set (mails d)" "m_id m = i"
    and "\<And>x. m_id (f x) = m_id x"
    and "mails d' = update_rows (\<lambda>x. m_id x = i) f (mails d)" "mail_templates d' = mail_templates d"
    and "mail_row_ok d' (f m)" "\<And>k. k \<noteq> i \<Longrightarrow> jobs k d' = jobs k d"
    and "\<And>j. j \<in> set (mail_queue d') \<Longrightarrow> j \<in> set (mail_queue d) \<or> mj_mailId j = i"
    and "length (outbox d') + (if is_sent m then 1 else 0) = length (outbox d) + (if is_sent (f m) then 1 else 0)"
  shows "mail_inv d'"
proof -
  have ids: "map m_id (mails d') = map m_id (mails d)"
    unfolding assms(5) by (rule map_update_rows) (simp add: assms(4))
  have dist: "distinct (map m_id (mails d))" using assms(1) by (simp add: mail_inv_def)
  have "mail_row_ok d' x" if "x \<in> set (mails d')" for x
  proof -
    from that obtain y where y: "y \<in> set (mails d)" "x = (if m_id y = i then f y else y)"
      unfolding assms(5) by (rule in_update_rowsE)
    show ?thesis
    proof (cases "m_id y = i")
      case True
      then have "y = m" using unique_key_eq [OF dist y(1) assms(2)] assms(3) by simp
      with y True assms(7) show ?thesis by simp
    next
      case False
      have "mail_row_ok d y" using assms(1) y(1) by (simp add: mail_inv_def)
      with y(2) False mail_row_ok_cong [OF assms(8) assms(6), of y] show ?thesis by simp
    qed
  qed
  moreover have "length (outbox d') = count_rows is_sent (mails d')"
    using count_update_unique [OF dist assms(2,3), of f is_sent] assms(1,3,4,5,10)
    by (simp add: mail_inv_def split: if_splits)
  moreover have "\<forall>j\<in>set (mail_queue d'). mj_mailId j \<in> m_id ` set (mails d')"
  proof
    fix j assume "j \<in> set (mail_queue d')"
    then have "j \<in> set (mail_queue d) \<or> mj_mailId j = i" by (rule assms(9))
    moreover have "m_id ` set (mails d') = m_id ` set (mails d)" using ids by (metis list.set_map)
    ultimately show "mj_mailId j \<in> m_id ` set (mails d')"
      using assms(1,2,3) by (auto simp: mail_inv_def)
  qed
  ultimately show ?thesis using dist ids by (simp add: mail_inv_def)
qed

section \<open>Sending one mail\<close>

lemma apply_mail_update_simps [simp]:
  "m_id (apply_mail_update now p m) = m_id m" "m_deletedAt (apply_mail_update now p m) = m_deletedAt m"
  "m_templateId (apply_mail_update now p m) = m_templateId m"
  "template_of d (apply_mail_update now p m) = template_of d m"
  by (simp_all add: apply_mail_update_def template_of_def)

lemma template_of_cong: "mail_templates d' = mail_templates d \<Longrightarrow> template_of d' = template_of d"
  by (simp add: template_of_def fun_eq_iff)

lemma find_by_id_row:
  assumes "distinct (map m_id (mails d))" "m \<in> set (mails d)" "m_deletedAt m = None" "template_of d m = Some t"
  shows "mail_repo_find_by_id (m_id m) d = Some (to_mail m t)"
proof -
  have "find_row (\<lambda>x. m_id x = m_id m \<and> m_deletedAt x = None \<and> template_of d x \<noteq> None) (mails d) = Some m"
    by (rule find_row_unique_key [OF assms(1,2)]) (use assms in auto)
  with assms(4) show ?thesis by (simp add: mail_repo_find_by_id_def)
qed

lemma mail_repo_update_row:
  assumes "distinct (map m_id (mails d))" "m \<in> set (mails d)" "m_deletedAt m = None" "template_of d m \<noteq> None"
  shows "\<exists>x. mail_repo_update now (m_id m) p d
    = (Inr x, d\<lparr>mails := update_rows (\<lambda>y. m_id y = m_id m) (apply_mail_update now p) (mails d)\<rparr>)"
proof -
  let ?d = "d\<lparr>mails := update_rows (\<lambda>y. m_id y = m_id m) (apply_mail_update now p) (mails d)\<rparr>"
  obtain t where t: "template_of d m = Some t" using assms(4) by auto
  have "template_of ?d = template_of d" by (rule template_of_cong) simp
  then have "template_of ?d (apply_mail_update now p m) = Some t" using t by simp
  moreover have "apply_mail_update now p m \<in> set (mails ?d)"
    using assms(2) by (auto simp: update_rows_def image_iff intro!: bexI [of _ m])
  moreover have "distinct (map m_id (mails ?d))"
    using assms(1) by (simp add: map_update_rows)
  ultimately have "mail_repo_find_by_id (m_id (apply_mail_update now p m)) ?d = Some (to_mail (apply_mail_update now p m) t)"
    using assms(3) by (intro find_by_id_row) simp_all
  then show ?thesis by (simp add: mail_repo_update_def)
qed

text \<open>Either the message was accepted and the mail is marked sent, or nothing was sent and it failed.\<close>

lemma send_mail_cases:
  fixes d :: "'x app_db_scheme"
  assumes "distinct (map m_id (mails d))" "m \<in> set (mails d)" "m_deletedAt m = None" "template_of d m \<noteq> None"
    and "mj_mailId j = m_id m"
  obtains (sent) x where "snd (send_mail E now j d) = d\<lparr>outbox := outbox d @ [x],
      mails := update_rows (\<lambda>y. m_id y = m_id m)
        (apply_mail_update now (no_mail_update\<lparr>mu_status := Some Mail_Sent, mu_sentAt := Some now\<rparr>)) (mails d)\<rparr>"
  | (failed) e where "snd (send_mail E now j d) = d\<lparr>mails := update_rows (\<lambda>y. m_id y = m_id m)
        (apply_mail_update now (no_mail_update\<lparr>mu_status := Some Mail_Failed,
          mu_attempts := Some (coalesce (m_attempts m) 0 + 1), mu_errorMessage := Some e\<rparr>)) (mails d)\<rparr>"
      "isl (fst (send_mail E now j d))"
proof -
  let ?up = "\<lambda>p. update_rows (\<lambda>y. m_id y = m_id m) (apply_mail_update now p) (mails d)"
  let ?sent = "no_mail_update\<lparr>mu_status := Some Mail_Sent, mu_sentAt := Some now\<rparr>"
  obtain t where t: "template_of d m = Some t" using assms(4) by auto
  have found: "mail_repo_find_by_id (m_id m) d = Some (to_mail m t)"
    by (rule find_by_id_row [OF assms(1-3) t])
  have fail: thesis if "send_attempt E now j d = (Inl e, d)" for e
  proof -
    let ?p = "no_mail_update\<lparr>mu_status := Some Mail_Failed,
      mu_attempts := Some (coalesce (m_attempts m) 0 + 1), mu_errorMessage := Some (error_message e)\<rparr>"
    obtain x where x: "mail_repo_update now (m_id m) ?p d = (Inr x, d\<lparr>mails := ?up ?p\<rparr>)"
      using mail_repo_update_row [OF assms(1-4)] by blast
    have "send_mail E now j d = (Inl e, d\<lparr>mails := ?up ?p\<rparr>)"
      unfolding send_mail_def using that assms(5) found x by (simp add: andThen_def to_mail_def)
    then show thesis by (intro failed) simp_all
  qed
  have win: thesis if "send_attempt E now j d
      = andThen (mail_repo_update now (m_id m) ?sent) (\<lambda>_. ret ()) (d\<lparr>outbox := outbox d @ [x]\<rparr>)" for x
  proof -
    let ?d = "d\<lparr>outbox := outbox d @ [x]\<rparr>"
    have "template_of ?d = template_of d" by (rule template_of_cong) simp
    then obtain y where "mail_repo_update now (m_id m) ?sent ?d
        = (Inr y, ?d\<lparr>mails := update_rows (\<lambda>y. m_id y = m_id m) (apply_mail_update now ?sent) (mails ?d)\<rparr>)"
      using mail_repo_update_row [of ?d m now ?sent] assms(1-4) by auto
    then have "send_attempt E now j d = (Inr (), d\<lparr>outbox := outbox d @ [x], mails := ?up ?sent\<rparr>)"
      using that by (simp add: andThen_def)
    then show thesis by (intro sent) (simp add: send_mail_def)
  qed
  show thesis
  proof (cases "template_repo_find_by_name (mj_template j) d")
    case None
    then show ?thesis by (intro fail) (simp add: send_attempt_def andThen_def)
  next
    case (Some te)
    show ?thesis
    proof (cases "te_isActive te")
      case False
      with Some show ?thesis by (intro fail) (simp add: send_attempt_def andThen_def)
    next
      case active: True
      show ?thesis
      proof (cases "template_content E (mj_template j) te")
        case (Inl e)
        with Some active show ?thesis by (intro fail) (simp add: send_attempt_def andThen_def)
      next
        case content: (Inr content)
        show ?thesis
        proof (cases "render E content (mj_context j)")
          case (Inl e)
          with Some active content show ?thesis by (intro fail) (simp add: send_attempt_def andThen_def)
        next
          case html: (Inr html)
          let ?m = "\<lparr>sm_to = mj_to j, sm_subject = or_else (Some (mj_subject j)) (te_subject te), sm_html = html\<rparr>"
          show ?thesis
          proof (cases "me_send E ?m")
            case None
            with Some active content html assms(5) show ?thesis
              by (intro win [of ?m]) (simp add: send_attempt_def andThen_def deliver_def)
          next
            case (Some e)
            with \<open>template_repo_find_by_name (mj_template j) d = Some te\<close> active content html show ?thesis
              by (intro fail) (simp add: send_attempt_def andThen_def deliver_def)
          qed
        qed
      qed
    qed
  qed
qed

section \<open>The queue as a state machine\<close>

lemma jobs_append [simp]: "jobs k (d\<lparr>mail_queue := q @ [j]\<rparr>) = jobs k (d\<lparr>mail_queue := q\<rparr>) + (if mj_mailId j = k then 1 else 0)"
  by (simp add: jobs_def)

lemma jobs_queue_cong: "mail_queue d' = mail_queue d \<Longrightarrow> jobs k d' = jobs k d"
  by (simp add: jobs_def)

lemma queue_remove:
  assumes "n < length q"
  shows "count_rows P q = count_rows P (take n q @ drop (Suc n) q) + (if P (q ! n) then 1 else 0)"
    and "set (take n q @ drop (Suc n) q) \<subseteq> set q"
proof -
  have "count_rows P q = count_rows P (take n q @ q ! n # drop (Suc n) q)"
    using id_take_nth_drop [OF assms] by simp
  then show "count_rows P q = count_rows P (take n q @ drop (Suc n) q) + (if P (q ! n) then 1 else 0)" by simp
qed (auto dest: in_set_takeD in_set_dropD)

text \<open>Creation of a mail whose id the table has not given before.\<close>

lemma create_keeps_inv:
  assumes "mail_inv d" "\<not> some_row (\<lambda>m. m_id m = i) (mails d)"
  shows "mail_inv (snd (send_mail_handler i now to subject template ctx d))"
proof (cases "(to = [] \<or> subject = []) \<or> find_row (live_template_name template) (mail_templates d) = None")
  case True
  then show ?thesis using assms(1)
    by (auto simp: send_mail_handler_def mail_repo_create_def mail_create_def andThen_def)
next
  case False
  then obtain t where t: "find_row (live_template_name template) (mail_templates d) = Some t" by auto
  let ?row = "\<lparr>m_id = i, m_createdAt = now, m_updatedAt = now, m_deletedAt = None, m_to = to,
    m_subject = subject, m_templateId = mt_id t, m_status = Some Mail_Pending, m_variables = ctx,
    m_attempts = Some 0, m_errorMessage = None, m_sentAt = None\<rparr>"
  let ?d = "snd (send_mail_handler i now to subject template ctx d)"
  obtain j where j: "mj_mailId j = i" "?d = d\<lparr>mails := mails d @ [?row], mail_queue := mail_queue d @ [j]\<rparr>"
    using False t by (intro that [of "\<lparr>mj_mailId = i, mj_to = to, mj_subject = subject, mj_template = mt_name t, mj_context = ctx\<rparr>"])
      (simp_all add: send_mail_handler_def mail_repo_create_def mail_create_def andThen_def add_to_queue_def to_mail_def)
  have fresh: "i \<notin> m_id ` set (mails d)" using assms(2) by (auto simp: some_row_iff)
  have jobs: "jobs k ?d = jobs k d + (if k = i then 1 else 0)" for k
    using j by (simp add: jobs_def)
  have none: "jobs i d = 0"
    using assms(1) fresh by (auto simp: jobs_def mail_inv_def some_row_iff)
  have "template_of ?d ?row \<noteq> None"
    using find_row_SomeD [OF t] by (auto simp: j(2) template_of_def find_row_None)
  then have "mail_row_ok ?d ?row" using jobs [of i] none by (simp add: mail_row_ok_def)
  moreover have "mail_row_ok ?d m" if "m \<in> set (mails d)" for m
  proof -
    have "m_id m \<noteq> i" using that fresh by auto
    then have "mail_row_ok ?d m = mail_row_ok d m"
      using jobs [of "m_id m"] by (intro mail_row_ok_cong) (simp_all add: j(2))
    then show ?thesis using that assms(1) by (simp add: mail_inv_def)
  qed
  ultimately show ?thesis using assms(1) fresh j
    by (auto simp: mail_inv_def is_sent_def)
qed

lemma process_keeps_inv:
  assumes "mail_inv d" and that: "n < length (mail_queue d)" "j = mail_queue d ! n"
  shows "mail_inv (snd (send_mail E now j (d\<lparr>mail_queue := take n (mail_queue d) @ drop (Suc n) (mail_queue d)\<rparr>)))"
proof -
  let ?d = "d\<lparr>mail_queue := take n (mail_queue d) @ drop (Suc n) (mail_queue d)\<rparr>"
  have "mj_mailId j \<in> m_id ` set (mails d)" using assms that by (simp add: mail_inv_def)
  then obtain m where m: "m \<in> set (mails d)" "mj_mailId j = m_id m" by auto
  have ok: "mail_row_ok d m" and dist: "distinct (map m_id (mails d))" using assms m(1) by (simp_all add: mail_inv_def)
  have jobs: "jobs k d = jobs k ?d + (if k = m_id m then 1 else 0)" for k
    using queue_remove(1) [OF that(1), of "\<lambda>j. mj_mailId j = k"] m(2) that(2) by (auto simp: jobs_def)
  with ok obtain a where a: "m_status m = Some Mail_Pending" "m_attempts m = Some a" "0 \<le> a" "a < 5"
    "jobs (m_id m) ?d = 0" "m_deletedAt m = None" "template_of d m \<noteq> None"
    by (auto simp: mail_row_ok_def split: option.splits mail_status.splits)
  have tq: "template_of ?d = template_of d" by (rule template_of_cong) simp
  have sub: "j' \<in> set (mail_queue d)" if "j' \<in> set (take n (mail_queue d) @ drop (Suc n) (mail_queue d))" for j'
    using queue_remove(2) [OF assms(2)] that by blast
  have "distinct (map m_id (mails ?d))" "m \<in> set (mails ?d)" "m_deletedAt m = None" "template_of ?d m \<noteq> None"
    using dist m(1) a tq by simp_all
  then show ?thesis
  proof (rule send_mail_cases [OF _ _ _ _ m(2), where d = ?d and E = E and now = now])
    fix x let ?p = "no_mail_update\<lparr>mu_status := Some Mail_Sent, mu_sentAt := Some now\<rparr>"
    let ?d' = "?d\<lparr>outbox := outbox ?d @ [x],
      mails := update_rows (\<lambda>y. m_id y = m_id m) (apply_mail_update now ?p) (mails ?d)\<rparr>"
    assume run: "snd (send_mail E now j ?d) = ?d'"
    have "template_of ?d' = template_of d" by (rule template_of_cong) simp
    moreover have "jobs k ?d' = jobs k ?d" for k by (rule jobs_queue_cong) simp
    ultimately have "mail_inv ?d'"
      using a m(1) jobs sub
      by (intro mail_update_one [OF assms(1) m(1) refl, where f = "apply_mail_update now ?p"])
        (auto simp: mail_row_ok_def is_sent_def apply_mail_update_def no_mail_update_def keep_or_def template_of_def)
    then show ?thesis unfolding run .
  next
    fix e let ?p = "no_mail_update\<lparr>mu_status := Some Mail_Failed,
      mu_attempts := Some (coalesce (m_attempts m) 0 + 1), mu_errorMessage := Some e\<rparr>"
    let ?d' = "?d\<lparr>mails := update_rows (\<lambda>y. m_id y = m_id m) (apply_mail_update now ?p) (mails ?d)\<rparr>"
    assume run: "snd (send_mail E now j ?d) = ?d'"
    have "template_of ?d' = template_of d" by (rule template_of_cong) simp
    moreover have "jobs k ?d' = jobs k ?d" for k by (rule jobs_queue_cong) simp
    ultimately have "mail_inv ?d'"
      using a m(1) jobs sub
      by (intro mail_update_one [OF assms(1) m(1) refl, where f = "apply_mail_update now ?p"])
        (auto simp: mail_row_ok_def is_sent_def apply_mail_update_def no_mail_update_def keep_or_def template_of_def)
    then show ?thesis unfolding run .
  qed
qed

lemma retry_one:
  fixes d :: "'x app_db_scheme"
  assumes "mail_inv d" "m \<in> set (mails d)" "m_status m = Some Mail_Failed" "m_attempts m = Some a" "a < 5"
    and "ma_id x = m_id m"
  shows "\<exists>d'. andThen (mail_repo_update now (ma_id x) (no_mail_update\<lparr>mu_status := Some Mail_Pending\<rparr>))
      (\<lambda>_. add_to_queue x) d = (Inr (), d') \<and> mail_inv d'
    \<and> mails d' = update_rows (\<lambda>y. m_id y = m_id m)
        (apply_mail_update now (no_mail_update\<lparr>mu_status := Some Mail_Pending\<rparr>)) (mails d)"
proof -
  let ?p = "no_mail_update\<lparr>mu_status := Some Mail_Pending\<rparr>"
  have ok: "mail_row_ok d m" and dist: "distinct (map m_id (mails d))" using assms(1,2) by (simp_all add: mail_inv_def)
  then have m: "m_deletedAt m = None" "template_of d m \<noteq> None" "0 < a" "jobs (m_id m) d = 0"
    using assms(3,4) by (simp_all add: mail_row_ok_def)
  let ?d = "d\<lparr>mails := update_rows (\<lambda>y. m_id y = m_id m) (apply_mail_update now ?p) (mails d)\<rparr>"
  let ?d' = "?d\<lparr>mail_queue := mail_queue ?d @ [job_of x]\<rparr>"
  obtain y where "mail_repo_update now (m_id m) ?p d = (Inr y, ?d)"
    using mail_repo_update_row [OF dist assms(2) m(1,2)] by blast
  then have run: "andThen (mail_repo_update now (ma_id x) ?p) (\<lambda>_. add_to_queue x) d = (Inr (), ?d')"
    by (simp add: assms(6) andThen_def add_to_queue_def job_of_def)
  have "template_of ?d' = template_of d" by (rule template_of_cong) simp
  then have "mail_inv ?d'"
    using assms m
    by (intro mail_update_one [OF assms(1,2) refl, where f = "apply_mail_update now ?p"])
      (auto simp: mail_row_ok_def is_sent_def apply_mail_update_def no_mail_update_def keep_or_def template_of_def
        job_of_def jobs_def)
  with run show ?thesis by auto
qed

lemma retry_mails_keeps_inv:
  fixes d :: "'x app_db_scheme"
  assumes "mail_inv d" "distinct (map ma_id xs)"
    and "\<And>x. x \<in> set xs \<Longrightarrow> \<exists>m a. m \<in> set (mails d) \<and> m_id m = ma_id x \<and> m_status m = Some Mail_Failed
      \<and> m_attempts m = Some a \<and> a < 5"
  shows "mail_inv (snd (retry_mails now xs d))"
  using assms
proof (induction xs arbitrary: d)
  case (Cons x xs)
  obtain m a where m: "m \<in> set (mails d)" "m_id m = ma_id x" "m_status m = Some Mail_Failed" "m_attempts m = Some a" "a < 5"
    using Cons.prems(3) [of x] by auto
  obtain d' where d': "andThen (mail_repo_update now (ma_id x) (no_mail_update\<lparr>mu_status := Some Mail_Pending\<rparr>))
      (\<lambda>_. add_to_queue x) d = (Inr (), d')" "mail_inv d'"
    "mails d' = update_rows (\<lambda>y. m_id y = m_id m)
        (apply_mail_update now (no_mail_update\<lparr>mu_status := Some Mail_Pending\<rparr>)) (mails d)"
    using retry_one [OF Cons.prems(1) m(1,3-5)] m(2) by auto
  have "retry_mails now (x # xs) d = retry_mails now xs d'"
    using d'(1) unfolding retry_mails.simps(2) andThen_assoc [symmetric] by (simp add: andThen_def)
  moreover have "\<exists>m a. m \<in> set (mails d') \<and> m_id m = ma_id y \<and> m_status m = Some Mail_Failed
      \<and> m_attempts m = Some a \<and> a < 5" if "y \<in> set xs" for y
  proof -
    obtain m' a where m': "m' \<in> set (mails d)" "m_id m' = ma_id y" "m_status m' = Some Mail_Failed" "m_attempts m' = Some a" "a < 5"
      using Cons.prems(3) [of y] \<open>y \<in> set xs\<close> by auto
    have "m_id m' \<noteq> m_id m" using Cons.prems(2) \<open>y \<in> set xs\<close> m'(2) m(2) by (auto simp: image_iff)
    then have "m' \<in> set (mails d')" unfolding d'(3) using m'(1) by (auto simp: update_rows_def image_iff intro!: bexI [of _ m'])
    with m' show ?thesis by blast
  qed
  ultimately show ?case using Cons.IH [OF d'(2)] Cons.prems(2) by simp
qed simp

lemma retry_keeps_inv:
  assumes "mail_inv d"
  shows "mail_inv (snd (retry_failed_mails_handler now d))"
proof -
  let ?xs = "filter can_retry (mail_repo_find_by_status Mail_Failed d)"
  have ids: "map ma_id (mail_repo_find_by_status Mail_Failed d) = map m_id
      (filter (\<lambda>m. m_status m = Some Mail_Failed \<and> m_deletedAt m = None \<and> template_of d m \<noteq> None) (mails d))"
    by (simp add: mail_repo_find_by_status_def to_mail_def)
  have "distinct (map ma_id (mail_repo_find_by_status Mail_Failed d))"
    unfolding ids using assms by (intro distinct_map_filter) (simp add: mail_inv_def)
  then have "distinct (map ma_id ?xs)" by (rule distinct_map_filter)
  moreover have "\<exists>m a. m \<in> set (mails d) \<and> m_id m = ma_id x \<and> m_status m = Some Mail_Failed
      \<and> m_attempts m = Some a \<and> a < 5" if "x \<in> set ?xs" for x
  proof -
    from that obtain m where m: "m \<in> set (mails d)" "m_status m = Some Mail_Failed"
      "x = to_mail m (the (template_of d m))" "can_retry x"
      by (auto simp: mail_repo_find_by_status_def)
    moreover have "mail_row_ok d m" using assms m(1) by (simp add: mail_inv_def)
    ultimately show ?thesis by (auto simp: mail_row_ok_def can_retry_def to_mail_def split: option.splits)
  qed
  ultimately have "mail_inv (snd (retry_mails now ?xs d))" by (intro retry_mails_keeps_inv assms)
  then show ?thesis
    by (auto simp: retry_failed_mails_handler_def andThen_def Let_def split: prod.splits sum.splits)
qed

lemma template_change_keeps_inv:
  assumes "mail_inv d" "mails d' = mails d" "mail_queue d' = mail_queue d" "outbox d' = outbox d"
    and "\<And>m. template_of d m \<noteq> None \<Longrightarrow> template_of d' m \<noteq> None"
  shows "mail_inv d'"
proof -
  have "mail_row_ok d' m" if "mail_row_ok d m" for m
    using that assms(5) [of m] unfolding mail_row_ok_def jobs_def assms(3) by blast
  then show ?thesis using assms(1) unfolding mail_inv_def assms(2-4) by blast
qed

lemma template_of_update:
  assumes "\<And>t. mt_id (f t) = mt_id t" "mail_templates d' = update_rows P f (mail_templates d)"
  shows "template_of d m \<noteq> None \<Longrightarrow> template_of d' m \<noteq> None"
  unfolding template_of_def assms(2) using assms(1) by (subst find_row_update_same) simp_all

inductive mail_step :: "mail_env \<Rightarrow> 'x app_db_scheme \<Rightarrow> 'x app_db_scheme \<Rightarrow> bool" for E :: mail_env where
  step_create: "\<not> some_row (\<lambda>m. m_id m = i) (mails d) \<Longrightarrow>
    mail_step E d (snd (send_mail_handler i now to subject template ctx d))"
| step_process: "mail_step E d (mail_processor E now k d)"
| step_retry: "mail_step E d (snd (retry_failed_mails_handler now d))"
| step_template_create: "mail_step E d (snd (create_template_handler i now name subject content active d))"
| step_template_update: "mail_step E d (snd (update_template_handler now i p d))"
| step_template_delete: "mail_step E d (snd (delete_template_handler now i d))"

definition fresh_queue :: "'x app_db_scheme \<Rightarrow> bool" where
  "fresh_queue d = (mails d = [] \<and> mail_queue d = [] \<and> outbox d = [])"

lemma mail_step_keeps_inv: "mail_step E d d' \<Longrightarrow> mail_inv d \<Longrightarrow> mail_inv d'"
proof (induction rule: mail_step.induct)
  case (step_create i d now to subject template ctx)
  then show ?case by (intro create_keeps_inv)
next
  case (step_process d now k)
  then show ?case using process_keeps_inv [OF step_process _ refl] by (simp add: mail_processor_def)
next
  case (step_retry d now)
  then show ?case by (rule retry_keeps_inv)
next
  case (step_template_create d i now name subject content active)
  then show ?case
    by (rule template_change_keeps_inv)
      (auto simp: create_template_handler_def template_repo_create_def andThen_def template_of_def Let_def
        find_row_append split: option.split)
next
  case (step_template_update d now i p)
  let ?d = "d\<lparr>mail_templates := update_rows (live_template_id i) (apply_template_update now p) (mail_templates d)\<rparr>"
  have "snd (update_template_handler now i p d) = ?d"
    by (simp add: update_template_handler_def template_repo_update_def andThen_def Let_def split: option.split)
  moreover have "mail_inv ?d"
    using step_template_update
    by (rule template_change_keeps_inv) (simp_all add: template_of_update [of "apply_template_update now p"]
      apply_template_update_def)
  ultimately show ?case by simp
next
  case (step_template_delete d now i)
  then show ?case unfolding delete_template_handler_def template_repo_delete_def modify_run
    by (rule template_change_keeps_inv)
      (simp_all add: template_of_update [of "\<lambda>t. t\<lparr>mt_deletedAt := Some now, mt_updatedAt := now\<rparr>"])
qed

lemma fresh_queue_inv: "fresh_queue d \<Longrightarrow> mail_inv d"
  by (simp add: fresh_queue_def mail_inv_def)

interpretation mail_machine: transitions fresh_queue "mail_step E" mail_inv
  by unfold_locales (rule fresh_queue_inv, assumption, rule mail_step_keeps_inv)


section \<open>Batches\<close>

lemma concat_chunk_array: "0 < k \<Longrightarrow> concat (chunk_array k xs) = xs"
proof (induction k xs rule: chunk_array.induct)
  case (1 k xs)
  show ?case
  proof (cases "xs = []")
    case True
    then show ?thesis by (subst chunk_array.simps) simp
  next
    case False
    with 1 show ?thesis by (subst chunk_array.simps) simp
  qed
qed

lemma chunk_array_bound: "chunk \<in> set (chunk_array k xs) \<Longrightarrow> chunk \<noteq> [] \<and> length chunk \<le> k"
proof (induction k xs rule: chunk_array.induct)
  case (1 k xs)
  then show ?case by (cases "xs = [] \<or> k = 0") (auto simp: chunk_array.simps [of k xs])
qed

lemma fold_send_all: "fold (\<lambda>chunk d. send_all E now chunk d) chunks d = send_all E now (concat chunks) d"
  by (induction chunks arbitrary: d) (simp_all add: send_all_def)

text \<open>
  Sending in batches sends every pending mail exactly once, in order, whatever the positive batch and
  chunk sizes are, and no chunk is longer than the concurrency.
\<close>

theorem process_queue_is_send_all:
  assumes "0 < concurrency" "0 < batch_size"
  shows "process_queue E now concurrency batch_size d
      = fold (\<lambda>m d. snd (send_mail E now (job_of m) d)) (mail_repo_find_by_status Mail_Pending d) d
    \<and> (\<forall>chunk\<in>set (chunk_array concurrency batch). length chunk \<le> concurrency)"
proof -
  have "fold (\<lambda>batch d. fold (\<lambda>chunk d. send_all E now chunk d) (chunk_array concurrency batch) d) bs d
      = send_all E now (concat bs) d" for bs
    by (induction bs arbitrary: d) (simp_all add: send_all_def fold_send_all concat_chunk_array [OF assms(1)])
  then show ?thesis
    using assms(2) chunk_array_bound by (auto simp: process_queue_def concat_chunk_array send_all_def)
qed

section \<open>Seeded templates\<close>

text \<open>Nothing changes for a name, or it gets a live template without content.\<close>

definition seeded_from :: "'x app_db_scheme \<Rightarrow> 'x app_db_scheme \<Rightarrow> bool" where
  "seeded_from d d' = (\<forall>n. template_repo_find_by_name n d' = template_repo_find_by_name n d
     \<or> template_repo_find_by_name n d = None \<and> map_option te_content (template_repo_find_by_name n d') = Some None)"

lemma seeded_from_refl [simp]: "seeded_from d d"
  by (simp add: seeded_from_def)

lemma seeded_from_trans:
  assumes "seeded_from d d1" "seeded_from d1 d2"
  shows "seeded_from d d2"
  unfolding seeded_from_def
proof
  fix n
  from assms(1) [unfolded seeded_from_def, rule_format, of n] assms(2) [unfolded seeded_from_def, rule_format, of n]
  show "template_repo_find_by_name n d2 = template_repo_find_by_name n d
     \<or> template_repo_find_by_name n d = None \<and> map_option te_content (template_repo_find_by_name n d2) = Some None"
    by (elim disjE conjE) simp_all
qed

lemma seeded_from_Some: "seeded_from d d' \<Longrightarrow> template_repo_find_by_name n d = Some t \<Longrightarrow> template_repo_find_by_name n d' = Some t"
  unfolding seeded_from_def by (drule spec [of _ n]) simp

lemma seeded_from_not_None: "seeded_from d d' \<Longrightarrow> template_repo_find_by_name n d \<noteq> None \<Longrightarrow> template_repo_find_by_name n d' \<noteq> None"
  using seeded_from_Some by blast

lemma seed_one:
  assumes "andThen (fetch (template_repo_find_by_name name)) (\<lambda>found. case found of Some _ \<Rightarrow> ret ()
       | None \<Rightarrow> andThen (template_repo_create i now name subject None (Some True)) (\<lambda>_. ret ())) d = (Inr (), d')"
  shows "template_repo_find_by_name name d' \<noteq> None \<and> seeded_from d d'"
proof (cases "template_repo_find_by_name name d")
  case (Some t)
  with assms show ?thesis by (auto simp: andThen_def)
next
  case None
  let ?row = "\<lparr>mt_id = i, mt_createdAt = now, mt_updatedAt = now, mt_deletedAt = None, mt_name = name,
    mt_subject = subject, mt_content = None, mt_isActive = Some True\<rparr>"
  have d': "d' = d\<lparr>mail_templates := mail_templates d @ [?row]\<rparr>"
    using assms None by (auto simp: andThen_def template_repo_create_def Let_def split: if_splits)
  have find: "template_repo_find_by_name n d' = (if template_repo_find_by_name n d \<noteq> None \<or> n \<noteq> name
      then template_repo_find_by_name n d else Some (to_template ?row))" for n
    by (auto simp: d' template_repo_find_by_name_def find_row_append live_template_name_def split: option.split)
  have "seeded_from d d'" unfolding seeded_from_def
  proof
    fix n
    show "template_repo_find_by_name n d' = template_repo_find_by_name n d
     \<or> template_repo_find_by_name n d = None \<and> map_option te_content (template_repo_find_by_name n d') = Some None"
      unfolding find [of n] by (auto simp: to_template_def)
  qed
  with find [of name] show ?thesis by (simp split: if_splits)
qed

lemma seed_list:
  assumes "seed_template_list ids now ts d = (Inr (), d')"
  shows "seeded_from d d' \<and> (\<forall>n s. (n, s) \<in> set ts \<longrightarrow> template_repo_find_by_name n d' \<noteq> None)"
  using assms
proof (induction ts arbitrary: d)
  case (Cons nt ts)
  obtain name subject where nt: "nt = (name, subject)" by fastforce
  let ?one = "andThen (fetch (template_repo_find_by_name name)) (\<lambda>found. case found of Some _ \<Rightarrow> ret ()
       | None \<Rightarrow> andThen (template_repo_create (ids name) now name subject None (Some True)) (\<lambda>_. ret ()))"
  have split: "seed_template_list ids now (nt # ts) d = andThen ?one (\<lambda>_. seed_template_list ids now ts) d"
    by (simp add: nt andThen_assoc)
  obtain x d1 where one: "?one d = (x, d1)" by fastforce
  show ?case
  proof (cases x)
    case (Inl e)
    with Cons.prems one split show ?thesis by (simp add: andThen_def [of ?one])
  next
    case (Inr u)
    with one have one': "?one d = (Inr (), d1)" by simp
    with Cons.prems split have "seed_template_list ids now ts d1 = (Inr (), d')" by (simp add: andThen_def [of ?one])
    note rest = Cons.IH [OF this] and first = seed_one [OF one']
    have trans: "seeded_from d d'" using first rest by (intro seeded_from_trans [of d d1 d']) simp_all
    have "template_repo_find_by_name name d' \<noteq> None"
      using first rest by (intro seeded_from_not_None [of d1 d']) simp_all
    with trans rest show ?thesis unfolding nt by (metis prod.inject set_ConsD)
  qed
qed simp

lemma seed_list_noop:
  "\<forall>(n, s)\<in>set ts. template_repo_find_by_name n d \<noteq> None \<Longrightarrow> seed_template_list ids now ts d = (Inr (), d)"
  by (induction ts) (auto simp: andThen_def)

lemma seed_templates_all: "\<exists>s. (n, s) \<in> set seed_templates"
  by (cases n) (auto simp: seed_templates_def)

text \<open>
  Seeding the mail templates, when it succeeds, leaves a live template for every template type, keeps the
  templates that were there, and does nothing when it runs again.
\<close>

theorem template_seed_complete:
  assumes "template_seed ids now d = (Inr (), d')"
  shows "(\<forall>n. template_repo_find_by_name n d' \<noteq> None)
    \<and> (\<forall>n t. template_repo_find_by_name n d = Some t \<longrightarrow> template_repo_find_by_name n d' = Some t)
    \<and> template_seed ids' now' d' = (Inr (), d')"
proof -
  have all: "template_repo_find_by_name n d' \<noteq> None" for n
    using seed_list [OF assms [unfolded template_seed_def]] seed_templates_all [of n] by metis
  then have "template_seed ids' now' d' = (Inr (), d')"
    unfolding template_seed_def by (intro seed_list_noop) auto
  moreover have "template_repo_find_by_name n d = Some t \<Longrightarrow> template_repo_find_by_name n d' = Some t" for n t
    using seed_list [OF assms [unfolded template_seed_def]] seeded_from_Some by blast
  ultimately show ?thesis using all by blast
qed

text \<open>
  With the seeded templates, which have no content, and the two template files of the repository, only the
  welcome and the notification mail can be sent: every job of another template, such as the password reset
  mail and the magic link, fails, and no message leaves.
\<close>

theorem seeded_mails_without_file_fail:
  fixes d :: "'x app_db_scheme"
  assumes "mail_templates d = []" "template_seed ids now d = (Inr (), d')"
    and "\<forall>f. me_file E f \<noteq> None \<longrightarrow> f \<in> set template_files"
    and "mj_template j \<noteq> Welcome" "mj_template j \<noteq> Notification_Template"
  shows "isl (fst (send_mail E now' j d')) \<and> outbox (snd (send_mail E now' j d')) = outbox d'"
proof -
  obtain t where t: "template_repo_find_by_name (mj_template j) d' = Some t"
    using seed_list [OF assms(2) [unfolded template_seed_def]] seed_templates_all by (metis not_None_eq)
  moreover have "template_repo_find_by_name (mj_template j) d = None"
    by (simp add: assms(1) template_repo_find_by_name_def)
  ultimately have "te_content t = None"
    using seed_list [OF assms(2) [unfolded template_seed_def]] spec [of _ "mj_template j"]
    by (auto simp: seeded_from_def) (metis map_option_eq_Some option.sel option.simps(3))
  moreover have "mail_template_type_str (mj_template j) @ ''.hbs'' \<notin> set template_files"
    using assms(4,5) by (cases "mj_template j") (simp_all add: template_files_def)
  then have "me_file E (mail_template_type_str (mj_template j) @ ''.hbs'') = None" using assms(3) by blast
  ultimately have "\<exists>e. send_attempt E now' j d' = (Inl e, d')"
    using t by (cases "te_isActive t") (simp_all add: send_attempt_def andThen_def template_content_def)
  then obtain e where "send_attempt E now' j d' = (Inl e, d')" by blast
  then show ?thesis
    by (auto simp: send_mail_def andThen_def mail_repo_update_def Let_def split: prod.splits sum.splits option.splits)
qed

section \<open>Witnesses\<close>

definition demo_mailer :: mail_env where
  "demo_mailer = \<lparr>me_file = (\<lambda>f. if f \<in> set template_files then Some ''Hello'' else None),
     me_render = (\<lambda>content ctx. Inr content), me_send = (\<lambda>m. None)\<rparr>"

definition demo_queued :: app_db where
  "demo_queued = snd (send_mail_handler ''m1'' 5 ''ann@x'' ''Hi'' Welcome [] demo_db)"


theorem process_queue_is_send_all_witness:
  "process_queue demo_mailer 6 5 50 demo_queued
    = fold (\<lambda>m d. snd (send_mail demo_mailer 6 (job_of m) d)) (mail_repo_find_by_status Mail_Pending demo_queued) demo_queued"
  by (rule process_queue_is_send_all [THEN conjunct1]) simp_all

definition demo_unseeded :: app_db where
  "demo_unseeded = demo_db\<lparr>mail_templates := []\<rparr>"

lemma demo_seeded:
  "template_seed mail_template_type_str 7 demo_unseeded = (Inr (), snd (template_seed mail_template_type_str 7 demo_unseeded))"
proof -
  have "fst (template_seed mail_template_type_str 7 demo_unseeded) = Inr ()" by code_simp
  then show ?thesis by (metis prod.collapse)
qed

theorem template_seed_complete_witness:
  "template_seed mail_template_type_str 8 (snd (template_seed mail_template_type_str 7 demo_unseeded))
    = (Inr (), snd (template_seed mail_template_type_str 7 demo_unseeded))"
  using template_seed_complete [OF demo_seeded] by blast

theorem seeded_mails_without_file_fail_witness:
  "isl (fst (send_mail demo_mailer 9 \<lparr>mj_mailId = ''m1'', mj_to = ''ann@x'', mj_subject = ''Reset'',
     mj_template = Reset_Password, mj_context = []\<rparr> (snd (template_seed mail_template_type_str 7 demo_unseeded))))"
proof -
  have "mail_templates demo_unseeded = []" by (simp add: demo_unseeded_def)
  moreover have "\<forall>f. me_file demo_mailer f \<noteq> None \<longrightarrow> f \<in> set template_files" by (simp add: demo_mailer_def)
  ultimately show ?thesis using seeded_mails_without_file_fail [OF _ demo_seeded] by simp
qed

end
