(* ===== verification/Auth_Http_Properties.thy ===== *)
theory Auth_Http_Properties
  imports Backend_Auth User_Properties Account_Properties Mail_Properties
begin

text \<open>
  What a browser sees of authentication.  The locale \<open>auth_gateway\<close> states what the controller needs
  of the port: a call leaves the reply, the published events, the cache, the set of live accounts and
  whatever else the backend's state holds alone.  It is interpreted on the gRPC gateway to the modelled auth service.
\<close>

section \<open>The contract of the gateway\<close>

definition outside :: "'x backend_scheme \<Rightarrow> 'x backend_scheme \<Rightarrow> bool" where
  "outside s0 s = (reply s = reply s0 \<and> events s = events s0 \<and> redis s = redis s0 \<and> backend.more s = backend.more s0
     \<and> map u_id (users s) = map u_id (users s0)
     \<and> (\<forall>i. some_row (live_id i) (users s) = some_row (live_id i) (users s0)))"

lemma outside_refl [simp]: "outside s s"
  by (simp add: outside_def)

locale auth_gateway =
  fixes gw :: "'x backend_scheme auth_port"
  assumes login_outside: "outside s (snd (gw_login gw c s))"
    and refresh_outside: "outside s (snd (gw_refresh gw rc s))"
    and logout_outside: "outside s (snd (gw_logout gw t s))"
    and forgot_outside: "outside s (snd (gw_forgot gw e s))"
    and reset_outside: "outside s (snd (gw_reset gw t pw s))"
    and change_outside: "outside s (snd (gw_change gw i pw pw' s))"
    and login_live: "gw_login gw c s = (Inr r, s') \<Longrightarrow> lr_success r \<Longrightarrow> some_row (live_id (lr_userId r)) (users s)"
begin

lemma login_refused:
  assumes "gw_login gw \<lparr>lc_email = email, lc_password = pw, lc_requestIp = request_ip req,
      lc_userAgent = user_agent req\<rparr> s = (Inr r, s')" "\<not> lr_success r"
  shows "\<exists>s''. user_login_handler gw cfg email pw req s = (Inl (login_error r), s'')
    \<and> reply s'' = reply s \<and> events s'' = events s @ [User_Login_Failed email]"
  using assms login_outside [of s "\<lparr>lc_email = email, lc_password = pw, lc_requestIp = request_ip req,
      lc_userAgent = user_agent req\<rparr>"]
  by (simp add: user_login_handler_def andThen_def publish_def outside_def)

lemma login_accepted:
  assumes "gw_login gw \<lparr>lc_email = email, lc_password = pw, lc_requestIp = request_ip req,
      lc_userAgent = user_agent req\<rparr> s = (Inr r, s')" "lr_success r"
  shows "\<exists>dto s''. user_login_handler gw cfg email pw req s = (Inr dto, s'')
    \<and> reply s'' = reply s @ auth_cookies cfg \<lparr>to_access = lr_accessToken r, to_refresh = lr_refreshToken r, to_csrf = lr_csrfToken r\<rparr>
    \<and> events s'' = events s @ [User_Login_Succeeded (lr_userId r) (lr_email r)] \<and> users s'' = users s'
    \<and> ar_accessToken dto = (if mode_of cfg = COOKIES_ONLY then None else Some (lr_accessToken r))
    \<and> ar_refreshToken dto = (if mode_of cfg = COOKIES_ONLY then None else Some (lr_refreshToken r))
    \<and> ar_csrfToken dto = (if csrf_enabled cfg \<and> mode_of cfg \<noteq> COOKIES_ONLY then Some (lr_csrfToken r) else None)
    \<and> ud_id (ar_user dto) = lr_userId r"
proof -
  let ?c = "\<lparr>lc_email = email, lc_password = pw, lc_requestIp = request_ip req, lc_userAgent = user_agent req\<rparr>"
  have out: "outside s s'" using login_outside [of s ?c] assms(1) by simp
  have "some_row (live_id (lr_userId r)) (users s')"
    using login_live [OF assms] out by (simp add: outside_def)
  then obtain u where u: "find_row (live_id (lr_userId r)) (users s') = Some u"
    by (auto simp: some_row_find)
  have "u_id u = lr_userId r" using find_row_SomeD [OF u] by (simp add: live_id_def)
  moreover have "user_repo_find_by_id (lr_userId r) (s'\<lparr>events := ev, reply := rp\<rparr>) = Some (with_role s' u)" for ev rp
    using u with_role_cong [of "s'\<lparr>events := ev, reply := rp\<rparr>" s' u] by (simp add: user_repo_find_by_id_def)
  ultimately show ?thesis
    using assms out by (simp add: user_login_handler_def andThen_def publish_def set_auth_cookies_def outside_def
        user_to_dto_def with_role_def to_user_def)
qed

lemma login_failed_call:
  assumes "gw_login gw \<lparr>lc_email = email, lc_password = pw, lc_requestIp = request_ip req,
      lc_userAgent = user_agent req\<rparr> s = (Inl e, s')"
  shows "user_login_handler gw cfg email pw req s = (Inl e, s')"
  using assms by (simp add: user_login_handler_def andThen_def)

text \<open>The operations on the reply that one request of the controller makes.\<close>

lemma login_cookies:
  "\<exists>ops. reply (snd (user_login_handler gw cfg email pw req s)) = reply s @ ops
    \<and> (ops = [] \<or> \<not> isl (fst (user_login_handler gw cfg email pw req s)) \<and> (\<exists>t. ops = auth_cookies cfg t))"
proof -
  let ?c = "\<lparr>lc_email = email, lc_password = pw, lc_requestIp = request_ip req, lc_userAgent = user_agent req\<rparr>"
  obtain r s' where r: "gw_login gw ?c s = (r, s')" by fastforce
  show ?thesis
  proof (cases r)
    case (Inl e)
    with login_failed_call r login_outside [of s ?c] show ?thesis by (simp add: outside_def)
  next
    case (Inr x)
    show ?thesis
    proof (cases "lr_success x")
      case True
      from login_accepted [OF r [unfolded Inr] this, of cfg] show ?thesis by fastforce
    next
      case False
      from login_refused [OF r [unfolded Inr] this, of cfg] show ?thesis by fastforce
    qed
  qed
qed

lemma refresh_cookies:
  "\<exists>ops. reply (snd (refresh_tokens_handler gw cfg token req s)) = reply s @ ops
    \<and> (ops = [] \<or> \<not> isl (fst (refresh_tokens_handler gw cfg token req s)) \<and> (\<exists>t. ops = auth_cookies cfg t))"
  using refresh_outside [of s "\<lparr>rq_refreshToken = token, rq_requestIp = request_ip req, rq_userAgent = user_agent req\<rparr>"]
  by (auto simp: refresh_tokens_handler_def andThen_def set_auth_cookies_def outside_def split: prod.splits sum.splits)

lemma logout_cookies:
  "\<exists>ops. reply (snd (user_logout_handler gw cfg token s)) = reply s @ ops \<and> (\<forall>c. Set_Cookie c \<notin> set ops)"
  using logout_outside [of s token]
  by (auto simp: user_logout_handler_def andThen_def clear_auth_cookies_def publish_def outside_def
      split: prod.splits sum.splits)

lemma other_cookies:
  "reply (snd (forgot_password_command gw e s)) = reply s"
  "reply (snd (reset_password_command gw t pw s)) = reply s"
  "reply (snd (change_password_command gw i pw pw' s)) = reply s"
  using forgot_outside [of s e] reset_outside [of s t pw] change_outside [of s i pw pw']
  by (auto simp: forgot_password_command_def reset_password_command_def change_password_command_def
      andThen_def publish_def outside_def split: prod.splits sum.splits)

lemma controller_cookies:
  "\<exists>ops. reply (snd (auth_controller gw cfg req r s)) = reply s @ ops
    \<and> ((\<forall>c. Set_Cookie c \<notin> set ops)
       \<or> \<not> isl (fst (auth_controller gw cfg req r s)) \<and> (\<exists>t. ops = auth_cookies cfg t)
         \<and> ((\<exists>e pw. r = Post_Login e pw) \<or> (\<exists>b. r = Post_Refresh b)))"
proof (cases r)
  case (Get_Me i)
  then show ?thesis
    by (auto simp: auth_controller_def andThen_def user_get_by_id_handler_def or_not_found_def split: option.split)
next
  case (Post_Login e pw)
  obtain x s' where x: "user_login_handler gw cfg e pw req s = (x, s')" by fastforce
  with login_cookies [of cfg e pw req s] show ?thesis
    by (cases x) (auto simp: Post_Login auth_controller_def login_endpoint_def andThen_def)
next
  case (Post_Refresh b)
  show ?thesis
  proof (cases "truthy (presented_refresh_token req b)")
    case False
    then show ?thesis by (simp add: Post_Refresh auth_controller_def refresh_endpoint_def andThen_def Let_def)
  next
    case True
    obtain x s' where x: "refresh_tokens_handler gw cfg (the (presented_refresh_token req b)) req s = (x, s')" by fastforce
    with True refresh_cookies [of cfg "the (presented_refresh_token req b)" req s] show ?thesis
      by (cases x) (auto simp: Post_Refresh auth_controller_def refresh_endpoint_def andThen_def Let_def)
  qed
next
  case (Post_Logout b)
  show ?thesis
  proof (cases "truthy (presented_refresh_token req b)")
    case False
    then show ?thesis by (simp add: Post_Logout auth_controller_def logout_endpoint_def andThen_def Let_def)
  next
    case True
    obtain x s' where x: "user_logout_handler gw cfg (the (presented_refresh_token req b)) s = (x, s')" by fastforce
    with True logout_cookies [of cfg "the (presented_refresh_token req b)" s] show ?thesis
      by (cases x) (auto simp: Post_Logout auth_controller_def logout_endpoint_def andThen_def Let_def)
  qed
next
  case (Post_Forgot e)
  obtain x s' where "forgot_password_command gw e s = (x, s')" by fastforce
  with other_cookies(1) [of e s] show ?thesis by (cases x) (simp_all add: Post_Forgot auth_controller_def andThen_def)
next
  case (Post_Reset t pw)
  obtain x s' where "reset_password_command gw t pw s = (x, s')" by fastforce
  with other_cookies(2) [of t pw s] show ?thesis by (cases x) (simp_all add: Post_Reset auth_controller_def andThen_def)
next
  case (Post_Change i cur pw)
  obtain x s' where "change_password_command gw i cur pw s = (x, s')" by fastforce
  with other_cookies(3) [of i cur pw s] show ?thesis by (cases x) (simp_all add: Post_Change auth_controller_def andThen_def)
qed

end

section \<open>The gRPC gateway satisfies it\<close>

named_theorems outside_intro \<open>what each call of the auth service leaves alone\<close>

lemma live_apply: "some_row (live_id k) (update_rows P (apply_auth_update p) us) = some_row (live_id k) us"
  by (induction us) auto

lemma ids_apply: "map u_id (update_rows P (apply_auth_update p) us) = map u_id us"
  by (rule map_update_rows) simp

lemma outside_user_update [outside_intro]: "keeps (outside s0) (auth_user_update_row i p)"
  by (rule keepsI) (simp add: outside_def auth_user_update_row_def Let_def live_apply ids_apply)

lemma outside_refresh_create [outside_intro]: "keeps (outside s0) (refresh_create i now p)"
  by (rule keepsI) (simp add: outside_def refresh_create_def)

lemma outside_revoke [outside_intro]:
  "keeps (outside s0) (refresh_revoke_by_id i)" "keeps (outside s0) (refresh_revoke_all_for_user i)"
  "keeps (outside s0) (refresh_revoke_by_token t)"
  by (rule keepsI; simp add: outside_def refresh_run refresh_revoke_by_token_def Let_def)+

lemma outside_reset [outside_intro]:
  "keeps (outside s0) (reset_create i now n)" "keeps (outside s0) (reset_mark_used i)"
  by (rule keepsI; simp add: outside_def reset_create_def reset_mark_used_run Let_def)+

lemma outside_queue_mail [outside_intro]: "keeps (outside s0) (queue_mail i now p)"
  by (rule keepsI) (simp add: outside_def queue_mail_def split: option.split)

lemma outside_reject: "keeps (outside s0) (reject_invalid_credentials fr now u)"
  by (auto simp: reject_invalid_credentials_def queue_account_locked_email_def Let_def
      intro!: keeps_andThen keeps_swallow outside_intro split: prod.split option.split)

lemma outside_issue: "keeps (outside s0) (issue_login_tokens E fr now cmd u)"
  by (auto simp: issue_login_tokens_def intro!: keeps_andThen outside_intro split: prod.split)

lemma outside_login [outside_intro]: "keeps (outside s0) (login_handler E fr now cmd)"
  by (auto simp: login_handler_def migrate_password_hash_def clear_failed_logins_def Let_def
      intro!: keeps_andThen keeps_whenever outside_reject outside_issue outside_intro split: option.split)

lemma outside_rotate: "keeps (outside s0) (rotate_tokens E fr now cmd r u)"
  by (auto simp: rotate_tokens_def intro!: keeps_andThen outside_intro split: prod.split)

lemma outside_refresh [outside_intro]: "keeps (outside s0) (refresh_handler E fr now cmd)"
  by (auto simp: refresh_handler_def intro!: keeps_andThen outside_rotate outside_intro split: option.split)

lemma outside_others [outside_intro]:
  "keeps (outside s0) (logout_handler E now t)" "keeps (outside s0) (forgot_password_handler E ff now e)"
  "keeps (outside s0) (reset_password_handler E salt now t pw)"
  "keeps (outside s0) (change_password_handler E salt uid cur pw)"
  by (auto simp: logout_handler_def forgot_password_handler_def reset_password_handler_def
      change_password_handler_def Let_def intro!: keeps_andThen outside_intro split: option.split)

lemma over_rpc_outside: "keeps (outside s) m \<Longrightarrow> outside s (snd (over_rpc f m s))"
  using keepsD [of "outside s" m s] by (auto simp: over_rpc_def split: prod.splits sum.splits)

lemma over_rpc_Inr [simp]: "over_rpc f m s = (Inr x, s') \<longleftrightarrow> m s = (Inr x, s')"
  by (auto simp: over_rpc_def split: prod.splits sum.splits)

lemma login_success_live:
  fixes s :: "'x backend_scheme"
  assumes "login_handler E fr now c s = (Inr r, s')" "lr_success r"
  shows "\<exists>u. find_by_email (lc_email c) True s = Some u \<and> login_permitted E now c u
    \<and> r = login_success_response E fr now u \<and> some_row (live_id (lr_userId r)) (users s)"
proof (cases "\<exists>u. find_by_email (lc_email c) True s = Some u \<and> login_permitted E now c u")
  case True
  then obtain u where u: "find_by_email (lc_email c) True s = Some u" "login_permitted E now c u" by blast
  have r: "r = login_success_response E fr now u" using login_permitted_run [OF u, of fr] assms(1) by simp
  from u(1) show ?thesis
  proof (rule find_by_email_SomeD)
    fix row role assume "row \<in> set (users s)" "live_email (lc_email c) row" "u = to_auth_user row role"
    then have "some_row (live_id (lr_userId r)) (users s)"
      by (auto simp: r login_success_response_def some_row_iff live_id_def live_email_def)
    with u r show ?thesis by blast
  qed
next
  case False
  then have "\<forall>u. find_by_email (lc_email c) True s = Some u \<longrightarrow> \<not> login_permitted E now c u" by blast
  then obtain x d' reason l cap where "login_handler E fr now c s = (Inr x, d')" "x = login_failed reason l cap"
    by (rule login_denied_run)
  then have "r = login_failed reason l cap" using assms(1) by simp
  with assms(2) show ?thesis by (simp add: login_failed_def)
qed

interpretation grpc: auth_gateway "auth_grpc_gateway E rpc_error gf now"
  by unfold_locales (auto simp: auth_grpc_gateway_def intro!: over_rpc_outside outside_intro dest: login_success_live)

section \<open>Cookies\<close>

text \<open>
  C31.  The auth endpoints set cookies only when they succeed, only at login and refresh and never in the mode
  RESPONSE_ONLY; what they set are then exactly the access, the refresh and, with CSRF protection on, the CSRF
  cookie.  A rejected request leaves no cookie behind.
\<close>

theorem cookies_only_on_success:
  fixes s :: "'x backend_scheme"
  assumes "reply (snd (auth_controller (auth_grpc_gateway E rpc_error gf now) cfg req r s)) = reply s @ ops"
    and "Set_Cookie c \<in> set ops"
  shows "\<not> isl (fst (auth_controller (auth_grpc_gateway E rpc_error gf now) cfg req r s))
    \<and> mode_of cfg \<noteq> RESPONSE_ONLY \<and> (\<exists>t. ops = auth_cookies cfg t)
    \<and> ((\<exists>e pw. r = Post_Login e pw) \<or> (\<exists>b. r = Post_Refresh b))"
  using grpc.controller_cookies [of E rpc_error gf now cfg req r s] assms
  by (auto simp: auth_cookies_def split: if_splits)

section \<open>Login\<close>

definition browser_login :: "string \<Rightarrow> string \<Rightarrow> http_request \<Rightarrow> login_command" where
  "browser_login email pw req = \<lparr>lc_email = email, lc_password = pw, lc_requestIp = request_ip req,
     lc_userAgent = user_agent req\<rparr>"

lemma browser_login_simps [simp]: "lc_email (browser_login e pw req) = e" "lc_password (browser_login e pw req) = pw"
  by (simp_all add: browser_login_def)

lemma http_refused:
  fixes s :: "'x backend_scheme"
  assumes "login_handler E (gf_login gf) now (browser_login email pw req) s = (Inr (login_failed reason l cap), s1)"
  shows "\<exists>s'. login_endpoint (auth_grpc_gateway E rpc_error gf now) cfg email pw req s
      = (Inl (login_error (login_failed reason l cap)), s')
    \<and> reply s' = reply s \<and> events s' = events s @ [User_Login_Failed email]"
proof -
  have "gw_login (auth_grpc_gateway E rpc_error gf now) (browser_login email pw req) s
      = (Inr (login_failed reason l cap), s1)"
    using assms by (simp add: auth_grpc_gateway_def)
  from grpc.login_refused [OF this [unfolded browser_login_def], of cfg] show ?thesis
    by (simp add: login_failed_def login_endpoint_def)
qed

lemma http_accepted:
  fixes s :: "'x backend_scheme"
  assumes "find_by_email email True s = Some u" "login_permitted E now (browser_login email pw req) u"
  shows "\<exists>dto s'. login_endpoint (auth_grpc_gateway E rpc_error gf now) cfg email pw req s = (Inr dto, s')
    \<and> reply s' = reply s @ auth_cookies cfg \<lparr>to_access = issued_access E now u,
        to_refresh = issued_refresh E (gf_login gf) now u, to_csrf = fr_csrf (gf_login gf)\<rparr>
    \<and> ar_accessToken dto = (if mode_of cfg = COOKIES_ONLY then None else Some (issued_access E now u))
    \<and> ar_refreshToken dto = (if mode_of cfg = COOKIES_ONLY then None else Some (issued_refresh E (gf_login gf) now u))
    \<and> ud_id (ar_user dto) = au_id u"
proof -
  have "gw_login (auth_grpc_gateway E rpc_error gf now) (browser_login email pw req) s
      = (Inr (login_success_response E (gf_login gf) now u),
         (after_clear E (gf_login gf) pw u s)\<lparr>refreshes := refreshes s @ [issued_row E (gf_login gf) now (browser_login email pw req) u]\<rparr>)"
    using login_permitted_run [of "browser_login email pw req" s u E now "gf_login gf"] assms
    by (simp add: auth_grpc_gateway_def)
  note call = this
  have "lr_success (login_success_response E (gf_login gf) now u)" by (simp add: login_success_response_def)
  from grpc.login_accepted [OF call [unfolded browser_login_def] this, of cfg] obtain dto s' where
    "user_login_handler (auth_grpc_gateway E rpc_error gf now) cfg email pw req s = (Inr dto, s')"
    "reply s' = reply s @ auth_cookies cfg \<lparr>to_access = issued_access E now u,
        to_refresh = issued_refresh E (gf_login gf) now u, to_csrf = fr_csrf (gf_login gf)\<rparr>"
    "ar_accessToken dto = (if mode_of cfg = COOKIES_ONLY then None else Some (issued_access E now u))"
    "ar_refreshToken dto = (if mode_of cfg = COOKIES_ONLY then None else Some (issued_refresh E (gf_login gf) now u))"
    "ud_id (ar_user dto) = au_id u"
    unfolding login_success_response_def by fastforce
  then show ?thesis unfolding login_endpoint_def by blast
qed

text \<open>What a refused login answers.\<close>

definition login_answer :: "auth_env \<Rightarrow> int \<Rightarrow> string \<Rightarrow> auth_user option \<Rightarrow> exn option" where
  "login_answer E now pw found = (case found of
     None \<Rightarrow> Some (unauthorized ''user.auth.invalidCredentials'')
   | Some u \<Rightarrow>
       if \<not> au_verified u then Some (unauthorized ''user.auth.verified'')
       else if au_blocked u then Some (unauthorized ''user.auth.blocked'')
       else if is_locked now (lockout_of u) then Some (Http_Exn 403 ''user.auth.accountLocked''
         [(''lockedUntil'', J_Str (to_iso_string (the (au_lockedUntil u))))])
       else if \<not> password_right E u pw then Some (Http_Exn 401 ''user.auth.invalidCredentials''
         [(''requiresCaptcha'', J_Bool (3 \<le> lo_attempts (record_failure now (lockout_of u))))])
       else None)"

lemma login_answer_None: "login_answer E now pw (Some u) = None \<longleftrightarrow> login_permitted E now (browser_login e pw req) u"
  by (auto simp: login_answer_def login_permitted_def locked_at_is_locked)

lemma login_error_simps [simp]:
  "login_error (login_failed L_USER_NOT_FOUND l c) = unauthorized ''user.auth.invalidCredentials''"
  "login_error (login_failed L_NOT_VERIFIED l c) = unauthorized ''user.auth.verified''"
  "login_error (login_failed L_BLOCKED l c) = unauthorized ''user.auth.blocked''"
  "login_error (login_failed L_ACCOUNT_LOCKED l c) = Http_Exn 403 ''user.auth.accountLocked'' [(''lockedUntil'', J_Str l)]"
  "login_error (login_failed L_INVALID_CREDENTIALS l c)
     = Http_Exn 401 ''user.auth.invalidCredentials'' [(''requiresCaptcha'', J_Bool c)]"
  by (simp_all add: login_error_def login_failed_def)

lemma login_answer_Some:
  fixes s :: "'x backend_scheme"
  assumes "login_answer E now pw (find_by_email email True s) = Some e"
  shows "\<exists>reason l cap s1. login_handler E fr now (browser_login email pw req) s = (Inr (login_failed reason l cap), s1)
    \<and> login_error (login_failed reason l cap) = e"
proof (cases "find_by_email email True s")
  case None
  then have "login_handler E fr now (browser_login email pw req) s = (Inr (login_failed L_USER_NOT_FOUND [] False), s)"
    by (intro login_not_found) simp
  moreover have "login_error (login_failed L_USER_NOT_FOUND [] False) = e" using assms None by (simp add: login_answer_def)
  ultimately show ?thesis by blast
next
  case (Some u)
  then have found: "find_by_email (lc_email (browser_login email pw req)) True s = Some u" by simp
  consider (unverified) "\<not> au_verified u" | (blocked) "au_verified u" "au_blocked u"
    | (locked) "au_verified u" "\<not> au_blocked u" "is_locked now (lockout_of u)"
    | (wrong) "au_verified u" "\<not> au_blocked u" "\<not> is_locked now (lockout_of u)" "\<not> password_right E u pw"
    using assms Some by (auto simp: login_answer_def split: if_splits)
  then show ?thesis
  proof cases
    case unverified
    note login_unverified [OF found this, of E fr now]
    moreover have "login_error (login_failed L_NOT_VERIFIED [] False) = e" using unverified assms Some by (simp add: login_answer_def)
    ultimately show ?thesis by blast
  next
    case blocked
    note login_blocked [OF found this, of E fr now]
    moreover have "login_error (login_failed L_BLOCKED [] False) = e" using blocked assms Some by (simp add: login_answer_def)
    ultimately show ?thesis by blast
  next
    case locked
    note login_locked [OF found this, of E fr]
    moreover have "login_error (login_failed L_ACCOUNT_LOCKED (to_iso_string (the (au_lockedUntil u))) False) = e" using locked assms Some by (simp add: login_answer_def)
    ultimately show ?thesis by blast
  next
    case wrong
    then have "login_handler E fr now (browser_login email pw req) s = reject_invalid_credentials fr now u s"
      using login_wrong [OF found] by simp
    note this [unfolded reject_run [OF find_by_email_some_row [OF Some]]]
    moreover have "login_error (login_failed L_INVALID_CREDENTIALS []
        (lo_attempts (record_failure now (lockout_of u)) \<ge> CAPTCHA_ATTEMPT_THRESHOLD)) = e"
      using wrong assms Some by (simp add: login_answer_def CAPTCHA_ATTEMPT_THRESHOLD_def)
    ultimately show ?thesis by blast
  qed
qed


section \<open>CSRF\<close>

text \<open>The cookies of a reply as the browser sends them back.\<close>

definition cookie_pairs :: "cookie_op list \<Rightarrow> (string \<times> string) list" where
  "cookie_pairs ops = concat (map (\<lambda>x. case x of Set_Cookie c \<Rightarrow> [(ck_name c, ck_value c)] | Clear_Cookie n \<Rightarrow> []) ops)"

text \<open>
  C30.  The double submit cookie works with the default cookie name only.  After a login with CSRF protection
  on, a request with the cookies of the login passes the guard with the CSRF token in its header; without the
  header it is refused unless its method is safe or its path public.  If the cookie has any other configured
  name, the guard refuses every such request, with the right header too.
\<close>

theorem csrf_double_submit:
  assumes "csrf_enabled cfg" "map ascii_upper (hr_method req) \<notin> set SAFE_METHODS"
    and "\<not> list_ex (ends_with (raw_url (hr_url req))) PUBLIC_PATHS"
    and "hr_cookies req = cookie_pairs (auth_cookies cfg t)"
    and "mode_of cfg \<noteq> RESPONSE_ONLY" "to_csrf t \<noteq> []"
    and "access_cookie_name cfg \<noteq> ''csrf-token''" "refresh_cookie_name cfg \<noteq> ''csrf-token''"
  shows "csrf_guard cfg req =
    (if csrf_cookie_name cfg = ''csrf-token'' \<and> map_of (hr_headers req) ''x-csrf-token'' = Some (to_csrf t)
     then Inr True else Inl (forbidden ''common.csrf.invalid''))"
proof -
  have "map_of (hr_cookies req) ''csrf-token'' = (if csrf_cookie_name cfg = ''csrf-token'' then Some (to_csrf t) else None)"
    using assms(1,5,7,8) by (simp add: assms(4) auth_cookies_def cookie_pairs_def)
  then show ?thesis
    using assms(1-3,6) by (cases "map_of (hr_headers req) ''x-csrf-token''") (auto simp: csrf_guard_def Let_def)
qed

section \<open>Reset by an administrator\<close>

definition admin_reset_job :: "backend_config \<Rightarrow> forgot_fresh \<Rightarrow> string \<Rightarrow> string \<Rightarrow> mail_job" where
  "admin_reset_job cfg ff base to = \<lparr>mj_mailId = ff_mail_id ff, mj_to = to, mj_subject = admin_reset_subject,
     mj_template = Reset_Password, mj_context = [(''resetUrl'', J_Str (reset_url base (hex_encode (ff_bytes ff)))),
       (''expiryMinutes'', J_Num 1440)]\<rparr>"

lemma admin_reset_run:
  fixes s :: "'x backend_scheme"
  assumes "user_repo_find_by_id i s = Some u" "bc_host_origin cfg = Some base"
    and "some_row (live_template_name Reset_Password) (mail_templates s)"
    and "\<not> some_row (\<lambda>r. prt_token r = hex_encode (ff_bytes ff) \<or> prt_id r = ff_row_id ff) (resets s)"
  shows "\<exists>s'. admin_reset_password_handler cfg ff now i s = (Inr True, s')
    \<and> resets s' = resets s @ [\<lparr>prt_id = ff_row_id ff, prt_createdAt = now, prt_userId = i,
        prt_token = hex_encode (ff_bytes ff), prt_expiresAt = now + 86400000, prt_isUsed = False\<rparr>]
    \<and> mail_queue s' = mail_queue s @ [admin_reset_job cfg ff base (us_email u)]
    \<and> users s' = users s \<and> reply s' = reply s"
proof -
  obtain t where t: "find_row (live_template_name Reset_Password) (mail_templates s) = Some t"
    using assms(3) by (auto simp: some_row_find)
  then have "mt_name t = Reset_Password" using find_row_SomeD [OF t] by (simp add: live_template_name_def)
  with assms t show ?thesis
    by (simp add: admin_reset_password_handler_def andThen_def or_not_found_def reset_create_def
        reset_token_create_def Let_def get_or_throw_def mail_repo_create_def mail_create_def add_to_queue_def
        publish_def admin_reset_job_def to_mail_def)
qed

text \<open>
  An administrator's password reset mails the account's address a link that works for a day: the handler
  stores one token for that account and queues one mail with it, changes neither the password nor the sessions,
  and at any moment of the next 24 hours a reset with that token and a password of twelve characters succeeds.
\<close>

theorem admin_reset_roundtrip:
  fixes s :: "'x backend_scheme"
  assumes "user_repo_find_by_id i s = Some u" "bc_host_origin cfg = Some base"
    and "some_row (live_template_name Reset_Password) (mail_templates s)"
    and "\<not> some_row (\<lambda>r. prt_token r = hex_encode (ff_bytes ff) \<or> prt_id r = ff_row_id ff) (resets s)"
  shows "\<exists>s'. admin_reset_password_handler cfg ff now i s = (Inr True, s')
    \<and> mail_queue s' = mail_queue s @ [admin_reset_job cfg ff base (us_email u)]
    \<and> users s' = users s \<and> refreshes s' = refreshes s
    \<and> (\<forall>E rpc_error gf t pw. now \<le> t \<and> t < now + 86400000 \<and> 12 \<le> length pw \<longrightarrow>
         fst (reset_password_command (auth_grpc_gateway E rpc_error gf t) (hex_encode (ff_bytes ff)) pw s') = Inr True)"
proof -
  obtain s' where s': "admin_reset_password_handler cfg ff now i s = (Inr True, s')"
    "resets s' = resets s @ [\<lparr>prt_id = ff_row_id ff, prt_createdAt = now, prt_userId = i,
        prt_token = hex_encode (ff_bytes ff), prt_expiresAt = now + 86400000, prt_isUsed = False\<rparr>]"
    "mail_queue s' = mail_queue s @ [admin_reset_job cfg ff base (us_email u)]" "users s' = users s"
    using admin_reset_run [OF assms, of now] by blast
  have fs: "refreshes (snd (admin_reset_password_handler cfg ff now i s)) = refreshes s"
    by (auto simp: admin_reset_password_handler_def andThen_def or_not_found_def reset_create_def Let_def
        get_or_throw_def mail_repo_create_def add_to_queue_def publish_def split: option.split)
  let ?t = "\<lparr>pt_id = ff_row_id ff, pt_userId = i, pt_token = hex_encode (ff_bytes ff),
      pt_expiresAt = now + 86400000, pt_isUsed = False, pt_createdAt = now\<rparr>"
  have "find_row (\<lambda>r. prt_token r = hex_encode (ff_bytes ff)) (resets s) = None"
    using assms(4) by (auto simp: find_row_None some_row_iff)
  then have find: "reset_find_by_token (hex_encode (ff_bytes ff)) s' = Some ?t"
    by (simp add: reset_find_by_token_def s'(2) find_row_append to_reset_token_def)
  obtain row where "find_row (live_id i) (users s) = Some row" using assms(1) by (auto simp: user_repo_find_by_id_def)
  then have row: "some_row (\<lambda>r. u_id r = i) (users s')"
    using s'(4) by (auto simp: some_row_iff live_id_def dest!: find_row_SomeD)
  have "fst (reset_password_command (auth_grpc_gateway E rpc_error gf t) (hex_encode (ff_bytes ff)) pw s') = Inr True"
    if "now \<le> t" "t < now + 86400000" "12 \<le> length pw" for E rpc_error gf t pw
  proof -
    have "reset_password_handler E (fr_salt (gf_login gf)) t (hex_encode (ff_bytes ff)) pw s'
        = (Inr \<lparr>rs_success = True, rs_userId = i, rs_failureReason = []\<rparr>, after_reset E (fr_salt (gf_login gf)) ?t pw s')"
      using reset_accepted [OF that(3) find, of t E "fr_salt (gf_login gf)"] that row
      by (simp add: reset_is_valid_def reset_is_expired_def)
    then show ?thesis
      by (simp add: reset_password_command_def auth_grpc_gateway_def andThen_def over_rpc_def publish_def)
  qed
  with s' fs show ?thesis by auto
qed

section \<open>Magic links\<close>

interpretation magic_tokens: one_way use_magic_row ml_token "\<lambda>r. ml_isUsed r = Some True"
  by unfold_locales (simp_all add: use_magic_row_def)

text \<open>
  A magic link is mailed to any address: with the base URL configured, the template seeded and a fresh
  token, the request succeeds, stores the token and queues the mail whether or not the address has an account.
  The token is valid until its expiry and, once marked used, never again.
\<close>

theorem magic_link_any_address:
  fixes d :: "'x app_db_scheme"
  assumes "bc_magic_baseUrl cfg = Some base" "some_row (live_template_name Magic_Link_Login) (mail_templates d)"
    and "\<not> some_row (\<lambda>r. ml_token r = mf_token mf \<or> ml_id r = mf_row_id mf) (magics d)"
  shows "\<exists>d' row. magic_link_request_handler cfg mf now email fp agent d = (Inr True, d')
    \<and> length (mail_queue d') = length (mail_queue d) + 1 \<and> mj_to (last (mail_queue d')) = email
    \<and> magic_repo_find_by_token (mf_token mf) d' = Some (to_magic_token row)
    \<and> (magic_is_valid t (to_magic_token row) \<longleftrightarrow> t < now + coalesce (bc_magic_ttl cfg) 600000)
    \<and> (\<forall>x. magic_repo_find_by_token (mf_token mf) (snd (magic_repo_mark_as_used (mf_row_id mf) d')) = Some x
          \<longrightarrow> \<not> magic_is_valid t x)"
proof -
  obtain tm where tm: "find_row (live_template_name Magic_Link_Login) (mail_templates d) = Some tm"
    using assms(2) by (auto simp: some_row_find)
  let ?row = "\<lparr>ml_id = mf_row_id mf, ml_createdAt = now, ml_updatedAt = now, ml_deletedAt = None, ml_email = email,
        ml_token = mf_token mf, ml_expiresAt = now + coalesce (bc_magic_ttl cfg) 600000, ml_isUsed = Some False,
        ml_fingerprint = fp, ml_userAgent = agent\<rparr>"
  obtain d' where d': "magic_link_request_handler cfg mf now email fp agent d = (Inr True, d')"
    "magics d' = magics d @ [?row]" "length (mail_queue d') = length (mail_queue d) + 1"
    "mj_to (last (mail_queue d')) = email"
    using assms(1,3) tm by (simp add: magic_link_request_handler_def andThen_def magic_repo_create_def Let_def
        get_or_throw_def mail_repo_create_def mail_create_def add_to_queue_def to_mail_def)
  have "find_row (\<lambda>r. ml_token r = mf_token mf) (magics d) = None"
    using assms(3) by (auto simp: find_row_None some_row_iff)
  then have find: "find_row (\<lambda>r. ml_token r = mf_token mf) (magics d') = Some ?row"
    by (simp add: d'(2) find_row_append)
  have "\<not> magic_is_valid t x" if
    "magic_repo_find_by_token (mf_token mf) (snd (magic_repo_mark_as_used (mf_row_id mf) d')) = Some x" for x
  proof -
    have "ml_token r = mf_token mf \<Longrightarrow> r \<in> set (magics d') \<Longrightarrow> ml_id r = mf_row_id mf" for r
      using assms(3) by (auto simp: d'(2) some_row_iff)
    then have "all_closed ml_token (\<lambda>r. ml_isUsed r = Some True) (mf_token mf)
        (update_rows (\<lambda>r. ml_id r = mf_row_id mf) use_magic_row (magics d'))"
      by (intro magic_tokens.close_all_closed) blast
    with that magic_tokens.closed_row_dead show ?thesis
      by (auto simp: magic_repo_find_by_token_def magic_repo_mark_as_used_def to_magic_token_def magic_is_valid_def)
  qed
  with d' find show ?thesis
    by (intro exI [of _ d'] exI [of _ ?row])
      (auto simp: magic_repo_find_by_token_def to_magic_token_def magic_is_valid_def magic_is_expired_def)
qed

section \<open>Witnesses\<close>

definition demo_cookie :: cookie_config where
  "demo_cookie = \<lparr>cc_name = None, cc_httpOnly = None, cc_secure = None, cc_sameSite = None, cc_maxAge = None\<rparr>"

definition demo_config :: backend_config where
  "demo_config = \<lparr>bc_mode = None, bc_access = demo_cookie, bc_refresh = demo_cookie, bc_csrf = demo_cookie,
     bc_csrf_enabled = Some True, bc_magic_ttl = None, bc_magic_baseUrl = Some ''https://app/login'',
     bc_host_origin = Some ''https://app''\<rparr>"

definition demo_request :: "(string \<times> string) list \<Rightarrow> (string \<times> string) list \<Rightarrow> http_request" where
  "demo_request headers cookies = \<lparr>hr_method = ''post'', hr_url = ''/api/v1/users?x=1'', hr_headers = headers,
     hr_cookies = cookies, hr_ip = Some ''10.0.0.1''\<rparr>"

definition demo_http :: backend where
  "demo_http = demo_backend\<lparr>users := users demo_db, mail_templates := mail_templates demo_db\<rparr>"

definition demo_grpc :: grpc_fresh where
  "demo_grpc = \<lparr>gf_login = demo_fresh, gf_forgot = demo_forgot\<rparr>"

theorem cookies_only_on_success_witness:
  "\<not> isl (fst (auth_controller (auth_grpc_gateway demo_env id demo_grpc 0) demo_config (demo_request [] [])
      (Post_Login ''ann@x'' ''correct horse'') demo_http))"
proof -
  let ?run = "auth_controller (auth_grpc_gateway demo_env id demo_grpc 0) demo_config (demo_request [] [])
      (Post_Login ''ann@x'' ''correct horse'') demo_http"
  have "reply (snd ?run) = reply demo_http @ reply (snd ?run)" by (simp add: demo_http_def demo_backend_def)
  moreover have "\<exists>c. Set_Cookie c \<in> set (reply (snd ?run))"
  proof -
    have "list_ex (\<lambda>x. case x of Set_Cookie c \<Rightarrow> True | Clear_Cookie n \<Rightarrow> False) (reply (snd ?run))" by code_simp
    then show ?thesis by (auto simp: list_ex_iff split: cookie_op.splits) (metis cookie_op.exhaust)
  qed
  then obtain c where "Set_Cookie c \<in> set (reply (snd ?run))" by blast
  ultimately show ?thesis by (rule cookies_only_on_success [THEN conjunct1])
qed

theorem csrf_double_submit_witness:
  "csrf_guard demo_config (demo_request [(''x-csrf-token'', ''c'')]
      (cookie_pairs (auth_cookies demo_config \<lparr>to_access = ''a'', to_refresh = ''r'', to_csrf = ''c''\<rparr>))) = Inr True"
proof -
  let ?t = "\<lparr>to_access = ''a'', to_refresh = ''r'', to_csrf = ''c''\<rparr>"
  let ?req = "demo_request [(''x-csrf-token'', ''c'')] (cookie_pairs (auth_cookies demo_config ?t))"
  have "csrf_enabled demo_config" "map ascii_upper (hr_method ?req) \<notin> set SAFE_METHODS"
    "\<not> list_ex (ends_with (raw_url (hr_url ?req))) PUBLIC_PATHS" "mode_of demo_config \<noteq> RESPONSE_ONLY"
    "access_cookie_name demo_config \<noteq> ''csrf-token''" "refresh_cookie_name demo_config \<noteq> ''csrf-token''"
    "csrf_cookie_name demo_config = ''csrf-token''" "map_of (hr_headers ?req) ''x-csrf-token'' = Some (to_csrf ?t)"
    "hr_cookies ?req = cookie_pairs (auth_cookies demo_config ?t)" "to_csrf ?t \<noteq> []"
    by code_simp+
  then show ?thesis using csrf_double_submit [of demo_config ?req ?t] by simp
qed

theorem admin_reset_roundtrip_witness:
  "\<exists>s'. admin_reset_password_handler demo_config demo_forgot 5 ''u1'' demo_http = (Inr True, s')
    \<and> fst (reset_password_command (auth_grpc_gateway demo_env id demo_grpc 9) ''dead'' ''a long password'' s') = Inr True"
proof -
  obtain u where u: "user_repo_find_by_id ''u1'' demo_http = Some u"
    by (cases "user_repo_find_by_id ''u1'' demo_http")
      (simp_all add: user_repo_find_by_id_def demo_http_def demo_db_def demo_user_def live_id_def)
  have 2: "bc_host_origin demo_config = Some ''https://app''" by (simp add: demo_config_def)
  have 3: "some_row (live_template_name Reset_Password) (mail_templates demo_http)" by code_simp
  have 4: "\<not> some_row (\<lambda>r. prt_token r = hex_encode (ff_bytes demo_forgot) \<or> prt_id r = ff_row_id demo_forgot) (resets demo_http)"
    by code_simp
  have "hex_encode (ff_bytes demo_forgot) = ''dead''" by code_simp
  moreover have "12 \<le> length ''a long password''" by simp
  ultimately show ?thesis using admin_reset_roundtrip [OF u 2 3 4, of 5] by auto
qed

theorem magic_link_any_address_witness:
  "\<exists>d'. magic_link_request_handler demo_config \<lparr>mf_token = ''t'', mf_row_id = ''g1'', mf_mail_id = ''m9''\<rparr> 0
      ''nobody@x'' ''fp'' ''agent'' demo_db = (Inr True, d') \<and> mj_to (last (mail_queue d')) = ''nobody@x''"
proof -
  have "bc_magic_baseUrl demo_config = Some ''https://app/login''" by (simp add: demo_config_def)
  moreover have "some_row (live_template_name Magic_Link_Login) (mail_templates demo_db)" by code_simp
  moreover have "\<not> some_row (\<lambda>r. ml_token r = mf_token \<lparr>mf_token = ''t'', mf_row_id = ''g1'', mf_mail_id = ''m9''\<rparr>
      \<or> ml_id r = mf_row_id \<lparr>mf_token = ''t'', mf_row_id = ''g1'', mf_mail_id = ''m9''\<rparr>) (magics demo_db)"
    by (simp add: demo_db_def)
  ultimately show ?thesis using magic_link_any_address by blast
qed

end
