(* ===== verification/Policies.thy ===== *)
theory Policies
  imports Token_Version "HOL-Library.Product_Lexorder"
begin

text \<open>
  Role permissions: \<open>role-permission-repository.drizzle.ts\<close>, the ability cache of
  \<open>policies.service.ts\<close>, \<open>casl-ability.factory.ts\<close> and \<open>policies.guard.ts\<close>, which decides whether
  a request may run a handler.  The CASL package is the record \<open>casl\<close>, an argument; \<open>casl_ok\<close> is
  what its documentation promises of rules without conditions.
\<close>

section \<open>The order of the PostgreSQL enumerations\<close>

text \<open>\<open>pgEnum\<close> values compare in the order of their declaration in \<open>users.schema.ts\<close>.\<close>

fun action_rank :: "perm_action \<Rightarrow> nat" where
  "action_rank Create = 0" | "action_rank Read = 1" | "action_rank Update = 2" | "action_rank Delete = 3"

fun subject_rank :: "perm_subject \<Rightarrow> nat" where
  "subject_rank S_User = 0" | "subject_rank S_UserAdmin = 1" | "subject_rank S_UserRole = 2"
| "subject_rank S_File = 3" | "subject_rank S_FileAdmin = 4" | "subject_rank S_Notification = 5"
| "subject_rank S_AdminDashboard = 6" | "subject_rank S_AdminAccessLog = 7"
| "subject_rank S_AdminSettings = 8" | "subject_rank S_CaptchaAdmin = 9"

lemma action_rank_inj: "action_rank a = action_rank b \<longleftrightarrow> a = b"
  by (cases a; cases b) simp_all

lemma subject_rank_inj: "subject_rank a = subject_rank b \<longleftrightarrow> a = b"
  by (cases a; cases b) simp_all

instantiation perm_action :: linorder
begin

definition less_eq_perm_action :: "perm_action \<Rightarrow> perm_action \<Rightarrow> bool" where
  "less_eq_perm_action a b = (action_rank a \<le> action_rank b)"

definition less_perm_action :: "perm_action \<Rightarrow> perm_action \<Rightarrow> bool" where
  "less_perm_action a b = (action_rank a < action_rank b)"

instance
  by standard (auto simp: less_eq_perm_action_def less_perm_action_def action_rank_inj [symmetric])

end

instantiation perm_subject :: linorder
begin

definition less_eq_perm_subject :: "perm_subject \<Rightarrow> perm_subject \<Rightarrow> bool" where
  "less_eq_perm_subject a b = (subject_rank a \<le> subject_rank b)"

definition less_perm_subject :: "perm_subject \<Rightarrow> perm_subject \<Rightarrow> bool" where
  "less_perm_subject a b = (subject_rank a < subject_rank b)"

instance
  by standard (auto simp: less_eq_perm_subject_def less_perm_subject_def subject_rank_inj [symmetric])

end

section \<open>The permission repository\<close>

record role_permission =
  pm_id :: ident
  pm_createdAt :: int
  pm_updatedAt :: int
  pm_deletedAt :: "int option"
  pm_roleType :: role_type
  pm_action :: perm_action
  pm_subject :: perm_subject
  pm_description :: "string option"
  pm_isActive :: bool

definition to_permission :: "perm_row \<Rightarrow> role_permission" where
  "to_permission row = \<lparr>pm_id = rp_id row, pm_createdAt = rp_createdAt row,
     pm_updatedAt = rp_updatedAt row, pm_deletedAt = rp_deletedAt row,
     pm_roleType = rp_roleType row, pm_action = rp_action row, pm_subject = rp_subject row,
     pm_description = rp_description row, pm_isActive = coalesce (rp_isActive row) True\<rparr>"

definition perm_where :: "role_type option \<Rightarrow> bool option \<Rightarrow> perm_row \<Rightarrow> bool" where
  "perm_where role_type_f is_active r = (rp_deletedAt r = None
     \<and> (role_type_f \<noteq> None \<longrightarrow> Some (rp_roleType r) = role_type_f)
     \<and> (is_active \<noteq> None \<longrightarrow> rp_isActive r = is_active))"

definition perm_repo_find ::
    "role_type option \<Rightarrow> bool option \<Rightarrow> 'x users_db_scheme \<Rightarrow> role_permission list" where
  "perm_repo_find rt active d = map to_permission (filter (perm_where rt active) (permissions d))"

definition perm_repo_find_and_count ::
    "role_type option \<Rightarrow> bool option \<Rightarrow> 'x users_db_scheme \<Rightarrow> role_permission list \<times> nat" where
  "perm_repo_find_and_count rt active d =
     (map to_permission (filter (perm_where rt active) (permissions d)),
      count_rows (perm_where rt active) (permissions d))"

definition live_grant :: "role_type \<Rightarrow> perm_row \<Rightarrow> bool" where
  "live_grant rt r = (rp_roleType r = rt \<and> rp_isActive r = Some True \<and> rp_deletedAt r = None)"

definition perm_repo_find_by_role_type :: "role_type \<Rightarrow> 'x users_db_scheme \<Rightarrow> role_permission list" where
  "perm_repo_find_by_role_type rt d = map to_permission
     (sort_key (\<lambda>r. (rp_subject r, rp_action r)) (filter (live_grant rt) (permissions d)))"

text \<open>\<open>Subjects[] | Subjects\<close>.\<close>

datatype subject_arg = One_Subject perm_subject | Subject_List "perm_subject list"

fun subject_list :: "subject_arg \<Rightarrow> perm_subject list" where
  "subject_list (One_Subject s) = [s]"
| "subject_list (Subject_List ss) = ss"

definition perm_repo_has_permission ::
    "role_type \<Rightarrow> perm_action \<Rightarrow> subject_arg \<Rightarrow> 'x users_db_scheme \<Rightarrow> bool" where
  "perm_repo_has_permission rt action subject d =
     (count_rows (\<lambda>r. rp_roleType r = rt \<and> rp_action r = action \<and> rp_subject r \<in> set (subject_list subject)
        \<and> rp_isActive r = Some True \<and> rp_deletedAt r = None) (permissions d) > 0)"

record permission_payload =
  pp_roleType :: role_type
  pp_action :: perm_action
  pp_subject :: perm_subject
  pp_description :: "string option"
  pp_isActive :: "bool option"

definition perm_insert_row :: "ident \<Rightarrow> int \<Rightarrow> permission_payload \<Rightarrow> perm_row" where
  "perm_insert_row new_id now p = \<lparr>rp_id = new_id, rp_createdAt = now, rp_updatedAt = now,
     rp_deletedAt = None, rp_roleType = pp_roleType p, rp_action = pp_action p,
     rp_subject = pp_subject p, rp_description = pp_description p,
     rp_isActive = Some (coalesce (pp_isActive p) True)\<rparr>"

definition perm_repo_create ::
    "ident \<Rightarrow> int \<Rightarrow> permission_payload \<Rightarrow> ('x users_db_scheme, exn, role_permission) comp" where
  "perm_repo_create new_id now p d = (let row = perm_insert_row new_id now p in
     (Inr (to_permission row), d\<lparr>permissions := permissions d @ [row]\<rparr>))"

text \<open>One \<open>insert\<close> of many rows; \<open>ids k\<close> is the id the database draws for the row number \<open>k\<close>.\<close>

definition perm_repo_create_many :: "(nat \<Rightarrow> ident) \<Rightarrow> int \<Rightarrow> permission_payload list
    \<Rightarrow> ('x users_db_scheme, exn, role_permission list) comp" where
  "perm_repo_create_many ids now ps d =
     (if ps = [] then (Inr [], d)
      else let rows = map (\<lambda>(k, p). perm_insert_row (ids k) now p) (zip [0..<length ps] ps)
           in (Inr (map to_permission rows), d\<lparr>permissions := permissions d @ rows\<rparr>))"

definition perm_repo_delete_by_role_type :: "role_type \<Rightarrow> ('x users_db_scheme, exn, unit) comp" where
  "perm_repo_delete_by_role_type rt =
     modify (\<lambda>d. d\<lparr>permissions := filter (\<lambda>r. rp_roleType r \<noteq> rt) (permissions d)\<rparr>)"

definition perm_repo_delete_all :: "('x users_db_scheme, exn, unit) comp" where
  "perm_repo_delete_all = modify (\<lambda>d. d\<lparr>permissions := []\<rparr>)"

definition perm_repo_count :: "'x users_db_scheme \<Rightarrow> nat" where
  "perm_repo_count d = count_rows (\<lambda>r. rp_deletedAt r = None) (permissions d)"

section \<open>Abilities\<close>

record 'ab casl =
  casl_build :: "(perm_action \<times> perm_subject) list \<Rightarrow> 'ab"
  casl_can :: "'ab \<Rightarrow> perm_action \<Rightarrow> perm_subject \<Rightarrow> bool"

text \<open>An ability built from plain rules allows exactly the pairs of the rules: neither enumeration
  has CASL's wildcards \<open>manage\<close> and \<open>all\<close>.\<close>

definition casl_ok :: "'ab casl \<Rightarrow> bool" where
  "casl_ok L = (\<forall>rules a s. casl_can L (casl_build L rules) a s \<longleftrightarrow> (a, s) \<in> set rules)"

definition create_for_role_permissions :: "'ab casl \<Rightarrow> role_permission list \<Rightarrow> 'ab" where
  "create_for_role_permissions L ps = casl_build L (map (\<lambda>p. (pm_action p, pm_subject p)) ps)"

section \<open>The ability cache\<close>

record 'ab policy_state = backend +
  ability_cache :: "role_type \<Rightarrow> 'ab option"

text \<open>\<open>fails\<close> says that the database query of the call throws; a role type that is not one of the
  enumeration makes PostgreSQL refuse the query.\<close>

definition refresh_ability_for_role ::
    "'ab casl \<Rightarrow> bool \<Rightarrow> string \<Rightarrow> (('ab, 'x) policy_state_scheme, exn, 'ab option) comp" where
  "refresh_ability_for_role L fails role s =
     (if fails then (Inr None, s)
      else case parse_role_type role of
        None \<Rightarrow> (Inr None, s)
      | Some rt \<Rightarrow> (let ability = create_for_role_permissions L (perm_repo_find_by_role_type rt s) in
          (Inr (Some ability), s\<lparr>ability_cache := (ability_cache s)(rt \<mapsto> ability)\<rparr>)))"

definition cached_ability :: "string \<Rightarrow> ('ab, 'x) policy_state_scheme \<Rightarrow> 'ab option" where
  "cached_ability role s = (case parse_role_type role of None \<Rightarrow> None | Some rt \<Rightarrow> ability_cache s rt)"

definition get_ability_for_role ::
    "'ab casl \<Rightarrow> bool \<Rightarrow> string \<Rightarrow> (('ab, 'x) policy_state_scheme, exn, 'ab option) comp" where
  "get_ability_for_role L fails role = andThen (fetch (cached_ability role)) (\<lambda>ability.
     case ability of None \<Rightarrow> refresh_ability_for_role L fails role | Some ab \<Rightarrow> ret (Some ab))"

definition policies_has_permission ::
    "bool \<Rightarrow> role_type \<Rightarrow> perm_action \<Rightarrow> subject_arg \<Rightarrow> ('x users_db_scheme, exn, bool) comp" where
  "policies_has_permission fails rt action subject =
     (if fails then throw (Js_Exn ''database'') else fetch (perm_repo_has_permission rt action subject))"

text \<open>The \<open>Map\<close> from role types to their permissions that \<open>fillAbilities\<close> builds in one pass.\<close>

fun group_permissions ::
    "role_permission list \<Rightarrow> (role_type \<Rightarrow> role_permission list option) \<Rightarrow> role_type \<Rightarrow> role_permission list option" where
  "group_permissions [] m = m"
| "group_permissions (p # ps) m = group_permissions ps
     (let m' = (if m (pm_roleType p) = None then m(pm_roleType p \<mapsto> []) else m)
      in m'(pm_roleType p := map_option (\<lambda>l. l @ [p]) (m' (pm_roleType p))))"

definition fill_abilities ::
    "'ab casl \<Rightarrow> bool \<Rightarrow> (('ab, 'x) policy_state_scheme, exn, unit) comp" where
  "fill_abilities L fails s =
     (if fails then (Inr (), s)
      else let by_role = group_permissions (perm_repo_find None (Some True) s) (\<lambda>_. None) in
        (Inr (), s\<lparr>ability_cache := (\<lambda>rt. case by_role rt of
            None \<Rightarrow> ability_cache s rt
          | Some ps \<Rightarrow> Some (create_for_role_permissions L ps))\<rparr>))"

definition refresh_all_abilities ::
    "'ab casl \<Rightarrow> bool \<Rightarrow> (('ab, 'x) policy_state_scheme, exn, unit) comp" where
  "refresh_all_abilities L fails =
     andThen (modify (\<lambda>s. s\<lparr>ability_cache := (\<lambda>_. None)\<rparr>)) (\<lambda>_. fill_abilities L fails)"

definition policies_on_module_init ::
    "'ab casl \<Rightarrow> bool \<Rightarrow> (('ab, 'x) policy_state_scheme, exn, unit) comp" where
  "policies_on_module_init L fails = fill_abilities L fails"

section \<open>The guard\<close>

text \<open>The fields of \<open>req.user\<close>, which the JWT strategy fills, and of the request itself.\<close>

record principal =
  pr_userId :: "string option"
  pr_roleId :: "string option"
  pr_roleType :: "string option"
  pr_language :: "string option"

definition no_principal :: principal where
  "no_principal = \<lparr>pr_userId = None, pr_roleId = None, pr_roleType = None, pr_language = None\<rparr>"

record guard_request =
  gr_user :: "principal option"
  gr_own :: principal

definition principal_field :: "(principal \<Rightarrow> string option) \<Rightarrow> guard_request \<Rightarrow> string option" where
  "principal_field f req = (case gr_user req of
     Some p \<Rightarrow> some_or (f p) (f (gr_own req)) | None \<Rightarrow> f (gr_own req))"

definition ability_allows :: "'ab casl \<Rightarrow> 'ab \<Rightarrow> perm_action \<Rightarrow> subject_arg \<Rightarrow> bool" where
  "ability_allows L ability action subject = (case subject of
     Subject_List ss \<Rightarrow> list_ex (\<lambda>s. casl_can L ability action s) ss
   | One_Subject s \<Rightarrow> casl_can L ability action s)"

definition policies_guard ::
    "'ab casl \<Rightarrow> bool \<Rightarrow> (perm_action \<times> subject_arg) option \<Rightarrow> guard_request
      \<Rightarrow> (('ab, 'x) policy_state_scheme, exn, bool) comp" where
  "policies_guard L fails policy req = (case policy of
     None \<Rightarrow> ret True
   | Some (action, subject) \<Rightarrow>
       (let role = principal_field pr_roleType req in
        if \<not> truthy (principal_field pr_userId req) \<or> \<not> truthy (principal_field pr_roleId req)
           \<or> \<not> truthy role \<or> \<not> truthy (principal_field pr_language req)
        then policies_has_permission fails PUBLIC action subject
        else andThen (get_ability_for_role L fails (the role)) (\<lambda>ability.
          case ability of None \<Rightarrow> ret False | Some ab \<Rightarrow> ret (ability_allows L ab action subject))))"

section \<open>Guarded endpoints\<close>

text \<open>\<open>@UseGuards(JwtAuthGuard, PoliciesGuard)\<close> in front of an endpoint: the strategy fills
  \<open>req.user\<close>, and Nest answers 403 when the second guard answers false.  The endpoint reads the
  principal with the decorators \<open>@CurrentUserId\<close> and \<open>@CurrentRoleType\<close>.\<close>

record 'ab http_guards =
  gs_jwt :: jwt_lib
  gs_tokens :: token_config
  gs_cookie :: string
  gs_faults :: redis_faults
  gs_casl :: "'ab casl"
  gs_db_fails :: bool

definition principal_of :: "validate_jwt \<Rightarrow> principal" where
  "principal_of v = \<lparr>pr_userId = Some (vj_userId v), pr_roleId = Some (vj_roleId v),
     pr_roleType = Some (vj_roleType v), pr_language = Some (vj_language v)\<rparr>"

definition with_guards :: "'ab http_guards \<Rightarrow> int \<Rightarrow> (perm_action \<times> subject_arg) option \<Rightarrow> http_request
    \<Rightarrow> (validate_jwt \<Rightarrow> (('ab, 'x) policy_state_scheme, exn, 'r) comp) \<Rightarrow> (('ab, 'x) policy_state_scheme, exn, 'r) comp" where
  "with_guards G now policy req endpoint =
     andThen (jwt_authenticate (gs_jwt G) (gs_tokens G) (gs_cookie G) (gs_faults G) now req) (\<lambda>v.
     andThen (policies_guard (gs_casl G) (gs_db_fails G) policy \<lparr>gr_user = Some (principal_of v), gr_own = no_principal\<rparr>) (\<lambda>ok.
     if ok then endpoint v else throw (forbidden ''Forbidden resource'')))"

section \<open>What the guards touch\<close>

text \<open>The strategy writes at most the cached token version, the policies guard at most the cache of
  abilities: an endpoint behind them runs on the state of the request, for the user of the token.\<close>

lemma jwt_authenticate_redis:
  fixes s :: "'x backend_scheme"
  shows "\<exists>f. snd (jwt_authenticate J cfg cookie fl now req s) = s\<lparr>redis := f\<rparr>"
proof -
  have self: "\<exists>f. s = s\<lparr>redis := f\<rparr>" by (rule exI [of _ "redis s"]) simp
  have "\<exists>f. snd (get_current_version fl i s) = s\<lparr>redis := f\<rparr>" for i
    using self by (auto simp: get_current_version_def restore_version_from_database_def andThen_def set_version_def
        split: option.split)
  then have "\<exists>f. snd (assert_current fl i tv s) = s\<lparr>redis := f\<rparr>" for i tv
    using self by (auto simp: assert_current_def andThen_def split: option.split sum.split prod.split) (metis snd_conv)+
  then have "\<exists>f. snd (jwt_validate fl c s) = s\<lparr>redis := f\<rparr>" for c
    using self by (auto simp: jwt_validate_def andThen_def split: sum.split prod.split) (metis snd_conv)+
  with self show ?thesis by (auto simp: jwt_authenticate_def split: option.split)
qed

lemma policies_guard_cache:
  fixes s :: "('ab, 'x) policy_state_scheme"
  shows "\<exists>c. snd (policies_guard L fails policy req s) = s\<lparr>ability_cache := c\<rparr>"
proof -
  have self: "\<exists>c. s = s\<lparr>ability_cache := c\<rparr>" by (rule exI [of _ "ability_cache s"]) simp
  have "\<exists>c. snd (get_ability_for_role L fails role s) = s\<lparr>ability_cache := c\<rparr>" for role
    using self by (auto simp: get_ability_for_role_def refresh_ability_for_role_def andThen_def Let_def split: option.split)
  with self show ?thesis
    by (auto simp: policies_guard_def policies_has_permission_def andThen_def Let_def
        split: option.split sum.split prod.split) (metis snd_conv)+
qed

lemma with_guardsE:
  fixes s :: "('ab, 'x) policy_state_scheme"
  obtains (refused) e r c where "with_guards G now policy req endpoint s = (Inl e, s\<lparr>redis := r, ability_cache := c\<rparr>)"
  | (admitted) v r c where "fst (jwt_authenticate (gs_jwt G) (gs_tokens G) (gs_cookie G) (gs_faults G) now req s) = Inr v"
      "with_guards G now policy req endpoint s = endpoint v (s\<lparr>redis := r, ability_cache := c\<rparr>)"
proof -
  obtain a s1 where a: "jwt_authenticate (gs_jwt G) (gs_tokens G) (gs_cookie G) (gs_faults G) now req s = (a, s1)" by fastforce
  obtain r where s1: "s1 = s\<lparr>redis := r\<rparr>"
    using jwt_authenticate_redis [of "gs_jwt G" "gs_tokens G" "gs_cookie G" "gs_faults G" now req s] a by auto
  show thesis
  proof (cases a)
    case (Inl e)
    have "with_guards G now policy req endpoint s = (Inl e, s\<lparr>redis := r, ability_cache := ability_cache s\<rparr>)"
      using a s1 Inl by (simp add: with_guards_def andThen_def)
    then show thesis by (rule refused)
  next
    case (Inr v)
    obtain b s2 where b: "policies_guard (gs_casl G) (gs_db_fails G) policy
       \<lparr>gr_user = Some (principal_of v), gr_own = no_principal\<rparr> s1 = (b, s2)" by fastforce
    obtain c where s2: "s2 = s\<lparr>redis := r, ability_cache := c\<rparr>"
      using policies_guard_cache [of "gs_casl G" "gs_db_fails G" policy _ s1] b s1 by (metis snd_conv)
    have run: "with_guards G now policy req endpoint s = (case b of Inl e \<Rightarrow> (Inl e, s2)
        | Inr ok \<Rightarrow> if ok then endpoint v s2 else (Inl (forbidden ''Forbidden resource''), s2))"
      using a b Inr by (simp add: with_guards_def andThen_def split: sum.split)
    show thesis
    proof (cases "b = Inr True")
      case True
      with run s2 a Inr show thesis by (intro admitted [of v c r]) simp_all
    next
      case False
      with run s2 have "\<exists>e. with_guards G now policy req endpoint s = (Inl e, s\<lparr>redis := r, ability_cache := c\<rparr>)"
        by (cases b) auto
      then show thesis using refused by blast
    qed
  qed
qed

end
