(* ===== verification/Role_Seeding.thy ===== *)
theory Role_Seeding
  imports Policies User_Handlers
begin

text \<open>
  What the backend writes at boot: \<open>configs/roles.config.ts\<close>, \<open>roles-seed.service.ts\<close> and
  \<open>user-seed.service.ts\<close> of the migrations module.  The branch for \<open>NODE_ENV=test\<close>, which truncates
  the tables, is left out.
\<close>

section \<open>The configuration\<close>

record role_seed_config =
  rsc_name :: string
  rsc_description :: string
  rsc_type :: role_type

definition roles_config :: "role_seed_config list" where
  "roles_config = [
     \<lparr>rsc_name = ''Administrator'', rsc_description = ''System administrator'', rsc_type = ADMIN\<rparr>,
     \<lparr>rsc_name = ''Manager'', rsc_description = ''Operational manager'', rsc_type = MANAGER\<rparr>,
     \<lparr>rsc_name = ''User'', rsc_description = ''Authenticated user'', rsc_type = USER\<rparr>,
     \<lparr>rsc_name = ''Public'', rsc_description = ''Unauthenticated'', rsc_type = PUBLIC\<rparr>]"

record permission_config =
  pc_action :: perm_action
  pc_subject :: perm_subject
  pc_description :: string

record role_config =
  rcf_roleType :: role_type
  rcf_roleName :: string
  rcf_roleDescription :: string
  rcf_permissions :: "permission_config list"

definition self_service_permissions :: "permission_config list" where
  "self_service_permissions = [
     \<lparr>pc_action = Update, pc_subject = S_User, pc_description = ''Update own profile''\<rparr>,
     \<lparr>pc_action = Read, pc_subject = S_File, pc_description = ''View own files''\<rparr>,
     \<lparr>pc_action = Create, pc_subject = S_File, pc_description = ''Upload own files''\<rparr>,
     \<lparr>pc_action = Update, pc_subject = S_File, pc_description = ''Update own files''\<rparr>,
     \<lparr>pc_action = Delete, pc_subject = S_File, pc_description = ''Delete own files''\<rparr>,
     \<lparr>pc_action = Read, pc_subject = S_Notification, pc_description = ''View own notifications''\<rparr>,
     \<lparr>pc_action = Update, pc_subject = S_Notification, pc_description = ''Update own notifications''\<rparr>,
     \<lparr>pc_action = Delete, pc_subject = S_Notification, pc_description = ''Delete own notifications''\<rparr>]"

definition role_permissions_config :: "role_config list" where
  "role_permissions_config = [
   \<lparr>rcf_roleType = ADMIN, rcf_roleName = ''Administrator'', rcf_roleDescription = ''Full system access'',
    rcf_permissions = [
     \<lparr>pc_action = Read, pc_subject = S_UserAdmin, pc_description = ''View users''\<rparr>,
     \<lparr>pc_action = Create, pc_subject = S_UserAdmin, pc_description = ''Create users''\<rparr>,
     \<lparr>pc_action = Update, pc_subject = S_UserAdmin, pc_description = ''Update users''\<rparr>,
     \<lparr>pc_action = Delete, pc_subject = S_UserAdmin, pc_description = ''Delete users''\<rparr>,
     \<lparr>pc_action = Read, pc_subject = S_UserRole, pc_description = ''View roles''\<rparr>,
     \<lparr>pc_action = Create, pc_subject = S_UserRole, pc_description = ''Create roles''\<rparr>,
     \<lparr>pc_action = Update, pc_subject = S_UserRole, pc_description = ''Update roles''\<rparr>,
     \<lparr>pc_action = Delete, pc_subject = S_UserRole, pc_description = ''Delete roles''\<rparr>,
     \<lparr>pc_action = Read, pc_subject = S_FileAdmin, pc_description = ''View all files''\<rparr>,
     \<lparr>pc_action = Create, pc_subject = S_FileAdmin, pc_description = ''Upload files''\<rparr>,
     \<lparr>pc_action = Update, pc_subject = S_FileAdmin, pc_description = ''Update any file''\<rparr>,
     \<lparr>pc_action = Delete, pc_subject = S_FileAdmin, pc_description = ''Delete any file''\<rparr>,
     \<lparr>pc_action = Read, pc_subject = S_AdminDashboard, pc_description = ''View admin dashboard''\<rparr>,
     \<lparr>pc_action = Read, pc_subject = S_AdminAccessLog, pc_description = ''View access logs''\<rparr>,
     \<lparr>pc_action = Read, pc_subject = S_AdminSettings, pc_description = ''View system settings''\<rparr>,
     \<lparr>pc_action = Update, pc_subject = S_AdminSettings, pc_description = ''Update system settings''\<rparr>,
     \<lparr>pc_action = Read, pc_subject = S_CaptchaAdmin, pc_description = ''View captcha administration''\<rparr>,
     \<lparr>pc_action = Create, pc_subject = S_CaptchaAdmin, pc_description = ''Create captcha resources''\<rparr>,
     \<lparr>pc_action = Update, pc_subject = S_CaptchaAdmin, pc_description = ''Activate captcha configs''\<rparr>,
     \<lparr>pc_action = Delete, pc_subject = S_CaptchaAdmin, pc_description = ''Archive captcha resources''\<rparr>] @ self_service_permissions\<rparr>,
   \<lparr>rcf_roleType = MANAGER, rcf_roleName = ''Manager'', rcf_roleDescription = ''Operational manager access'',
    rcf_permissions = [
     \<lparr>pc_action = Read, pc_subject = S_UserAdmin, pc_description = ''View users''\<rparr>,
     \<lparr>pc_action = Read, pc_subject = S_UserRole, pc_description = ''View roles''\<rparr>,
     \<lparr>pc_action = Read, pc_subject = S_FileAdmin, pc_description = ''View all files''\<rparr>,
     \<lparr>pc_action = Update, pc_subject = S_FileAdmin, pc_description = ''Update files''\<rparr>] @ self_service_permissions\<rparr>,
   \<lparr>rcf_roleType = USER, rcf_roleName = ''User'', rcf_roleDescription = ''Regular authenticated user'',
    rcf_permissions = self_service_permissions\<rparr>,
   \<lparr>rcf_roleType = PUBLIC, rcf_roleName = ''Public'', rcf_roleDescription = ''Unauthenticated access'',
    rcf_permissions = []\<rparr>]"

section \<open>Seeding permissions\<close>

definition config_payload :: "role_config \<Rightarrow> permission_config \<Rightarrow> permission_payload" where
  "config_payload rc p = \<lparr>pp_roleType = rcf_roleType rc, pp_action = pc_action p,
     pp_subject = pc_subject p, pp_description = Some (pc_description p), pp_isActive = Some True\<rparr>"

definition all_config_payloads :: "permission_payload list" where
  "all_config_payloads =
     concat (map (\<lambda>rc. map (config_payload rc) (rcf_permissions rc)) role_permissions_config)"

definition seed_role_permissions :: "(nat \<Rightarrow> ident) \<Rightarrow> int \<Rightarrow> ('x users_db_scheme, exn, unit) comp" where
  "seed_role_permissions ids now =
     andThen perm_repo_delete_all (\<lambda>_.
     andThen (perm_repo_create_many ids now all_config_payloads) (\<lambda>_. ret ()))"

definition expected_permissions :: nat where
  "expected_permissions = foldl (\<lambda>total rc. total + length (rcf_permissions rc)) 0 role_permissions_config"

definition should_role_permissions_seed :: "'x users_db_scheme \<Rightarrow> bool" where
  "should_role_permissions_seed d = (perm_repo_count d \<noteq> expected_permissions)"

definition seed_role_permissions_if_empty ::
    "(nat \<Rightarrow> ident) \<Rightarrow> int \<Rightarrow> ('x users_db_scheme, exn, unit) comp" where
  "seed_role_permissions_if_empty ids now =
     andThen (fetch should_role_permissions_seed) (\<lambda>b. whenever b (seed_role_permissions ids now))"

section \<open>Seeding roles\<close>

definition should_role_seed_roles :: "'x users_db_scheme \<Rightarrow> bool" where
  "should_role_seed_roles d = (snd (role_repo_find (no_role_filter\<lparr>rf_limit := Some 1\<rparr>) d) = 0)"

text \<open>\<open>Promise.all\<close> starts every insert; it rejects with the first rejection, the others still run.\<close>

fun create_roles :: "(role_type \<Rightarrow> ident) \<Rightarrow> int \<Rightarrow> role_seed_config list \<Rightarrow> ('x users_db_scheme, exn, unit) comp" where
  "create_roles ids now [] d = (Inr (), d)"
| "create_roles ids now (c # cs) d =
     (let (r, d1) = role_repo_create (ids (rsc_type c)) now (rsc_name c) (Some (rsc_description c)) (rsc_type c) d;
          (r2, d2) = create_roles ids now cs d1
      in (case r of Inl e \<Rightarrow> Inl e | Inr _ \<Rightarrow> r2, d2))"

definition seed_roles :: "(role_type \<Rightarrow> ident) \<Rightarrow> int \<Rightarrow> ('x users_db_scheme, exn, unit) comp" where
  "seed_roles ids now = create_roles ids now roles_config"

definition seed_roles_if_empty :: "(role_type \<Rightarrow> ident) \<Rightarrow> int \<Rightarrow> ('x users_db_scheme, exn, unit) comp" where
  "seed_roles_if_empty ids now =
     andThen (fetch should_role_seed_roles) (\<lambda>b. whenever b (seed_roles ids now))"

section \<open>The administrator\<close>

record admin_config =
  ac_email :: "string option"
  ac_password :: "string option"

definition get_or_throw :: "string \<Rightarrow> 'a option \<Rightarrow> exn + 'a" where
  "get_or_throw key v = (case v of Some x \<Rightarrow> Inr x
     | None \<Rightarrow> Inl (Js_Exn (''Configuration key '' @ key @ '' does not exist'')))"

text \<open>\<open>strong\<close> is \<open>isStrongPassword\<close> of class-validator with the service's options.\<close>

definition admin_body :: "string \<Rightarrow> ident \<Rightarrow> create_user_body" where
  "admin_body email role_id = \<lparr>cu_email = email, cu_password = [], cu_name = ''Admin'',
     cu_surname = ''Super'', cu_middleName = Some ''User'', cu_phone = None, cu_gender = None,
     cu_birthday = None, cu_roleId = role_id\<rparr>"

definition fill_admin_user_id ::
    "crypto \<Rightarrow> string \<Rightarrow> (string \<Rightarrow> bool) \<Rightarrow> admin_config \<Rightarrow> ident \<Rightarrow> int \<Rightarrow> ('x users_db_scheme, exn, ident) comp" where
  "fill_admin_user_id C salt strong cfg new_id now =
     andThen (fetch (user_repo_find_id_with_role_type ADMIN)) (\<lambda>found.
       if truthy found then ret (the found)
       else andThen (lift (get_or_throw ''admin.password'' (ac_password cfg))) (\<lambda>password.
         if \<not> strong password then throw (Js_Exn ''admin.passwordWeak'')
         else andThen (fetch (role_repo_find_by_type ADMIN)) (\<lambda>role. case role of
             None \<Rightarrow> throw (Js_Exn ''admin.roleNotFound'')
           | Some role_admin \<Rightarrow>
               andThen (lift (get_or_throw ''admin.email'' (ac_email cfg))) (\<lambda>email.
               andThen (user_repo_create new_id now
                 (user_create_entity (admin_body email (ro_id role_admin)) (hash_password C salt password) True))
                 (\<lambda>admin. ret (us_id admin))))))"

text \<open>The ids and the salt that one boot draws.\<close>

record boot_supply =
  bs_role_ids :: "role_type \<Rightarrow> ident"
  bs_perm_ids :: "nat \<Rightarrow> ident"
  bs_admin_id :: ident
  bs_salt :: string

definition user_seed_if_empty ::
    "crypto \<Rightarrow> (string \<Rightarrow> bool) \<Rightarrow> admin_config \<Rightarrow> boot_supply \<Rightarrow> int \<Rightarrow> ('x users_db_scheme, exn, ident) comp" where
  "user_seed_if_empty C strong cfg draw now =
     andThen (seed_roles_if_empty (bs_role_ids draw) now) (\<lambda>_.
     andThen (seed_role_permissions_if_empty (bs_perm_ids draw) now) (\<lambda>_.
     fill_admin_user_id C (bs_salt draw) strong cfg (bs_admin_id draw) now))"

end
