(* ===== verification/Policy_Properties.thy ===== *)
theory Policy_Properties
  imports Role_Seeding Token_Version_Properties
begin

text \<open>
  The decision of the policies guard is the grant table of the database, as long as the ability cache
  is fresh; the boot makes it fresh and the table the configured one, and a second boot changes
  nothing.
\<close>

section \<open>Grants\<close>

definition granted :: "'x users_db_scheme \<Rightarrow> role_type \<Rightarrow> perm_action \<Rightarrow> perm_subject \<Rightarrow> bool" where
  "granted d rt a s = some_row (\<lambda>r. live_grant rt r \<and> rp_action r = a \<and> rp_subject r = s) (permissions d)"

definition role_rules :: "'x users_db_scheme \<Rightarrow> role_type \<Rightarrow> (perm_action \<times> perm_subject) list" where
  "role_rules d rt = map (\<lambda>p. (pm_action p, pm_subject p)) (perm_repo_find_by_role_type rt d)"

definition active_rules :: "'x users_db_scheme \<Rightarrow> (role_type \<times> perm_action \<times> perm_subject) list" where
  "active_rules d = map (\<lambda>p. (pm_roleType p, pm_action p, pm_subject p)) (perm_repo_find None (Some True) d)"

lemma to_permission_simps [simp]:
  "pm_action (to_permission r) = rp_action r" "pm_subject (to_permission r) = rp_subject r"
  "pm_roleType (to_permission r) = rp_roleType r"
  by (simp_all add: to_permission_def)

lemma has_permission_granted:
  "perm_repo_has_permission rt a subj d \<longleftrightarrow> (\<exists>s\<in>set (subject_list subj). granted d rt a s)"
  by (auto simp: perm_repo_has_permission_def granted_def live_grant_def some_row_iff)

text \<open>What the guard's clients rely on: the three queries agree on one relation.\<close>

locale permission_store =
  fixes has :: "'s \<Rightarrow> 'r \<Rightarrow> 'a \<Rightarrow> 'o \<Rightarrow> bool"
    and of_role :: "'s \<Rightarrow> 'r \<Rightarrow> ('a \<times> 'o) list"
    and active :: "'s \<Rightarrow> ('r \<times> 'a \<times> 'o) list"
  assumes of_role_has: "(a, x) \<in> set (of_role st r) \<longleftrightarrow> has st r a x"
    and active_has: "(r, a, x) \<in> set (active st) \<longleftrightarrow> has st r a x"
begin

lemma active_of_role: "set (map snd (filter (\<lambda>t. fst t = r) (active st))) = set (of_role st r)"
proof (rule set_eqI)
  fix p :: "'a \<times> 'o"
  have "p \<in> snd ` {t \<in> set (active st). fst t = r} \<longleftrightarrow> (r, p) \<in> set (active st)"
  proof
    assume "p \<in> snd ` {t \<in> set (active st). fst t = r}"
    then obtain t where "t \<in> set (active st)" "fst t = r" "p = snd t" by blast
    then show "(r, p) \<in> set (active st)" using prod.collapse [of t] by simp
  next
    assume "(r, p) \<in> set (active st)"
    then show "p \<in> snd ` {t \<in> set (active st). fst t = r}"
      by (intro rev_image_eqI [of "(r, p)"]) simp_all
  qed
  then show "p \<in> set (map snd (filter (\<lambda>t. fst t = r) (active st))) \<longleftrightarrow> p \<in> set (of_role st r)"
    by (cases p) (simp add: active_has of_role_has)
qed

end

interpretation perms: permission_store granted role_rules active_rules
proof
  fix a x st r
  show "(a, x) \<in> set (role_rules st r) \<longleftrightarrow> granted st r a x"
    by (auto simp: role_rules_def perm_repo_find_by_role_type_def granted_def some_row_iff image_iff)
  show "(r, a, x) \<in> set (active_rules st) \<longleftrightarrow> granted st r a x"
    by (auto simp: active_rules_def perm_repo_find_def perm_where_def granted_def live_grant_def
        some_row_iff image_iff)
qed

section \<open>The cache\<close>

definition cache_fresh :: "'ab casl \<Rightarrow> ('ab, 'x) policy_state_scheme \<Rightarrow> bool" where
  "cache_fresh L s = (\<forall>rt ab. ability_cache s rt = Some ab \<longrightarrow>
     (\<forall>a x. casl_can L ab a x = granted s rt a x))"

lemma cache_freshD:
  "cache_fresh L s \<Longrightarrow> ability_cache s rt = Some ab \<Longrightarrow> casl_can L ab a x = granted s rt a x"
  by (simp add: cache_fresh_def)

lemma granted_cong: "permissions d' = permissions d \<Longrightarrow> granted d' = granted d"
  by (simp add: granted_def fun_eq_iff)

lemma build_allows:
  "casl_ok L \<Longrightarrow> casl_can L (create_for_role_permissions L ps) a x
     \<longleftrightarrow> (a, x) \<in> set (map (\<lambda>p. (pm_action p, pm_subject p)) ps)"
  by (simp add: casl_ok_def create_for_role_permissions_def)

lemma ability_allows_granted:
  assumes "\<And>a x. casl_can L ab a x = granted d rt a x"
  shows "ability_allows L ab a subj = perm_repo_has_permission rt a subj d"
  using assms by (cases subj) (simp_all add: ability_allows_def has_permission_granted list_ex_iff)

lemma refresh_role_fresh:
  assumes "casl_ok L"
  shows "casl_can L (create_for_role_permissions L (perm_repo_find_by_role_type rt d)) a x = granted d rt a x"
  using perms.of_role_has [of a x d rt] by (simp add: build_allows [OF assms] role_rules_def)

lemma group_permissions_eq:
  "group_permissions ps m r = (let l = filter (\<lambda>p. pm_roleType p = r) ps in
     case m r of None \<Rightarrow> if l = [] then None else Some l | Some k \<Rightarrow> Some (k @ l))"
  by (induction ps arbitrary: m) (auto simp: Let_def split: option.splits)

lemma fill_abilities_run:
  "fill_abilities L False s = (Inr (), s\<lparr>ability_cache := (\<lambda>rt.
     let l = filter (\<lambda>p. pm_roleType p = rt) (perm_repo_find None (Some True) s)
     in if l = [] then ability_cache s rt else Some (create_for_role_permissions L l))\<rparr>)"
  by (auto simp: fill_abilities_def Let_def group_permissions_eq fun_eq_iff)

lemma active_rules_role:
  "filter (\<lambda>t. fst t = rt) (active_rules d)
   = map (\<lambda>p. (pm_roleType p, pm_action p, pm_subject p))
       (filter (\<lambda>p. pm_roleType p = rt) (perm_repo_find None (Some True) d))"
  by (simp add: active_rules_def filter_map comp_def)

lemma filled_role_fresh:
  assumes "casl_ok L"
  shows "casl_can L (create_for_role_permissions L
      (filter (\<lambda>p. pm_roleType p = rt) (perm_repo_find None (Some True) d))) a x = granted d rt a x"
proof -
  have "set (map snd (filter (\<lambda>t. fst t = rt) (active_rules d))) = set (role_rules d rt)"
    by (rule perms.active_of_role)
  then show ?thesis
    using perms.of_role_has [of a x d rt] by (simp add: build_allows [OF assms] active_rules_role comp_def)
qed

lemma refresh_all_fresh:
  fixes s :: "('ab, 'x) policy_state_scheme"
  assumes "casl_ok L"
  shows "fst (refresh_all_abilities L False s) = Inr ()"
    and "permissions (snd (refresh_all_abilities L False s)) = permissions s"
    and "cache_fresh L (snd (refresh_all_abilities L False s))"
proof -
  let ?t = "s\<lparr>ability_cache := (\<lambda>_. None)\<rparr>"
  have run: "refresh_all_abilities L False s = fill_abilities L False ?t"
    by (simp add: refresh_all_abilities_def)
  show "fst (refresh_all_abilities L False s) = Inr ()"
    and perm: "permissions (snd (refresh_all_abilities L False s)) = permissions s"
    unfolding run fill_abilities_run by simp_all
  show "cache_fresh L (snd (refresh_all_abilities L False s))"
    unfolding cache_fresh_def granted_cong [OF perm]
  proof (intro allI impI)
    fix rt ab a x
    assume "ability_cache (snd (refresh_all_abilities L False s)) rt = Some ab"
    then have "ab = create_for_role_permissions L
        (filter (\<lambda>p. pm_roleType p = rt) (perm_repo_find None (Some True) s))"
      by (simp add: run fill_abilities_run Let_def perm_repo_find_def split: if_splits)
    then show "casl_can L ab a x = granted s rt a x" by (simp add: filled_role_fresh [OF assms])
  qed
qed

lemma get_ability_cases:
  assumes "casl_ok L" "cache_fresh L s" "parse_role_type role = Some rt"
  obtains ab s' where "get_ability_for_role L False role s = (Inr (Some ab), s')"
    "cache_fresh L s'" "permissions s' = permissions s" "\<And>a x. casl_can L ab a x = granted s rt a x"
proof (cases "ability_cache s rt")
  case (Some ab)
  with assms show thesis
    by (intro that [of ab s]) (simp_all add: get_ability_for_role_def cached_ability_def andThen_def cache_freshD)
next
  case None
  let ?ab = "create_for_role_permissions L (perm_repo_find_by_role_type rt s)"
  let ?s = "s\<lparr>ability_cache := (ability_cache s)(rt \<mapsto> ?ab)\<rparr>"
  have g: "granted ?s = granted s" by (rule granted_cong) simp
  have "cache_fresh L ?s"
    using assms(2) by (simp add: cache_fresh_def g refresh_role_fresh [OF assms(1)])
  with None assms show thesis
    by (intro that [of ?ab ?s])
      (simp_all add: get_ability_for_role_def refresh_ability_for_role_def cached_ability_def andThen_def
        Let_def refresh_role_fresh)
qed

section \<open>The decision of the guard\<close>

text \<open>The role a request acts with: \<open>PUBLIC\<close> as soon as one of the four fields is missing.\<close>

definition acting_role :: "guard_request \<Rightarrow> role_type option" where
  "acting_role req =
     (if truthy (principal_field pr_userId req) \<and> truthy (principal_field pr_roleId req)
         \<and> truthy (principal_field pr_roleType req) \<and> truthy (principal_field pr_language req)
      then parse_role_type (the (principal_field pr_roleType req)) else Some PUBLIC)"

definition database_decision ::
    "(perm_action \<times> subject_arg) option \<Rightarrow> guard_request \<Rightarrow> 'x users_db_scheme \<Rightarrow> bool" where
  "database_decision policy req d = (case policy of None \<Rightarrow> True
     | Some (a, subj) \<Rightarrow> (case acting_role req of None \<Rightarrow> False
         | Some rt \<Rightarrow> perm_repo_has_permission rt a subj d))"

lemma guard_no_policy [simp]: "policies_guard L fails None req s = (Inr True, s)"
  by (simp add: policies_guard_def)

lemma get_ability_unknown_role:
  "parse_role_type role = None \<Longrightarrow> get_ability_for_role L fails role s = (Inr None, s)"
  by (simp add: get_ability_for_role_def refresh_ability_for_role_def cached_ability_def andThen_def)

definition authenticated :: "guard_request \<Rightarrow> bool" where
  "authenticated req = (truthy (principal_field pr_userId req) \<and> truthy (principal_field pr_roleId req)
     \<and> truthy (principal_field pr_roleType req) \<and> truthy (principal_field pr_language req))"

lemma guard_run:
  "policies_guard L fails (Some (a, subj)) req =
     (if authenticated req
      then andThen (get_ability_for_role L fails (the (principal_field pr_roleType req))) (\<lambda>ability.
        case ability of None \<Rightarrow> ret False | Some ab \<Rightarrow> ret (ability_allows L ab a subj))
      else policies_has_permission fails PUBLIC a subj)"
  by (simp add: policies_guard_def authenticated_def Let_def)

lemma acting_role_eq:
  "acting_role req = (if authenticated req then parse_role_type (the (principal_field pr_roleType req)) else Some PUBLIC)"
  by (simp add: acting_role_def authenticated_def)

lemma guard_decides_db:
  fixes s :: "('ab, 'x) policy_state_scheme"
  assumes "casl_ok L" "cache_fresh L s"
  shows "fst (policies_guard L False policy req s) = Inr (database_decision policy req s)
    \<and> cache_fresh L (snd (policies_guard L False policy req s))
    \<and> permissions (snd (policies_guard L False policy req s)) = permissions s"
proof (cases policy)
  case None
  with assms show ?thesis by (simp add: database_decision_def)
next
  case (Some p)
  obtain a subj where p: "policy = Some (a, subj)" using Some by (cases p) simp
  let ?role = "the (principal_field pr_roleType req)"
  show ?thesis
  proof (cases "authenticated req")
    case False
    with assms show ?thesis
      by (simp add: p guard_run database_decision_def acting_role_eq policies_has_permission_def)
  next
    case auth: True
    show ?thesis
    proof (cases "parse_role_type ?role")
      case None
      with auth assms show ?thesis
        by (simp add: p guard_run database_decision_def acting_role_eq get_ability_unknown_role andThen_def)
    next
      case (Some rt)
      obtain ab s' where g: "get_ability_for_role L False ?role s = (Inr (Some ab), s')"
        and s': "cache_fresh L s'" "permissions s' = permissions s"
        and can: "\<And>a x. casl_can L ab a x = granted s rt a x"
        using get_ability_cases [OF assms Some] by metis
      from g s' auth Some ability_allows_granted [OF can] show ?thesis
        by (simp add: p guard_run database_decision_def acting_role_eq andThen_def)
    qed
  qed
qed

text \<open>C12. With the database reachable and a fresh cache, the guard admits a request exactly when the
  permission table grants the action on one of the subjects to the role the request acts with, and
  it keeps the cache fresh and the table unchanged.\<close>

theorem guard_decides_database:
  fixes s :: "('ab, 'x) policy_state_scheme"
  assumes "casl_ok L" "cache_fresh L s"
  shows "fst (policies_guard L False policy req s) = Inr (database_decision policy req s)
    \<and> cache_fresh L (snd (policies_guard L False policy req s))
    \<and> permissions (snd (policies_guard L False policy req s)) = permissions s"
  by (rule guard_decides_db [OF assms])

text \<open>The guard fails closed: when the database query throws, no call changes the state, an
  anonymous request ends in an error, and an authenticated one is admitted only if the ability of its
  role is cached and allows the action.\<close>

theorem guard_fails_closed:
  fixes s :: "('ab, 'x) policy_state_scheme"
  shows "policies_guard L True (Some (a, subj)) req s
    = (if \<not> authenticated req then Inl (Js_Exn ''database'')
       else Inr (case acting_role req of None \<Rightarrow> False
         | Some rt \<Rightarrow> (case ability_cache s rt of None \<Rightarrow> False | Some ab \<Rightarrow> ability_allows L ab a subj)), s)"
  by (simp add: guard_run acting_role_eq policies_has_permission_def get_ability_for_role_def andThen_def
      refresh_ability_for_role_def cached_ability_def split: option.split)

text \<open>A change of the permission table does not reach a role whose ability is cached; after
  \<open>refreshAllAbilities\<close> the new table decides.\<close>

theorem permission_change_needs_refresh:
  fixes s :: "('ab, 'x) policy_state_scheme"
  assumes "casl_ok L" "authenticated req" "acting_role req = Some rt" "ability_cache s rt = Some ab"
  shows "fst (policies_guard L False (Some (a, subj)) req (s\<lparr>permissions := ps\<rparr>))
      = fst (policies_guard L False (Some (a, subj)) req s)
    \<and> fst (policies_guard L False (Some (a, subj)) req (snd (refresh_all_abilities L False (s\<lparr>permissions := ps\<rparr>))))
      = Inr (perm_repo_has_permission rt a subj (s\<lparr>permissions := ps\<rparr>))"
proof
  show "fst (policies_guard L False (Some (a, subj)) req (s\<lparr>permissions := ps\<rparr>))
      = fst (policies_guard L False (Some (a, subj)) req s)"
    using assms(2,3,4) by (simp add: guard_run acting_role_eq get_ability_for_role_def cached_ability_def andThen_def)
  let ?t = "s\<lparr>permissions := ps\<rparr>" and ?u = "snd (refresh_all_abilities L False (s\<lparr>permissions := ps\<rparr>))"
  have "granted ?u = granted ?t" by (rule granted_cong [OF refresh_all_fresh(2) [OF assms(1)]])
  moreover have "fst (policies_guard L False (Some (a, subj)) req ?u)
      = Inr (database_decision (Some (a, subj)) req ?u)"
    by (rule conjunct1 [OF guard_decides_db [OF assms(1) refresh_all_fresh(3) [OF assms(1)]]])
  ultimately show "fst (policies_guard L False (Some (a, subj)) req ?u) = Inr (perm_repo_has_permission rt a subj ?t)"
    by (simp add: database_decision_def assms(3) has_permission_granted)
qed

section \<open>What the boot grants\<close>

definition config_grants :: "role_type \<Rightarrow> perm_action \<Rightarrow> perm_subject \<Rightarrow> bool" where
  "config_grants rt a x = list_ex (\<lambda>rc. rcf_roleType rc = rt \<and>
     list_ex (\<lambda>p. pc_action p = a \<and> pc_subject p = x) (rcf_permissions rc)) role_permissions_config"

lemma config_grants_public [simp]: "\<not> config_grants PUBLIC a x"
  by (simp add: config_grants_def role_permissions_config_def)

lemma config_grants_mono:
  "config_grants USER a x \<Longrightarrow> config_grants MANAGER a x"
  "config_grants MANAGER a x \<Longrightarrow> config_grants ADMIN a x"
  by (auto simp: config_grants_def role_permissions_config_def self_service_permissions_def)

lemma expected_permissions_value: "expected_permissions = 48" "length all_config_payloads = 48"
  by (simp_all add: expected_permissions_def all_config_payloads_def role_permissions_config_def
      self_service_permissions_def)

lemma some_row_insert_rows:
  assumes "length ks = length ps" "\<And>i p. Q (perm_insert_row i now p) = R p"
  shows "some_row Q (map (\<lambda>(k, p). perm_insert_row (ids k) now p) (zip ks ps)) = list_ex R ps"
  using assms(1) by (induction ks ps rule: list_induct2) (simp_all add: assms(2))

lemma count_rows_insert_rows:
  assumes "length ks = length ps"
  shows "count_rows (\<lambda>r. rp_deletedAt r = None) (map (\<lambda>(k, p). perm_insert_row (ids k) now p) (zip ks ps)) = length ps"
  using assms by (induction ks ps rule: list_induct2) (simp_all add: perm_insert_row_def)

lemma seed_permissions_run:
  fixes d :: "'x users_db_scheme"
  shows "seed_role_permissions ids now d = (Inr (), d\<lparr>permissions :=
    map (\<lambda>(k, p). perm_insert_row (ids k) now p) (zip [0..<length all_config_payloads] all_config_payloads)\<rparr>)"
proof -
  have "all_config_payloads \<noteq> []" using expected_permissions_value(2) by auto
  then show ?thesis
    by (simp add: seed_role_permissions_def perm_repo_delete_all_def perm_repo_create_many_def andThen_def Let_def)
qed

lemma seeded_granted:
  fixes d :: "'x users_db_scheme"
  shows "granted (snd (seed_role_permissions ids now d)) rt a x \<longleftrightarrow> config_grants rt a x"
proof -
  have "granted (snd (seed_role_permissions ids now d)) rt a x
      = list_ex (\<lambda>p. pp_roleType p = rt \<and> coalesce (pp_isActive p) True \<and> pp_action p = a \<and> pp_subject p = x) all_config_payloads"
    unfolding granted_def seed_permissions_run
    by (simp, rule some_row_insert_rows) (auto simp: live_grant_def perm_insert_row_def)
  also have "\<dots> = config_grants rt a x"
    by (auto simp: all_config_payloads_def config_payload_def config_grants_def list_ex_iff)
  finally show ?thesis .
qed

text \<open>C33. A boot that finds another number of live permissions than the configuration has replaces
  the whole table; from then on the guard admits a request exactly when \<open>roles.config.ts\<close> grants the
  action to the role it acts with, so that no anonymous request passes a policy.\<close>

theorem boot_grants_config:
  fixes s s1 :: "('ab, 'x) policy_state_scheme"
  assumes "casl_ok L" "should_role_permissions_seed s"
    and "seed_role_permissions_if_empty ids now s = (r, s1)"
  shows "r = Inr () \<and> fst (policies_guard L False (Some (a, subj)) req (snd (refresh_all_abilities L False s1)))
      = Inr (\<exists>rt x. acting_role req = Some rt \<and> x \<in> set (subject_list subj) \<and> config_grants rt a x)
    \<and> (\<not> authenticated req \<longrightarrow>
        fst (policies_guard L False (Some (a, subj)) req (snd (refresh_all_abilities L False s1))) = Inr False)"
proof -
  let ?u = "snd (refresh_all_abilities L False s1)"
  have run: "r = Inr ()" "s1 = snd (seed_role_permissions ids now s)"
    using assms(2,3) by (auto simp: seed_role_permissions_if_empty_def andThen_def whenever_def seed_permissions_run)
  have "granted ?u = granted s1" by (rule granted_cong [OF refresh_all_fresh(2) [OF assms(1)]])
  then have g: "granted ?u rt b x \<longleftrightarrow> config_grants rt b x" for rt b x
    by (simp add: run seeded_granted)
  have "fst (policies_guard L False (Some (a, subj)) req ?u) = Inr (database_decision (Some (a, subj)) req ?u)"
    by (rule conjunct1 [OF guard_decides_db [OF assms(1) refresh_all_fresh(3) [OF assms(1)]]])
  also have "database_decision (Some (a, subj)) req ?u
      = (\<exists>rt x. acting_role req = Some rt \<and> x \<in> set (subject_list subj) \<and> config_grants rt a x)"
    by (auto simp: database_decision_def has_permission_granted g split: option.split)
  finally show ?thesis using run(1) by (simp add: acting_role_eq)
qed

section \<open>A second boot\<close>

lemma count_seeded: "\<not> should_role_permissions_seed (snd (seed_role_permissions ids now d))"
  unfolding should_role_permissions_seed_def perm_repo_count_def seed_permissions_run
  by (simp add: count_rows_insert_rows expected_permissions_value)

lemma should_role_seed_roles_iff:
  "should_role_seed_roles d \<longleftrightarrow> \<not> some_row (\<lambda>r. ur_deletedAt r = None) (roles d)"
  by (auto simp: should_role_seed_roles_def role_repo_find_def no_role_filter_def role_where_def Let_def
      some_row_iff filter_empty_conv)

lemma create_roles_frame:
  "\<exists>new. snd (create_roles ids now cs d) = d\<lparr>roles := roles d @ new\<rparr>
     \<and> (distinct (map ur_id (roles d)) \<longrightarrow> distinct (map ur_id (roles d @ new)))"
proof (induction cs arbitrary: d)
  case (Cons c cs)
  obtain r1 d1 where c1: "role_repo_create (ids (rsc_type c)) now (rsc_name c) (Some (rsc_description c)) (rsc_type c) d = (r1, d1)"
    by (metis surj_pair)
  have "\<exists>new. d1 = d\<lparr>roles := roles d @ new\<rparr> \<and> (distinct (map ur_id (roles d)) \<longrightarrow> distinct (map ur_id (roles d @ new)))"
  proof (cases r1)
    case (Inl e)
    with c1 have "d1 = d" by (auto simp: role_repo_create_def Let_def split: if_splits)
    then show ?thesis by (intro exI [of _ "[]"]) simp
  next
    case (Inr x)
    with c1 obtain row where "d1 = d\<lparr>roles := roles d @ [row]\<rparr>" "\<not> some_row (\<lambda>r. ur_id r = ur_id row) (roles d)"
      by (auto simp: role_repo_create_def Let_def some_row_iff split: if_splits)
    then show ?thesis by (intro exI [of _ "[row]"]) (auto simp: some_row_iff)
  qed
  then obtain n1 where n1: "d1 = d\<lparr>roles := roles d @ n1\<rparr>"
    "distinct (map ur_id (roles d)) \<longrightarrow> distinct (map ur_id (roles d @ n1))" by blast
  from Cons.IH [of d1] obtain n2 where "snd (create_roles ids now cs d1) = d1\<lparr>roles := roles d1 @ n2\<rparr>"
    "distinct (map ur_id (roles d1)) \<longrightarrow> distinct (map ur_id (roles d1 @ n2))" by blast
  with n1 c1 show ?case by (intro exI [of _ "n1 @ n2"]) (simp add: split_beta Let_def)
qed (intro exI [of _ "[]"], simp)

lemma create_roles_live:
  assumes "fst (create_roles ids now (c # cs) d) = Inr ()"
  shows "some_row (\<lambda>r. ur_deletedAt r = None) (roles (snd (create_roles ids now (c # cs) d)))"
proof -
  obtain r1 d1 where c1: "role_repo_create (ids (rsc_type c)) now (rsc_name c) (Some (rsc_description c)) (rsc_type c) d = (r1, d1)"
    by (metis surj_pair)
  with assms have "some_row (\<lambda>r. ur_deletedAt r = None) (roles d1)"
    by (auto simp: role_repo_create_def Let_def split_beta split: if_splits)
  with create_roles_frame [of ids now cs d1] c1 show ?thesis by (auto simp: split_beta Let_def)
qed

lemma seed_roles_if_empty_ok:
  assumes "seed_roles_if_empty ids now d = (Inr (), d1)"
  shows "\<not> should_role_seed_roles d1 \<and> users d1 = users d
    \<and> (distinct (map ur_id (roles d)) \<longrightarrow> distinct (map ur_id (roles d1)))"
proof (cases "should_role_seed_roles d")
  case False
  with assms show ?thesis by (auto simp: seed_roles_if_empty_def whenever_def andThen_def)
next
  case True
  with assms have run: "create_roles ids now roles_config d = (Inr (), d1)"
    by (simp add: seed_roles_if_empty_def whenever_def andThen_def seed_roles_def)
  then have "some_row (\<lambda>r. ur_deletedAt r = None) (roles d1)"
    using create_roles_live [of ids now _ _ d] unfolding roles_config_def by (metis fst_conv snd_conv)
  with create_roles_frame [of ids now roles_config d] run show ?thesis
    by (auto simp: should_role_seed_roles_iff)
qed

lemma seed_permissions_if_empty_ok:
  fixes d :: "'x users_db_scheme"
  shows "\<exists>d2. seed_role_permissions_if_empty ids now d = (Inr (), d2) \<and> \<not> should_role_permissions_seed d2
    \<and> users d2 = users d \<and> roles d2 = roles d"
  using count_seeded [of ids now d]
  by (cases "should_role_permissions_seed d")
    (auto simp: seed_role_permissions_if_empty_def whenever_def andThen_def seed_permissions_run)

lemma find_by_type_row:
  assumes "role_repo_find_by_type rt d = Some role"
  obtains r where "r \<in> set (roles d)" "ur_type r = rt" "ur_id r = ro_id role"
proof -
  from assms obtain r rest where "sort_key ur_createdAt (filter (\<lambda>r. ur_type r = rt \<and> ur_deletedAt r = None) (roles d)) = r # rest"
    and eq: "role = to_role r" by (auto simp: role_repo_find_by_type_def split: list.splits)
  then have "r \<in> set (sort_key ur_createdAt (filter (\<lambda>r. ur_type r = rt \<and> ur_deletedAt r = None) (roles d)))" by simp
  then have "r \<in> set (roles d)" "ur_type r = rt" by auto
  with eq show thesis by (intro that [of r]) (simp_all add: to_role_def)
qed

lemma user_repo_create_ok:
  assumes "user_repo_create new_id now n d = (Inr u, d')"
  shows "d' = d\<lparr>users := users d @ [new_user_row new_id now n]\<rparr> \<and> us_id u = new_id"
proof -
  have "u_id u = new_id" if "find_row (live_id new_id) us = Some u" for u us
    using find_row_SomeD [OF that] by (simp add: live_id_def)
  with assms show ?thesis
    by (auto simp: user_repo_create_def Let_def user_repo_find_by_id_def with_role_def to_user_def
        split: if_splits option.splits)
qed

lemma admin_entity_role [simp]: "nu_roleId (user_create_entity (admin_body email r) h v) = r"
  by (simp add: user_create_entity_def admin_body_def)

lemma fill_admin_ok:
  assumes run: "fill_admin_user_id C salt strong cfg new_id now d = (Inr i, d')"
    and "distinct (map ur_id (roles d))" "\<forall>u\<in>set (users d). u_id u \<noteq> []" "new_id \<noteq> []"
  shows "user_repo_find_id_with_role_type ADMIN d' = Some i \<and> i \<noteq> [] \<and> roles d' = roles d
    \<and> permissions d' = permissions d"
proof (cases "user_repo_find_id_with_role_type ADMIN d")
  case (Some j)
  with assms(3) have "j \<noteq> []" by (auto simp: user_repo_find_id_with_role_type_def dest: find_row_SomeD)
  with Some run show ?thesis by (simp add: fill_admin_user_id_def andThen_def)
next
  case None
  let ?P = "\<lambda>d u. role_type_of_user d u = Some ADMIN \<and> u_deletedAt u = None"
  from run None obtain role email password u where role: "role_repo_find_by_type ADMIN d = Some role"
    and made: "user_repo_create new_id now (user_create_entity (admin_body email (ro_id role)) (hash_password C salt password) True) d
      = (Inr u, d')" and i: "i = us_id u"
    by (auto simp: fill_admin_user_id_def andThen_def split: option.splits if_splits sum.splits prod.splits)
  let ?n = "user_create_entity (admin_body email (ro_id role)) (hash_password C salt password) True"
  from user_repo_create_ok [OF made] i have d': "d' = d\<lparr>users := users d @ [new_user_row new_id now ?n]\<rparr>" "i = new_id"
    by simp_all
  from role obtain r where r: "r \<in> set (roles d)" "ur_type r = ADMIN" "ur_id r = ro_id role"
    by (rule find_by_type_row)
  have same: "role_type_of_user d' = role_type_of_user d" by (simp add: d' role_type_of_user_def fun_eq_iff)
  have "find_row (\<lambda>x. ur_id x = ro_id role) (roles d) = Some r"
    by (rule find_row_unique_key [OF assms(2) r(1)]) (simp_all add: r)
  then have "?P d' (new_user_row new_id now ?n)"
    unfolding same by (simp add: role_type_of_user_def new_user_row_def r)
  moreover have "find_row (?P d') (users d) = None"
    using None unfolding same by (simp add: user_repo_find_id_with_role_type_def)
  ultimately have "user_repo_find_id_with_role_type ADMIN d' = Some new_id"
    by (simp add: user_repo_find_id_with_role_type_def d' find_row_append new_user_row_def)
  with assms(4) show ?thesis by (simp add: d')
qed

text \<open>After a boot that went through, the returned account is a live administrator and the
  permission table has the configured number of live rows; every later boot, whatever its
  configuration, returns the same account and writes nothing.\<close>

theorem boot_is_idempotent:
  assumes "user_seed_if_empty C strong cfg draw now d = (Inr i, d')"
    and "distinct (map ur_id (roles d))" "\<forall>u\<in>set (users d). u_id u \<noteq> []" "bs_admin_id draw \<noteq> []"
  shows "user_repo_find_id_with_role_type ADMIN d' = Some i \<and> \<not> should_role_permissions_seed d'
    \<and> user_seed_if_empty C' strong' cfg' draw' now' d' = (Inr i, d')"
proof -
  obtain d1 where s1: "seed_roles_if_empty (bs_role_ids draw) now d = (Inr (), d1)"
    using assms(1) by (auto simp: user_seed_if_empty_def andThen_def split: prod.splits sum.splits)
  note r1 = seed_roles_if_empty_ok [OF s1]
  obtain d2 where s2: "seed_role_permissions_if_empty (bs_perm_ids draw) now d1 = (Inr (), d2)"
    and r2: "\<not> should_role_permissions_seed d2" "users d2 = users d1" "roles d2 = roles d1"
    using seed_permissions_if_empty_ok by metis
  have "fill_admin_user_id C (bs_salt draw) strong cfg (bs_admin_id draw) now d2 = (Inr i, d')"
    using assms(1) by (simp add: user_seed_if_empty_def andThen_def s1 s2)
  then have r3: "user_repo_find_id_with_role_type ADMIN d' = Some i" "i \<noteq> []" "roles d' = roles d2"
      "permissions d' = permissions d2"
    using fill_admin_ok [of C "bs_salt draw" strong cfg "bs_admin_id draw" now d2 i d'] r1 r2 assms(2-4) by simp_all
  have "\<not> should_role_seed_roles d'" "\<not> should_role_permissions_seed d'"
    using r1 r2 r3 by (simp_all add: should_role_seed_roles_iff should_role_permissions_seed_def perm_repo_count_def)
  with r3 show ?thesis
    by (simp add: user_seed_if_empty_def seed_roles_if_empty_def seed_role_permissions_if_empty_def whenever_def
        andThen_def fill_admin_user_id_def)
qed

section \<open>The properties at concrete inputs\<close>

definition demo_casl :: "(perm_action \<times> perm_subject) list casl" where
  "demo_casl = \<lparr>casl_build = (\<lambda>rules. rules), casl_can = (\<lambda>rules a x. (a, x) \<in> set rules)\<rparr>"

lemma demo_casl_ok: "casl_ok demo_casl"
  by (simp add: casl_ok_def demo_casl_def)

definition demo_policies :: "(perm_action \<times> perm_subject) list policy_state" where
  "demo_policies = \<lparr>users = [demo_user ''u1'' ''ann@x'' None], roles = [demo_role],
     permissions = [perm_insert_row ''p1'' 0 \<lparr>pp_roleType = USER, pp_action = Read, pp_subject = S_File,
       pp_description = None, pp_isActive = None\<rparr>],
     refreshes = [], resets = [], magics = [], mail_templates = [], mails = [], mail_queue = [], outbox = [],
     redis = (\<lambda>_. None), events = [], reply = [], ability_cache = (\<lambda>_. None)\<rparr>"

definition demo_principal :: "string \<Rightarrow> guard_request" where
  "demo_principal role = \<lparr>gr_user = Some \<lparr>pr_userId = Some ''u1'', pr_roleId = Some ''r1'',
     pr_roleType = Some role, pr_language = Some ''ru''\<rparr>, gr_own = no_principal\<rparr>"

theorem guard_decides_database_witness:
  "fst (policies_guard demo_casl False (Some (Read, One_Subject S_File)) (demo_principal ''user'') demo_policies) = Inr True"
proof -
  have "cache_fresh demo_casl demo_policies" by (simp add: cache_fresh_def demo_policies_def)
  from guard_decides_database [OF demo_casl_ok this, of "Some (Read, One_Subject S_File)" "demo_principal ''user''"]
  have "fst (policies_guard demo_casl False (Some (Read, One_Subject S_File)) (demo_principal ''user'') demo_policies)
    = Inr (database_decision (Some (Read, One_Subject S_File)) (demo_principal ''user'') demo_policies)" by simp
  moreover have "database_decision (Some (Read, One_Subject S_File)) (demo_principal ''user'') demo_policies" by code_simp
  ultimately show ?thesis by simp
qed

theorem permission_change_needs_refresh_witness:
  "fst (policies_guard demo_casl False (Some (Read, One_Subject S_File)) (demo_principal ''user'')
      (demo_policies\<lparr>ability_cache := [USER \<mapsto> [(Read, S_File)]], permissions := []\<rparr>))
    = fst (policies_guard demo_casl False (Some (Read, One_Subject S_File)) (demo_principal ''user'')
      (demo_policies\<lparr>ability_cache := [USER \<mapsto> [(Read, S_File)]]\<rparr>))"
proof -
  have auth: "authenticated (demo_principal ''user'')" and role: "acting_role (demo_principal ''user'') = Some USER"
    by code_simp+
  have cached: "ability_cache (demo_policies\<lparr>ability_cache := [USER \<mapsto> [(Read, S_File)]]\<rparr>) USER = Some [(Read, S_File)]"
    by simp
  show ?thesis
    by (rule conjunct1 [OF permission_change_needs_refresh [OF demo_casl_ok auth role cached,
        of Read "One_Subject S_File" "[]"]])
qed

theorem boot_grants_config_witness:
  "fst (policies_guard demo_casl False (Some (Delete, One_Subject S_UserAdmin)) (demo_principal ''admin'')
     (snd (refresh_all_abilities demo_casl False (snd (seed_role_permissions_if_empty (\<lambda>_. []) 0 demo_policies))))) = Inr True"
proof -
  have need: "should_role_permissions_seed demo_policies"
    by (simp add: should_role_permissions_seed_def expected_permissions_value perm_repo_count_def demo_policies_def
        perm_insert_row_def)
  have "(\<exists>rt x. acting_role (demo_principal ''admin'') = Some rt \<and> x \<in> set (subject_list (One_Subject S_UserAdmin))
     \<and> config_grants rt Delete x)"
  proof (intro exI conjI)
    show "acting_role (demo_principal ''admin'') = Some ADMIN" by code_simp
    show "S_UserAdmin \<in> set (subject_list (One_Subject S_UserAdmin))" by simp
    show "config_grants ADMIN Delete S_UserAdmin" by code_simp
  qed
  with boot_grants_config [OF demo_casl_ok need surjective_pairing, of "\<lambda>_. []" 0 Delete "One_Subject S_UserAdmin" "demo_principal ''admin''"]
  show ?thesis by simp
qed

definition demo_draw :: boot_supply where
  "demo_draw = \<lparr>bs_role_ids = role_type_str, bs_perm_ids = (\<lambda>k. replicate k CHR ''p''), bs_admin_id = ''root'', bs_salt = ''s''\<rparr>"

definition demo_admin :: admin_config where
  "demo_admin = \<lparr>ac_email = Some ''root@x'', ac_password = Some ''Passw0rd!''\<rparr>"

definition demo_boot :: "(exn + ident) \<times> (perm_action \<times> perm_subject) list policy_state" where
  "demo_boot = user_seed_if_empty demo_crypto (\<lambda>_. True) demo_admin demo_draw 7 (demo_policies\<lparr>users := [], roles := []\<rparr>)"

theorem boot_is_idempotent_witness:
  "user_seed_if_empty demo_crypto (\<lambda>_. False) \<lparr>ac_email = None, ac_password = None\<rparr> demo_draw 8 (snd demo_boot)
   = (Inr ''root'', snd demo_boot)"
proof -
  have "fst demo_boot = Inr ''root''" by code_simp
  then have "user_seed_if_empty demo_crypto (\<lambda>_. True) demo_admin demo_draw 7 (demo_policies\<lparr>users := [], roles := []\<rparr>)
      = (Inr ''root'', snd demo_boot)" by (metis demo_boot_def prod.collapse)
  from boot_is_idempotent [OF this, of demo_crypto "\<lambda>_. False" "\<lparr>ac_email = None, ac_password = None\<rparr>" demo_draw 8]
  show ?thesis by (simp add: demo_draw_def)
qed

end
