(* ===== verification/Object_Store.thy ===== *)
theory Object_Store
  imports Js_Values
begin

text \<open>
  \<open>s3.adapter.ts\<close>, the only code that talks to the object storage.  The S3 service is the record
  \<open>s3_client\<close> of the four requests the adapter sends, an argument of every definition; its state is
  the field \<open>objects\<close> of the state, of any type.  \<open>s3_ok\<close> is what the S3 documentation promises:
  a completed upload is read back at once, under its key and under its version, and requests for
  other keys are not affected.
\<close>

section \<open>The service\<close>

record upload_params =
  up_key :: string
  up_body :: string
  up_contentType :: string
  up_metadata :: "(string \<times> string) list"

record upload_output =
  uo_key :: "string option"
  uo_versionId :: "string option"

record s3_object =
  ob_body :: "string option"
  ob_contentType :: "string option"
  ob_contentLength :: "int option"
  ob_lastModified :: "string option"
  ob_etag :: "string option"

record 'b s3_client =
  s3_upload :: "upload_params \<Rightarrow> 'b \<Rightarrow> (exn + upload_output) \<times> 'b"
  s3_head :: "string \<Rightarrow> string option \<Rightarrow> 'b \<Rightarrow> exn + s3_object"
  s3_get :: "string \<Rightarrow> string option \<Rightarrow> 'b \<Rightarrow> exn + s3_object"
  s3_delete :: "string \<Rightarrow> string option \<Rightarrow> 'b \<Rightarrow> (exn + unit) \<times> 'b"

definition s3_ok :: "'b s3_client \<Rightarrow> bool" where
  "s3_ok S = (\<forall>p b. (case s3_upload S p b of
       (Inl e, b') \<Rightarrow> True
     | (Inr out, b') \<Rightarrow> uo_key out = Some (up_key p)
        \<and> (\<forall>v\<in>{None, uo_versionId out}. \<exists>ob. s3_get S (up_key p) v b' = Inr ob
             \<and> s3_head S (up_key p) v b' = Inr (ob\<lparr>ob_body := None\<rparr>)
             \<and> ob_body ob = Some (up_body p) \<and> ob_contentType ob = Some (up_contentType p))
        \<and> (\<forall>k v. k \<noteq> up_key p \<longrightarrow> s3_get S k v b' = s3_get S k v b \<and> s3_head S k v b' = s3_head S k v b)))"

record 'b object_db =
  objects :: 'b

section \<open>Files\<close>

datatype file_from = From_User | From_Public

fun file_from_str :: "file_from \<Rightarrow> string" where
  "file_from_str From_User = ''USER''"
| "file_from_str From_Public = ''PUBLIC''"

datatype file_type = User_File | Image | Video | Document | Other

fun file_type_str :: "file_type \<Rightarrow> string" where
  "file_type_str User_File = ''USER_FILE''"
| "file_type_str Image = ''IMAGE''"
| "file_type_str Video = ''VIDEO''"
| "file_type_str Document = ''DOCUMENT''"
| "file_type_str Other = ''OTHER''"

definition NIL_UUID :: string where
  "NIL_UUID = ''00000000-0000-0000-0000-000000000000''"

record uploaded_file =
  uf_body :: string
  uf_mimetype :: string
  uf_filename :: string

text \<open>\<open>slug\<close> is \<open>slugify\<close> with the adapter's options, \<open>environment\<close> the setting
  \<open>host.environment\<close>.\<close>

record adapter_config =
  environment :: string
  slug :: "string \<Rightarrow> string"

text \<open>\<open>name.match(/\/|\.\./g)\<close>.\<close>

definition unsafe_name :: "string \<Rightarrow> bool" where
  "unsafe_name name = (CHR ''/'' \<in> set name \<or> sublist ''..'' name)"

definition get_file_path :: "adapter_config \<Rightarrow> string \<Rightarrow> string \<Rightarrow> file_from \<Rightarrow> string \<Rightarrow> exn + string" where
  "get_file_path A user_id name module external_id =
     (if name = [] \<or> unsafe_name name \<or> user_id = [] \<or> external_id = []
      then Inl (bad_request ''file.invalidUploadParameters'')
      else Inr (environment A @ ''/'' @ (case module of From_User \<Rightarrow> ''user'' | From_Public \<Rightarrow> ''public'')
        @ ''/'' @ external_id @ ''/'' @ user_id @ ''/'' @ slug A name))"

record upload_options =
  op_type :: "file_type option"
  op_module :: "file_from option"
  op_externalId :: "string option"

definition send_upload ::
    "'b s3_client \<Rightarrow> upload_params \<Rightarrow> (('b, 'x) object_db_scheme, exn, upload_output) comp" where
  "send_upload S p s = (let (r, b) = s3_upload S p (objects s) in (r, s\<lparr>objects := b\<rparr>))"

definition adapter_upload :: "'b s3_client \<Rightarrow> string \<Rightarrow> uploaded_file \<Rightarrow> string \<Rightarrow> upload_options
    \<Rightarrow> (('b, 'x) object_db_scheme, exn, upload_output) comp" where
  "adapter_upload S user_id file key opts = send_upload S \<lparr>up_key = key, up_body = uf_body file,
     up_contentType = uf_mimetype file,
     up_metadata = [(''userId'', user_id), (''type'', file_type_str (coalesce (op_type opts) Other)),
       (''module'', file_from_str (coalesce (op_module opts) From_Public)),
       (''externalId'', coalesce (op_externalId opts) NIL_UUID)]\<rparr>"

definition adapter_upload_buffer :: "'b s3_client \<Rightarrow> string \<Rightarrow> string \<Rightarrow> string
    \<Rightarrow> (('b, 'x) object_db_scheme, exn, upload_output) comp" where
  "adapter_upload_buffer S buffer key content_type =
     send_upload S \<lparr>up_key = key, up_body = buffer, up_contentType = content_type, up_metadata = []\<rparr>"

definition adapter_upload_stream :: "'b s3_client \<Rightarrow> string \<Rightarrow> string \<Rightarrow> string
    \<Rightarrow> (string \<times> string) list option \<Rightarrow> (('b, 'x) object_db_scheme, exn, upload_output) comp" where
  "adapter_upload_stream S body key content_type metadata = send_upload S \<lparr>up_key = key, up_body = body,
     up_contentType = content_type, up_metadata = coalesce metadata []\<rparr>"

definition adapter_head ::
    "'b s3_client \<Rightarrow> string \<Rightarrow> string option \<Rightarrow> (('b, 'x) object_db_scheme, exn, s3_object) comp" where
  "adapter_head S path version s = (s3_head S path version (objects s), s)"

definition adapter_download ::
    "'b s3_client \<Rightarrow> string \<Rightarrow> string option \<Rightarrow> (('b, 'x) object_db_scheme, exn, s3_object) comp" where
  "adapter_download S path version s = (s3_get S path version (objects s), s)"

definition adapter_delete ::
    "'b s3_client \<Rightarrow> string \<Rightarrow> string option \<Rightarrow> (('b, 'x) object_db_scheme, exn, unit) comp" where
  "adapter_delete S path version s = (let (r, b) = s3_delete S path version (objects s) in (r, s\<lparr>objects := b\<rparr>))"

section \<open>Lemmas\<close>

lemma send_upload_ok:
  assumes "s3_ok S" "send_upload S p s = (Inr out, s')"
  obtains b where "s' = s\<lparr>objects := b\<rparr>" "uo_key out = Some (up_key p)"
    "\<And>v. v = None \<or> v = uo_versionId out \<Longrightarrow> \<exists>ob. s3_get S (up_key p) v b = Inr ob
       \<and> s3_head S (up_key p) v b = Inr (ob\<lparr>ob_body := None\<rparr>)
       \<and> ob_body ob = Some (up_body p) \<and> ob_contentType ob = Some (up_contentType p)"
    "\<And>k v. k \<noteq> up_key p \<Longrightarrow> s3_get S k v b = s3_get S k v (objects s)"
proof -
  obtain b where up: "s3_upload S p (objects s) = (Inr out, b)" and s': "s' = s\<lparr>objects := b\<rparr>"
    using assms(2) by (cases "s3_upload S p (objects s)") (auto simp: send_upload_def)
  from assms(1) [unfolded s3_ok_def, THEN spec [of _ p], THEN spec [of _ "objects s"]] up s'
  show thesis by (intro that [of b]) auto
qed

lemma get_file_path_ok:
  "get_file_path A u name m e = Inr p \<longleftrightarrow> name \<noteq> [] \<and> \<not> unsafe_name name \<and> u \<noteq> [] \<and> e \<noteq> []
     \<and> p = environment A @ ''/'' @ (case m of From_User \<Rightarrow> ''user'' | From_Public \<Rightarrow> ''public'')
        @ ''/'' @ e @ ''/'' @ u @ ''/'' @ slug A name"
  by (auto simp: get_file_path_def)

text \<open>A store that keeps every object, and every version of it.\<close>

definition demo_object :: "upload_params \<Rightarrow> s3_object" where
  "demo_object p = \<lparr>ob_body = Some (up_body p), ob_contentType = Some (up_contentType p),
     ob_contentLength = Some (int (length (up_body p))), ob_lastModified = None, ob_etag = None\<rparr>"

definition demo_find :: "string \<Rightarrow> string option \<Rightarrow> (string \<times> string \<times> s3_object) list \<Rightarrow> exn + s3_object" where
  "demo_find k v b = (case List.find (\<lambda>(k', v', ob). k' = k \<and> (v = None \<or> v = Some v')) b of
     None \<Rightarrow> Inl (Js_Exn ''NoSuchKey'') | Some (_, _, ob) \<Rightarrow> Inr ob)"

definition demo_s3 :: "(string \<times> string \<times> s3_object) list s3_client" where
  "demo_s3 = \<lparr>
     s3_upload = (\<lambda>p b. let v = show_pos (int (length b)) in
       (Inr \<lparr>uo_key = Some (up_key p), uo_versionId = Some v\<rparr>, (up_key p, v, demo_object p) # b)),
     s3_head = (\<lambda>k v b. map_sum id (\<lambda>ob. ob\<lparr>ob_body := None\<rparr>) (demo_find k v b)),
     s3_get = demo_find,
     s3_delete = (\<lambda>k v b. (Inr (), filter (\<lambda>(k', v', ob). \<not> (k' = k \<and> (v = None \<or> v = Some v'))) b))\<rparr>"

lemma demo_s3_ok: "s3_ok demo_s3"
  by (simp add: s3_ok_def demo_s3_def demo_find_def demo_object_def Let_def)

end
