(* ===== verification/Captcha.thy ===== *)
theory Captcha
  imports Object_Store Password_Service
begin

text \<open>
  The captcha module: \<open>captcha.types.ts\<close> and the tables of \<open>captcha.schema.ts\<close>,
  \<open>captcha.repository.drizzle.ts\<close>, the Redis pool, the answer normaliser, the HMAC hashing, the SVG
  generator, the BullMQ processor that fills the pool and \<open>captcha.handlers.ts\<close>.  The state holds the
  five tables, the Redis lists by key, the queue \<open>captcha-generation\<close> and the object storage.  The
  drawing of the SVG text is the parameter \<open>render\<close>: it is floating-point layout.
\<close>

section \<open>Types\<close>

datatype captcha_difficulty = Easy | Medium | Hard

fun difficulty_str :: "captcha_difficulty \<Rightarrow> string" where
  "difficulty_str Easy = ''easy''" | "difficulty_str Medium = ''medium''" | "difficulty_str Hard = ''hard''"

datatype captcha_template_status = Tpl_Draft | Tpl_Active | Tpl_Archived

datatype captcha_config_status = Cfg_Draft | Cfg_Active | Cfg_Archived

datatype captcha_asset_status = Ast_Available | Ast_Reserved | Ast_Used | Ast_Expired | Ast_Archived

datatype captcha_context = Ctx_Login | Ctx_Register | Ctx_Password_Reset | Ctx_Api_Sensitive_Action

datatype captcha_challenge_status = Chl_Pending | Chl_Passed | Chl_Failed | Chl_Expired

datatype captcha_template_type = Image_Text | Math_Expression

type_synonym json_object = "(string \<times> json) list"

record captcha_template =
  ct_id :: string
  ct_code :: string
  ct_name :: string
  ct_type :: captcha_template_type
  ct_status :: captcha_template_status
  ct_defaultDifficulty :: captcha_difficulty
  ct_generator :: string
  ct_createdAt :: int
  ct_updatedAt :: int

record captcha_config =
  cf_id :: string
  cf_templateId :: string
  cf_version :: int
  cf_status :: captcha_config_status
  cf_configJson :: json_object
  cf_createdByUserId :: "string option"
  cf_createdAt :: int
  cf_activatedAt :: "int option"

record captcha_asset =
  ca_id :: string
  ca_templateId :: string
  ca_configId :: string
  ca_storageKey :: string
  ca_answerHash :: string
  ca_answerNormalizedHash :: string
  ca_difficulty :: captcha_difficulty
  ca_status :: captcha_asset_status
  ca_generatedAt :: int
  ca_expiresAt :: int
  ca_usedCount :: int
  ca_maxUses :: int
  ca_metadataJson :: json_object

record captcha_challenge =
  cc_id :: string
  cc_assetId :: string
  cc_context :: captcha_context
  cc_subjectHash :: "string option"
  cc_riskScore :: int
  cc_status :: captcha_challenge_status
  cc_attemptsCount :: int
  cc_expiresAt :: int
  cc_createdAt :: int
  cc_completedAt :: "int option"

record captcha_attempt =
  cx_id :: string
  cx_challengeId :: string
  cx_answerHash :: string
  cx_isSuccess :: bool
  cx_solveTimeMs :: "int option"
  cx_ipHash :: "string option"
  cx_userAgentHash :: "string option"
  cx_createdAt :: int

record generation_job =
  gj_configId :: string
  gj_count :: nat
  gj_difficulty :: captcha_difficulty
  gj_attempts :: nat

record 'b captcha_db = "'b object_db" +
  templates :: "captcha_template list"
  configs :: "captcha_config list"
  assets :: "captcha_asset list"
  challenges :: "captcha_challenge list"
  attempts :: "captcha_attempt list"
  pool :: "string \<Rightarrow> string list"
  generation_queue :: "generation_job list"

section \<open>The repository\<close>

record create_template_data =
  td_code :: string
  td_name :: string
  td_type :: captcha_template_type
  td_status :: captcha_template_status
  td_defaultDifficulty :: captcha_difficulty
  td_generator :: string

definition cap_create_template :: "string \<Rightarrow> int \<Rightarrow> create_template_data
    \<Rightarrow> (('b, 'x) captcha_db_scheme, exn, captcha_template) comp" where
  "cap_create_template new_id now t s =
     (let row = \<lparr>ct_id = new_id, ct_code = td_code t, ct_name = td_name t, ct_type = td_type t,
        ct_status = td_status t, ct_defaultDifficulty = td_defaultDifficulty t,
        ct_generator = td_generator t, ct_createdAt = now, ct_updatedAt = now\<rparr>
      in if some_row (\<lambda>r. ct_code r = td_code t \<or> ct_id r = new_id) (templates s)
         then (Inl (Pg_Exn ''23505''), s)
         else (Inr row, s\<lparr>templates := templates s @ [row]\<rparr>))"

definition cap_list_templates :: "('b, 'x) captcha_db_scheme \<Rightarrow> captcha_template list" where
  "cap_list_templates s = sort_key (\<lambda>t. - ct_createdAt t) (templates s)"

definition cap_find_template_by_id :: "string \<Rightarrow> ('b, 'x) captcha_db_scheme \<Rightarrow> captcha_template option" where
  "cap_find_template_by_id i s = find_row (\<lambda>t. ct_id t = i) (templates s)"

definition cap_find_template_by_code :: "string \<Rightarrow> ('b, 'x) captcha_db_scheme \<Rightarrow> captcha_template option" where
  "cap_find_template_by_code code s = find_row (\<lambda>t. ct_code t = code) (templates s)"

text \<open>\<open>coalesce(max(version), 0) + 1\<close>.\<close>

definition cap_next_config_version :: "string \<Rightarrow> ('b, 'x) captcha_db_scheme \<Rightarrow> int" where
  "cap_next_config_version tid s = (case map cf_version (filter (\<lambda>c. cf_templateId c = tid) (configs s)) of
     [] \<Rightarrow> 0 + 1 | v # vs \<Rightarrow> foldl max v vs + 1)"

record create_config_data =
  cd_templateId :: string
  cd_version :: int
  cd_configJson :: json_object
  cd_createdByUserId :: "string option"

definition cap_create_config :: "string \<Rightarrow> int \<Rightarrow> create_config_data
    \<Rightarrow> (('b, 'x) captcha_db_scheme, exn, captcha_config) comp" where
  "cap_create_config new_id now c s =
     (let row = \<lparr>cf_id = new_id, cf_templateId = cd_templateId c, cf_version = cd_version c,
        cf_status = Cfg_Draft, cf_configJson = cd_configJson c,
        cf_createdByUserId = cd_createdByUserId c, cf_createdAt = now, cf_activatedAt = None\<rparr>
      in if some_row (\<lambda>r. cf_id r = new_id
              \<or> cf_templateId r = cd_templateId c \<and> cf_version r = cd_version c) (configs s)
         then (Inl (Pg_Exn ''23505''), s)
         else (Inr row, s\<lparr>configs := configs s @ [row]\<rparr>))"

definition cap_list_configs :: "string \<Rightarrow> ('b, 'x) captcha_db_scheme \<Rightarrow> captcha_config list" where
  "cap_list_configs tid s = sort_key (\<lambda>c. - cf_version c) (filter (\<lambda>c. cf_templateId c = tid) (configs s))"

definition cap_find_config_by_id :: "string \<Rightarrow> ('b, 'x) captcha_db_scheme \<Rightarrow> captcha_config option" where
  "cap_find_config_by_id i s = find_row (\<lambda>c. cf_id c = i) (configs s)"

definition cap_find_active_config :: "string \<Rightarrow> ('b, 'x) captcha_db_scheme \<Rightarrow> captcha_config option" where
  "cap_find_active_config tid s =
     find_row (\<lambda>c. cf_templateId c = tid \<and> cf_status c = Cfg_Active) (configs s)"

definition cap_activate_config :: "int \<Rightarrow> string \<Rightarrow> (('b, 'x) captcha_db_scheme, exn, captcha_config) comp" where
  "cap_activate_config now i s = (case cap_find_config_by_id i s of
     None \<Rightarrow> (Inl (not_found ''captcha.config.notFound''), s)
   | Some config \<Rightarrow>
       (let archived = update_rows (\<lambda>c. cf_templateId c = cf_templateId config \<and> cf_status c = Cfg_Active)
              (\<lambda>c. c\<lparr>cf_status := Cfg_Archived\<rparr>) (configs s);
            active = update_rows (\<lambda>c. cf_id c = i)
              (\<lambda>c. c\<lparr>cf_status := Cfg_Active, cf_activatedAt := Some now\<rparr>) archived
        in case find_row (\<lambda>c. cf_id c = i) active of
             None \<Rightarrow> (Inl (not_found ''captcha.config.notFound''), s)
           | Some row \<Rightarrow> (Inr row, s\<lparr>configs := active\<rparr>)))"

record create_asset_data =
  ad_templateId :: string
  ad_configId :: string
  ad_storageKey :: string
  ad_answerHash :: string
  ad_answerNormalizedHash :: string
  ad_difficulty :: captcha_difficulty
  ad_expiresAt :: int
  ad_metadataJson :: json_object
  ad_maxUses :: int

definition new_asset :: "string \<Rightarrow> int \<Rightarrow> create_asset_data \<Rightarrow> captcha_asset" where
  "new_asset new_id now a = \<lparr>ca_id = new_id, ca_templateId = ad_templateId a, ca_configId = ad_configId a,
     ca_storageKey = ad_storageKey a, ca_answerHash = ad_answerHash a,
     ca_answerNormalizedHash = ad_answerNormalizedHash a, ca_difficulty = ad_difficulty a,
     ca_status = Ast_Available, ca_generatedAt = now, ca_expiresAt = ad_expiresAt a,
     ca_usedCount = 0, ca_maxUses = ad_maxUses a, ca_metadataJson = ad_metadataJson a\<rparr>"

definition cap_create_asset :: "string \<Rightarrow> int \<Rightarrow> create_asset_data
    \<Rightarrow> (('b, 'x) captcha_db_scheme, exn, captcha_asset) comp" where
  "cap_create_asset new_id now a s =
     (if some_row (\<lambda>r. ca_id r = new_id) (assets s) then (Inl (Pg_Exn ''23505''), s)
      else (Inr (new_asset new_id now a), s\<lparr>assets := assets s @ [new_asset new_id now a]\<rparr>))"

definition cap_find_asset_by_id :: "string \<Rightarrow> ('b, 'x) captcha_db_scheme \<Rightarrow> captcha_asset option" where
  "cap_find_asset_by_id i s = find_row (\<lambda>a. ca_id a = i) (assets s)"

definition reservable :: "int \<Rightarrow> string \<Rightarrow> captcha_asset \<Rightarrow> bool" where
  "reservable now i a = (ca_id a = i \<and> ca_status a = Ast_Available \<and> ca_expiresAt a > now)"

definition reserve_row :: "captcha_asset \<Rightarrow> captcha_asset" where
  "reserve_row a = a\<lparr>ca_status := Ast_Reserved\<rparr>"

definition cap_reserve_asset ::
    "int \<Rightarrow> string \<Rightarrow> (('b, 'x) captcha_db_scheme, exn, captcha_asset option) comp" where
  "cap_reserve_asset now i s = (Inr (map_option reserve_row (find_row (reservable now i) (assets s))),
     s\<lparr>assets := update_rows (reservable now i) reserve_row (assets s)\<rparr>)"

definition use_row :: "captcha_asset \<Rightarrow> captcha_asset" where
  "use_row a = a\<lparr>ca_status := Ast_Used, ca_usedCount := ca_usedCount a + 1\<rparr>"

definition cap_mark_asset_used :: "string \<Rightarrow> (('b, 'x) captcha_db_scheme, exn, unit) comp" where
  "cap_mark_asset_used i =
     modify (\<lambda>s. s\<lparr>assets := update_rows (\<lambda>a. ca_id a = i) use_row (assets s)\<rparr>)"

record create_challenge_data =
  hd_assetId :: string
  hd_context :: captcha_context
  hd_subjectHash :: "string option"
  hd_riskScore :: int
  hd_expiresAt :: int

definition new_challenge :: "string \<Rightarrow> int \<Rightarrow> create_challenge_data \<Rightarrow> captcha_challenge" where
  "new_challenge new_id now c = \<lparr>cc_id = new_id, cc_assetId = hd_assetId c, cc_context = hd_context c,
     cc_subjectHash = hd_subjectHash c, cc_riskScore = hd_riskScore c, cc_status = Chl_Pending,
     cc_attemptsCount = 0, cc_expiresAt = hd_expiresAt c, cc_createdAt = now, cc_completedAt = None\<rparr>"

definition cap_create_challenge :: "string \<Rightarrow> int \<Rightarrow> create_challenge_data
    \<Rightarrow> (('b, 'x) captcha_db_scheme, exn, captcha_challenge) comp" where
  "cap_create_challenge new_id now c s =
     (if some_row (\<lambda>r. cc_id r = new_id) (challenges s) then (Inl (Pg_Exn ''23505''), s)
      else (Inr (new_challenge new_id now c), s\<lparr>challenges := challenges s @ [new_challenge new_id now c]\<rparr>))"

definition cap_find_challenge_by_id :: "string \<Rightarrow> ('b, 'x) captcha_db_scheme \<Rightarrow> captcha_challenge option" where
  "cap_find_challenge_by_id i s = find_row (\<lambda>c. cc_id c = i) (challenges s)"

definition complete_row :: "int \<Rightarrow> captcha_challenge_status \<Rightarrow> captcha_challenge \<Rightarrow> captcha_challenge" where
  "complete_row now st c = c\<lparr>cc_status := st, cc_completedAt := Some now\<rparr>"

text \<open>The callers ignore the row that \<open>completeChallenge\<close> returns.\<close>

definition cap_complete_challenge ::
    "int \<Rightarrow> string \<Rightarrow> captcha_challenge_status \<Rightarrow> (('b, 'x) captcha_db_scheme, exn, unit) comp" where
  "cap_complete_challenge now i st = modify (\<lambda>s. s\<lparr>challenges :=
     update_rows (\<lambda>c. cc_id c = i) (complete_row now st) (challenges s)\<rparr>)"

definition attempt_row :: "captcha_challenge \<Rightarrow> captcha_challenge" where
  "attempt_row c = c\<lparr>cc_attemptsCount := cc_attemptsCount c + 1\<rparr>"

definition cap_increment_attempts :: "string \<Rightarrow> (('b, 'x) captcha_db_scheme, exn, unit) comp" where
  "cap_increment_attempts i = modify (\<lambda>s. s\<lparr>challenges :=
     update_rows (\<lambda>c. cc_id c = i) attempt_row (challenges s)\<rparr>)"

definition cap_create_attempt :: "captcha_attempt \<Rightarrow> (('b, 'x) captcha_db_scheme, exn, unit) comp" where
  "cap_create_attempt a = modify (\<lambda>s. s\<lparr>attempts := attempts s @ [a]\<rparr>)"

definition all_difficulties :: "captcha_difficulty list" where
  "all_difficulties = [Easy, Medium, Hard]"

definition all_asset_statuses :: "captcha_asset_status list" where
  "all_asset_statuses = [Ast_Available, Ast_Reserved, Ast_Used, Ast_Expired, Ast_Archived]"

text \<open>\<open>group by\<close> has a row for every group that occurs.\<close>

definition cap_count_assets_by_status ::
    "('b, 'x) captcha_db_scheme \<Rightarrow> (captcha_asset_status \<times> captcha_difficulty \<times> nat) list" where
  "cap_count_assets_by_status s = filter (\<lambda>(_, _, n). n > 0)
     (concat (map (\<lambda>st. map (\<lambda>d. (st, d, count_rows (\<lambda>a. ca_status a = st \<and> ca_difficulty a = d) (assets s)))
       all_difficulties) all_asset_statuses))"

record challenge_counts =
  n_total :: nat
  n_passed :: nat
  n_failed :: nat
  n_pending :: nat

definition cap_count_challenges :: "('b, 'x) captcha_db_scheme \<Rightarrow> challenge_counts" where
  "cap_count_challenges s = (let n = (\<lambda>st. count_rows (\<lambda>c. cc_status c = st) (challenges s)) in
     \<lparr>n_total = sum_list (map n [Chl_Pending, Chl_Passed, Chl_Failed, Chl_Expired]),
      n_passed = n Chl_Passed, n_failed = n Chl_Failed, n_pending = n Chl_Pending\<rparr>)"

section \<open>The pool in Redis\<close>

definition pool_key :: "string \<Rightarrow> string \<Rightarrow> captcha_difficulty \<Rightarrow> string" where
  "pool_key redis_prefix template_code difficulty =
     redis_prefix @ '':pool:'' @ template_code @ '':'' @ difficulty_str difficulty"

text \<open>\<open>lpush\<close> adds at the head of the list, \<open>rpop\<close> takes its last element.\<close>

definition pool_push :: "string \<Rightarrow> string \<Rightarrow> (('b, 'x) captcha_db_scheme, exn, unit) comp" where
  "pool_push key asset_id = modify (\<lambda>s. s\<lparr>pool := (pool s)(key := asset_id # pool s key)\<rparr>)"

definition pool_pop :: "string \<Rightarrow> (('b, 'x) captcha_db_scheme, exn, string option) comp" where
  "pool_pop key s = (if pool s key = [] then (Inr None, s)
     else (Inr (Some (last (pool s key))), s\<lparr>pool := (pool s)(key := butlast (pool s key))\<rparr>))"

definition pool_size :: "string \<Rightarrow> ('b, 'x) captcha_db_scheme \<Rightarrow> nat" where
  "pool_size key s = length (pool s key)"

section \<open>Answers\<close>

text \<open>Letters and numbers of Latin-1, as JavaScript's \<open>\p{L}\<close> and \<open>\p{N}\<close> classify them.  The
  Cyrillic letter that \<open>normalize\<close> replaces is not among them.\<close>

definition js_word :: "char \<Rightarrow> bool" where
  "js_word c = (let n = of_char c :: nat in js_upper c \<or> 97 \<le> n \<and> n \<le> 122 \<or> 223 \<le> n \<and> n \<noteq> 247
     \<or> n = 170 \<or> n = 181 \<or> n = 186 \<or> 48 \<le> n \<and> n \<le> 57 \<or> n = 178 \<or> n = 179 \<or> n = 185 \<or> 188 \<le> n \<and> n \<le> 190)"

fun collapse_spaces :: "bool \<Rightarrow> string \<Rightarrow> string" where
  "collapse_spaces after [] = []"
| "collapse_spaces after (c # cs) = (if js_space c
     then (if after then collapse_spaces True cs else CHR '' '' # collapse_spaces True cs)
     else c # collapse_spaces False cs)"

definition normalize_answer :: "string \<Rightarrow> string" where
  "normalize_answer answer = collapse_spaces False
     (filter (\<lambda>c. js_word c \<or> js_space c) (map js_lower_char (js_trim answer)))"

text \<open>\<open>hmac\<close> is \<open>createHmac('sha256', secret).update(v).digest('hex')\<close> of \<open>node:crypto\<close>.\<close>

record hashing =
  hs_secret :: string
  hs_hmac :: "string \<Rightarrow> string \<Rightarrow> string"

record hashing_settings =
  set_hashPepper :: "string option"
  set_jwt_access_secret :: "string option"
  set_jwt_secret :: "string option"

definition captcha_secret :: "hashing_settings \<Rightarrow> string" where
  "captcha_secret s = coalesce (set_hashPepper s) (coalesce (set_jwt_access_secret s)
     (coalesce (set_jwt_secret s) ''development-captcha-secret-change-me''))"

definition captcha_hmac :: "hashing \<Rightarrow> string \<Rightarrow> string" where
  "captcha_hmac H v = hs_hmac H (hs_secret H) v"

definition hash_answer :: "hashing \<Rightarrow> string \<Rightarrow> string" where
  "hash_answer H normalized = captcha_hmac H (''answer:'' @ normalized)"

definition compare_answer :: "hashing \<Rightarrow> string \<Rightarrow> string \<Rightarrow> bool" where
  "compare_answer H normalized hash = (let expected = utf8_bytes (hash_answer H normalized); actual = utf8_bytes hash in
     length expected = length actual \<and> expected = actual)"

definition hash_lookup :: "hashing \<Rightarrow> string \<Rightarrow> string" where
  "hash_lookup H v = captcha_hmac H (''lookup:'' @ v)"

section \<open>The generator\<close>

record svg_text_config =
  sv_width :: int
  sv_height :: int
  sv_length :: int
  sv_alphabet :: string

text \<open>On integers \<open>Math.round\<close> is the identity; a JSON number is an integer here.\<close>

definition clamp_number :: "json option \<Rightarrow> int \<Rightarrow> int \<Rightarrow> int \<Rightarrow> int" where
  "clamp_number v lo hi fallback = min hi (max lo (case v of Some (J_Num n) \<Rightarrow> n | _ \<Rightarrow> fallback))"

definition default_alphabet :: string where
  "default_alphabet = ''23456789ABCDEFGHJKLMNPQRSTUVWXYZ''"

definition validate_config :: "json_object \<Rightarrow> svg_text_config" where
  "validate_config input = \<lparr>
     sv_width = clamp_number (map_of input ''width'') 220 640 320,
     sv_height = clamp_number (map_of input ''height'') 80 180 100,
     sv_length = clamp_number (map_of input ''length'') 4 10 6,
     sv_alphabet = (case map_of input ''alphabet'' of
       Some (J_Str a) \<Rightarrow> if length a \<ge> 8 then a else default_alphabet | _ \<Rightarrow> default_alphabet)\<rparr>"

definition config_json :: "svg_text_config \<Rightarrow> json_object" where
  "config_json c = [(''width'', J_Num (sv_width c)), (''height'', J_Num (sv_height c)),
     (''length'', J_Num (sv_length c)), (''alphabet'', J_Str (sv_alphabet c))]"

text \<open>\<open>rnd k\<close> is the draw number \<open>k\<close> of the generator; \<open>randomInt(0, n)\<close> reduces it below \<open>n\<close>.\<close>

definition random_text :: "(nat \<Rightarrow> nat) \<Rightarrow> string \<Rightarrow> int \<Rightarrow> string" where
  "random_text rnd alphabet len = map (\<lambda>k. alphabet ! (rnd k mod length alphabet)) [0..<nat len]"

definition captcha_noise :: "captcha_difficulty \<Rightarrow> int" where
  "captcha_noise d = (if d = Hard then 18 else if d = Medium then 10 else 5)"

record generated_captcha =
  gc_answer :: string
  gc_image :: string
  gc_contentType :: string
  gc_metadata :: json_object

definition generator_code :: string where
  "generator_code = ''svg_text''"

type_synonym svg_renderer = "(nat \<Rightarrow> nat) \<Rightarrow> string \<Rightarrow> svg_text_config \<Rightarrow> int \<Rightarrow> string"

definition generate_captcha ::
    "svg_renderer \<Rightarrow> (nat \<Rightarrow> nat) \<Rightarrow> json_object \<Rightarrow> captcha_difficulty \<Rightarrow> generated_captcha" where
  "generate_captcha render rnd input difficulty =
     (let config = validate_config input;
          answer = random_text rnd (sv_alphabet config) (sv_length config);
          noise = captcha_noise difficulty
      in \<lparr>gc_answer = answer, gc_image = render rnd answer config noise,
          gc_contentType = ''image/svg+xml; charset=utf-8'',
          gc_metadata = [(''generator'', J_Str generator_code), (''width'', J_Num (sv_width config)),
            (''height'', J_Num (sv_height config)), (''length'', J_Num (sv_length config)),
            (''noise'', J_Num noise)]\<rparr>)"

definition preview_captchas :: "svg_renderer \<Rightarrow> (nat \<Rightarrow> nat \<Rightarrow> nat) \<Rightarrow> json_object \<Rightarrow> captcha_difficulty
    \<Rightarrow> nat \<Rightarrow> generated_captcha list" where
  "preview_captchas render rnds input difficulty n =
     map (\<lambda>i. generate_captcha render (rnds i) input difficulty) [0..<n]"

section \<open>The asset storage\<close>

definition storage_put :: "'b s3_client \<Rightarrow> string \<Rightarrow> string \<Rightarrow> string
    \<Rightarrow> (('b, 'x) captcha_db_scheme, exn, string) comp" where
  "storage_put S key body content_type =
     andThen (adapter_upload_buffer S body key content_type) (\<lambda>_. ret key)"

definition storage_get ::
    "'b s3_client \<Rightarrow> string \<Rightarrow> (('b, 'x) captcha_db_scheme, exn, string option \<times> string option) comp" where
  "storage_get S key = andThen (adapter_download S key None) (\<lambda>ob. ret (ob_body ob, ob_contentType ob))"

section \<open>Filling the pool\<close>

record 'b captcha_env =
  ce_s3 :: "'b s3_client"
  ce_hashing :: hashing
  ce_render :: svg_renderer
  ce_prefix :: string
  ce_ttl :: int
  ce_maxAttempts :: int

text \<open>The clock, the id and the random numbers of one round of the loop.\<close>

record generation_draw =
  gd_now :: int
  gd_assetId :: string
  gd_rnd :: "nat \<Rightarrow> nat"

definition asset_key :: "string \<Rightarrow> string \<Rightarrow> int \<Rightarrow> nat \<Rightarrow> string" where
  "asset_key code config_id now i =
     ''captcha/'' @ code @ ''/'' @ config_id @ ''/'' @ show_int now @ ''-'' @ show_pos (int i) @ ''.svg''"

definition generate_asset :: "'b captcha_env \<Rightarrow> captcha_template \<Rightarrow> captcha_config \<Rightarrow> captcha_difficulty
    \<Rightarrow> nat \<Rightarrow> generation_draw \<Rightarrow> (('b, 'x) captcha_db_scheme, exn, unit) comp" where
  "generate_asset E template config difficulty i draw =
     (let generated = generate_captcha (ce_render E) (gd_rnd draw) (cf_configJson config) difficulty;
          normalized = normalize_answer (gc_answer generated);
          key = asset_key (ct_code template) (cf_id config) (gd_now draw) i
      in andThen (storage_put (ce_s3 E) key (gc_image generated) (gc_contentType generated)) (\<lambda>_.
         andThen (cap_create_asset (gd_assetId draw) (gd_now draw) \<lparr>ad_templateId = ct_id template,
           ad_configId = cf_id config, ad_storageKey = key,
           ad_answerHash = hash_answer (ce_hashing E) (gc_answer generated),
           ad_answerNormalizedHash = hash_answer (ce_hashing E) normalized,
           ad_difficulty = difficulty, ad_expiresAt = gd_now draw + 24 * 60 * 60 * 1000,
           ad_metadataJson = gc_metadata generated, ad_maxUses = 1\<rparr>) (\<lambda>asset.
         pool_push (pool_key (ce_prefix E) (ct_code template) difficulty) (ca_id asset))))"

fun generate_assets :: "'b captcha_env \<Rightarrow> captcha_template \<Rightarrow> captcha_config \<Rightarrow> captcha_difficulty
    \<Rightarrow> (nat \<Rightarrow> generation_draw) \<Rightarrow> nat \<Rightarrow> nat \<Rightarrow> (('b, 'x) captcha_db_scheme, exn, unit) comp" where
  "generate_assets E template config difficulty draws i 0 = ret ()"
| "generate_assets E template config difficulty draws i (Suc n) =
     andThen (generate_asset E template config difficulty i (draws i)) (\<lambda>_.
     generate_assets E template config difficulty draws (Suc i) n)"

definition generation_process :: "'b captcha_env \<Rightarrow> (nat \<Rightarrow> generation_draw) \<Rightarrow> generation_job
    \<Rightarrow> (('b, 'x) captcha_db_scheme, exn, unit) comp" where
  "generation_process E draws job =
     andThen (fetch (cap_find_config_by_id (gj_configId job))) (\<lambda>found. case found of
       None \<Rightarrow> throw (Js_Exn ''captcha.config.notFound'')
     | Some config \<Rightarrow> andThen (fetch (cap_find_template_by_id (cf_templateId config))) (\<lambda>found'. case found' of
         None \<Rightarrow> throw (Js_Exn ''captcha.template.notFound'')
       | Some template \<Rightarrow> generate_assets E template config (gj_difficulty job) draws 0 (gj_count job)))"

text \<open>The worker takes the first job; BullMQ attempts a job up to three times, from its start.\<close>

definition run_generation_job ::
    "'b captcha_env \<Rightarrow> (nat \<Rightarrow> generation_draw) \<Rightarrow> ('b, 'x) captcha_db_scheme \<Rightarrow> ('b, 'x) captcha_db_scheme" where
  "run_generation_job E draws s = (case generation_queue s of
     [] \<Rightarrow> s
   | job # rest \<Rightarrow> (case generation_process E draws job (s\<lparr>generation_queue := rest\<rparr>) of
       (Inr _, s') \<Rightarrow> s'
     | (Inl _, s') \<Rightarrow> if gj_attempts job + 1 < 3
         then s'\<lparr>generation_queue := generation_queue s' @ [job\<lparr>gj_attempts := gj_attempts job + 1\<rparr>]\<rparr>
         else s'))"

section \<open>The administrator's handlers\<close>

record create_template_input =
  ti_code :: string
  ti_name :: string
  ti_type :: "captcha_template_type option"
  ti_status :: "captcha_template_status option"
  ti_defaultDifficulty :: "captcha_difficulty option"
  ti_generator :: "string option"

definition create_captcha_template_handler :: "string \<Rightarrow> int \<Rightarrow> create_template_input
    \<Rightarrow> (('b, 'x) captcha_db_scheme, exn, captcha_template) comp" where
  "create_captcha_template_handler new_id now input = cap_create_template new_id now
     \<lparr>td_code = ti_code input, td_name = ti_name input, td_type = coalesce (ti_type input) Image_Text,
      td_status = coalesce (ti_status input) Tpl_Active,
      td_defaultDifficulty = coalesce (ti_defaultDifficulty input) Medium,
      td_generator = coalesce (ti_generator input) ''svg_text''\<rparr>"

definition create_config_draft_handler :: "string \<Rightarrow> int \<Rightarrow> string \<Rightarrow> json_object \<Rightarrow> string option
    \<Rightarrow> (('b, 'x) captcha_db_scheme, exn, captcha_config) comp" where
  "create_config_draft_handler new_id now template_id json user_id =
     andThen (fetch (cap_find_template_by_id template_id)) (\<lambda>found. case found of
       None \<Rightarrow> throw (not_found ''captcha.template.notFound'')
     | Some template \<Rightarrow>
         if ct_generator template \<noteq> generator_code then throw (unprocessable ''captcha.generator.unsupported'')
         else andThen (fetch (cap_next_config_version template_id)) (\<lambda>version.
           cap_create_config new_id now \<lparr>cd_templateId = template_id, cd_version = version,
             cd_configJson = config_json (validate_config json), cd_createdByUserId = user_id\<rparr>))"

definition activate_config_handler :: "int \<Rightarrow> string \<Rightarrow> (('b, 'x) captcha_db_scheme, exn, captcha_config) comp" where
  "activate_config_handler now config_id = cap_activate_config now config_id"

definition preview_handler :: "svg_renderer \<Rightarrow> (nat \<Rightarrow> nat \<Rightarrow> nat) \<Rightarrow> string \<Rightarrow> nat \<Rightarrow> captcha_difficulty option
    \<Rightarrow> (('b, 'x) captcha_db_scheme, exn, (string \<times> string \<times> json_object) list) comp" where
  "preview_handler render rnds config_id n difficulty =
     andThen (fetch (cap_find_config_by_id config_id)) (\<lambda>found. case found of
       None \<Rightarrow> throw (not_found ''captcha.config.notFound'')
     | Some config \<Rightarrow> ret (map (\<lambda>g. (gc_contentType g, gc_image g, gc_metadata g))
         (preview_captchas render rnds (cf_configJson config) (coalesce difficulty Medium) n)))"

definition enqueue_batch_handler :: "string \<Rightarrow> nat \<Rightarrow> captcha_difficulty
    \<Rightarrow> (('b, 'x) captcha_db_scheme, exn, bool \<times> nat \<times> captcha_difficulty) comp" where
  "enqueue_batch_handler config_id n difficulty =
     andThen (fetch (cap_find_config_by_id config_id)) (\<lambda>found. case found of
       None \<Rightarrow> throw (not_found ''captcha.config.notFound'')
     | Some config \<Rightarrow>
         if cf_status config \<noteq> Cfg_Active then throw (conflict ''captcha.config.notActive'')
         else andThen (modify (\<lambda>s. s\<lparr>generation_queue := generation_queue s @
             [\<lparr>gj_configId = config_id, gj_count = n, gj_difficulty = difficulty, gj_attempts = 0\<rparr>]\<rparr>))
           (\<lambda>_. ret (True, n, difficulty)))"

definition pools_handler :: "string \<Rightarrow> ('b, 'x) captcha_db_scheme \<Rightarrow> (string \<times> captcha_difficulty \<times> nat) list" where
  "pools_handler redis_prefix s = concat (map (\<lambda>t. map (\<lambda>d. (ct_code t, d, pool_size (pool_key redis_prefix (ct_code t) d) s))
     all_difficulties) (cap_list_templates s))"

definition metrics_handler :: "('b, 'x) captcha_db_scheme
    \<Rightarrow> (captcha_asset_status \<times> captcha_difficulty \<times> nat) list \<times> challenge_counts" where
  "metrics_handler s = (cap_count_assets_by_status s, cap_count_challenges s)"

section \<open>Challenges\<close>

definition DEFAULT_TEMPLATE_CODE :: string where
  "DEFAULT_TEMPLATE_CODE = ''svg-text-ru-v1''"

text \<open>\<open>popAsset\<close> and \<open>reserveAsset\<close> until an asset is reserved or the list is empty.\<close>

function pop_reserved :: "int \<Rightarrow> string \<Rightarrow> ('b, 'x) captcha_db_scheme
    \<Rightarrow> captcha_asset option \<times> ('b, 'x) captcha_db_scheme" where
  "pop_reserved now key s = (case pool_pop key s of
     (Inr (Some asset_id), s1) \<Rightarrow> (if asset_id = [] then (None, s1)
       else case cap_reserve_asset now asset_id s1 of
         (Inr (Some asset), s2) \<Rightarrow> (Some asset, s2)
       | (_, s2) \<Rightarrow> pop_reserved now key s2)
   | (_, s1) \<Rightarrow> (None, s1))"
  by auto
termination pop_reserved
  by (relation "measure (\<lambda>(now, key, s). length (pool s key))")
    (auto simp: pool_pop_def cap_reserve_asset_def split: if_splits)

declare pop_reserved.simps [simp del]

record challenge_input =
  ci_context :: captcha_context
  ci_riskScore :: "int option"
  ci_difficulty :: "captcha_difficulty option"
  ci_templateCode :: "string option"
  ci_subject :: "string option"

record challenge_reply =
  cr_challengeId :: string
  cr_imageUrl :: string
  cr_expiresIn :: int

definition create_challenge_handler :: "'b captcha_env \<Rightarrow> string \<Rightarrow> int \<Rightarrow> challenge_input
    \<Rightarrow> (('b, 'x) captcha_db_scheme, exn, challenge_reply) comp" where
  "create_challenge_handler E new_id now input =
     (let code = coalesce (ci_templateCode input) DEFAULT_TEMPLATE_CODE in
      andThen (fetch (cap_find_template_by_code code)) (\<lambda>found. case found of
        None \<Rightarrow> throw (not_found ''captcha.template.notFound'')
      | Some template \<Rightarrow>
          if ct_status template \<noteq> Tpl_Active then throw (not_found ''captcha.template.notFound'')
          else andThen (\<lambda>s. let (r, s') = pop_reserved now (pool_key (ce_prefix E) code
              (coalesce (ci_difficulty input) (ct_defaultDifficulty template))) s in (Inr r, s')) (\<lambda>asset.
            case asset of
              None \<Rightarrow> throw (service_unavailable ''captcha.pool.empty'')
            | Some a \<Rightarrow> andThen (cap_create_challenge new_id now \<lparr>hd_assetId = ca_id a,
                hd_context = ci_context input,
                hd_subjectHash = (if truthy (ci_subject input)
                  then Some (hash_lookup (ce_hashing E) (the (ci_subject input))) else None),
                hd_riskScore = coalesce (ci_riskScore input) 0,
                hd_expiresAt = now + ce_ttl E * 1000\<rparr>) (\<lambda>ch.
              ret \<lparr>cr_challengeId = cc_id ch,
                cr_imageUrl = ''/api/v1/captcha/challenges/'' @ cc_id ch @ ''/image'',
                cr_expiresIn = ce_ttl E\<rparr>))))"

record request_meta =
  me_ip :: "string option"
  me_userAgent :: "string option"

definition opt_lookup :: "hashing \<Rightarrow> string option \<Rightarrow> string option" where
  "opt_lookup H v = (if truthy v then Some (hash_lookup H (the v)) else None)"

text \<open>What \<open>VerifyCaptchaChallengeHandler\<close> reads before it writes, and its writes from
  \<open>incrementChallengeAttempts\<close> on: two requests can interleave between them.\<close>

definition verify_check :: "'b captcha_env \<Rightarrow> int \<Rightarrow> string
    \<Rightarrow> (('b, 'x) captcha_db_scheme, exn, captcha_challenge \<times> captcha_asset) comp" where
  "verify_check E now challenge_id =
     andThen (fetch (cap_find_challenge_by_id challenge_id)) (\<lambda>found. case found of
       None \<Rightarrow> throw (not_found ''captcha.challenge.notFound'')
     | Some ch \<Rightarrow>
         if cc_status ch \<noteq> Chl_Pending then throw (conflict ''captcha.challenge.closed'')
         else if cc_expiresAt ch \<le> now
         then andThen (cap_complete_challenge now (cc_id ch) Chl_Expired) (\<lambda>_.
           throw (gone ''captcha.challenge.expired''))
         else if cc_attemptsCount ch \<ge> ce_maxAttempts E
         then throw (conflict ''captcha.challenge.tooManyAttempts'')
         else andThen (fetch (cap_find_asset_by_id (cc_assetId ch))) (\<lambda>found'. case found' of
           None \<Rightarrow> throw (conflict ''captcha.asset.notReserved'')
         | Some asset \<Rightarrow> if ca_status asset \<noteq> Ast_Reserved then throw (conflict ''captcha.asset.notReserved'')
             else ret (ch, asset)))"

definition verify_commit :: "'b captcha_env \<Rightarrow> string \<Rightarrow> int \<Rightarrow> string \<Rightarrow> request_meta
    \<Rightarrow> captcha_challenge \<times> captcha_asset \<Rightarrow> (('b, 'x) captcha_db_scheme, exn, bool \<times> int) comp" where
  "verify_commit E attempt_id now answer meta p = (let (ch, asset) = p;
       normalized = normalize_answer answer;
       success = compare_answer (ce_hashing E) normalized (ca_answerNormalizedHash asset);
       attempts_left = max 0 (ce_maxAttempts E - (cc_attemptsCount ch + 1))
     in andThen (cap_increment_attempts (cc_id ch)) (\<lambda>_.
        andThen (cap_create_attempt \<lparr>cx_id = attempt_id, cx_challengeId = cc_id ch,
          cx_answerHash = hash_answer (ce_hashing E) normalized, cx_isSuccess = success,
          cx_solveTimeMs = Some (now - cc_createdAt ch), cx_ipHash = opt_lookup (ce_hashing E) (me_ip meta),
          cx_userAgentHash = opt_lookup (ce_hashing E) (me_userAgent meta), cx_createdAt = now\<rparr>) (\<lambda>_.
        if success
        then andThen (cap_complete_challenge now (cc_id ch) Chl_Passed) (\<lambda>_.
          andThen (cap_mark_asset_used (ca_id asset)) (\<lambda>_. ret (True, 0)))
        else andThen (whenever (attempts_left = 0)
            (andThen (cap_complete_challenge now (cc_id ch) Chl_Failed) (\<lambda>_.
              cap_mark_asset_used (ca_id asset)))) (\<lambda>_. ret (False, attempts_left)))))"

definition verify_handler :: "'b captcha_env \<Rightarrow> string \<Rightarrow> int \<Rightarrow> string \<Rightarrow> string \<Rightarrow> request_meta
    \<Rightarrow> (('b, 'x) captcha_db_scheme, exn, bool \<times> int) comp" where
  "verify_handler E attempt_id now challenge_id answer meta =
     andThen (verify_check E now challenge_id) (verify_commit E attempt_id now answer meta)"

definition image_handler :: "'b captcha_env \<Rightarrow> int \<Rightarrow> string
    \<Rightarrow> (('b, 'x) captcha_db_scheme, exn, string option \<times> string option) comp" where
  "image_handler E now challenge_id =
     andThen (fetch (cap_find_challenge_by_id challenge_id)) (\<lambda>found. case found of
       None \<Rightarrow> throw (not_found ''captcha.challenge.notFound'')
     | Some ch \<Rightarrow>
         if cc_status ch \<noteq> Chl_Pending \<or> cc_expiresAt ch \<le> now then throw (gone ''captcha.challenge.expired'')
         else andThen (fetch (cap_find_asset_by_id (cc_assetId ch))) (\<lambda>found'. case found' of
           None \<Rightarrow> throw (not_found ''captcha.asset.notFound'')
         | Some asset \<Rightarrow> storage_get (ce_s3 E) (ca_storageKey asset)))"

section \<open>The controllers\<close>

definition preview_endpoint :: "svg_renderer \<Rightarrow> (nat \<Rightarrow> nat \<Rightarrow> nat) \<Rightarrow> string \<Rightarrow> nat option \<Rightarrow> captcha_difficulty option
    \<Rightarrow> (('b, 'x) captcha_db_scheme, exn, (string \<times> string \<times> json_object) list) comp" where
  "preview_endpoint render rnds config_id n difficulty =
     preview_handler render rnds config_id (coalesce n 3) (Some (coalesce difficulty Medium))"

definition generate_batch_endpoint :: "string \<Rightarrow> nat option \<Rightarrow> captcha_difficulty option
    \<Rightarrow> (('b, 'x) captcha_db_scheme, exn, bool \<times> nat \<times> captcha_difficulty) comp" where
  "generate_batch_endpoint config_id n difficulty =
     enqueue_batch_handler config_id (coalesce n 20) (coalesce difficulty Medium)"

record image_reply =
  ir_contentType :: string
  ir_cacheControl :: string
  ir_body :: "string option"

definition image_endpoint :: "'b captcha_env \<Rightarrow> int \<Rightarrow> string
    \<Rightarrow> (('b, 'x) captcha_db_scheme, exn, image_reply) comp" where
  "image_endpoint E now i = andThen (image_handler E now i) (\<lambda>(body, content_type).
     ret \<lparr>ir_contentType = coalesce content_type ''image/svg+xml; charset=utf-8'',
       ir_cacheControl = ''no-store, no-cache, must-revalidate, private'', ir_body = body\<rparr>)"

definition verify_endpoint :: "'b captcha_env \<Rightarrow> string \<Rightarrow> int \<Rightarrow> string \<Rightarrow> string \<Rightarrow> string option \<Rightarrow> string option
    \<Rightarrow> (('b, 'x) captcha_db_scheme, exn, bool \<times> int) comp" where
  "verify_endpoint E attempt_id now i answer ip user_agent =
     verify_handler E attempt_id now i answer \<lparr>me_ip = ip, me_userAgent = user_agent\<rparr>"

end
