(* ===== verification/Captcha_Properties.thy ===== *)
theory Captcha_Properties
  imports Captcha
begin

text \<open>
  The life of a captcha: an asset is served in one challenge, a challenge counts its attempts up to the
  limit and is closed once, the oldest usable asset of the pool is served first, and a generated text
  typed back in any case passes.  Two requests that read a challenge before either writes escape the
  limit.
\<close>

section \<open>The pool is a queue\<close>

locale fifo =
  fixes push :: "'a \<Rightarrow> 's \<Rightarrow> 's"
    and pop :: "'s \<Rightarrow> 'a option \<times> 's"
    and content :: "'s \<Rightarrow> 'a list"
  assumes content_push: "content (push x s) = content s @ [x]"
    and pop_empty: "content s = [] \<Longrightarrow> pop s = (None, s)"
    and pop_next: "content s = x # xs \<Longrightarrow> fst (pop s) = Some x \<and> content (snd (pop s)) = xs"
begin

lemma content_pushes: "content (foldl (\<lambda>s x. push x s) s xs) = content s @ xs"
  by (induction xs arbitrary: s) (simp_all add: content_push)

lemma pop_after_pushes:
  assumes "content s = []"
  shows "fst (pop (foldl (\<lambda>s x. push x s) s (x # xs))) = Some x"
  using pop_next [of "foldl (\<lambda>s x. push x s) s (x # xs)" x xs] content_pushes [of s "x # xs"] assms
  by simp

lemma pop_none: "fst (pop s) = None \<longleftrightarrow> content s = []"
proof (cases "content s")
  case Nil
  then show ?thesis by (simp add: pop_empty)
next
  case (Cons x xs)
  then show ?thesis using pop_next [OF Cons] by simp
qed

end

definition pool_pop_pair :: "string \<Rightarrow> ('b, 'x) captcha_db_scheme \<Rightarrow> string option \<times> ('b, 'x) captcha_db_scheme" where
  "pool_pop_pair key s = (if pool s key = [] then (None, s)
     else (Some (last (pool s key)), s\<lparr>pool := (pool s)(key := butlast (pool s key))\<rparr>))"

lemma pool_pop_pair: "pool_pop key s = (Inr (fst (pool_pop_pair key s)), snd (pool_pop_pair key s))"
  by (simp add: pool_pop_def pool_pop_pair_def)

definition waiting :: "string \<Rightarrow> ('b, 'x) captcha_db_scheme \<Rightarrow> string list" where
  "waiting key s = rev (pool s key)"

interpretation redis_pool: fifo "\<lambda>i s. snd (pool_push key i s)" "pool_pop_pair key" "waiting key"
  by unfold_locales (auto simp: pool_push_def pool_pop_pair_def waiting_def rev_swap butlast_append)

section \<open>Computing with the repository\<close>

lemma update_rows_comp:
  assumes "\<And>r. P r \<Longrightarrow> P (f r)"
  shows "update_rows P g (update_rows P f rows) = update_rows P (g \<circ> f) rows"
  using assms by (induction rows) auto

lemma pop_reserved_step:
  "pop_reserved now key s = (case pool_pop_pair key s of
     (None, s1) \<Rightarrow> (None, s1)
   | (Some i, s1) \<Rightarrow> if i = [] then (None, s1)
       else (case find_row (reservable now i) (assets s1) of
         Some a \<Rightarrow> (Some (reserve_row a), s1\<lparr>assets := update_rows (reservable now i) reserve_row (assets s1)\<rparr>)
       | None \<Rightarrow> pop_reserved now key s1))"
proof -
  have "update_rows (reservable now i) reserve_row rows = rows" if "find_row (reservable now i) rows = None" for i rows
    by (rule update_rows_none) (use that in \<open>simp add: some_row_find\<close>)
  then show ?thesis
    by (subst pop_reserved.simps) (auto simp: pool_pop_pair cap_reserve_asset_def split: option.split prod.split)
qed

lemma pool_pop_frame [simp]:
  "challenges (snd (pool_pop_pair key s)) = challenges s" "assets (snd (pool_pop_pair key s)) = assets s"
  by (simp_all add: pool_pop_pair_def)

definition verify_closes :: "bool \<Rightarrow> int \<Rightarrow> bool" where
  "verify_closes ok left = (ok \<or> left = 0)"

definition settle_row :: "int \<Rightarrow> bool \<Rightarrow> int \<Rightarrow> captcha_challenge \<Rightarrow> captcha_challenge" where
  "settle_row now ok left c = (if verify_closes ok left
     then complete_row now (if ok then Chl_Passed else Chl_Failed) (attempt_row c) else attempt_row c)"

lemma row_frames [simp]:
  "cc_id (attempt_row c) = cc_id c" "cc_assetId (attempt_row c) = cc_assetId c"
  "cc_attemptsCount (attempt_row c) = cc_attemptsCount c + 1" "cc_status (attempt_row c) = cc_status c"
  "cc_id (complete_row now st c) = cc_id c" "cc_assetId (complete_row now st c) = cc_assetId c"
  "cc_attemptsCount (complete_row now st c) = cc_attemptsCount c" "cc_status (complete_row now st c) = st"
  "cc_id (settle_row now ok left c) = cc_id c" "cc_assetId (settle_row now ok left c) = cc_assetId c"
  "cc_attemptsCount (settle_row now ok left c) = cc_attemptsCount c + 1"
  "cc_status (settle_row now ok left c)
     = (if verify_closes ok left then if ok then Chl_Passed else Chl_Failed else cc_status c)"
  "ca_id (use_row a) = ca_id a" "ca_status (use_row a) = Ast_Used" "ca_usedCount (use_row a) = ca_usedCount a + 1"
  "ca_id (reserve_row a) = ca_id a" "ca_status (reserve_row a) = Ast_Reserved"
  "ca_usedCount (reserve_row a) = ca_usedCount a"
  by (simp_all add: attempt_row_def complete_row_def settle_row_def use_row_def reserve_row_def)

definition answer_ok :: "'b captcha_env \<Rightarrow> string \<Rightarrow> captcha_asset \<Rightarrow> bool" where
  "answer_ok E answer a = compare_answer (ce_hashing E) (normalize_answer answer) (ca_answerNormalizedHash a)"

definition attempts_left :: "'b captcha_env \<Rightarrow> captcha_challenge \<Rightarrow> int" where
  "attempts_left E c = max 0 (ce_maxAttempts E - (cc_attemptsCount c + 1))"

lemma verify_commit_run:
  "verify_commit E aid now answer meta (ch, a) s = (let ok = answer_ok E answer a; left = attempts_left E ch in
     (Inr (ok, if ok then 0 else left), s\<lparr>
       challenges := update_rows (\<lambda>c. cc_id c = cc_id ch) (settle_row now ok left) (challenges s),
       attempts := attempts s @ [\<lparr>cx_id = aid, cx_challengeId = cc_id ch,
          cx_answerHash = hash_answer (ce_hashing E) (normalize_answer answer), cx_isSuccess = ok,
          cx_solveTimeMs = Some (now - cc_createdAt ch), cx_ipHash = opt_lookup (ce_hashing E) (me_ip meta),
          cx_userAgentHash = opt_lookup (ce_hashing E) (me_userAgent meta), cx_createdAt = now\<rparr>],
       assets := (if verify_closes ok left then update_rows (\<lambda>x. ca_id x = ca_id a) use_row (assets s) else assets s)\<rparr>))"
proof -
  have comp: "update_rows (\<lambda>c. cc_id c = cc_id ch) (complete_row now st) (update_rows (\<lambda>c. cc_id c = cc_id ch) attempt_row rows)
      = update_rows (\<lambda>c. cc_id c = cc_id ch) (complete_row now st \<circ> attempt_row) rows" for st rows
    by (rule update_rows_comp) simp
  show ?thesis
    by (cases "answer_ok E answer a"; cases "attempts_left E ch = 0")
      (simp_all add: verify_commit_def Let_def answer_ok_def [symmetric] attempts_left_def [symmetric] andThen_def
        cap_increment_attempts_def cap_create_attempt_def cap_complete_challenge_def cap_mark_asset_used_def
        whenever_def verify_closes_def comp settle_row_def [abs_def] comp_def)
qed

section \<open>The invariant\<close>

definition challenge_ok :: "int \<Rightarrow> captcha_asset \<Rightarrow> captcha_challenge \<Rightarrow> bool" where
  "challenge_ok m a c = (let n = cc_attemptsCount c in case cc_status c of
     Chl_Pending \<Rightarrow> ca_status a = Ast_Reserved \<and> ca_usedCount a = 0 \<and> 0 \<le> n \<and> (n = 0 \<or> n < m)
   | Chl_Expired \<Rightarrow> ca_status a = Ast_Reserved \<and> ca_usedCount a = 0 \<and> 0 \<le> n \<and> (n = 0 \<or> n < m)
   | _ \<Rightarrow> ca_status a = Ast_Used \<and> ca_usedCount a = 1 \<and> 0 < n \<and> n \<le> m)"

definition captcha_inv :: "'b captcha_env \<Rightarrow> ('b, 'x) captcha_db_scheme \<Rightarrow> bool" where
  "captcha_inv E s = (distinct (map ca_id (assets s)) \<and> distinct (map cc_id (challenges s))
     \<and> distinct (map cc_assetId (challenges s))
     \<and> (\<forall>c\<in>set (challenges s). \<exists>a\<in>set (assets s). ca_id a = cc_assetId c \<and> challenge_ok (ce_maxAttempts E) a c)
     \<and> (\<forall>a\<in>set (assets s). ca_status a = Ast_Available \<longrightarrow>
          ca_usedCount a = 0 \<and> ca_id a \<notin> cc_assetId ` set (challenges s)))"

lemma captcha_inv_cong:
  "assets s' = assets s \<Longrightarrow> challenges s' = challenges s \<Longrightarrow> captcha_inv E s' = captcha_inv E s"
  by (simp add: captcha_inv_def)

lemma captcha_invD:
  assumes "captcha_inv E s"
  shows "distinct (map ca_id (assets s))" "distinct (map cc_id (challenges s))"
    "distinct (map cc_assetId (challenges s))"
    "c \<in> set (challenges s) \<Longrightarrow> \<exists>a\<in>set (assets s). ca_id a = cc_assetId c \<and> challenge_ok (ce_maxAttempts E) a c"
    "a \<in> set (assets s) \<Longrightarrow> ca_status a = Ast_Available \<Longrightarrow>
       ca_usedCount a = 0 \<and> ca_id a \<notin> cc_assetId ` set (challenges s)"
  using assms by (simp_all add: captcha_inv_def)

lemma inv_add_asset:
  assumes "captcha_inv E s" "assets s' = assets s @ [a]" "challenges s' = challenges s"
    and "\<not> some_row (\<lambda>r. ca_id r = ca_id a) (assets s)" "ca_usedCount a = 0"
  shows "captcha_inv E s'"
proof -
  note inv = captcha_invD [OF assms(1)]
  have "ca_id a \<notin> cc_assetId ` set (challenges s)"
    using inv(4) assms(4) by (fastforce simp: some_row_iff)
  then show ?thesis
    using inv assms(2-5) unfolding captcha_inv_def by (auto simp: some_row_iff)
qed

text \<open>Moving one asset and its challenge together.\<close>

lemma inv_update_pair:
  assumes "captcha_inv E s" "c \<in> set (challenges s)" "a \<in> set (assets s)" "ca_id a = cc_assetId c"
    and "\<And>x. cc_id (g x) = cc_id x" "\<And>x. cc_assetId (g x) = cc_assetId x" "\<And>x. ca_id (h x) = ca_id x"
    and "challenges s' = update_rows (\<lambda>x. cc_id x = cc_id c) g (challenges s)"
    and "assets s' = update_rows (\<lambda>x. ca_id x = ca_id a) h (assets s)"
    and "challenge_ok (ce_maxAttempts E) (h a) (g c)" "ca_status (h a) \<noteq> Ast_Available"
  shows "captcha_inv E s'"
proof -
  note inv = captcha_invD [OF assms(1)]
  have ids: "map cc_id (challenges s') = map cc_id (challenges s)"
    "map cc_assetId (challenges s') = map cc_assetId (challenges s)" "map ca_id (assets s') = map ca_id (assets s)"
    unfolding assms(8,9) by (rule map_update_rows, simp add: assms)+
  have ch: "\<exists>b\<in>set (assets s'). ca_id b = cc_assetId x \<and> challenge_ok (ce_maxAttempts E) b x"
    if x: "x \<in> set (challenges s')" for x
  proof -
    from x obtain y where y: "y \<in> set (challenges s)" "x = (if cc_id y = cc_id c then g y else y)"
      unfolding assms(8) by (rule in_update_rowsE)
    show ?thesis
    proof (cases "cc_id y = cc_id c")
      case True
      then have "y = c" using unique_key_eq [OF inv(2) y(1) assms(2)] by simp
      then have "x = g c" using y(2) by simp
      moreover have "h a \<in> set (assets s')" using assms(3) by (auto simp: assms(9) update_rows_def)
      ultimately show ?thesis using assms(4,6,7,10) by (intro bexI [of _ "h a"]) simp_all
    next
      case False
      then have x_eq: "x = y" using y(2) by simp
      obtain b where b: "b \<in> set (assets s)" "ca_id b = cc_assetId y" "challenge_ok (ce_maxAttempts E) b y"
        using inv(4) [OF y(1)] by blast
      have "cc_assetId y \<noteq> cc_assetId c"
        using unique_key_eq [OF inv(3) y(1) assms(2)] False by auto
      then have "b \<in> set (assets s')" using b assms(4) by (auto simp: assms(9) update_rows_def)
      with b x_eq show ?thesis by blast
    qed
  qed
  have av: "ca_usedCount b = 0 \<and> ca_id b \<notin> cc_assetId ` set (challenges s')"
    if b: "b \<in> set (assets s')" "ca_status b = Ast_Available" for b
  proof -
    from b(1) obtain b0 where b0: "b0 \<in> set (assets s)" "b = (if ca_id b0 = ca_id a then h b0 else b0)"
      unfolding assms(9) by (rule in_update_rowsE)
    have "ca_id b0 \<noteq> ca_id a"
    proof
      assume eq: "ca_id b0 = ca_id a"
      then have "b0 = a" using unique_key_eq [OF inv(1) b0(1) assms(3)] by simp
      with b0(2) b(2) assms(11) eq show False by simp
    qed
    then have "b = b0" using b0(2) by simp
    moreover have "cc_assetId ` set (challenges s') = cc_assetId ` set (challenges s)"
      using ids(2) by (metis list.set_map)
    ultimately show ?thesis using inv(5) [OF b0(1)] b(2) by simp
  qed
  show ?thesis using inv(1-3) ids ch av unfolding captcha_inv_def by metis
qed

lemma inv_reserve:
  assumes "captcha_inv E s" "a \<in> set (assets s)" "reservable now i a"
    and "assets s' = update_rows (reservable now i) reserve_row (assets s)" "challenges s' = challenges s"
  shows "captcha_inv E s' \<and> reserve_row a \<in> set (assets s') \<and> ca_usedCount a = 0
    \<and> ca_id a \<notin> cc_assetId ` set (challenges s')"
proof -
  note inv = captcha_invD [OF assms(1)]
  have a: "ca_status a = Ast_Available" "ca_id a = i" using assms(3) by (simp_all add: reservable_def)
  have free: "ca_usedCount a = 0" "ca_id a \<notin> cc_assetId ` set (challenges s)" using inv(5) [OF assms(2) a(1)] by simp_all
  have ids: "map ca_id (assets s') = map ca_id (assets s)"
    unfolding assms(4) by (rule map_update_rows) simp
  have keep: "b \<in> set (assets s')" if "b \<in> set (assets s)" "ca_id b \<noteq> ca_id a" for b
    using that a(2) by (auto simp: assms(4) update_rows_def reservable_def)
  have "\<exists>b\<in>set (assets s'). ca_id b = cc_assetId c \<and> challenge_ok (ce_maxAttempts E) b c"
    if "c \<in> set (challenges s)" for c
    using inv(4) [OF that] keep free(2) that by (metis image_eqI)
  moreover have "b \<in> set (assets s)" if "b \<in> set (assets s')" "ca_status b = Ast_Available" for b
    using that unfolding assms(4) by (auto elim!: in_update_rowsE split: if_splits)
  moreover have "reserve_row a \<in> set (assets s')"
    using assms(2,3) by (auto simp: assms(4) update_rows_def image_iff intro!: bexI [of _ a])
  ultimately show ?thesis
    using inv(1-3) inv(5) free ids unfolding captcha_inv_def assms(5) by metis
qed

lemma inv_add_challenge:
  assumes "captcha_inv E s" "a \<in> set (assets s)" "ca_status a = Ast_Reserved" "ca_usedCount a = 0"
    and "ca_id a \<notin> cc_assetId ` set (challenges s)" "\<not> some_row (\<lambda>r. cc_id r = cc_id c) (challenges s)"
    and "cc_assetId c = ca_id a" "cc_status c = Chl_Pending" "cc_attemptsCount c = 0"
    and "assets s' = assets s" "challenges s' = challenges s @ [c]"
  shows "captcha_inv E s'"
proof -
  note inv = captcha_invD [OF assms(1)]
  have "challenge_ok (ce_maxAttempts E) a c" using assms by (simp add: challenge_ok_def)
  then have "\<exists>b\<in>set (assets s). ca_id b = cc_assetId x \<and> challenge_ok (ce_maxAttempts E) b x"
    if "x \<in> set (challenges s')" for x
    using that inv(4) assms(2,7,11) by auto
  moreover have "ca_id b \<noteq> ca_id a" if "b \<in> set (assets s)" "ca_status b = Ast_Available" for b
    using unique_key_eq [OF inv(1) that(1) assms(2)] that(2) assms(3) by auto
  ultimately show ?thesis
    using inv assms(5-7,10,11) unfolding captcha_inv_def by (auto simp: some_row_iff)
qed

section \<open>Reserving from the pool\<close>

lemma pop_reserved_inv:
  fixes s :: "('b, 'x) captcha_db_scheme"
  assumes "captcha_inv E s" "pop_reserved now key s = (r, s')"
  shows "captcha_inv E s' \<and> challenges s' = challenges s \<and> (\<forall>a. r = Some a \<longrightarrow>
    a \<in> set (assets s') \<and> ca_status a = Ast_Reserved \<and> ca_usedCount a = 0
    \<and> ca_id a \<notin> cc_assetId ` set (challenges s'))"
  using assms
proof (induction "length (pool s key)" arbitrary: s rule: less_induct)
  case less
  obtain p s1 where pop: "pool_pop_pair key s = (p, s1)" by (cases "pool_pop_pair key s")
  have frame: "challenges s1 = challenges s" "assets s1 = assets s"
    using pool_pop_frame [of key s] by (simp_all add: pop)
  have inv1: "captcha_inv E s1" using less(2) captcha_inv_cong [OF frame(2,1)] by blast
  note step = less(3) [unfolded pop_reserved_step [of now key s] pop, simplified]
  show ?case
  proof (cases p)
    case None
    with step inv1 frame show ?thesis by simp
  next
    case (Some i)
    consider "i = []" | "i \<noteq> []" "find_row (reservable now i) (assets s1) = None"
      | a where "i \<noteq> []" "find_row (reservable now i) (assets s1) = Some a" by (cases "find_row (reservable now i) (assets s1)") auto
    then show ?thesis
    proof cases
      case 1
      with step Some inv1 frame show ?thesis by simp
    next
      case 2
      have "length (pool s1 key) < length (pool s key)"
        using pop Some by (auto simp: pool_pop_pair_def split: if_splits)
      moreover have "pop_reserved now key s1 = (r, s')" using step Some 2 by simp
      ultimately show ?thesis using less(1) [of s1] inv1 frame by auto
    next
      case (3 a)
      have res: "r = Some (reserve_row a)"
        "s' = s1\<lparr>assets := update_rows (reservable now i) reserve_row (assets s1)\<rparr>"
        using step Some 3 by simp_all
      have a: "a \<in> set (assets s1)" "reservable now i a" using find_row_SomeD [OF 3(2)] by simp_all
      have "assets s' = update_rows (reservable now i) reserve_row (assets s1)" "challenges s' = challenges s1"
        by (simp_all add: res)
      from inv_reserve [OF inv1 a this] res frame show ?thesis by simp
    qed
  qed
qed

text \<open>The loop ends with the oldest usable asset of the pool, having thrown away the older ones; with
  none, it empties the pool.\<close>

definition usable :: "int \<Rightarrow> ('b, 'x) captcha_db_scheme \<Rightarrow> string \<Rightarrow> bool" where
  "usable now s i = some_row (reservable now i) (assets s)"

lemma pop_reserved_none:
  assumes "pool s key = rev ids" "\<forall>i\<in>set ids. i \<noteq> [] \<and> \<not> usable now s i"
  shows "pop_reserved now key s = (None, s\<lparr>pool := (pool s)(key := [])\<rparr>)"
  using assms
proof (induction ids arbitrary: s)
  case Nil
  then show ?case by (subst pop_reserved_step) (simp add: pool_pop_pair_def fun_upd_idem)
next
  case (Cons i ids)
  let ?s1 = "s\<lparr>pool := (pool s)(key := rev ids)\<rparr>"
  have "pool_pop_pair key s = (Some i, ?s1)" using Cons.prems(1) by (simp add: pool_pop_pair_def)
  moreover have "find_row (reservable now i) (assets ?s1) = None"
    using Cons.prems(2) by (simp add: usable_def some_row_find)
  ultimately have "pop_reserved now key s = pop_reserved now key ?s1"
    using Cons.prems(2) by (subst pop_reserved_step) simp
  also have "\<dots> = (None, ?s1\<lparr>pool := (pool ?s1)(key := [])\<rparr>)"
    by (rule Cons.IH) (use Cons.prems in \<open>simp_all add: usable_def\<close>)
  finally show ?case by (simp add: fun_upd_def cong: if_cong)
qed

lemma pop_reserved_oldest:
  assumes "pool s key = rev (old @ i # rest)" "\<forall>j\<in>set old. j \<noteq> [] \<and> \<not> usable now s j" "i \<noteq> []"
    and "find_row (reservable now i) (assets s) = Some a"
  shows "pop_reserved now key s = (Some (reserve_row a), s\<lparr>pool := (pool s)(key := rev rest),
    assets := update_rows (reservable now i) reserve_row (assets s)\<rparr>)"
  using assms
proof (induction old arbitrary: s)
  case Nil
  then have "pool_pop_pair key s = (Some i, s\<lparr>pool := (pool s)(key := rev rest)\<rparr>)" by (simp add: pool_pop_pair_def)
  with Nil show ?case by (subst pop_reserved_step) simp
next
  case (Cons j old)
  let ?s1 = "s\<lparr>pool := (pool s)(key := rev (old @ i # rest))\<rparr>"
  have "pool_pop_pair key s = (Some j, ?s1)"
    using Cons.prems(1) by (simp add: pool_pop_pair_def butlast_append)
  moreover have "find_row (reservable now j) (assets ?s1) = None"
    using Cons.prems(2) by (simp add: usable_def some_row_find)
  ultimately have "pop_reserved now key s = pop_reserved now key ?s1"
    using Cons.prems(2) by (subst pop_reserved_step) simp
  also have "\<dots> = (Some (reserve_row a), ?s1\<lparr>pool := (pool ?s1)(key := rev rest),
      assets := update_rows (reservable now i) reserve_row (assets ?s1)\<rparr>)"
    by (rule Cons.IH) (use Cons.prems in \<open>simp_all add: usable_def\<close>)
  finally show ?case by (simp add: fun_upd_def cong: if_cong)
qed

section \<open>The steps keep the invariant\<close>

lemma create_challenge_inv:
  fixes s :: "('b, 'x) captcha_db_scheme"
  assumes "captcha_inv E s"
  shows "captcha_inv E (snd (create_challenge_handler E new_id now input s))"
proof -
  let ?code = "coalesce (ci_templateCode input) DEFAULT_TEMPLATE_CODE"
  show ?thesis
  proof (cases "cap_find_template_by_code ?code s")
    case None
    with assms show ?thesis by (simp add: create_challenge_handler_def andThen_def Let_def)
  next
    case (Some t)
    let ?key = "pool_key (ce_prefix E) ?code (coalesce (ci_difficulty input) (ct_defaultDifficulty t))"
    obtain r s1 where pop: "pop_reserved now ?key s = (r, s1)" by (cases "pop_reserved now ?key s")
    note spec = pop_reserved_inv [OF assms pop]
    show ?thesis
    proof (cases "ct_status t = Tpl_Active \<and> (\<exists>a. r = Some a)")
      case False
      with Some pop spec assms show ?thesis
        by (cases r) (auto simp: create_challenge_handler_def andThen_def Let_def)
    next
      case True
      then obtain a where a: "r = Some a" by blast
      obtain ch where ch_def: "ch = new_challenge new_id now \<lparr>hd_assetId = ca_id a, hd_context = ci_context input,
        hd_subjectHash = (if truthy (ci_subject input)
          then Some (hash_lookup (ce_hashing E) (the (ci_subject input))) else None),
        hd_riskScore = coalesce (ci_riskScore input) 0, hd_expiresAt = now + ce_ttl E * 1000\<rparr>" by simp
      have run: "snd (create_challenge_handler E new_id now input s)
          = (if some_row (\<lambda>r. cc_id r = new_id) (challenges s1) then s1 else s1\<lparr>challenges := challenges s1 @ [ch]\<rparr>)"
        using Some pop a True by (simp add: create_challenge_handler_def andThen_def Let_def cap_create_challenge_def ch_def)
      have ch: "cc_id ch = new_id" "cc_assetId ch = ca_id a" "cc_status ch = Chl_Pending" "cc_attemptsCount ch = 0"
        by (simp_all add: ch_def new_challenge_def)
      show ?thesis
      proof (cases "some_row (\<lambda>r. cc_id r = new_id) (challenges s1)")
        case True
        with run spec show ?thesis by simp
      next
        case False
        have "captcha_inv E (s1\<lparr>challenges := challenges s1 @ [ch]\<rparr>)"
          by (rule inv_add_challenge [of E s1 a ch]) (use spec a ch False in auto)
        with run False show ?thesis by simp
      qed
    qed
  qed
qed

lemma verify_check_cases:
  fixes s :: "('b, 'x) captcha_db_scheme"
  assumes "verify_check E now i s = (r, s')"
  obtains (refused) e where "r = Inl e" "s' = s"
  | (expired) c where "r = Inl (gone ''captcha.challenge.expired'')" "cap_find_challenge_by_id i s = Some c"
      "cc_status c = Chl_Pending" "s' = snd (cap_complete_challenge now (cc_id c) Chl_Expired s)"
  | (ready) c a where "r = Inr (c, a)" "s' = s" "cap_find_challenge_by_id i s = Some c" "cc_status c = Chl_Pending"
      "now < cc_expiresAt c" "cc_attemptsCount c < ce_maxAttempts E"
      "cap_find_asset_by_id (cc_assetId c) s = Some a" "ca_status a = Ast_Reserved"
  using assms
  by (auto simp: verify_check_def andThen_def cap_complete_challenge_def split: option.splits if_splits)

lemma find_challengeD: "cap_find_challenge_by_id i s = Some c \<Longrightarrow> c \<in> set (challenges s) \<and> cc_id c = i"
  by (auto simp: cap_find_challenge_by_id_def dest: find_row_SomeD)

lemma find_assetD: "cap_find_asset_by_id i s = Some a \<Longrightarrow> a \<in> set (assets s) \<and> ca_id a = i"
  by (auto simp: cap_find_asset_by_id_def dest: find_row_SomeD)

lemma inv_asset_of:
  assumes "captcha_inv E s" "c \<in> set (challenges s)"
  obtains a where "a \<in> set (assets s)" "ca_id a = cc_assetId c" "challenge_ok (ce_maxAttempts E) a c"
    "cap_find_asset_by_id (cc_assetId c) s = Some a"
proof -
  obtain a where a: "a \<in> set (assets s)" "ca_id a = cc_assetId c" "challenge_ok (ce_maxAttempts E) a c"
    using captcha_invD(4) [OF assms] by blast
  have "cap_find_asset_by_id (cc_assetId c) s = Some a"
    unfolding cap_find_asset_by_id_def
    by (rule find_row_unique_key [OF captcha_invD(1) [OF assms(1)] a(1)]) (simp_all add: a(2))
  with a that show thesis by blast
qed

lemma verify_inv:
  fixes s :: "('b, 'x) captcha_db_scheme"
  assumes "captcha_inv E s"
  shows "captcha_inv E (snd (verify_handler E aid now i answer meta s))"
proof -
  obtain r s1 where chk: "verify_check E now i s = (r, s1)" by (cases "verify_check E now i s")
  from chk show ?thesis
  proof (cases rule: verify_check_cases)
    case (refused e)
    with chk assms show ?thesis by (simp add: verify_handler_def andThen_def)
  next
    case (expired c)
    obtain a where a: "a \<in> set (assets s)" "ca_id a = cc_assetId c" "challenge_ok (ce_maxAttempts E) a c"
      using inv_asset_of [OF assms] find_challengeD [OF expired(2)] by metis
    have "captcha_inv E s1"
      by (rule inv_update_pair [OF assms _ a(1,2), of "complete_row now Chl_Expired" "\<lambda>x. x"])
        (use expired a find_challengeD [OF expired(2)] in
          \<open>simp_all add: cap_complete_challenge_def challenge_ok_def update_rows_def Let_def\<close>)
    with chk expired show ?thesis by (simp add: verify_handler_def andThen_def)
  next
    case (ready c a0)
    have c: "c \<in> set (challenges s)" using find_challengeD [OF ready(3)] by simp
    obtain a where a: "a \<in> set (assets s)" "ca_id a = cc_assetId c" "challenge_ok (ce_maxAttempts E) a c"
      and "a0 = a" using inv_asset_of [OF assms c] ready(7) by (metis option.inject)
    let ?ok = "answer_ok E answer a" and ?left = "attempts_left E c"
    let ?h = "if verify_closes ?ok ?left then use_row else (\<lambda>x. x)"
    have run: "snd (verify_handler E aid now i answer meta s) = snd (verify_commit E aid now answer meta (c, a) s)"
      using chk ready \<open>a0 = a\<close> by (simp add: verify_handler_def andThen_def)
    have ok: "challenge_ok (ce_maxAttempts E) (?h a) (settle_row now ?ok ?left c)"
      using a(3) ready(4,6) by (auto simp: challenge_ok_def verify_closes_def attempts_left_def Let_def max_def split: if_splits)
    show ?thesis unfolding run
      by (rule inv_update_pair [OF assms c a(1,2), of "settle_row now ?ok ?left" ?h])
        (use ok ready(8) \<open>a0 = a\<close> in \<open>simp_all add: verify_commit_run Let_def update_rows_def\<close>)
  qed
qed

lemma generate_asset_effect:
  fixes s :: "('b, 'x) captcha_db_scheme"
  obtains "assets (snd (generate_asset E t c d i draw s)) = assets s"
      "challenges (snd (generate_asset E t c d i draw s)) = challenges s"
  | a where "assets (snd (generate_asset E t c d i draw s)) = assets s @ [a]"
      "challenges (snd (generate_asset E t c d i draw s)) = challenges s"
      "\<not> some_row (\<lambda>r. ca_id r = ca_id a) (assets s)" "ca_usedCount a = 0"
proof -
  define g where "g = generate_captcha (ce_render E) (gd_rnd draw) (cf_configJson c) d"
  define key where "key = asset_key (ct_code t) (cf_id c) (gd_now draw) i"
  obtain r b where up: "s3_upload (ce_s3 E) \<lparr>up_key = key, up_body = gc_image g, up_contentType = gc_contentType g,
      up_metadata = []\<rparr> (objects s) = (r, b)" by (meson surj_pair)
  define a where "a = new_asset (gd_assetId draw) (gd_now draw) \<lparr>ad_templateId = ct_id t, ad_configId = cf_id c,
      ad_storageKey = key, ad_answerHash = hash_answer (ce_hashing E) (gc_answer g),
      ad_answerNormalizedHash = hash_answer (ce_hashing E) (normalize_answer (gc_answer g)),
      ad_difficulty = d, ad_expiresAt = gd_now draw + 24 * 60 * 60 * 1000,
      ad_metadataJson = gc_metadata g, ad_maxUses = 1\<rparr>"
  have id: "ca_id a = gd_assetId draw" "ca_usedCount a = 0" by (simp_all add: a_def new_asset_def)
  have run: "snd (generate_asset E t c d i draw s) = (case r of Inl e \<Rightarrow> s\<lparr>objects := b\<rparr>
     | Inr out \<Rightarrow> if some_row (\<lambda>r. ca_id r = gd_assetId draw) (assets s) then s\<lparr>objects := b\<rparr>
        else snd (pool_push (pool_key (ce_prefix E) (ct_code t) d) (ca_id a) (s\<lparr>objects := b, assets := assets s @ [a]\<rparr>)))"
    by (cases r) (simp_all add: generate_asset_def Let_def g_def [symmetric] key_def [symmetric] andThen_def storage_put_def
      adapter_upload_buffer_def send_upload_def up cap_create_asset_def a_def)
  show thesis
  proof (cases "(\<exists>e. r = Inl e) \<or> some_row (\<lambda>r. ca_id r = gd_assetId draw) (assets s)")
    case True
    then have "snd (generate_asset E t c d i draw s) = s\<lparr>objects := b\<rparr>"
      unfolding run by (auto split: sum.split)
    then show thesis by (intro that(1)) simp_all
  next
    case False
    then have "snd (generate_asset E t c d i draw s)
        = snd (pool_push (pool_key (ce_prefix E) (ct_code t) d) (ca_id a) (s\<lparr>objects := b, assets := assets s @ [a]\<rparr>))"
      unfolding run by (auto split: sum.split)
    with False id show thesis by (intro that(2) [of a]) (simp_all add: pool_push_def)
  qed
qed

lemma generate_inv:
  fixes s :: "('b, 'x) captcha_db_scheme"
  assumes "captcha_inv E s"
  shows "captcha_inv E (snd (generate_asset E t c d i draw s))"
  by (rule generate_asset_effect [of E t c d i draw s])
    (use assms captcha_inv_cong [of "snd (generate_asset E t c d i draw s)" s E]
      inv_add_asset [OF assms, of "snd (generate_asset E t c d i draw s)"] in auto)

section \<open>The state machine\<close>

inductive captcha_step :: "'b captcha_env \<Rightarrow> ('b, 'x) captcha_db_scheme \<Rightarrow> ('b, 'x) captcha_db_scheme \<Rightarrow> bool"
  for E :: "'b captcha_env" where
  step_generate: "captcha_step E s (snd (generate_asset E t c d i draw s))"
| step_challenge: "captcha_step E s (snd (create_challenge_handler E new_id now input s))"
| step_verify: "captcha_step E s (snd (verify_handler E aid now i answer meta s))"
| step_template: "captcha_step E s (snd (create_captcha_template_handler new_id now tin s))"
| step_draft: "captcha_step E s (snd (create_config_draft_handler new_id now tid cjson uid s))"
| step_activate: "captcha_step E s (snd (activate_config_handler now cid s))"
| step_enqueue: "captcha_step E s (snd (enqueue_batch_handler cid n d s))"

definition captcha_fresh :: "('b, 'x) captcha_db_scheme \<Rightarrow> bool" where
  "captcha_fresh s = (assets s = [] \<and> challenges s = [])"

lemma admin_frames:
  fixes s :: "('b, 'x) captcha_db_scheme"
  shows "assets (snd (create_captcha_template_handler new_id now tin s)) = assets s"
    "challenges (snd (create_captcha_template_handler new_id now tin s)) = challenges s"
    "assets (snd (create_config_draft_handler new_id now tid cjson uid s)) = assets s"
    "challenges (snd (create_config_draft_handler new_id now tid cjson uid s)) = challenges s"
    "assets (snd (activate_config_handler now cid s)) = assets s"
    "challenges (snd (activate_config_handler now cid s)) = challenges s"
    "assets (snd (enqueue_batch_handler cid n d s)) = assets s"
    "challenges (snd (enqueue_batch_handler cid n d s)) = challenges s"
  by (simp_all add: create_captcha_template_handler_def cap_create_template_def Let_def create_config_draft_handler_def
      cap_create_config_def andThen_def activate_config_handler_def cap_activate_config_def enqueue_batch_handler_def
      split: option.split)

lemma admin_inv:
  fixes s :: "('b, 'x) captcha_db_scheme"
  shows "captcha_inv E (snd (create_captcha_template_handler new_id now tin s)) = captcha_inv E s"
    "captcha_inv E (snd (create_config_draft_handler new_id now tid cjson uid s)) = captcha_inv E s"
    "captcha_inv E (snd (activate_config_handler now cid s)) = captcha_inv E s"
    "captcha_inv E (snd (enqueue_batch_handler cid n d s)) = captcha_inv E s"
  by (rule captcha_inv_cong, (rule admin_frames)+)+

lemma captcha_step_inv: "captcha_step E s s' \<Longrightarrow> captcha_inv E s \<Longrightarrow> captcha_inv E s'"
  by (induction rule: captcha_step.induct)
    (simp_all add: generate_inv create_challenge_inv verify_inv admin_inv)

lemma captcha_fresh_inv: "captcha_fresh s \<Longrightarrow> captcha_inv E s"
  by (simp add: captcha_fresh_def captcha_inv_def)

interpretation captcha_machine: transitions captcha_fresh "captcha_step E" "captcha_inv E"
  by unfold_locales (rule captcha_fresh_inv, assumption, rule captcha_step_inv)

text \<open>C8. In every reachable state, whatever the order of generations, challenges and verifications and
  whatever their outcome: no two challenges share an asset, a challenge has counted at most the
  allowed attempts, and the asset of a challenge is still reserved and unused as long as the challenge
  is pending or expired and has been used exactly once when it is closed.\<close>

theorem captcha_single_use:
  fixes s :: "('b, 'x) captcha_db_scheme"
  assumes "reach captcha_fresh (captcha_step E) s" "c \<in> set (challenges s)"
  shows "(\<forall>c'\<in>set (challenges s). cc_assetId c' = cc_assetId c \<longrightarrow> c' = c)
    \<and> 0 \<le> cc_attemptsCount c \<and> cc_attemptsCount c \<le> max 0 (ce_maxAttempts E)
    \<and> (\<exists>a. cap_find_asset_by_id (cc_assetId c) s = Some a \<and>
        (if cc_status c \<in> {Chl_Passed, Chl_Failed} then ca_status a = Ast_Used \<and> ca_usedCount a = 1
         else ca_status a = Ast_Reserved \<and> ca_usedCount a = 0))"
proof -
  have inv: "captcha_inv E s" by (rule captcha_machine.reach_inv [OF assms(1)])
  obtain a where a: "challenge_ok (ce_maxAttempts E) a c" "cap_find_asset_by_id (cc_assetId c) s = Some a"
    using inv_asset_of [OF inv assms(2)] by blast
  have "\<forall>c'\<in>set (challenges s). cc_assetId c' = cc_assetId c \<longrightarrow> c' = c"
    using unique_key_eq [OF captcha_invD(3) [OF inv] _ assms(2)] by blast
  with a show ?thesis by (cases "cc_status c") (auto simp: challenge_ok_def Let_def)
qed

section \<open>The outcome of a verification\<close>

text \<open>C28. What one verification of a pending, unexpired challenge does in a reachable state: it answers
  with the comparison of the normalised answer and the attempts that are left, counts and logs one
  attempt, and closes the challenge and uses its asset exactly when the answer is right or no attempt
  is left.\<close>

theorem verify_outcome:
  fixes s :: "('b, 'x) captcha_db_scheme"
  assumes "reach captcha_fresh (captcha_step E) s" "cap_find_challenge_by_id i s = Some c"
    and "cc_status c = Chl_Pending" "now < cc_expiresAt c" "0 < ce_maxAttempts E"
    and "verify_handler E aid now i answer meta s = (r, s')"
  shows "\<exists>a ok left. cap_find_asset_by_id (cc_assetId c) s = Some a \<and> ok = answer_ok E answer a
    \<and> left = ce_maxAttempts E - (cc_attemptsCount c + 1) \<and> 0 \<le> left
    \<and> r = Inr (ok, if ok then 0 else left)
    \<and> cap_find_challenge_by_id i s' = Some (settle_row now ok left c)
    \<and> cap_find_asset_by_id (ca_id a) s' = Some (if ok \<or> left = 0 then use_row a else a)
    \<and> map cx_isSuccess (attempts s') = map cx_isSuccess (attempts s) @ [ok]"
proof -
  have inv: "captcha_inv E s" by (rule captcha_machine.reach_inv [OF assms(1)])
  have c: "c \<in> set (challenges s)" "cc_id c = i" using find_challengeD [OF assms(2)] by simp_all
  obtain a where a: "challenge_ok (ce_maxAttempts E) a c" "cap_find_asset_by_id (cc_assetId c) s = Some a"
    using inv_asset_of [OF inv c(1)] by blast
  have lim: "ca_status a = Ast_Reserved" "cc_attemptsCount c < ce_maxAttempts E" "0 \<le> cc_attemptsCount c"
    using a(1) assms(3,5) by (auto simp: challenge_ok_def Let_def)
  let ?ok = "answer_ok E answer a" and ?left = "ce_maxAttempts E - (cc_attemptsCount c + 1)"
  have left: "attempts_left E c = ?left" "0 \<le> ?left" using lim by (simp_all add: attempts_left_def)
  have check: "verify_check E now i s = (Inr (c, a), s)"
    using assms(2-4) a(2) lim by (simp add: verify_check_def andThen_def)
  then have run: "verify_commit E aid now answer meta (c, a) s = (r, s')"
    using assms(6) by (simp add: verify_handler_def andThen_def)
  have eqs: "s' = snd (verify_commit E aid now answer meta (c, a) s)" "r = fst (verify_commit E aid now answer meta (c, a) s)"
    unfolding run by simp_all
  have s': "challenges s' = update_rows (\<lambda>x. cc_id x = i) (settle_row now ?ok ?left) (challenges s)"
    "assets s' = (if verify_closes ?ok ?left then update_rows (\<lambda>x. ca_id x = ca_id a) use_row (assets s) else assets s)"
    and r: "r = Inr (?ok, if ?ok then 0 else ?left)"
    and log: "map cx_isSuccess (attempts s') = map cx_isSuccess (attempts s) @ [?ok]"
    unfolding eqs verify_commit_run Let_def left(1) c(2) by simp_all
  have "cap_find_challenge_by_id i s' = Some (settle_row now ?ok ?left c)"
    using assms(2) c(2) unfolding cap_find_challenge_by_id_def s'(1) by (subst find_row_update_same) simp_all
  moreover have "cap_find_asset_by_id (ca_id a) s' = Some (if ?ok \<or> ?left = 0 then use_row a else a)"
    using a(2) find_assetD [OF a(2)] unfolding cap_find_asset_by_id_def s'(2) verify_closes_def
    by (auto simp: find_row_update_same)
  ultimately show ?thesis using a(2) left(2) r log by blast
qed

text \<open>A closed challenge stays closed: once a challenge has passed, failed or expired, no later
  operation changes it.\<close>

theorem closed_challenge_frozen:
  fixes s :: "('b, 'x) captcha_db_scheme"
  assumes "captcha_step E s s'" "cap_find_challenge_by_id i s = Some c" "cc_status c \<noteq> Chl_Pending"
    and "captcha_inv E s"
  shows "cap_find_challenge_by_id i s' = Some c"
proof -
  have keep: "cap_find_challenge_by_id i t = Some c" if "challenges t = challenges s @ new" for new and t :: "('b, 'x) captcha_db_scheme"
    using assms(2) by (simp add: cap_find_challenge_by_id_def that find_row_append)
  have keep0: "cap_find_challenge_by_id i t = Some c" if "challenges t = challenges s" for t :: "('b, 'x) captcha_db_scheme"
    using keep [of t "[]"] that by simp
  have other: "cap_find_challenge_by_id i t = Some c"
    if "challenges t = update_rows (\<lambda>x. cc_id x = j) f (challenges s)" "j \<noteq> i" "\<And>x. cc_id (f x) = cc_id x"
    for j f and t :: "('b, 'x) captcha_db_scheme"
    using assms(2) find_challengeD [OF assms(2)] that
    by (simp add: cap_find_challenge_by_id_def find_row_update_same)
  from assms(1) show ?thesis
  proof cases
    case (step_generate t cf d k draw)
    then show ?thesis by (cases rule: generate_asset_effect [of E t cf d k draw s]) (simp_all add: keep0)
  next
    case (step_challenge new_id now input)
    have "\<exists>new. challenges s' = challenges s @ new"
    proof -
      have "challenges (snd (pop_reserved now key s)) = challenges s" for key
        using pop_reserved_inv [OF assms(4), of now key] by (metis surjective_pairing)
      then show ?thesis unfolding step_challenge
        by (auto simp: create_challenge_handler_def andThen_def Let_def split_beta cap_create_challenge_def
            split: option.split)
    qed
    with keep show ?thesis by blast
  next
    case (step_verify aid now j answer meta)
    obtain r s1 where chk: "verify_check E now j s = (r, s1)" by (cases "verify_check E now j s")
    from chk show ?thesis
    proof (cases rule: verify_check_cases)
      case (refused e)
      with chk step_verify keep0 show ?thesis by (simp add: verify_handler_def andThen_def)
    next
      case (expired c')
      have "cc_id c' \<noteq> i" using expired(2,3) assms(2,3) find_challengeD [OF expired(2)] by auto
      with other [of s' "cc_id c'" "complete_row now Chl_Expired"] chk expired step_verify show ?thesis
        by (simp add: verify_handler_def andThen_def cap_complete_challenge_def)
    next
      case (ready c' a)
      have "cc_id c' \<noteq> i" using ready(3,4) assms(2,3) find_challengeD [OF ready(3)] by auto
      with other [of s' "cc_id c'" "settle_row now (answer_ok E answer a) (attempts_left E c')"] chk ready step_verify
      show ?thesis by (simp add: verify_handler_def andThen_def verify_commit_run Let_def)
    qed
  qed (simp_all add: keep0 admin_frames)
qed

section \<open>The asset that a challenge takes\<close>

lemma find_first_split:
  assumes "List.find P xs = Some x"
  obtains old rest where "xs = old @ x # rest" "P x" "\<forall>y\<in>set old. \<not> P y"
  using assms
proof (induction xs arbitrary: thesis)
  case (Cons y ys)
  show ?case
  proof (cases "P y")
    case True
    with Cons.prems show ?thesis by (intro Cons.prems(1) [of "[]" ys]) simp_all
  next
    case False
    with Cons.prems(2) have "List.find P ys = Some x" by simp
    then obtain old rest where "ys = old @ x # rest" "P x" "\<forall>z\<in>set old. \<not> P z" using Cons.IH by blast
    with False show ?thesis by (intro Cons.prems(1) [of "y # old" rest]) simp_all
  qed
qed simp

text \<open>A request for a challenge always ends: it serves the oldest asset of the pool that is still
  available and not expired, throwing away the older ones, and leaves the younger ones in order; when
  the pool has no such asset it answers 503 and leaves the pool empty.\<close>

theorem challenge_takes_oldest:
  fixes s :: "('b, 'x) captcha_db_scheme"
  assumes "cap_find_template_by_code (coalesce (ci_templateCode input) DEFAULT_TEMPLATE_CODE) s = Some t"
    and "ct_status t = Tpl_Active"
    and "key = pool_key (ce_prefix E) (coalesce (ci_templateCode input) DEFAULT_TEMPLATE_CODE)
      (coalesce (ci_difficulty input) (ct_defaultDifficulty t))"
    and "[] \<notin> set (waiting key s)" "\<not> some_row (\<lambda>c. cc_id c = new_id) (challenges s)"
    and "create_challenge_handler E new_id now input s = (r, s')"
  shows "case List.find (usable now s) (waiting key s) of
      None \<Rightarrow> r = Inl (service_unavailable ''captcha.pool.empty'') \<and> waiting key s' = []
        \<and> challenges s' = challenges s \<and> assets s' = assets s
    | Some i \<Rightarrow> \<exists>old rest c. waiting key s = old @ i # rest \<and> (\<forall>j\<in>set old. \<not> usable now s j)
        \<and> waiting key s' = rest \<and> challenges s' = challenges s @ [c] \<and> cc_id c = new_id \<and> cc_assetId c = i
        \<and> cc_status c = Chl_Pending \<and> cc_expiresAt c = now + ce_ttl E * 1000
        \<and> map_option ca_status (cap_find_asset_by_id i s') = map_option (\<lambda>a. if reservable now i a
             then Ast_Reserved else ca_status a) (cap_find_asset_by_id i s)
        \<and> r = Inr \<lparr>cr_challengeId = new_id, cr_imageUrl = ''/api/v1/captcha/challenges/'' @ new_id @ ''/image'',
            cr_expiresIn = ce_ttl E\<rparr>"
proof (cases "List.find (usable now s) (waiting key s)")
  case None
  have "pool s key = rev (waiting key s)" by (simp add: waiting_def)
  moreover have "\<forall>i\<in>set (waiting key s). i \<noteq> [] \<and> \<not> usable now s i"
    using None assms(4) by (auto simp: find_None_iff)
  ultimately have "pop_reserved now key s = (None, s\<lparr>pool := (pool s)(key := [])\<rparr>)" by (rule pop_reserved_none)
  then have "create_challenge_handler E new_id now input s
      = (Inl (service_unavailable ''captcha.pool.empty''), s\<lparr>pool := (pool s)(key := [])\<rparr>)"
    using assms(1,2) by (simp add: create_challenge_handler_def andThen_def Let_def assms(3))
  with assms(6) None show ?thesis by (auto simp: waiting_def)
next
  case (Some i)
  then obtain old rest where w: "waiting key s = old @ i # rest" "usable now s i" "\<forall>j\<in>set old. \<not> usable now s j"
    by (rule find_first_split)
  then obtain a where a: "find_row (reservable now i) (assets s) = Some a" by (auto simp: usable_def some_row_find)
  have id: "ca_id a = i" using find_row_SomeD [OF a] by (simp add: reservable_def)
  have "pool s key = rev (old @ i # rest)" using w(1) by (simp add: waiting_def rev_swap)
  moreover have "\<forall>j\<in>set old. j \<noteq> [] \<and> \<not> usable now s j" "i \<noteq> []" using assms(4) w by auto
  ultimately have pop: "pop_reserved now key s = (Some (reserve_row a), s\<lparr>pool := (pool s)(key := rev rest),
      assets := update_rows (reservable now i) reserve_row (assets s)\<rparr>)" using a by (rule pop_reserved_oldest)
  have st: "map_option ca_status (find_row (\<lambda>x. ca_id x = i) (update_rows (reservable now i) reserve_row (assets s)))
      = map_option (\<lambda>a. if reservable now i a then Ast_Reserved else ca_status a) (find_row (\<lambda>x. ca_id x = i) (assets s))"
    by (subst find_row_update_same) (auto simp: option.map_comp comp_def intro!: map_option_cong)
  have "fst (create_challenge_handler E new_id now input s) = Inr \<lparr>cr_challengeId = new_id,
        cr_imageUrl = ''/api/v1/captcha/challenges/'' @ new_id @ ''/image'', cr_expiresIn = ce_ttl E\<rparr>
    \<and> waiting key (snd (create_challenge_handler E new_id now input s)) = rest
    \<and> assets (snd (create_challenge_handler E new_id now input s)) = update_rows (reservable now i) reserve_row (assets s)
    \<and> (\<exists>c. challenges (snd (create_challenge_handler E new_id now input s)) = challenges s @ [c] \<and> cc_id c = new_id
        \<and> cc_assetId c = i \<and> cc_status c = Chl_Pending \<and> cc_expiresAt c = now + ce_ttl E * 1000)"
    using assms(1,2,5) pop
    by (simp add: create_challenge_handler_def andThen_def Let_def assms(3) [symmetric] cap_create_challenge_def
        new_challenge_def id waiting_def)
  with assms(6) Some w st show ?thesis by (auto simp: cap_find_asset_by_id_def)
qed

section \<open>Parallel guesses\<close>

text \<open>Requests that have all read the challenge before the first of them writes.\<close>

fun commit_all :: "'b captcha_env \<Rightarrow> (nat \<Rightarrow> string) \<Rightarrow> int \<Rightarrow> request_meta \<Rightarrow> captcha_challenge \<times> captcha_asset
    \<Rightarrow> string list \<Rightarrow> ('b, 'x) captcha_db_scheme \<Rightarrow> bool list \<times> ('b, 'x) captcha_db_scheme" where
  "commit_all E aids now meta p [] s = ([], s)"
| "commit_all E aids now meta p (answer # rest) s =
     (let (r, s1) = verify_commit E (aids (length rest)) now answer meta p s;
          (rs, s2) = commit_all E aids now meta p rest s1
      in (case r of Inl _ \<Rightarrow> rs | Inr (ok, _) \<Rightarrow> ok # rs, s2))"

text \<open>The attempt limit does not bound parallel requests: if any number of them read a pending
  challenge before one writes, every one of their answers is compared and answered, however many there
  are, and the attempt counter ends above the limit.\<close>

theorem parallel_guesses_unlimited:
  fixes s :: "('b, 'x) captcha_db_scheme"
  assumes "verify_check E now i s = (Inr (c, a), s)"
  shows "fst (commit_all E aids now meta (c, a) answers s) = map (\<lambda>x. answer_ok E x a) answers
    \<and> map_option cc_attemptsCount (cap_find_challenge_by_id i (snd (commit_all E aids now meta (c, a) answers s)))
      = Some (cc_attemptsCount c + int (length answers))"
proof -
  have c: "cap_find_challenge_by_id i s = Some c"
    using assms by (rule verify_check_cases) simp_all
  then have id: "cc_id c = i" by (simp add: find_challengeD)
  have "fst (commit_all E aids now meta (c, a) answers t) = map (\<lambda>x. answer_ok E x a) answers
    \<and> map_option cc_attemptsCount (cap_find_challenge_by_id i (snd (commit_all E aids now meta (c, a) answers t)))
      = map_option (\<lambda>c. cc_attemptsCount c + int (length answers)) (cap_find_challenge_by_id i t)"
    for t :: "('b, 'x) captcha_db_scheme"
  proof (induction answers arbitrary: t)
    case Nil
    then show ?case by (simp add: option.map_ident)
  next
    case (Cons x answers)
    let ?t = "snd (verify_commit E (aids (length answers)) now x meta (c, a) t)"
    have one: "map_option cc_attemptsCount (cap_find_challenge_by_id i ?t)
        = map_option (\<lambda>c. cc_attemptsCount c + 1) (cap_find_challenge_by_id i t)"
      by (cases "find_row (\<lambda>c. cc_id c = i) (challenges t)")
        (auto simp: verify_commit_run Let_def cap_find_challenge_by_id_def id find_row_update_same dest: find_row_SomeD)
    have "map_option (\<lambda>c. cc_attemptsCount c + int (length answers)) (cap_find_challenge_by_id i ?t)
        = map_option (\<lambda>c. cc_attemptsCount c + int (length (x # answers))) (cap_find_challenge_by_id i t)"
      using one by (cases "cap_find_challenge_by_id i ?t"; cases "cap_find_challenge_by_id i t") simp_all
    moreover have "fst (verify_commit E (aids (length answers)) now x meta (c, a) t)
        = Inr (answer_ok E x a, if answer_ok E x a then 0 else attempts_left E c)"
      by (simp add: verify_commit_run Let_def)
    ultimately show ?case using Cons.IH [of ?t] by (simp add: split_beta Let_def)
  qed
  from this [of s] c show ?thesis by simp
qed

section \<open>Answers\<close>

lemma js_upper_range: "js_upper c \<Longrightarrow> (of_char c :: nat) + 32 < 256"
  by (auto simp: js_upper_def Let_def)

lemma of_char_lower [simp]: "(of_char (js_lower_char c) :: nat) = (if js_upper c then of_char c + 32 else of_char c)"
  using js_upper_range [of c] by (simp add: js_lower_char_def)

lemma js_lower_space [simp]: "js_space (js_lower_char c) = js_space c"
  by (auto simp: js_space_def Let_def js_upper_def)

lemma js_lower_not_upper [simp]: "\<not> js_upper (js_lower_char c)"
  by (auto simp: js_upper_def [of "js_lower_char c"] Let_def) (auto simp: js_upper_def Let_def)

lemma js_lower_idem [simp]: "js_lower_char (js_lower_char c) = js_lower_char c"
  by (simp add: js_lower_char_def [of "js_lower_char c"])

lemma js_space_blank [simp]: "js_space CHR '' ''" "\<not> js_word CHR '' ''" "js_lower_char CHR '' '' = CHR '' ''"
  by (simp_all add: js_space_def js_word_def js_upper_def js_lower_char_def)

lemma collapse_no_space: "\<forall>c\<in>set s. \<not> js_space c \<Longrightarrow> collapse_spaces b s = s"
  by (induction s arbitrary: b) auto

lemma js_trim_padded:
  assumes "\<forall>c\<in>set pre. js_space c" "\<forall>c\<in>set post. js_space c" "\<forall>c\<in>set t. \<not> js_space c"
  shows "js_trim (pre @ t @ post) = t"
proof -
  have drop: "dropWhile js_space (ws @ u) = dropWhile js_space u" if "\<forall>c\<in>set ws. js_space c" for ws u
    using that by (induction ws) simp_all
  have keep: "dropWhile js_space (u @ ws) = u @ (if u = [] then dropWhile js_space ws else ws)"
    if "\<forall>c\<in>set u. \<not> js_space c" for u ws
    using that by (cases u) simp_all
  have "dropWhile js_space post = []" using assms(2) by (simp add: dropWhile_eq_Nil_conv)
  then show ?thesis
    using assms drop [of pre "t @ post"] keep [of t post] drop [of "rev post" "rev t"] keep [of "rev t" "[]"]
    by (cases "t = []") (auto simp: js_trim_def dest: set_dropWhileD)
qed

lemma normalize_typed:
  assumes "\<forall>c\<in>set pre. js_space c" "\<forall>c\<in>set post. js_space c"
    and "map js_lower_char typed = map js_lower_char t" "\<forall>c\<in>set t. js_word (js_lower_char c) \<and> \<not> js_space c"
  shows "normalize_answer (pre @ typed @ post) = map js_lower_char t"
proof -
  have ns: "\<forall>c\<in>set t. \<not> js_space (js_lower_char c)" and w: "\<forall>c\<in>set (map js_lower_char t). js_word c"
    using assms(4) by auto
  have "\<forall>c\<in>set (map js_lower_char typed). \<not> js_space c" unfolding assms(3) using ns by simp
  then have "\<forall>c\<in>set typed. \<not> js_space c" by simp
  then have "js_trim (pre @ typed @ post) = typed" by (rule js_trim_padded [OF assms(1,2)])
  moreover have "filter (\<lambda>c. js_word c \<or> js_space c) (map js_lower_char t) = map js_lower_char t"
    using w by (auto simp: filter_id_conv)
  ultimately show ?thesis using ns by (simp add: normalize_answer_def assms(3) collapse_no_space)
qed

text \<open>No two spaces in a row, and no space but the blank.\<close>

fun single_spaced :: "bool \<Rightarrow> string \<Rightarrow> bool" where
  "single_spaced after [] = True"
| "single_spaced after (c # cs) = (if js_space c then \<not> after \<and> c = CHR '' '' \<and> single_spaced True cs
     else single_spaced False cs)"

lemma collapse_single: "single_spaced b (collapse_spaces b s)"
  by (induction b s rule: collapse_spaces.induct) auto

lemma single_spaced_blank: "single_spaced b s \<Longrightarrow> c \<in> set s \<Longrightarrow> js_space c \<Longrightarrow> c = CHR '' ''"
  by (induction b s rule: single_spaced.induct) (auto split: if_splits)

lemma collapse_id: "single_spaced b s \<Longrightarrow> collapse_spaces b s = s"
  by (induction b s rule: single_spaced.induct) auto

lemma collapse_set: "c \<in> set (collapse_spaces b s) \<Longrightarrow> c = CHR '' '' \<or> c \<in> set s"
  by (induction b s rule: collapse_spaces.induct) (auto split: if_splits)

lemma single_spaced_drop: "single_spaced b s \<Longrightarrow> single_spaced False (dropWhile js_space s)"
proof (induction b s rule: single_spaced.induct)
  case (2 b c cs)
  then show ?case by (cases "js_space c") simp_all
qed simp

lemma single_spaced_mono: "single_spaced True s \<Longrightarrow> single_spaced False s"
  by (cases s) auto

lemma single_spaced_take: "single_spaced b (s @ t) \<Longrightarrow> single_spaced b s"
  by (induction b s rule: single_spaced.induct) (auto split: if_splits)

lemma trim_is_infix: "\<exists>pre post. s = pre @ js_trim s @ post \<and> (\<forall>c\<in>set pre. js_space c)"
proof -
  let ?d = "dropWhile js_space s"
  have "s = takeWhile js_space s @ ?d" by simp
  moreover have "?d = js_trim s @ rev (takeWhile js_space (rev ?d))"
    unfolding js_trim_def by (metis rev_append rev_rev_ident takeWhile_dropWhile_id)
  ultimately have "s = takeWhile js_space s @ js_trim s @ rev (takeWhile js_space (rev ?d))" by simp
  moreover have "\<forall>c\<in>set (takeWhile js_space s). js_space c" by (auto dest: set_takeWhileD)
  ultimately show ?thesis by blast
qed

lemma js_trim_single: "single_spaced False s \<Longrightarrow> single_spaced False (js_trim s)"
proof -
  assume "single_spaced False s"
  then have "single_spaced False (dropWhile js_space s)" by (rule single_spaced_drop)
  moreover have "dropWhile js_space s = js_trim s @ rev (takeWhile js_space (rev (dropWhile js_space s)))"
    unfolding js_trim_def by (metis rev_append rev_rev_ident takeWhile_dropWhile_id)
  ultimately show ?thesis by (metis single_spaced_take)
qed

text \<open>The normal form of an answer: lower-case letters, digits and single blanks.  Normalising it
  again only trims it, so that an answer whose ends are symbols next to a blank is not in the form that
  a second pass gives.\<close>

theorem normal_form:
  shows "(\<forall>c\<in>set (normalize_answer answer). c = CHR '' '' \<or> js_word c \<and> js_lower_char c = c)
    \<and> single_spaced False (normalize_answer answer)
    \<and> normalize_answer (normalize_answer answer) = js_trim (normalize_answer answer)"
proof -
  let ?n = "normalize_answer answer"
  have single: "single_spaced False ?n" by (simp add: normalize_answer_def collapse_single)
  have chars: "c = CHR '' '' \<or> js_word c \<and> js_lower_char c = c" if "c \<in> set ?n" for c
  proof -
    from that have "c = CHR '' '' \<or> c \<in> set (filter (\<lambda>c. js_word c \<or> js_space c) (map js_lower_char (js_trim answer)))"
      unfolding normalize_answer_def by (rule collapse_set)
    then have "c = CHR '' '' \<or> (js_word c \<or> js_space c) \<and> js_lower_char c = c" by auto
    then show ?thesis using single_spaced_blank [OF single that] by blast
  qed
  have sub: "set (js_trim ?n) \<subseteq> set ?n" using trim_is_infix [of ?n] by (metis Un_iff set_append subsetI)
  have trimmed: "js_lower_char c = c" "js_word c \<or> js_space c" if "c \<in> set (js_trim ?n)" for c
    using chars [OF subsetD [OF sub that]] by auto
  have "map js_lower_char (js_trim ?n) = js_trim ?n" by (rule map_idI) (rule trimmed(1))
  moreover have "filter (\<lambda>c. js_word c \<or> js_space c) (js_trim ?n) = js_trim ?n"
    by (rule filter_True) (use trimmed(2) in blast)
  ultimately have "normalize_answer ?n = collapse_spaces False (js_trim ?n)"
    by (simp add: normalize_answer_def [of ?n])
  also have "\<dots> = js_trim ?n" by (rule collapse_id [OF js_trim_single [OF single]])
  finally show ?thesis using chars single by blast
qed

section \<open>From the generator to the answer\<close>

lemma generate_asset_ok:
  fixes s :: "('b, 'x) captcha_db_scheme"
  assumes "s3_ok (ce_s3 E)" "generate_asset E t cf d i draw s = (Inr (), s1)"
  defines "g \<equiv> generate_captcha (ce_render E) (gd_rnd draw) (cf_configJson cf) d"
  obtains a b ob where "s1 = s\<lparr>objects := b, assets := assets s @ [a],
      pool := (pool s)(pool_key (ce_prefix E) (ct_code t) d := gd_assetId draw # pool s (pool_key (ce_prefix E) (ct_code t) d))\<rparr>"
    "\<not> some_row (\<lambda>r. ca_id r = gd_assetId draw) (assets s)" "ca_id a = gd_assetId draw" "ca_status a = Ast_Available"
    "ca_usedCount a = 0" "ca_expiresAt a = gd_now draw + 24 * 60 * 60 * 1000"
    "ca_answerNormalizedHash a = hash_answer (ce_hashing E) (normalize_answer (gc_answer g))"
    "s3_get (ce_s3 E) (ca_storageKey a) None b = Inr ob" "ob_body ob = Some (gc_image g)"
    "ob_contentType ob = Some (gc_contentType g)"
proof -
  define key where "key = asset_key (ct_code t) (cf_id cf) (gd_now draw) i"
  define p where "p = \<lparr>up_key = key, up_body = gc_image g, up_contentType = gc_contentType g, up_metadata = []\<rparr>"
  obtain r s0 where up: "send_upload (ce_s3 E) p s = (r, s0)" by (meson surj_pair)
  define a where "a = new_asset (gd_assetId draw) (gd_now draw) \<lparr>ad_templateId = ct_id t, ad_configId = cf_id cf,
      ad_storageKey = key, ad_answerHash = hash_answer (ce_hashing E) (gc_answer g),
      ad_answerNormalizedHash = hash_answer (ce_hashing E) (normalize_answer (gc_answer g)),
      ad_difficulty = d, ad_expiresAt = gd_now draw + 24 * 60 * 60 * 1000,
      ad_metadataJson = gc_metadata g, ad_maxUses = 1\<rparr>"
  have run: "generate_asset E t cf d i draw s = (case r of Inl e \<Rightarrow> (Inl e, s0) | Inr _ \<Rightarrow>
      if some_row (\<lambda>r. ca_id r = gd_assetId draw) (assets s0) then (Inl (Pg_Exn ''23505''), s0)
      else pool_push (pool_key (ce_prefix E) (ct_code t) d) (ca_id a) (s0\<lparr>assets := assets s0 @ [a]\<rparr>))"
    using up unfolding p_def
    by (cases r) (simp_all add: generate_asset_def Let_def g_def [symmetric] key_def [symmetric] andThen_def storage_put_def
      adapter_upload_buffer_def cap_create_asset_def a_def)
  then obtain out where r: "r = Inr out" and fresh: "\<not> some_row (\<lambda>r. ca_id r = gd_assetId draw) (assets s0)"
    and s1: "s1 = snd (pool_push (pool_key (ce_prefix E) (ct_code t) d) (ca_id a) (s0\<lparr>assets := assets s0 @ [a]\<rparr>))"
    using assms(2) by (cases r) (auto simp: pool_push_def split: if_splits)
  obtain b where s0: "s0 = s\<lparr>objects := b\<rparr>"
    and get: "\<And>v. v = None \<or> v = uo_versionId out \<Longrightarrow> \<exists>ob. s3_get (ce_s3 E) (up_key p) v b = Inr ob
       \<and> s3_head (ce_s3 E) (up_key p) v b = Inr (ob\<lparr>ob_body := None\<rparr>)
       \<and> ob_body ob = Some (up_body p) \<and> ob_contentType ob = Some (up_contentType p)"
    using up unfolding r by (rule send_upload_ok [OF assms(1)]) blast
  obtain ob where "s3_get (ce_s3 E) key None b = Inr ob" "ob_body ob = Some (gc_image g)"
      "ob_contentType ob = Some (gc_contentType g)"
    using get [of None] by (auto simp: p_def)
  moreover have "ca_storageKey a = key" "ca_id a = gd_assetId draw" "ca_status a = Ast_Available" "ca_usedCount a = 0"
    "ca_expiresAt a = gd_now draw + 24 * 60 * 60 * 1000"
    "ca_answerNormalizedHash a = hash_answer (ce_hashing E) (normalize_answer (gc_answer g))"
    by (simp_all add: a_def new_asset_def)
  ultimately show thesis using fresh by (intro that [of a b ob]) (simp_all add: s1 s0 pool_push_def)
qed

lemma find_in_random_text:
  assumes "c \<in> set (random_text rnd alphabet n)" "alphabet \<noteq> []"
  shows "c \<in> set alphabet"
proof -
  from assms(1) obtain k where "c = alphabet ! (rnd k mod length alphabet)" by (auto simp: random_text_def)
  moreover have "rnd k mod length alphabet < length alphabet" using assms(2) by simp
  ultimately show ?thesis by simp
qed

lemma generated_challenge_passes:
  fixes s :: "('b, 'x) captcha_db_scheme"
  assumes "s3_ok (ce_s3 E)" "0 < ce_maxAttempts E" "gd_assetId draw \<noteq> []"
    and "generate_asset E t cf d i draw s = (Inr (), s1)" "waiting (pool_key (ce_prefix E) (ct_code t) d) s = []"
    and "cap_find_template_by_code (ct_code t) s = Some t" "ct_status t = Tpl_Active"
    and "create_challenge_handler E cid now \<lparr>ci_context = ctx, ci_riskScore = risk, ci_difficulty = Some d,
        ci_templateCode = Some (ct_code t), ci_subject = subj\<rparr> s1 = (Inr rep, s2)"
    and "now < gd_now draw + 24 * 60 * 60 * 1000" "now' < now + ce_ttl E * 1000"
    and "\<forall>c\<in>set (sv_alphabet (validate_config (cf_configJson cf))). js_word (js_lower_char c) \<and> \<not> js_space c"
    and "drawn = gc_answer (generate_captcha (ce_render E) (gd_rnd draw) (cf_configJson cf) d)"
    and "map js_lower_char typed = map js_lower_char drawn" "list_all js_space pre" "list_all js_space post"
  shows "fst (image_handler E now' cid s2) = Inr
      (Some (ce_render E (gd_rnd draw) drawn (validate_config (cf_configJson cf)) (captcha_noise d)),
       Some ''image/svg+xml; charset=utf-8'')
    \<and> fst (verify_handler E aid now' cid (pre @ typed @ post) meta s2) = Inr (True, 0)"
proof -
  define key where "key = pool_key (ce_prefix E) (ct_code t) d"
  define alph where "alph = sv_alphabet (validate_config (cf_configJson cf))"
  obtain a b ob where s1: "s1 = s\<lparr>objects := b, assets := assets s @ [a], pool := (pool s)(key := gd_assetId draw # pool s key)\<rparr>"
    and fresh: "\<not> some_row (\<lambda>r. ca_id r = gd_assetId draw) (assets s)" and a: "ca_id a = gd_assetId draw"
      "ca_status a = Ast_Available" "ca_usedCount a = 0" "ca_expiresAt a = gd_now draw + 24 * 60 * 60 * 1000"
      "ca_answerNormalizedHash a = hash_answer (ce_hashing E) (normalize_answer drawn)"
    and get: "s3_get (ce_s3 E) (ca_storageKey a) None b = Inr ob"
      "ob_body ob = Some (gc_image (generate_captcha (ce_render E) (gd_rnd draw) (cf_configJson cf) d))"
      "ob_contentType ob = Some (gc_contentType (generate_captcha (ce_render E) (gd_rnd draw) (cf_configJson cf) d))"
    unfolding key_def assms(12) by (rule generate_asset_ok [OF assms(1,4)]) blast
  have none: "find_row (reservable now (gd_assetId draw)) (assets s) = None"
    "find_row (\<lambda>x. ca_id x = gd_assetId draw) (assets s) = None"
    using fresh by (auto simp: find_row_None some_row_iff reservable_def)
  have usable: "reservable now (gd_assetId draw) a" using a assms(9) by (simp add: reservable_def)
  let ?s = "s1\<lparr>pool := (pool s1)(key := []), assets := update_rows (reservable now (gd_assetId draw)) reserve_row (assets s1)\<rparr>"
  have pop: "pop_reserved now key s1 = (Some (reserve_row a), ?s)"
    using pop_reserved_oldest [of s1 key "[]" "gd_assetId draw" "[]" now a] assms(3,5) none usable
    by (simp add: s1 waiting_def key_def find_row_append)
  have "assets ?s = assets s @ [reserve_row a]"
  proof -
    have "update_rows (reservable now (gd_assetId draw)) reserve_row (assets s) = assets s"
      by (rule update_rows_none) (use none(1) in \<open>simp add: some_row_find\<close>)
    then show ?thesis using usable by (simp add: s1)
  qed
  moreover have tpl: "cap_find_template_by_code (ct_code t) s1 = Some t" using assms(6) by (simp add: s1 cap_find_template_by_code_def)
  ultimately obtain c where s2: "s2 = ?s\<lparr>challenges := challenges s1 @ [c]\<rparr>" and as: "assets s2 = assets s @ [reserve_row a]"
    and newc: "\<not> some_row (\<lambda>r. cc_id r = cid) (challenges s1)" and c: "cc_id c = cid" "cc_assetId c = ca_id a"
      "cc_status c = Chl_Pending" "cc_attemptsCount c = 0" "cc_expiresAt c = now + ce_ttl E * 1000"
    using assms(8) pop assms(7)
    by (auto simp: create_challenge_handler_def andThen_def Let_def key_def [symmetric] cap_create_challenge_def
        new_challenge_def reserve_row_def split: if_splits)
  have fc: "cap_find_challenge_by_id cid s2 = Some c"
    using newc c(1) by (simp add: s2 cap_find_challenge_by_id_def find_row_append some_row_find)
  have fa: "cap_find_asset_by_id (cc_assetId c) s2 = Some (reserve_row a)"
    unfolding cap_find_asset_by_id_def as by (simp add: find_row_append none(2) a c)
  have time: "\<not> cc_expiresAt c \<le> now'" using assms(10) c(5) by simp
  have obj: "objects s2 = b" by (simp add: s2 s1)
  have img: "image_handler E now' cid s2 = (Inr (ob_body ob, ob_contentType ob), s2)"
    using fc fa c(3) time get(1)
    by (simp add: image_handler_def andThen_def storage_get_def adapter_download_def obj reserve_row_def)
  have alph: "alph \<noteq> []"
    by (auto simp: alph_def validate_config_def default_alphabet_def split: option.split json.split)
  have "\<forall>x\<in>set drawn. js_word (js_lower_char x) \<and> \<not> js_space x"
    using assms(11) find_in_random_text [OF _ alph]
    by (auto simp: assms(12) generate_captcha_def Let_def alph_def)
  then have n: "normalize_answer (pre @ typed @ post) = map js_lower_char drawn" "normalize_answer drawn = map js_lower_char drawn"
    using assms(13-15) normalize_typed [of pre post typed drawn] normalize_typed [of "[]" "[]" drawn drawn]
    by (simp_all add: list_all_iff)
  have ok: "answer_ok E (pre @ typed @ post) (reserve_row a)"
    by (simp add: answer_ok_def n a(5) compare_answer_def Let_def reserve_row_def)
  have "verify_check E now' cid s2 = (Inr (c, reserve_row a), s2)"
    using fc fa c time assms(2) by (simp add: verify_check_def andThen_def)
  then have "fst (verify_handler E aid now' cid (pre @ typed @ post) meta s2) = Inr (True, 0)"
    by (simp add: verify_handler_def andThen_def verify_commit_run Let_def ok)
  then show ?thesis
    using img get by (simp add: generate_captcha_def Let_def assms(12))
qed

text \<open>C9. From the generator to the user and back: an asset generated into an empty pool is the one the
  next challenge takes, its image is the drawing of the generated text, and the text, typed in upper
  or lower case and with white space around it, passes, provided the alphabet has letters and digits only.\<close>

theorem captcha_roundtrip:
  fixes s :: "('b, 'x) captcha_db_scheme"
  assumes "s3_ok (ce_s3 E)" "0 < ce_maxAttempts E" "gd_assetId draw \<noteq> []"
    and "generate_asset E t cf d i draw s = (Inr (), s1)" "waiting (pool_key (ce_prefix E) (ct_code t) d) s = []"
    and "cap_find_template_by_code (ct_code t) s = Some t" "ct_status t = Tpl_Active"
    and "create_challenge_handler E cid now \<lparr>ci_context = ctx, ci_riskScore = risk, ci_difficulty = Some d,
        ci_templateCode = Some (ct_code t), ci_subject = subj\<rparr> s1 = (Inr rep, s2)"
    and "now < gd_now draw + 24 * 60 * 60 * 1000" "now' < now + ce_ttl E * 1000"
    and "\<forall>c\<in>set (sv_alphabet (validate_config (cf_configJson cf))). js_word (js_lower_char c) \<and> \<not> js_space c"
    and "drawn = gc_answer (generate_captcha (ce_render E) (gd_rnd draw) (cf_configJson cf) d)"
    and "map js_lower_char typed = map js_lower_char drawn" "list_all js_space pre" "list_all js_space post"
  shows "fst (image_handler E now' cid s2) = Inr
      (Some (ce_render E (gd_rnd draw) drawn (validate_config (cf_configJson cf)) (captcha_noise d)),
       Some ''image/svg+xml; charset=utf-8'')
    \<and> fst (verify_handler E aid now' cid (pre @ typed @ post) meta s2) = Inr (True, 0)"
  by (rule generated_challenge_passes [OF assms])

section \<open>The properties at concrete inputs\<close>

definition demo_env :: "(string \<times> string \<times> s3_object) list captcha_env" where
  "demo_env = \<lparr>ce_s3 = demo_s3, ce_hashing = \<lparr>hs_secret = ''k'', hs_hmac = (\<lambda>k v. k @ v)\<rparr>,
     ce_render = (\<lambda>rnd answer c noise. ''<svg>'' @ answer @ ''</svg>''), ce_prefix = ''captcha'', ce_ttl = 180, ce_maxAttempts = 2\<rparr>"

definition demo_template :: captcha_template where
  "demo_template = \<lparr>ct_id = ''t'', ct_code = DEFAULT_TEMPLATE_CODE, ct_name = ''SVG'', ct_type = Image_Text,
     ct_status = Tpl_Active, ct_defaultDifficulty = Medium, ct_generator = ''svg_text'', ct_createdAt = 0, ct_updatedAt = 0\<rparr>"

definition demo_cfg :: captcha_config where
  "demo_cfg = \<lparr>cf_id = ''c'', cf_templateId = ''t'', cf_version = 1, cf_status = Cfg_Active, cf_configJson = [],
     cf_createdByUserId = None, cf_createdAt = 0, cf_activatedAt = Some 0\<rparr>"

definition demo_store :: "(string \<times> string \<times> s3_object) list captcha_db" where
  "demo_store = \<lparr>objects = [], templates = [demo_template], configs = [demo_cfg], assets = [], challenges = [],
     attempts = [], pool = (\<lambda>_. []), generation_queue = []\<rparr>"

definition demo_gen :: generation_draw where
  "demo_gen = \<lparr>gd_now = 1000, gd_assetId = ''a1'', gd_rnd = (\<lambda>k. k + 8)\<rparr>"

definition demo_ask :: challenge_input where
  "demo_ask = \<lparr>ci_context = Ctx_Login, ci_riskScore = None, ci_difficulty = Some Medium,
     ci_templateCode = Some DEFAULT_TEMPLATE_CODE, ci_subject = None\<rparr>"

definition demo_s1 :: "(string \<times> string \<times> s3_object) list captcha_db" where
  "demo_s1 = snd (generate_asset demo_env demo_template demo_cfg Medium 0 demo_gen demo_store)"

definition demo_s2 :: "(string \<times> string \<times> s3_object) list captcha_db" where
  "demo_s2 = snd (create_challenge_handler demo_env ''q1'' 2000 demo_ask demo_s1)"

definition demo_challenge :: captcha_challenge where
  "demo_challenge = new_challenge ''q1'' 2000 \<lparr>hd_assetId = ''a1'', hd_context = Ctx_Login, hd_subjectHash = None,
     hd_riskScore = 0, hd_expiresAt = 182000\<rparr>"

definition demo_meta :: request_meta where
  "demo_meta = \<lparr>me_ip = None, me_userAgent = None\<rparr>"

lemma demo_s1_run: "generate_asset demo_env demo_template demo_cfg Medium 0 demo_gen demo_store = (Inr (), demo_s1)"
proof -
  have "fst (generate_asset demo_env demo_template demo_cfg Medium 0 demo_gen demo_store) = Inr ()" by code_simp
  then show ?thesis by (metis demo_s1_def prod.collapse)
qed

lemma demo_s2_run: "create_challenge_handler demo_env ''q1'' 2000 demo_ask demo_s1
  = (Inr \<lparr>cr_challengeId = ''q1'', cr_imageUrl = ''/api/v1/captcha/challenges/q1/image'', cr_expiresIn = 180\<rparr>, demo_s2)"
proof -
  have "fst (create_challenge_handler demo_env ''q1'' 2000 demo_ask demo_s1)
    = Inr \<lparr>cr_challengeId = ''q1'', cr_imageUrl = ''/api/v1/captcha/challenges/q1/image'', cr_expiresIn = 180\<rparr>" by code_simp
  then show ?thesis by (metis demo_s2_def prod.collapse)
qed

lemma demo_reach: "reach captcha_fresh (captcha_step demo_env) demo_s2"
proof -
  have "captcha_fresh demo_store" by (simp add: captcha_fresh_def demo_store_def)
  then have "reach captcha_fresh (captcha_step demo_env) demo_store" by (rule reach_start)
  then have "reach captcha_fresh (captcha_step demo_env) demo_s1"
    unfolding demo_s1_def by (rule reach_step) (rule step_generate)
  then show ?thesis unfolding demo_s2_def by (rule reach_step) (rule step_challenge)
qed

lemma demo_s2_rows: "challenges demo_s2 = [demo_challenge]" "cap_find_challenge_by_id ''q1'' demo_s2 = Some demo_challenge"
  by code_simp+

lemma demo_env_simps [simp]:
  "ce_maxAttempts demo_env = 2" "ce_ttl demo_env = 180" "ce_prefix demo_env = ''captcha''" "ce_s3 demo_env = demo_s3"
  by (simp_all add: demo_env_def)

theorem captcha_single_use_witness: "cc_attemptsCount demo_challenge \<le> 2"
  using captcha_single_use [OF demo_reach, of demo_challenge] by (simp add: demo_s2_rows demo_env_def)

theorem verify_outcome_witness:
  "fst (verify_handler demo_env ''x1'' 3000 ''q1'' ''wrong'' demo_meta demo_s2) = Inr (False, 1)"
proof -
  have "cc_status demo_challenge = Chl_Pending" "(3000::int) < cc_expiresAt demo_challenge" "0 < ce_maxAttempts demo_env"
    by (simp_all add: demo_challenge_def new_challenge_def demo_env_def)
  from verify_outcome [OF demo_reach demo_s2_rows(2) this surjective_pairing, of "''wrong''" "''x1''" demo_meta]
  obtain a ok where "fst (verify_handler demo_env ''x1'' 3000 ''q1'' ''wrong'' demo_meta demo_s2) = Inr (ok, if ok then 0 else 1)"
    "cap_find_asset_by_id (cc_assetId demo_challenge) demo_s2 = Some a" "ok = answer_ok demo_env ''wrong'' a"
    by (auto simp: demo_challenge_def new_challenge_def demo_env_simps)
  moreover have "map_option (answer_ok demo_env ''wrong'') (cap_find_asset_by_id (cc_assetId demo_challenge) demo_s2) = Some False"
    by code_simp
  ultimately show ?thesis by simp
qed

theorem closed_challenge_frozen_witness:
  "cap_find_challenge_by_id ''q1'' (snd (verify_handler demo_env ''x2'' 4000 ''q1'' ''9abcde'' demo_meta
     (demo_s2\<lparr>challenges := [complete_row 3500 Chl_Failed (attempt_row demo_challenge)],
        assets := map use_row (assets demo_s2)\<rparr>))) = Some (complete_row 3500 Chl_Failed (attempt_row demo_challenge))"
proof (rule closed_challenge_frozen [OF step_verify])
  show "captcha_inv demo_env (demo_s2\<lparr>challenges := [complete_row 3500 Chl_Failed (attempt_row demo_challenge)],
        assets := map use_row (assets demo_s2)\<rparr>)"
    unfolding captcha_inv_def by code_simp
qed code_simp+

theorem challenge_takes_oldest_witness: "challenges demo_s2 = challenges demo_s1 @ [demo_challenge]"
proof -
  let ?key = "pool_key (ce_prefix demo_env) (coalesce (ci_templateCode demo_ask) DEFAULT_TEMPLATE_CODE)
      (coalesce (ci_difficulty demo_ask) (ct_defaultDifficulty demo_template))"
  have 1: "cap_find_template_by_code (coalesce (ci_templateCode demo_ask) DEFAULT_TEMPLATE_CODE) demo_s1 = Some demo_template"
    and 2: "ct_status demo_template = Tpl_Active" and 4: "[] \<notin> set (waiting ?key demo_s1)"
    and 5: "\<not> some_row (\<lambda>c. cc_id c = ''q1'') (challenges demo_s1)"
    and 6: "List.find (usable 2000 demo_s1) (waiting ?key demo_s1) = Some ''a1''" by code_simp+
  from challenge_takes_oldest [OF 1 2 refl 4 5 demo_s2_run] 6
  obtain c where "challenges demo_s2 = challenges demo_s1 @ [c]" by auto
  then show ?thesis by (simp add: demo_s2_rows)
qed

theorem parallel_guesses_unlimited_witness:
  "fst (commit_all demo_env (\<lambda>k. replicate k CHR ''x'') 3000 demo_meta
     (demo_challenge, hd (assets demo_s2)) [''1'', ''2'', ''3'', ''4'', ''ABCDEF''] demo_s2) = [False, False, False, False, True]"
proof -
  have "fst (verify_check demo_env 3000 ''q1'' demo_s2) = Inr (demo_challenge, hd (assets demo_s2))" by code_simp
  moreover have "snd (verify_check demo_env 3000 ''q1'' demo_s2) = demo_s2"
    by (simp add: verify_check_def andThen_def demo_s2_rows demo_challenge_def new_challenge_def demo_env_def split: option.split)
  ultimately have "verify_check demo_env 3000 ''q1'' demo_s2 = (Inr (demo_challenge, hd (assets demo_s2)), demo_s2)"
    by (metis prod.collapse)
  from parallel_guesses_unlimited [OF this, of "\<lambda>k. replicate k CHR ''x''" demo_meta "[''1'', ''2'', ''3'', ''4'', ''ABCDEF'']"]
  have "fst (commit_all demo_env (\<lambda>k. replicate k CHR ''x'') 3000 demo_meta
     (demo_challenge, hd (assets demo_s2)) [''1'', ''2'', ''3'', ''4'', ''ABCDEF''] demo_s2)
    = map (\<lambda>x. answer_ok demo_env x (hd (assets demo_s2))) [''1'', ''2'', ''3'', ''4'', ''ABCDEF'']" by simp
  also have "\<dots> = [False, False, False, False, True]" by code_simp
  finally show ?thesis .
qed

theorem captcha_roundtrip_witness:
  "fst (verify_handler demo_env ''x3'' 3000 ''q1'' '' abCdef '' demo_meta demo_s2) = Inr (True, 0)"
proof -
  have g: "gc_answer (generate_captcha (ce_render demo_env) (gd_rnd demo_gen) (cf_configJson demo_cfg) Medium) = ''ABCDEF''"
    by code_simp
  have "waiting (pool_key (ce_prefix demo_env) (ct_code demo_template) Medium) demo_store = []"
    and "cap_find_template_by_code (ct_code demo_template) demo_store = Some demo_template"
    and "map js_lower_char ''abCdef'' = map js_lower_char ''ABCDEF''" "list_all js_space '' ''" by code_simp+
  note facts = this
  have "0 < ce_maxAttempts demo_env" "gd_assetId demo_gen \<noteq> []" "ct_status demo_template = Tpl_Active"
    "2000 < gd_now demo_gen + 24 * 60 * 60 * 1000" "3000 < 2000 + ce_ttl demo_env * 1000"
    by (simp_all add: demo_gen_def demo_template_def)
  note more = this
  have abc: "\<forall>c\<in>set (sv_alphabet (validate_config (cf_configJson demo_cfg))). js_word (js_lower_char c) \<and> \<not> js_space c"
    by (simp add: demo_cfg_def validate_config_def default_alphabet_def js_word_def js_space_def js_upper_def
        js_lower_char_def Let_def)
  have ask: "create_challenge_handler demo_env ''q1'' 2000 \<lparr>ci_context = Ctx_Login, ci_riskScore = None,
        ci_difficulty = Some Medium, ci_templateCode = Some (ct_code demo_template), ci_subject = None\<rparr> demo_s1
      = (Inr \<lparr>cr_challengeId = ''q1'', cr_imageUrl = ''/api/v1/captcha/challenges/q1/image'', cr_expiresIn = 180\<rparr>, demo_s2)"
    using demo_s2_run by (simp add: demo_ask_def demo_template_def)
  have s3: "s3_ok (ce_s3 demo_env)" by (simp add: demo_env_def demo_s3_ok)
  from captcha_roundtrip [OF s3 more(1,2) demo_s1_run facts(1,2) more(3) ask more(4,5) abc g [symmetric] facts(3,4,4), of "''x3''" demo_meta]
  show ?thesis by simp
qed

end
