(* ===== verification/Notification.thy ===== *)
theory Notification
  imports Role_Seeding Mail_Service
begin

text \<open>
  The notification module: the table, \<open>notification.repository.drizzle.ts\<close>, the handlers, the
  BullMQ queue \<open>notifications\<close> with its processor and the cron job that re-enqueues pending
  notifications; the seeding of notification templates and the boot sequence of
  \<open>migration.service.ts\<close>.  A job id is the id of the notification: BullMQ ignores a job whose id it
  still knows, among the waiting jobs and the 100 last completed ones.
\<close>

section \<open>Rows\<close>

datatype notification_type = N_System | N_Info | N_Warning | N_Success | N_Error

datatype delivery_status = D_Pending | D_Sent | D_Failed

record notification_row =
  nf_id :: ident
  nf_createdAt :: int
  nf_updatedAt :: int
  nf_deletedAt :: "int option"
  nf_userId :: ident
  nf_title :: string
  nf_content :: string
  nf_type :: "notification_type option"
  nf_channel :: notification_channel
  nf_status :: delivery_status
  nf_attempts :: int
  nf_nextAttemptAt :: "int option"
  nf_sentAt :: "int option"
  nf_failedAt :: "int option"
  nf_errorMessage :: "string option"
  nf_isRead :: "bool option"
  nf_metadata :: "json option"

datatype notification_template_type =
    NT_Welcome | NT_Password_Changed | NT_Profile_Updated | NT_System_Maintenance | NT_System
  | NT_Feature_Announcement | NT_New_Login | NT_Security_Alert

record notification_template_row =
  nt_id :: ident
  nt_createdAt :: int
  nt_deletedAt :: "int option"
  nt_name :: notification_template_type
  nt_subject :: string
  nt_content :: string
  nt_isActive :: "bool option"

text \<open>\<open>NotificationDispatchJobData\<close> with the job's options and its count of attempts.\<close>

record dispatch_job =
  dj_notificationId :: ident
  dj_userId :: ident
  dj_title :: string
  dj_content :: string
  dj_type :: notification_type
  dj_channel :: notification_channel
  dj_metadata :: "json option"
  dj_attempts :: "int option"
  dj_attemptsMade :: int

record 'ab server = "'ab policy_state" +
  notifications :: "notification_row list"
  notification_templates :: "notification_template_row list"
  dispatch_queue :: "dispatch_job list"
  finished_jobs :: "ident list"

section \<open>Entities and the repository\<close>

record notification =
  no_id :: ident
  no_userId :: ident
  no_title :: string
  no_content :: string
  no_type :: notification_type
  no_channel :: notification_channel
  no_status :: delivery_status
  no_attempts :: int
  no_nextAttemptAt :: "int option"
  no_sentAt :: "int option"
  no_failedAt :: "int option"
  no_errorMessage :: "string option"
  no_isRead :: bool
  no_metadata :: "json option"
  no_createdAt :: int
  no_updatedAt :: int
  no_deletedAt :: "int option"

definition to_notification :: "notification_row \<Rightarrow> notification" where
  "to_notification row = \<lparr>no_id = nf_id row, no_userId = nf_userId row, no_title = nf_title row,
     no_content = nf_content row, no_type = coalesce (nf_type row) N_Info, no_channel = nf_channel row,
     no_status = nf_status row, no_attempts = nf_attempts row, no_nextAttemptAt = nf_nextAttemptAt row,
     no_sentAt = nf_sentAt row, no_failedAt = nf_failedAt row, no_errorMessage = nf_errorMessage row,
     no_isRead = coalesce (nf_isRead row) False, no_metadata = nf_metadata row,
     no_createdAt = nf_createdAt row, no_updatedAt = nf_updatedAt row, no_deletedAt = nf_deletedAt row\<rparr>"

record new_notification =
  nn_userId :: ident
  nn_title :: string
  nn_content :: string
  nn_type :: notification_type
  nn_channel :: notification_channel
  nn_status :: delivery_status
  nn_attempts :: int
  nn_sentAt :: "int option"
  nn_isRead :: bool
  nn_metadata :: "json option"

definition notification_row_of :: "ident \<Rightarrow> int \<Rightarrow> new_notification \<Rightarrow> notification_row" where
  "notification_row_of new_id now n = \<lparr>nf_id = new_id, nf_createdAt = now, nf_updatedAt = now, nf_deletedAt = None,
     nf_userId = nn_userId n, nf_title = nn_title n, nf_content = nn_content n, nf_type = Some (nn_type n),
     nf_channel = nn_channel n, nf_status = nn_status n, nf_attempts = nn_attempts n, nf_nextAttemptAt = None,
     nf_sentAt = nn_sentAt n, nf_failedAt = None, nf_errorMessage = None, nf_isRead = Some (nn_isRead n),
     nf_metadata = nn_metadata n\<rparr>"

definition notification_create ::
    "ident \<Rightarrow> int \<Rightarrow> new_notification \<Rightarrow> (('ab, 'x) server_scheme, exn, notification) comp" where
  "notification_create new_id now n s = (let row = notification_row_of new_id now n in
     if some_row (\<lambda>r. nf_id r = new_id) (notifications s) then (Inl (Pg_Exn ''23505''), s)
     else (Inr (to_notification row), s\<lparr>notifications := notifications s @ [row]\<rparr>))"

definition live_notification :: "ident \<Rightarrow> notification_row \<Rightarrow> bool" where
  "live_notification i r = (nf_id r = i \<and> nf_deletedAt r = None)"

definition own_notification :: "ident \<Rightarrow> ident \<Rightarrow> notification_row \<Rightarrow> bool" where
  "own_notification i uid r = (nf_id r = i \<and> nf_userId r = uid \<and> nf_deletedAt r = None)"

definition notification_find_by_id :: "ident \<Rightarrow> ('ab, 'x) server_scheme \<Rightarrow> notification option" where
  "notification_find_by_id i s = map_option to_notification (find_row (live_notification i) (notifications s))"

definition notification_find_own :: "ident \<Rightarrow> ident \<Rightarrow> ('ab, 'x) server_scheme \<Rightarrow> notification option" where
  "notification_find_own i uid s = map_option to_notification (find_row (own_notification i uid) (notifications s))"

definition unread_count :: "ident \<Rightarrow> ('ab, 'x) server_scheme \<Rightarrow> nat" where
  "unread_count uid s = count_rows (\<lambda>r. nf_userId r = uid \<and> nf_channel r = IN_APP \<and> nf_isRead r = Some False
     \<and> nf_deletedAt r = None) (notifications s)"

record notification_filter =
  fo_isRead :: "bool option"
  fo_channel :: "notification_channel option"
  fo_take :: "int option"
  fo_skip :: "int option"

record notification_list =
  nl_nodes :: "notification list"
  nl_totalCount :: nat
  nl_unreadCount :: nat

definition notification_where :: "ident \<Rightarrow> notification_filter \<Rightarrow> notification_row \<Rightarrow> bool" where
  "notification_where uid f r = (nf_userId r = uid \<and> nf_deletedAt r = None
     \<and> nf_channel r = coalesce (fo_channel f) IN_APP
     \<and> (fo_isRead f \<noteq> None \<longrightarrow> nf_isRead r = fo_isRead f))"

definition notification_find_by_user ::
    "ident \<Rightarrow> notification_filter \<Rightarrow> ('ab, 'x) server_scheme \<Rightarrow> notification_list" where
  "notification_find_by_user uid f s = (let matching = filter (notification_where uid f) (notifications s) in
     \<lparr>nl_nodes = map to_notification (sql_window (coalesce (fo_take f) 20) (coalesce (fo_skip f) 0)
        (sort_key (\<lambda>r. - nf_createdAt r) matching)),
      nl_totalCount = length matching, nl_unreadCount = unread_count uid s\<rparr>)"

definition due :: "int \<Rightarrow> notification_row \<Rightarrow> bool" where
  "due now r = (nf_status r = D_Pending \<and> nf_deletedAt r = None
     \<and> (case nf_nextAttemptAt r of None \<Rightarrow> True | Some t \<Rightarrow> t \<le> now))"

definition notification_find_pending :: "nat \<Rightarrow> int \<Rightarrow> ('ab, 'x) server_scheme \<Rightarrow> notification list" where
  "notification_find_pending limit now s =
     map to_notification (take limit (sort_key nf_createdAt (filter (due now) (notifications s))))"

definition sent_row :: "int \<Rightarrow> notification_row \<Rightarrow> notification_row" where
  "sent_row now r = r\<lparr>nf_status := D_Sent, nf_sentAt := Some now, nf_failedAt := None, nf_errorMessage := None,
     nf_updatedAt := now\<rparr>"

definition mark_dispatch_sent :: "int \<Rightarrow> ident \<Rightarrow> (('ab, 'x) server_scheme, exn, bool) comp" where
  "mark_dispatch_sent now i s = (Inr (some_row (live_notification i) (notifications s)),
     s\<lparr>notifications := update_rows (live_notification i) (sent_row now) (notifications s)\<rparr>)"

definition failed_row :: "int \<Rightarrow> string \<Rightarrow> int option \<Rightarrow> notification_row \<Rightarrow> notification_row" where
  "failed_row now message next_at r = r\<lparr>nf_status := (if next_at \<noteq> None then D_Pending else D_Failed),
     nf_attempts := nf_attempts r + 1, nf_nextAttemptAt := next_at,
     nf_failedAt := (if next_at \<noteq> None then None else Some now), nf_errorMessage := Some message, nf_updatedAt := now\<rparr>"

definition mark_dispatch_failed ::
    "int \<Rightarrow> ident \<Rightarrow> string \<Rightarrow> int option \<Rightarrow> (('ab, 'x) server_scheme, exn, bool) comp" where
  "mark_dispatch_failed now i message next_at s = (Inr (some_row (live_notification i) (notifications s)),
     s\<lparr>notifications := update_rows (live_notification i) (failed_row now message next_at) (notifications s)\<rparr>)"

definition read_row :: "int \<Rightarrow> notification_row \<Rightarrow> notification_row" where
  "read_row now r = r\<lparr>nf_isRead := Some True, nf_updatedAt := now\<rparr>"

definition mark_as_read :: "int \<Rightarrow> ident \<Rightarrow> ident \<Rightarrow> (('ab, 'x) server_scheme, exn, bool) comp" where
  "mark_as_read now i uid s = (Inr (some_row (own_notification i uid) (notifications s)),
     s\<lparr>notifications := update_rows (own_notification i uid) (read_row now) (notifications s)\<rparr>)"

definition unread_of :: "ident \<Rightarrow> notification_row \<Rightarrow> bool" where
  "unread_of uid r = (nf_userId r = uid \<and> nf_isRead r = Some False \<and> nf_deletedAt r = None)"

definition mark_all_as_read :: "int \<Rightarrow> ident \<Rightarrow> (('ab, 'x) server_scheme, exn, nat) comp" where
  "mark_all_as_read now uid s = (Inr (count_rows (unread_of uid) (notifications s)),
     s\<lparr>notifications := update_rows (unread_of uid) (read_row now) (notifications s)\<rparr>)"

definition notification_delete :: "int \<Rightarrow> ident \<Rightarrow> ident \<Rightarrow> (('ab, 'x) server_scheme, exn, bool) comp" where
  "notification_delete now i uid s = (Inr (some_row (own_notification i uid) (notifications s)),
     s\<lparr>notifications := update_rows (own_notification i uid)
        (\<lambda>r. r\<lparr>nf_deletedAt := Some now, nf_updatedAt := now\<rparr>) (notifications s)\<rparr>)"

section \<open>The queue\<close>

text \<open>\<open>fails\<close> says that Redis refuses the call.\<close>

definition enqueue_dispatch :: "bool \<Rightarrow> notification \<Rightarrow> (('ab, 'x) server_scheme, exn, unit) comp" where
  "enqueue_dispatch fails n s =
     (if fails then (Inl (Js_Exn ''redis''), s)
      else if no_id n \<in> set (map dj_notificationId (dispatch_queue s)) \<or> no_id n \<in> set (finished_jobs s) then (Inr (), s)
      else (Inr (), s\<lparr>dispatch_queue := dispatch_queue s @ [\<lparr>dj_notificationId = no_id n, dj_userId = no_userId n,
        dj_title = no_title n, dj_content = no_content n, dj_type = no_type n, dj_channel = no_channel n,
        dj_metadata = no_metadata n, dj_attempts = Some 5, dj_attemptsMade = 0\<rparr>]\<rparr>))"

definition DISPATCH_BATCH_LIMIT :: nat where
  "DISPATCH_BATCH_LIMIT = 100"

fun enqueue_all :: "notification list \<Rightarrow> (('ab, 'x) server_scheme, exn, unit) comp" where
  "enqueue_all [] = ret ()"
| "enqueue_all (n # ns) = andThen (enqueue_dispatch False n) (\<lambda>_. enqueue_all ns)"

definition dispatch_pending :: "int \<Rightarrow> (('ab, 'x) server_scheme, exn, unit) comp" where
  "dispatch_pending now =
     andThen (fetch (notification_find_pending DISPATCH_BATCH_LIMIT now)) (\<lambda>pending. enqueue_all pending)"

definition next_attempt_at :: "int \<Rightarrow> dispatch_job \<Rightarrow> int option" where
  "next_attempt_at now j = (let max_attempts = coalesce (dj_attempts j) 1; n = dj_attemptsMade j + 1 in
     if n \<ge> max_attempts then None
     else Some (now + min 60000 (1000 * 10 ^ nat (max 0 (n - 1)))))"

definition dispatch_email :: "ident \<Rightarrow> int \<Rightarrow> dispatch_job \<Rightarrow> (('ab, 'x) server_scheme, exn, unit) comp" where
  "dispatch_email mail_id now j = andThen (fetch (user_repo_find_by_id (dj_userId j))) (\<lambda>found. case found of
     None \<Rightarrow> throw (Js_Exn (''User '' @ dj_userId j @ '' not found''))
   | Some u \<Rightarrow> andThen (send_mail_handler mail_id now (us_email u) (dj_title j) Notification_Template
       [(''title'', J_Str (dj_title j)), (''content'', J_Str (dj_content j))]) (\<lambda>_. ret ()))"

definition dispatch_process :: "ident \<Rightarrow> int \<Rightarrow> dispatch_job \<Rightarrow> (('ab, 'x) server_scheme, exn, unit) comp" where
  "dispatch_process mail_id now j s = (let i = dj_notificationId j in
     case notification_find_by_id i s of
       None \<Rightarrow> (Inr (), s)
     | Some n \<Rightarrow>
         if no_status n \<noteq> D_Pending then (Inr (), s)
         else if dj_channel j = IN_APP then andThen (mark_dispatch_sent now i) (\<lambda>_. ret ()) s
         else if dj_channel j \<noteq> EMAIL
         then andThen (mark_dispatch_failed now i (''Unsupported notification channel: '' @ channel_str (dj_channel j)) None)
           (\<lambda>_. ret ()) s
         else (case andThen (dispatch_email mail_id now j) (\<lambda>_. mark_dispatch_sent now i) s of
             (Inr _, s') \<Rightarrow> (Inr (), s')
           | (Inl e, s') \<Rightarrow> (let next_at = next_attempt_at now j in
               andThen (mark_dispatch_failed now i (error_message e) next_at)
                 (\<lambda>_. if next_at \<noteq> None then throw e else ret ()) s')))"

text \<open>One run of the worker on the waiting job number \<open>k\<close>: a job that throws waits for its next attempt.\<close>

definition dispatch_worker :: "ident \<Rightarrow> int \<Rightarrow> nat \<Rightarrow> ('ab, 'x) server_scheme \<Rightarrow> ('ab, 'x) server_scheme" where
  "dispatch_worker mail_id now k s = (if k < length (dispatch_queue s)
     then let j = dispatch_queue s ! k;
              rest = take k (dispatch_queue s) @ drop (Suc k) (dispatch_queue s);
              (r, s') = dispatch_process mail_id now j (s\<lparr>dispatch_queue := rest\<rparr>)
          in (case r of
            Inl _ \<Rightarrow> if dj_attemptsMade j + 1 < coalesce (dj_attempts j) 1
              then s'\<lparr>dispatch_queue := dispatch_queue s' @ [j\<lparr>dj_attemptsMade := dj_attemptsMade j + 1\<rparr>]\<rparr>
              else s'\<lparr>finished_jobs := take 100 (dj_notificationId j # finished_jobs s')\<rparr>
          | Inr _ \<Rightarrow> s'\<lparr>finished_jobs := take 100 (dj_notificationId j # finished_jobs s')\<rparr>)
     else s)"

section \<open>Handlers\<close>

record notification_dto =
  nd_id :: ident
  nd_userId :: ident
  nd_title :: string
  nd_content :: string
  nd_type :: notification_type
  nd_isRead :: bool
  nd_metadata :: "json option"
  nd_createdAt :: int

text \<open>The metadata leave as JSON text, here as the value it denotes.\<close>

definition notification_to_dto :: "notification \<Rightarrow> notification_dto" where
  "notification_to_dto n = \<lparr>nd_id = no_id n, nd_userId = no_userId n, nd_title = no_title n,
     nd_content = no_content n, nd_type = no_type n, nd_isRead = no_isRead n,
     nd_metadata = no_metadata n, nd_createdAt = no_createdAt n\<rparr>"

record create_notification_payload =
  cn_userId :: ident
  cn_title :: string
  cn_content :: string
  cn_type :: "notification_type option"
  cn_channels :: "notification_channel list option"
  cn_metadata :: "json option"

text \<open>\<open>[...new Set(xs)]\<close> keeps the first of equal elements.\<close>

fun js_unique :: "'a list \<Rightarrow> 'a list" where
  "js_unique [] = []"
| "js_unique (x # xs) = x # filter (\<lambda>y. y \<noteq> x) (js_unique xs)"

definition chosen_channels :: "notification_channel list option \<Rightarrow> notification_channel list" where
  "chosen_channels cs = (case cs of Some (c # rest) \<Rightarrow> js_unique (c # rest) | _ \<Rightarrow> [IN_APP, EMAIL])"

fun create_per_channel :: "(notification_channel \<Rightarrow> ident) \<Rightarrow> int \<Rightarrow> (notification_channel \<Rightarrow> bool)
    \<Rightarrow> create_notification_payload \<Rightarrow> notification_channel list \<Rightarrow> (('ab, 'x) server_scheme, exn, notification list) comp" where
  "create_per_channel ids now fails p [] = ret []"
| "create_per_channel ids now fails p (c # cs) =
     andThen (notification_create (ids c) now \<lparr>nn_userId = cn_userId p, nn_title = cn_title p,
       nn_content = cn_content p, nn_type = coalesce (cn_type p) N_Info, nn_channel = c,
       nn_status = (if c = IN_APP then D_Sent else D_Pending), nn_attempts = 0,
       nn_sentAt = (if c = IN_APP then Some now else None), nn_isRead = False, nn_metadata = cn_metadata p\<rparr>) (\<lambda>n.
     andThen (whenever (c \<noteq> IN_APP) (swallow (enqueue_dispatch (fails c) n))) (\<lambda>_.
     andThen (create_per_channel ids now fails p cs) (\<lambda>ns. ret (n # ns))))"

definition notification_create_handler :: "(notification_channel \<Rightarrow> ident) \<Rightarrow> int \<Rightarrow> (notification_channel \<Rightarrow> bool)
    \<Rightarrow> create_notification_payload \<Rightarrow> (('ab, 'x) server_scheme, exn, notification_dto) comp" where
  "notification_create_handler ids now fails p =
     andThen (user_get_by_id_handler (cn_userId p)) (\<lambda>_.
     andThen (create_per_channel ids now fails p (chosen_channels (cn_channels p))) (\<lambda>ns.
     ret (notification_to_dto (coalesce (List.find (\<lambda>n. no_channel n = IN_APP) ns) (hd ns)))))"

definition notification_delete_handler :: "int \<Rightarrow> ident \<Rightarrow> ident \<Rightarrow> (('ab, 'x) server_scheme, exn, bool) comp" where
  "notification_delete_handler now uid i = andThen (fetch (notification_find_own i uid)) (\<lambda>found. case found of
     None \<Rightarrow> throw (not_found ''notification.notFound'') | Some _ \<Rightarrow> notification_delete now i uid)"

definition notification_mark_read_handler :: "int \<Rightarrow> ident \<Rightarrow> ident \<Rightarrow> (('ab, 'x) server_scheme, exn, bool) comp" where
  "notification_mark_read_handler now uid i = andThen (fetch (notification_find_own i uid)) (\<lambda>found. case found of
     None \<Rightarrow> throw (not_found ''notification.notFound'') | Some _ \<Rightarrow> mark_as_read now i uid)"

definition notification_mark_all_read_handler :: "int \<Rightarrow> ident \<Rightarrow> (('ab, 'x) server_scheme, exn, nat) comp" where
  "notification_mark_all_read_handler now uid = mark_all_as_read now uid"

definition notification_unread_count_handler :: "ident \<Rightarrow> (('ab, 'x) server_scheme, exn, nat) comp" where
  "notification_unread_count_handler uid = fetch (unread_count uid)"

record notifications_options =
  go_isRead :: "bool option"
  go_page :: "int option"
  go_per_page :: "int option"

text \<open>The spread \<open>...toSqlPagination(page, perPage)\<close> gives the filter the properties \<open>limit\<close> and
  \<open>offset\<close>, which it does not have: its \<open>take\<close> and \<open>skip\<close> stay undefined.\<close>

definition notifications_get_handler :: "ident \<Rightarrow> notifications_options
    \<Rightarrow> (('ab, 'x) server_scheme, exn, notification_dto paginated \<times> nat) comp" where
  "notifications_get_handler uid opts = (let page = coalesce (go_page opts) 1; per_page = coalesce (go_per_page opts) 20 in
     andThen (fetch (notification_find_by_user uid \<lparr>fo_isRead = go_isRead opts, fo_channel = None,
       fo_take = None, fo_skip = None\<rparr>)) (\<lambda>l.
     ret (build_paginated (map notification_to_dto (nl_nodes l)) (int (nl_totalCount l)) page per_page, nl_unreadCount l)))"

definition user_created_notification_handler :: "(notification_channel \<Rightarrow> ident) \<Rightarrow> int \<Rightarrow> (notification_channel \<Rightarrow> bool)
    \<Rightarrow> ident \<Rightarrow> string \<Rightarrow> string option \<Rightarrow> (('ab, 'x) server_scheme, exn, unit) comp" where
  "user_created_notification_handler ids now fails uid name surname =
     (let full_name = (if truthy surname then name @ '' '' @ the surname else name) in
      andThen (notification_create_handler ids now fails \<lparr>cn_userId = uid, cn_title = ''Welcome!'',
        cn_content = ''Hello, '' @ full_name @ ''! Your account has been created.'', cn_type = Some N_Success,
        cn_channels = None, cn_metadata = Some (J_Obj [(''eventType'', J_Str ''user_created''),
          (''createdAt'', J_Str (to_iso_string now))])\<rparr>) (\<lambda>_. ret ()))"

section \<open>The controller\<close>

text \<open>The endpoints of \<open>NotificationController\<close> behind the two guards of the class.\<close>

datatype notification_request =
    List_Notifications notifications_options "notification_type option"
  | Unread_Count
  | Mark_Read ident
  | Mark_All_Read
  | Delete_Notification ident

datatype notification_reply =
    Page_Reply "notification_dto paginated" nat | Count_Reply nat | Flag_Reply bool

fun notification_policy :: "notification_request \<Rightarrow> perm_action \<times> subject_arg" where
  "notification_policy (List_Notifications _ _) = (Read, One_Subject S_Notification)"
| "notification_policy Unread_Count = (Read, One_Subject S_Notification)"
| "notification_policy (Mark_Read _) = (Update, One_Subject S_Notification)"
| "notification_policy Mark_All_Read = (Update, One_Subject S_Notification)"
| "notification_policy (Delete_Notification _) = (Delete, One_Subject S_Notification)"

text \<open>The \<open>type\<close> of the query is validated and not passed on.\<close>

fun notification_endpoint ::
    "int \<Rightarrow> ident \<Rightarrow> notification_request \<Rightarrow> (('ab, 'x) server_scheme, exn, notification_reply) comp" where
  "notification_endpoint now uid (List_Notifications opts type_filter) =
     andThen (notifications_get_handler uid opts) (\<lambda>p. ret (Page_Reply (fst p) (snd p)))"
| "notification_endpoint now uid Unread_Count =
     andThen (notification_unread_count_handler uid) (\<lambda>n. ret (Count_Reply n))"
| "notification_endpoint now uid (Mark_Read i) =
     andThen (notification_mark_read_handler now uid i) (\<lambda>b. ret (Flag_Reply b))"
| "notification_endpoint now uid Mark_All_Read =
     andThen (notification_mark_all_read_handler now uid) (\<lambda>n. ret (Count_Reply n))"
| "notification_endpoint now uid (Delete_Notification i) =
     andThen (notification_delete_handler now uid i) (\<lambda>b. ret (Flag_Reply b))"

definition notification_controller :: "'ab http_guards \<Rightarrow> int \<Rightarrow> http_request \<Rightarrow> notification_request
    \<Rightarrow> (('ab, 'x) server_scheme, exn, notification_reply) comp" where
  "notification_controller G now req q = with_guards G now (Some (notification_policy q)) req
     (\<lambda>v. notification_endpoint now (vj_userId v) q)"

section \<open>Template seeding and the boot\<close>

definition all_notification_templates :: "notification_template_type list" where
  "all_notification_templates = [NT_Welcome, NT_Password_Changed, NT_Profile_Updated, NT_System_Maintenance,
     NT_System, NT_Feature_Announcement, NT_New_Login, NT_Security_Alert]"

fun template_defaults :: "notification_template_type \<Rightarrow> string \<times> string" where
  "template_defaults NT_Welcome = (''Welcome to the platform!'', ''Hello {userName}! Welcome to our platform.'')"
| "template_defaults NT_Password_Changed = (''Your password has been changed'',
     ''Hello {userName}, your password was successfully changed on {date}.'')"
| "template_defaults NT_Profile_Updated = (''Profile updated successfully'',
     ''Hello {userName}, your profile information has been updated successfully.'')"
| "template_defaults NT_System_Maintenance = (''Scheduled system maintenance'',
     ''Scheduled maintenance on {date}. Expected downtime: {duration}.'')"
| "template_defaults NT_System = (''System notification'', ''{content}'')"
| "template_defaults NT_Feature_Announcement = (''New feature available: {featureName}'', ''{description}'')"
| "template_defaults NT_New_Login = (''New login to your account'',
     ''New login detected on {date} from {location}. Device: {device}.'')"
| "template_defaults NT_Security_Alert = (''Security alert'', ''{details}'')"

fun seed_notification_list :: "(notification_template_type \<Rightarrow> ident) \<Rightarrow> int \<Rightarrow> notification_template_type list
    \<Rightarrow> (('ab, 'x) server_scheme, exn, unit) comp" where
  "seed_notification_list ids now [] = ret ()"
| "seed_notification_list ids now (t # ts) =
     andThen (fetch (\<lambda>s. some_row (\<lambda>r. nt_name r = t) (notification_templates s))) (\<lambda>existing.
     andThen (whenever (\<not> existing) (modify (\<lambda>s. s\<lparr>notification_templates := notification_templates s @
       [\<lparr>nt_id = ids t, nt_createdAt = now, nt_deletedAt = None, nt_name = t, nt_subject = fst (template_defaults t),
         nt_content = snd (template_defaults t), nt_isActive = Some True\<rparr>]\<rparr>))) (\<lambda>_.
     seed_notification_list ids now ts))"

definition notification_template_seed ::
    "(notification_template_type \<Rightarrow> ident) \<Rightarrow> int \<Rightarrow> (('ab, 'x) server_scheme, exn, unit) comp" where
  "notification_template_seed ids now = seed_notification_list ids now all_notification_templates"

definition notification_template_clear :: "(('ab, 'x) server_scheme, exn, unit) comp" where
  "notification_template_clear = modify (\<lambda>s. s\<lparr>notification_templates := []\<rparr>)"

record boot_ids =
  bi_users :: boot_supply
  bi_notification :: "notification_template_type \<Rightarrow> ident"
  bi_mail :: "mail_template_type \<Rightarrow> ident"

definition migrate_and_seed :: "'ab casl \<Rightarrow> crypto \<Rightarrow> (string \<Rightarrow> bool) \<Rightarrow> admin_config \<Rightarrow> boot_ids \<Rightarrow> int
    \<Rightarrow> (('ab, 'x) server_scheme, exn, unit) comp" where
  "migrate_and_seed L C strong cfg ids now =
     andThen (user_seed_if_empty C strong cfg (bi_users ids) now) (\<lambda>_.
     andThen (refresh_all_abilities L False) (\<lambda>_.
     notification_template_seed (bi_notification ids) now))"

definition migration_on_module_init :: "'ab casl \<Rightarrow> crypto \<Rightarrow> (string \<Rightarrow> bool) \<Rightarrow> admin_config \<Rightarrow> boot_ids \<Rightarrow> int
    \<Rightarrow> (('ab, 'x) server_scheme, exn, unit) comp" where
  "migration_on_module_init L C strong cfg ids now =
     andThen (migrate_and_seed L C strong cfg ids now) (\<lambda>_. template_seed (bi_mail ids) now)"

end
