(* ===== verification/Notification_Properties.thy ===== *)
theory Notification_Properties
  imports Notification Policy_Properties
begin

text \<open>
  The delivery of notifications: the state machine of the table and the queue under every order of
  creations, worker runs, cron runs, reads and deletions, and under every change of the rest of the
  database; what one run of the worker does; what the cron job repairs; the page that the list
  endpoint does not read.
\<close>

section \<open>The invariant\<close>

definition jobs_of :: "ident \<Rightarrow> ('ab, 'x) server_scheme \<Rightarrow> dispatch_job list" where
  "jobs_of i s = filter (\<lambda>j. dj_notificationId j = i) (dispatch_queue s)"

definition pending_ok :: "notification_row \<Rightarrow> dispatch_job list \<Rightarrow> bool" where
  "pending_ok r js = (nf_channel r \<noteq> IN_APP \<and> nf_attempts r < 5 \<and> (case js of
     [] \<Rightarrow> nf_attempts r = 0
   | [j] \<Rightarrow> dj_attemptsMade j = nf_attempts r \<and> dj_attempts j = Some 5 \<and> dj_channel j = nf_channel r
        \<and> dj_userId j = nf_userId r \<and> dj_title j = nf_title r \<and> dj_content j = nf_content r
   | _ \<Rightarrow> False))"

definition row_ok :: "('ab, 'x) server_scheme \<Rightarrow> notification_row \<Rightarrow> bool" where
  "row_ok s r = (0 \<le> nf_attempts r \<and> nf_attempts r \<le> 5 \<and> (nf_channel r = IN_APP \<longrightarrow> nf_status r = D_Sent)
     \<and> (nf_status r = D_Pending \<longrightarrow> nf_id r \<notin> set (finished_jobs s) \<and> pending_ok r (jobs_of (nf_id r) s)))"

definition notify_inv :: "('ab, 'x) server_scheme \<Rightarrow> bool" where
  "notify_inv s = (distinct (map nf_id (notifications s)) \<and> distinct (map dj_notificationId (dispatch_queue s))
     \<and> dj_notificationId ` set (dispatch_queue s) \<subseteq> nf_id ` set (notifications s)
     \<and> set (finished_jobs s) \<subseteq> nf_id ` set (notifications s)
     \<and> (\<forall>r\<in>set (notifications s). nf_deletedAt r = None \<longrightarrow> row_ok s r)
     \<and> (\<forall>j\<in>set (dispatch_queue s). dj_attempts j = Some 5 \<and> 0 \<le> dj_attemptsMade j))"

lemma notify_invD:
  assumes "notify_inv s"
  shows "distinct (map nf_id (notifications s))" "distinct (map dj_notificationId (dispatch_queue s))"
    "dj_notificationId ` set (dispatch_queue s) \<subseteq> nf_id ` set (notifications s)"
    "set (finished_jobs s) \<subseteq> nf_id ` set (notifications s)"
    "\<And>r. r \<in> set (notifications s) \<Longrightarrow> nf_deletedAt r = None \<Longrightarrow> row_ok s r"
    "\<And>j. j \<in> set (dispatch_queue s) \<Longrightarrow> dj_attempts j = Some 5 \<and> 0 \<le> dj_attemptsMade j"
  using assms by (simp_all add: notify_inv_def)

definition same_notifications :: "('ab, 'x) server_scheme \<Rightarrow> ('ab, 'x) server_scheme \<Rightarrow> bool" where
  "same_notifications s s' = (notifications s' = notifications s \<and> dispatch_queue s' = dispatch_queue s
     \<and> finished_jobs s' = finished_jobs s)"

lemma same_inv: "same_notifications s s' \<Longrightarrow> notify_inv s' = notify_inv s"
  by (simp add: same_notifications_def notify_inv_def row_ok_def jobs_of_def)

lemma filter_unique_key:
  "distinct (map f qs) \<Longrightarrow> j \<in> set qs \<Longrightarrow> filter (\<lambda>k. f k = f j) qs = [j]"
proof (induction qs)
  case (Cons x xs)
  show ?case
  proof (cases "x = j")
    case True
    with Cons.prems(1) have "filter (\<lambda>k. f k = f j) xs = []"
      unfolding filter_empty_conv by (metis distinct.simps(2) image_eqI list.set_map list.simps(9))
    with True show ?thesis by simp
  next
    case False
    with Cons show ?thesis by auto
  qed
qed simp

lemma jobs_of_unique:
  "distinct (map dj_notificationId (dispatch_queue s)) \<Longrightarrow> j \<in> set (dispatch_queue s)
   \<Longrightarrow> jobs_of (dj_notificationId j) s = [j]"
  unfolding jobs_of_def by (rule filter_unique_key)

lemma jobs_of_none: "jobs_of i s = [] \<longleftrightarrow> i \<notin> dj_notificationId ` set (dispatch_queue s)"
  by (auto simp: jobs_of_def filter_empty_conv)

section \<open>Changing rows\<close>

text \<open>An update that keeps the identity of the rows and their delivery state.\<close>

lemma inv_touch_rows:
  assumes "notify_inv s" "notifications s' = update_rows P f (notifications s)"
    and "dispatch_queue s' = dispatch_queue s" "finished_jobs s' = finished_jobs s"
    and "\<And>r. nf_id (f r) = nf_id r" "\<And>r. nf_deletedAt (f r) = None \<Longrightarrow> nf_deletedAt r = None"
    and "\<And>r. nf_attempts (f r) = nf_attempts r" "\<And>r. nf_channel (f r) = nf_channel r"
    and "\<And>r. nf_status (f r) = nf_status r" "\<And>r. nf_userId (f r) = nf_userId r"
    and "\<And>r. nf_title (f r) = nf_title r" "\<And>r. nf_content (f r) = nf_content r"
  shows "notify_inv s'"
proof -
  note inv = notify_invD [OF assms(1)]
  have ids: "map nf_id (notifications s') = map nf_id (notifications s)"
    unfolding assms(2) by (rule map_update_rows) (simp add: assms(5))
  then have img: "nf_id ` set (notifications s') = nf_id ` set (notifications s)" by (metis list.set_map)
  have jobs: "jobs_of i s' = jobs_of i s" for i by (simp add: jobs_of_def assms(3))
  have pend: "pending_ok (f r) js = pending_ok r js" for r js
    by (simp add: pending_ok_def assms(7,8,10-12) cong: list.case_cong)
  have ok: "row_ok s' (f r) = row_ok s r" "row_ok s' r = row_ok s r" for r
    by (simp_all add: row_ok_def pend jobs assms(4,5,7-9))
  have "row_ok s' r" if r: "r \<in> set (notifications s')" "nf_deletedAt r = None" for r
  proof -
    from r(1) obtain r0 where r0: "r0 \<in> set (notifications s)" "r = (if P r0 then f r0 else r0)"
      unfolding assms(2) by (rule in_update_rowsE)
    have "nf_deletedAt r0 = None" using r0(2) r(2) assms(6) by (cases "P r0") simp_all
    with inv(5) [OF r0(1)] r0(2) ok show ?thesis by (cases "P r0") simp_all
  qed
  with inv ids img show ?thesis by (simp add: notify_inv_def assms(3,4))
qed

section \<open>Creating\<close>

lemma row_of_simps [simp]:
  "nf_id (notification_row_of i now n) = i" "nf_deletedAt (notification_row_of i now n) = None"
  "nf_attempts (notification_row_of i now n) = nn_attempts n" "nf_channel (notification_row_of i now n) = nn_channel n"
  "nf_status (notification_row_of i now n) = nn_status n" "nf_userId (notification_row_of i now n) = nn_userId n"
  "nf_title (notification_row_of i now n) = nn_title n" "nf_content (notification_row_of i now n) = nn_content n"
  by (simp_all add: notification_row_of_def)

lemma to_notification_simps [simp]:
  "no_id (to_notification r) = nf_id r" "no_userId (to_notification r) = nf_userId r"
  "no_title (to_notification r) = nf_title r" "no_content (to_notification r) = nf_content r"
  "no_channel (to_notification r) = nf_channel r" "no_status (to_notification r) = nf_status r"
  "no_attempts (to_notification r) = nf_attempts r"
  by (simp_all add: to_notification_def)

lemma inv_create_row:
  assumes "notify_inv s" "notifications s' = notifications s @ [r]" "dispatch_queue s' = dispatch_queue s"
    and "finished_jobs s' = finished_jobs s" "\<not> some_row (\<lambda>x. nf_id x = nf_id r) (notifications s)"
    and "nf_attempts r = 0" "nf_status r = (if nf_channel r = IN_APP then D_Sent else D_Pending)"
  shows "notify_inv s'"
proof -
  note inv = notify_invD [OF assms(1)]
  have fresh: "nf_id r \<notin> nf_id ` set (notifications s)" using assms(5) by (auto simp: some_row_iff)
  then have "jobs_of (nf_id r) s' = []" unfolding jobs_of_none assms(3) using inv(3) by blast
  moreover have "nf_id r \<notin> set (finished_jobs s')" unfolding assms(4) using fresh inv(4) by blast
  ultimately have "row_ok s' r" using assms(6,7) by (simp add: row_ok_def pending_ok_def)
  moreover have "row_ok s' x = row_ok s x" for x by (simp add: row_ok_def jobs_of_def assms(3,4))
  ultimately show ?thesis using inv fresh assms(2-4) by (auto simp: notify_inv_def)
qed

lemma inv_enqueue:
  assumes "notify_inv s" "r \<in> set (notifications s)" "nf_channel r \<noteq> IN_APP"
    and "nf_status r = D_Pending" "nf_deletedAt r = None"
  shows "notify_inv (snd (enqueue_dispatch fails (to_notification r) s))
    \<and> notifications (snd (enqueue_dispatch fails (to_notification r) s)) = notifications s
    \<and> (\<not> fails \<longrightarrow> jobs_of (nf_id r) (snd (enqueue_dispatch fails (to_notification r) s)) \<noteq> [])"
proof (cases "fails \<or> nf_id r \<in> dj_notificationId ` set (dispatch_queue s)")
  case True
  note inv = notify_invD [OF assms(1)]
  have "nf_id r \<notin> set (finished_jobs s)" using inv(5) [OF assms(2,5)] assms(4) by (simp add: row_ok_def)
  with True assms(1) show ?thesis by (auto simp: enqueue_dispatch_def jobs_of_none)
next
  case False
  note inv = notify_invD [OF assms(1)]
  have r: "nf_id r \<notin> set (finished_jobs s)" "pending_ok r (jobs_of (nf_id r) s)"
    using inv(5) [OF assms(2,5)] assms(4) by (simp_all add: row_ok_def)
  have none: "jobs_of (nf_id r) s = []" using False by (simp add: jobs_of_none)
  then have zero: "nf_attempts r = 0" using r(2) by (simp add: pending_ok_def)
  let ?j = "\<lparr>dj_notificationId = nf_id r, dj_userId = nf_userId r,
        dj_title = nf_title r, dj_content = nf_content r, dj_type = no_type (to_notification r), dj_channel = nf_channel r,
        dj_metadata = no_metadata (to_notification r), dj_attempts = Some 5, dj_attemptsMade = 0\<rparr>"
  let ?s = "s\<lparr>dispatch_queue := dispatch_queue s @ [?j]\<rparr>"
  have run: "snd (enqueue_dispatch fails (to_notification r) s) = ?s"
    using False r(1) by (simp add: enqueue_dispatch_def)
  have jobs: "jobs_of i ?s = (if i = nf_id r then [?j] else jobs_of i s)" for i
    using none by (auto simp: jobs_of_def)
  have "row_ok ?s x" if x: "x \<in> set (notifications s)" "nf_deletedAt x = None" for x
  proof (cases "nf_id x = nf_id r")
    case True
    then have "x = r" using unique_key_eq [OF inv(1) x(1) assms(2)] by simp
    with zero r(1) assms(3,4) show ?thesis by (simp add: row_ok_def pending_ok_def jobs)
  next
    case False
    with inv(5) [OF x] show ?thesis by (simp add: row_ok_def jobs)
  qed
  then have "notify_inv ?s" using inv False assms(2) by (auto simp: notify_inv_def)
  moreover have "jobs_of (nf_id r) ?s \<noteq> []" using jobs [of "nf_id r"] by simp
  moreover have "notifications ?s = notifications s" by simp
  ultimately show ?thesis unfolding run by blast
qed

lemma create_per_channel_inv:
  fixes s :: "('ab, 'x) server_scheme"
  shows "notify_inv s \<Longrightarrow> notify_inv (snd (create_per_channel ids now fails p cs s))"
proof (induction cs arbitrary: s)
  case (Cons c cs)
  let ?n = "\<lparr>nn_userId = cn_userId p, nn_title = cn_title p,
       nn_content = cn_content p, nn_type = coalesce (cn_type p) N_Info, nn_channel = c,
       nn_status = (if c = IN_APP then D_Sent else D_Pending), nn_attempts = 0,
       nn_sentAt = (if c = IN_APP then Some now else None), nn_isRead = False, nn_metadata = cn_metadata p\<rparr>"
  let ?r = "notification_row_of (ids c) now ?n"
  show ?case
  proof (cases "some_row (\<lambda>r. nf_id r = ids c) (notifications s)")
    case True
    with Cons.prems show ?thesis by (simp add: notification_create_def andThen_def Let_def)
  next
    case False
    let ?s1 = "s\<lparr>notifications := notifications s @ [?r]\<rparr>"
    let ?s2 = "if c = IN_APP then ?s1 else snd (enqueue_dispatch (fails c) (to_notification ?r) ?s1)"
    have i1: "notify_inv ?s1"
      by (rule inv_create_row [OF Cons.prems, of _ ?r]) (use False in simp_all)
    have i2: "notify_inv ?s2"
      using inv_enqueue [OF i1, of ?r "fails c"] i1 by (cases "c = IN_APP") simp_all
    have "snd (create_per_channel ids now fails p (c # cs) s) = snd (create_per_channel ids now fails p cs ?s2)"
      using False by (cases "c = IN_APP")
        (simp_all add: notification_create_def andThen_def Let_def whenever_def split_beta split: sum.split)
    with Cons.IH [OF i2] show ?thesis by simp
  qed
qed simp

lemma create_handler_inv:
  "notify_inv s \<Longrightarrow> notify_inv (snd (notification_create_handler ids now fails p s))"
  using create_per_channel_inv [of s ids now fails p "chosen_channels (cn_channels p)"]
  by (auto simp: notification_create_handler_def andThen_def user_get_by_id_handler_def or_not_found_def
      split: option.split sum.split prod.split)

section \<open>The cron job\<close>

lemma enqueue_all_inv:
  fixes s :: "('ab, 'x) server_scheme"
  assumes "notify_inv s" "\<forall>r\<in>set rs. r \<in> set (notifications s) \<and> nf_status r = D_Pending \<and> nf_deletedAt r = None"
  shows "notify_inv (snd (enqueue_all (map to_notification rs) s))
    \<and> notifications (snd (enqueue_all (map to_notification rs) s)) = notifications s
    \<and> (\<forall>r\<in>set rs. jobs_of (nf_id r) (snd (enqueue_all (map to_notification rs) s)) \<noteq> [])
    \<and> (\<forall>i. jobs_of i s \<noteq> [] \<longrightarrow> jobs_of i (snd (enqueue_all (map to_notification rs) s)) \<noteq> [])"
  using assms
proof (induction rs arbitrary: s)
  case (Cons r rs)
  let ?s1 = "snd (enqueue_dispatch False (to_notification r) s)"
  have r: "r \<in> set (notifications s)" "nf_status r = D_Pending" "nf_deletedAt r = None" using Cons.prems(2) by simp_all
  have ch: "nf_channel r \<noteq> IN_APP"
    using notify_invD(5) [OF Cons.prems(1) r(1,3)] r(2) by (auto simp: row_ok_def)
  have step: "notify_inv ?s1" "notifications ?s1 = notifications s" "jobs_of (nf_id r) ?s1 \<noteq> []"
    using inv_enqueue [OF Cons.prems(1) r(1) ch r(2,3), of False] by simp_all
  have mono: "jobs_of i s \<noteq> [] \<Longrightarrow> jobs_of i ?s1 \<noteq> []" for i
    by (auto simp: enqueue_dispatch_def jobs_of_def)
  have run: "snd (enqueue_all (map to_notification (r # rs)) s) = snd (enqueue_all (map to_notification rs) ?s1)"
    by (simp add: andThen_def enqueue_dispatch_def)
  have "\<forall>x\<in>set rs. x \<in> set (notifications ?s1) \<and> nf_status x = D_Pending \<and> nf_deletedAt x = None"
    using Cons.prems(2) step(2) by simp
  from Cons.IH [OF step(1) this] step mono show ?case unfolding run by auto
qed simp

definition due_rows :: "int \<Rightarrow> ('ab, 'x) server_scheme \<Rightarrow> notification_row list" where
  "due_rows now s = take DISPATCH_BATCH_LIMIT (sort_key nf_createdAt (filter (due now) (notifications s)))"

lemma due_rows_in:
  "r \<in> set (due_rows now s) \<Longrightarrow> r \<in> set (notifications s) \<and> nf_status r = D_Pending \<and> nf_deletedAt r = None"
  unfolding due_rows_def by (drule in_set_takeD) (simp add: due_def)

lemma dispatch_pending_run:
  "snd (dispatch_pending now s) = snd (enqueue_all (map to_notification (due_rows now s)) s)"
  by (simp add: dispatch_pending_def notification_find_pending_def due_rows_def)

lemma dispatch_pending_inv: "notify_inv s \<Longrightarrow> notify_inv (snd (dispatch_pending now s))"
  unfolding dispatch_pending_run by (rule conjunct1 [OF enqueue_all_inv]) (auto dest: due_rows_in)

section \<open>The worker\<close>

lemma dispatch_email_frame:
  "notifications (snd (dispatch_email m now j s)) = notifications s"
  "dispatch_queue (snd (dispatch_email m now j s)) = dispatch_queue s"
  "finished_jobs (snd (dispatch_email m now j s)) = finished_jobs s"
  by (auto simp: dispatch_email_def send_mail_handler_def mail_repo_create_def add_to_queue_def andThen_def
      Let_def split: option.split)

definition pending_target :: "dispatch_job \<Rightarrow> ('ab, 'x) server_scheme \<Rightarrow> bool" where
  "pending_target j s = (\<exists>r. find_row (live_notification (dj_notificationId j)) (notifications s) = Some r
     \<and> nf_status r = D_Pending)"

text \<open>One run of the processor changes at most the row of its job: to sent, to failed, or to a failed
  attempt; only the last makes it throw, and then the job has attempts left.\<close>

definition processed :: "int \<Rightarrow> dispatch_job \<Rightarrow> ('ab, 'x) server_scheme \<Rightarrow> (exn + unit) \<times> ('ab, 'x) server_scheme \<Rightarrow> bool" where
  "processed now j s out = (dispatch_queue (snd out) = dispatch_queue s \<and> finished_jobs (snd out) = finished_jobs s
     \<and> (if pending_target j s
        then \<exists>g. notifications (snd out) = update_rows (live_notification (dj_notificationId j)) g (notifications s)
          \<and> (g = sent_row now \<and> \<not> isl (fst out)
             \<or> (\<exists>msg nxt. g = failed_row now msg nxt \<and> (isl (fst out) \<longleftrightarrow> nxt \<noteq> None)
                 \<and> (nxt \<noteq> None \<longrightarrow> nxt = next_attempt_at now j)))
        else notifications (snd out) = notifications s \<and> \<not> isl (fst out)))"

lemma dispatch_process_processed: "processed now j s (dispatch_process m now j s)"
proof (cases "pending_target j s")
  case False
  then have "dispatch_process m now j s = (Inr (), s)"
    by (auto simp: pending_target_def dispatch_process_def notification_find_by_id_def Let_def split: option.split)
  with False show ?thesis by (simp add: processed_def)
next
  case pending: True
  then obtain n where n: "notification_find_by_id (dj_notificationId j) s = Some n" "no_status n = D_Pending"
    by (auto simp: pending_target_def notification_find_by_id_def)
  show ?thesis
  proof (cases "dj_channel j = EMAIL")
    case False
    then show ?thesis using n pending
      by (auto simp: processed_def dispatch_process_def Let_def andThen_def mark_dispatch_sent_def mark_dispatch_failed_def)
  next
    case True
    obtain r s1 where e: "dispatch_email m now j s = (r, s1)" by fastforce
    have f: "notifications s1 = notifications s" "dispatch_queue s1 = dispatch_queue s" "finished_jobs s1 = finished_jobs s"
      using dispatch_email_frame [of m now j s] by (simp_all add: e)
    show ?thesis
    proof (cases r)
      case (Inr u)
      then have "dispatch_process m now j s = (Inr (), snd (mark_dispatch_sent now (dj_notificationId j) s1))"
        using n True e by (simp add: dispatch_process_def Let_def mark_dispatch_sent_def)
      with pending f show ?thesis by (auto simp: processed_def mark_dispatch_sent_def)
    next
      case (Inl x)
      let ?nxt = "next_attempt_at now j"
      have "dispatch_process m now j s = (if ?nxt \<noteq> None then Inl x else Inr (),
          snd (mark_dispatch_failed now (dj_notificationId j) (error_message x) ?nxt s1))"
        using n True e Inl by (simp add: dispatch_process_def Let_def mark_dispatch_failed_def)
      with pending f show ?thesis by (auto simp: processed_def mark_dispatch_failed_def)
    qed
  qed
qed

lemma jobs_of_removed:
  assumes "distinct (map dj_notificationId (dispatch_queue s))" "k < length (dispatch_queue s)"
    and "dispatch_queue s' = take k (dispatch_queue s) @ drop (Suc k) (dispatch_queue s)"
  shows "jobs_of i s' = (if i = dj_notificationId (dispatch_queue s ! k) then [] else jobs_of i s)"
proof -
  let ?j = "dispatch_queue s ! k"
  have q: "dispatch_queue s = take k (dispatch_queue s) @ ?j # drop (Suc k) (dispatch_queue s)"
    using assms(2) by (rule id_take_nth_drop)
  have s: "jobs_of i s = filter (\<lambda>j. dj_notificationId j = i) (take k (dispatch_queue s))
      @ (if dj_notificationId ?j = i then [?j] else []) @ filter (\<lambda>j. dj_notificationId j = i) (drop (Suc k) (dispatch_queue s))"
    unfolding jobs_of_def by (subst q) simp
  have s': "jobs_of i s' = filter (\<lambda>j. dj_notificationId j = i) (take k (dispatch_queue s))
      @ filter (\<lambda>j. dj_notificationId j = i) (drop (Suc k) (dispatch_queue s))"
    by (simp add: jobs_of_def assms(3))
  have "jobs_of i s = [?j]" if "i = dj_notificationId ?j"
    unfolding that by (rule jobs_of_unique [OF assms(1)]) (use assms(2) in simp)
  with s s' show ?thesis by (cases "i = dj_notificationId ?j") (auto simp: append_eq_Cons_conv Cons_eq_append_conv)
qed

definition without_job :: "nat \<Rightarrow> ('ab, 'x) server_scheme \<Rightarrow> ('ab, 'x) server_scheme" where
  "without_job k s = s\<lparr>dispatch_queue := take k (dispatch_queue s) @ drop (Suc k) (dispatch_queue s)\<rparr>"

lemma worker_run:
  assumes "k < length (dispatch_queue s)"
  shows "dispatch_worker m now k s = (let j = dispatch_queue s ! k; out = dispatch_process m now j (without_job k s) in
     if isl (fst out) \<and> dj_attemptsMade j + 1 < coalesce (dj_attempts j) 1
     then (snd out)\<lparr>dispatch_queue := dispatch_queue (snd out) @ [j\<lparr>dj_attemptsMade := dj_attemptsMade j + 1\<rparr>]\<rparr>
     else (snd out)\<lparr>finished_jobs := take 100 (dj_notificationId j # finished_jobs (snd out))\<rparr>)"
  using assms by (auto simp: dispatch_worker_def without_job_def Let_def split: prod.split sum.split)

lemma row_updates_simps [simp]:
  "nf_id (sent_row now r) = nf_id r" "nf_deletedAt (sent_row now r) = nf_deletedAt r"
  "nf_attempts (sent_row now r) = nf_attempts r" "nf_channel (sent_row now r) = nf_channel r"
  "nf_status (sent_row now r) = D_Sent"
  "nf_id (failed_row now msg nxt r) = nf_id r" "nf_deletedAt (failed_row now msg nxt r) = nf_deletedAt r"
  "nf_attempts (failed_row now msg nxt r) = nf_attempts r + 1" "nf_channel (failed_row now msg nxt r) = nf_channel r"
  "nf_status (failed_row now msg nxt r) = (if nxt \<noteq> None then D_Pending else D_Failed)"
  "nf_userId (failed_row now msg nxt r) = nf_userId r" "nf_title (failed_row now msg nxt r) = nf_title r"
  "nf_content (failed_row now msg nxt r) = nf_content r"
  by (simp_all add: sent_row_def failed_row_def)

text \<open>The rows after a run of the worker, seen from the row of one job.\<close>

lemma worker_rows:
  assumes "distinct (map nf_id (notifications s))" "processed now j s out" "x' \<in> set (notifications (snd out))" "nf_deletedAt x' = None"
  shows "nf_id x' \<noteq> dj_notificationId j \<and> x' \<in> set (notifications s)
    \<or> nf_id x' = dj_notificationId j \<and> (\<exists>x\<in>set (notifications s). nf_id x = nf_id x' \<and> nf_deletedAt x = None \<and>
        (if nf_status x \<noteq> D_Pending then x' = x
         else x' = sent_row now x \<and> \<not> isl (fst out)
           \<or> (\<exists>msg nxt. x' = failed_row now msg nxt x \<and> (isl (fst out) \<longleftrightarrow> nxt \<noteq> None)
               \<and> (nxt \<noteq> None \<longrightarrow> nxt = next_attempt_at now j))))"
proof -
  let ?i = "dj_notificationId j"
  have find: "find_row (live_notification ?i) (notifications s) = Some x"
    if x: "x \<in> set (notifications s)" "nf_id x = ?i" "nf_deletedAt x = None" for x
  proof -
    obtain y where y: "find_row (live_notification ?i) (notifications s) = Some y"
      using x find_row_None [of "live_notification ?i" "notifications s"]
      by (cases "find_row (live_notification ?i) (notifications s)") (auto simp: live_notification_def)
    then have "y \<in> set (notifications s)" "nf_id y = nf_id x" using find_row_SomeD [OF y] x(2) by (simp_all add: live_notification_def)
    with y unique_key_eq [OF assms(1)] x(1) show ?thesis by metis
  qed
  show ?thesis
  proof (cases "pending_target j s")
    case False
    then have same: "x' \<in> set (notifications s)" using assms(2,3) by (simp add: processed_def)
    show ?thesis
    proof (cases "nf_id x' = ?i")
      case True
      with False find [OF same True assms(4)] have "nf_status x' \<noteq> D_Pending" by (auto simp: pending_target_def)
      with True same assms(4) show ?thesis by (intro disjI2 conjI bexI [of _ x']) simp_all
    qed (use same in simp)
  next
    case True
    then obtain r where r: "find_row (live_notification ?i) (notifications s) = Some r" "nf_status r = D_Pending"
      by (auto simp: pending_target_def)
    from assms(2) True obtain g where g: "notifications (snd out) = update_rows (live_notification ?i) g (notifications s)"
      "g = sent_row now \<and> \<not> isl (fst out) \<or> (\<exists>msg nxt. g = failed_row now msg nxt
         \<and> (isl (fst out) \<longleftrightarrow> nxt \<noteq> None) \<and> (nxt \<noteq> None \<longrightarrow> nxt = next_attempt_at now j))"
      unfolding processed_def by auto
    from assms(3) obtain x where x: "x \<in> set (notifications s)" "x' = (if live_notification ?i x then g x else x)"
      unfolding g(1) by (rule in_update_rowsE)
    show ?thesis
    proof (cases "live_notification ?i x")
      case False
      with x assms(4) show ?thesis by (auto simp: live_notification_def)
    next
      case True
      then have idx: "nf_id x = ?i" "nf_deletedAt x = None" by (simp_all add: live_notification_def)
      from find [OF x(1) idx] r have "nf_status x = D_Pending" by simp
      moreover have "x' = g x" using x(2) True by simp
      moreover have "nf_id (g x) = nf_id x" using g(2) by auto
      ultimately show ?thesis using g(2) idx x(1) by (intro disjI2 conjI bexI [of _ x]) auto
    qed
  qed
qed

lemma worker_rowsE:
  assumes "distinct (map nf_id (notifications s))" "processed now j s out" "x' \<in> set (notifications (snd out))"
    and "nf_deletedAt x' = None"
  obtains (other) "nf_id x' \<noteq> dj_notificationId j" "x' \<in> set (notifications s)"
    | (settled) "x' \<in> set (notifications s)" "nf_status x' \<noteq> D_Pending"
    | (sent) x where "x \<in> set (notifications s)" "nf_deletedAt x = None" "x' = sent_row now x"
    | (failed) x msg nxt where "x \<in> set (notifications s)" "nf_id x = dj_notificationId j" "nf_deletedAt x = None"
        "nf_status x = D_Pending" "x' = failed_row now msg nxt x" "isl (fst out) \<longleftrightarrow> nxt \<noteq> None"
        "nxt \<noteq> None \<longrightarrow> nxt = next_attempt_at now j"
  using worker_rows [OF assms]
proof (elim disjE conjE bexE)
  fix x
  assume x: "nf_id x' = dj_notificationId j" "x \<in> set (notifications s)" "nf_id x = nf_id x'" "nf_deletedAt x = None"
    and e: "if nf_status x \<noteq> D_Pending then x' = x
         else x' = sent_row now x \<and> \<not> isl (fst out)
           \<or> (\<exists>msg nxt. x' = failed_row now msg nxt x \<and> (isl (fst out) \<longleftrightarrow> nxt \<noteq> None)
               \<and> (nxt \<noteq> None \<longrightarrow> nxt = next_attempt_at now j))"
  have idx: "nf_id x = dj_notificationId j" using x(1,3) by (rule trans [rotated])
  show thesis
  proof (cases "nf_status x = D_Pending")
    case False
    then have "x' = x" using e by (simp only: simp_thms if_True)
    then show ?thesis using False x(2) by (intro settled) simp_all
  next
    case True
    then have "x' = sent_row now x \<and> \<not> isl (fst out) \<or> (\<exists>msg nxt. x' = failed_row now msg nxt x
        \<and> (isl (fst out) \<longleftrightarrow> nxt \<noteq> None) \<and> (nxt \<noteq> None \<longrightarrow> nxt = next_attempt_at now j))"
      using e by (simp only: simp_thms if_False)
    then show ?thesis
      by (elim disjE conjE exE) (rule sent [OF x(2,4)], assumption, rule failed [OF x(2) idx x(4) True], assumption+)
  qed
qed (rule other)

lemma without_job_simps [simp]:
  "notifications (without_job k s) = notifications s" "finished_jobs (without_job k s) = finished_jobs s"
  "dispatch_queue (without_job k s) = take k (dispatch_queue s) @ drop (Suc k) (dispatch_queue s)"
  by (simp_all add: without_job_def)

lemma next_attempt_left: "next_attempt_at now j \<noteq> None \<Longrightarrow> dj_attemptsMade j + 1 < coalesce (dj_attempts j) 1"
  by (auto simp: next_attempt_at_def Let_def split: if_splits)

text \<open>The state after a run of the worker on the job number \<open>k\<close>, by what the processor returned.\<close>

definition next_job :: "dispatch_job \<Rightarrow> dispatch_job" where
  "next_job j = j\<lparr>dj_attemptsMade := dj_attemptsMade j + 1\<rparr>"

lemma next_job_simps [simp]:
  "dj_notificationId (next_job j) = dj_notificationId j" "dj_attempts (next_job j) = dj_attempts j"
  "dj_attemptsMade (next_job j) = dj_attemptsMade j + 1" "dj_channel (next_job j) = dj_channel j"
  "dj_userId (next_job j) = dj_userId j" "dj_title (next_job j) = dj_title j" "dj_content (next_job j) = dj_content j"
  by (simp_all add: next_job_def)

definition requeued :: "dispatch_job \<Rightarrow> (exn + unit) \<times> ('ab, 'x) server_scheme \<Rightarrow> bool" where
  "requeued j out = (isl (fst out) \<and> dj_attemptsMade j + 1 < coalesce (dj_attempts j) 1)"

lemma worker_outE:
  assumes "distinct (map dj_notificationId (dispatch_queue s))" "k < length (dispatch_queue s)"
  obtains out where "processed now (dispatch_queue s ! k) (without_job k s) out"
    "notifications (dispatch_worker m now k s) = notifications (snd out)"
    "dispatch_queue (dispatch_worker m now k s) = take k (dispatch_queue s) @ drop (Suc k) (dispatch_queue s)
       @ (if requeued (dispatch_queue s ! k) out then [next_job (dispatch_queue s ! k)] else [])"
    "finished_jobs (dispatch_worker m now k s) = (if requeued (dispatch_queue s ! k) out then finished_jobs s
       else take 100 (dj_notificationId (dispatch_queue s ! k) # finished_jobs s))"
    "\<And>i. jobs_of i (dispatch_worker m now k s) = (if i = dj_notificationId (dispatch_queue s ! k)
       then (if requeued (dispatch_queue s ! k) out then [next_job (dispatch_queue s ! k)] else []) else jobs_of i s)"
proof -
  define j where "j = dispatch_queue s ! k"
  define out where "out = dispatch_process m now j (without_job k s)"
  have P: "processed now j (without_job k s) out" unfolding out_def by (rule dispatch_process_processed)
  have run: "dispatch_worker m now k s = (if requeued j out
     then (snd out)\<lparr>dispatch_queue := dispatch_queue (snd out) @ [next_job j]\<rparr>
     else (snd out)\<lparr>finished_jobs := take 100 (dj_notificationId j # finished_jobs (snd out))\<rparr>)"
    unfolding worker_run [OF assms(2)] by (simp add: Let_def j_def out_def requeued_def next_job_def)
  have q: "dispatch_queue (snd out) = take k (dispatch_queue s) @ drop (Suc k) (dispatch_queue s)"
    "finished_jobs (snd out) = finished_jobs s" using P by (simp_all add: processed_def)
  have removed: "jobs_of i (snd out) = (if i = dj_notificationId j then [] else jobs_of i s)" for i
    unfolding j_def by (rule jobs_of_removed [OF assms q(1)])
  have "jobs_of i (dispatch_worker m now k s) = (if i = dj_notificationId j
     then (if requeued j out then [next_job j] else []) else jobs_of i s)" for i
    using removed [of i] by (auto simp: run jobs_of_def)
  with P run q show thesis by (intro that [of out]) (simp_all add: j_def)
qed

lemma worker_queue_subset:
  "set (take k qs @ drop (Suc k) qs @ (if b then [x] else [])) \<subseteq> insert x (set qs)"
  using set_take_subset [of k qs] set_drop_subset [of "Suc k" qs] by (cases b) auto

lemma worker_row_ok:
  assumes inv0: "notify_inv s" and k: "k < length (dispatch_queue s)"
    and x': "x' \<in> set (notifications (dispatch_worker m now k s))" "nf_deletedAt x' = None"
  shows "row_ok (dispatch_worker m now k s) x'"
proof -
  note inv = notify_invD [OF inv0]
  let ?j = "dispatch_queue s ! k" and ?s' = "dispatch_worker m now k s"
  obtain out where out: "processed now ?j (without_job k s) out" "notifications ?s' = notifications (snd out)"
    "dispatch_queue ?s' = take k (dispatch_queue s) @ drop (Suc k) (dispatch_queue s) @ (if requeued ?j out then [next_job ?j] else [])"
    "finished_jobs ?s' = (if requeued ?j out then finished_jobs s else take 100 (dj_notificationId ?j # finished_jobs s))"
    "\<And>i. jobs_of i ?s' = (if i = dj_notificationId ?j then (if requeued ?j out then [next_job ?j] else []) else jobs_of i s)"
    by (rule worker_outE [OF inv(2) k, where now = now and m = m]) (rule that)
  have job: "jobs_of (dj_notificationId ?j) s = [?j]" by (rule jobs_of_unique [OF inv(2)]) (use k in simp)
  have fin: "set (finished_jobs ?s') \<subseteq> insert (dj_notificationId ?j) (set (finished_jobs s))"
    using set_take_subset [of 99 "finished_jobs s"] by (auto simp: out(4))
  have "distinct (map nf_id (notifications (without_job k s)))" using inv(1) by simp
  moreover have "x' \<in> set (notifications (snd out))" using x'(1) out(2) by simp
  ultimately show ?thesis
  proof (rule worker_rowsE [OF _ out(1) _ x'(2)], unfold without_job_simps, goal_cases other settled sent failed)
    case other
    have "nf_id x' \<notin> set (finished_jobs ?s')" if "nf_id x' \<notin> set (finished_jobs s)"
      using fin other(1) that by blast
    then show ?case using inv(5) [OF other(2) x'(2)] other(1) by (simp add: row_ok_def out(5))
  next
    case settled
    with inv(5) [OF settled(1) x'(2)] show ?case by (simp add: row_ok_def)
  next
    case (sent x)
    with inv(5) [OF sent(1,2)] show ?case by (simp add: row_ok_def)
  next
    case (failed x msg nxt)
    have x: "row_ok s x" "nf_id x \<notin> set (finished_jobs s)" "pending_ok x [?j]"
      using inv(5) [OF failed(1,3)] failed(2,4) job by (simp_all add: row_ok_def)
    then have limits: "0 \<le> nf_attempts x" "nf_attempts x < 5" "nf_channel x \<noteq> IN_APP"
      "dj_attempts ?j = Some 5" "dj_attemptsMade ?j = nf_attempts x"
      by (simp_all add: row_ok_def pending_ok_def)
    show ?case
    proof (cases "nxt = None")
      case True
      with limits failed(5) show ?thesis by (simp add: row_ok_def)
    next
      case False
      then have again: "requeued ?j out" using failed(6,7) next_attempt_left by (auto simp: requeued_def)
      then have "dj_attemptsMade ?j + 1 < coalesce (dj_attempts ?j) 1" by (simp add: requeued_def)
      with limits failed(2,5) x(2,3) again out(4) out(5) [of "dj_notificationId ?j"] show ?thesis
        by (simp add: row_ok_def pending_ok_def)
    qed
  qed
qed

text \<open>The worker neither adds nor removes a row, nor does it change whether it is deleted.\<close>

lemma map_processed:
  assumes "processed now j s out" "\<And>r. f (sent_row now r) = f r" "\<And>msg nxt r. f (failed_row now msg nxt r) = f r"
  shows "map f (notifications (snd out)) = map f (notifications s)"
proof (cases "pending_target j s")
  case True
  then obtain g where g: "notifications (snd out) = update_rows (live_notification (dj_notificationId j)) g (notifications s)"
    "g = sent_row now \<or> (\<exists>msg nxt. g = failed_row now msg nxt)" using assms(1) unfolding processed_def by auto
  then have "f (g r) = f r" for r using assms(2,3) by auto
  with g(1) show ?thesis by (metis map_update_rows)
next
  case False
  with assms show ?thesis by (simp add: processed_def)
qed

lemma worker_keys:
  assumes "distinct (map dj_notificationId (dispatch_queue s))" "k < length (dispatch_queue s)"
  shows "map (\<lambda>r. (nf_id r, nf_deletedAt r)) (notifications (dispatch_worker m now k s))
    = map (\<lambda>r. (nf_id r, nf_deletedAt r)) (notifications s)"
  by (rule worker_outE [OF assms, where now = now and m = m], drule map_processed [where f = "\<lambda>r. (nf_id r, nf_deletedAt r)"]) simp_all

lemma worker_inv:
  assumes inv0: "notify_inv s" and k: "k < length (dispatch_queue s)"
  shows "notify_inv (dispatch_worker m now k s)"
proof -
  note inv = notify_invD [OF inv0]
  let ?j = "dispatch_queue s ! k" and ?s' = "dispatch_worker m now k s"
  have j: "?j \<in> set (dispatch_queue s)" using k by simp
  obtain out where "processed now ?j (without_job k s) out" "notifications ?s' = notifications (snd out)"
    and q: "dispatch_queue ?s' = take k (dispatch_queue s) @ drop (Suc k) (dispatch_queue s)
      @ (if requeued ?j out then [next_job ?j] else [])"
    and f: "finished_jobs ?s' = (if requeued ?j out then finished_jobs s else take 100 (dj_notificationId ?j # finished_jobs s))"
    and "\<And>i. jobs_of i ?s' = (if i = dj_notificationId ?j then (if requeued ?j out then [next_job ?j] else []) else jobs_of i s)"
    by (rule worker_outE [OF inv(2) k, where now = now and m = m]) (rule that)
  have "map fst (map (\<lambda>r. (nf_id r, nf_deletedAt r)) (notifications ?s')) = map fst (map (\<lambda>r. (nf_id r, nf_deletedAt r)) (notifications s))"
    by (simp only: worker_keys [OF inv(2) k])
  then have ids: "map nf_id (notifications ?s') = map nf_id (notifications s)" by (simp add: comp_def)
  then have img: "nf_id ` set (notifications ?s') = nf_id ` set (notifications s)" by (metis list.set_map)
  have i_in: "dj_notificationId ?j \<in> nf_id ` set (notifications s)" using inv(3) j by blast
  have qs: "set (dispatch_queue ?s') \<subseteq> insert (next_job ?j) (set (dispatch_queue s))"
    unfolding q by (rule worker_queue_subset)
  have "dj_notificationId ` set (dispatch_queue ?s') \<subseteq> insert (dj_notificationId ?j) (dj_notificationId ` set (dispatch_queue s))"
    using image_mono [OF qs, of dj_notificationId] by simp
  also have "\<dots> \<subseteq> nf_id ` set (notifications s)" by (rule insert_subset [THEN iffD2, OF conjI [OF i_in inv(3)]])
  finally have sub: "dj_notificationId ` set (dispatch_queue ?s') \<subseteq> nf_id ` set (notifications s)" .
  have jobs: "\<forall>x\<in>set (dispatch_queue ?s'). dj_attempts x = Some 5 \<and> 0 \<le> dj_attemptsMade x"
    using qs inv(6) inv(6) [OF j] next_job_simps(2,3) [of ?j] by (smt (verit) insert_iff subsetD)
  have "distinct (map dj_notificationId (take k (dispatch_queue s) @ ?j # drop (Suc k) (dispatch_queue s)))"
    using inv(2) id_take_nth_drop [OF k] by metis
  then have dist: "distinct (map dj_notificationId (dispatch_queue ?s'))" by (auto simp: q)
  have fin: "set (finished_jobs ?s') \<subseteq> nf_id ` set (notifications s)"
    using set_take_subset [of 99 "finished_jobs s"] i_in inv(4) by (auto simp: f)
  have "\<forall>r\<in>set (notifications ?s'). nf_deletedAt r = None \<longrightarrow> row_ok ?s' r"
    using worker_row_ok [OF inv0 k] by blast
  with ids img dist sub fin jobs inv(1) show ?thesis unfolding notify_inv_def by auto
qed

section \<open>The state machine\<close>

definition no_notifications :: "('ab, 'x) server_scheme \<Rightarrow> bool" where
  "no_notifications s = (notifications s = [] \<and> dispatch_queue s = [] \<and> finished_jobs s = [])"

inductive notify_step :: "('ab, 'x) server_scheme \<Rightarrow> ('ab, 'x) server_scheme \<Rightarrow> bool" where
  step_create: "notify_step s (snd (notification_create_handler ids now fails p s))"
| step_delete: "notify_step s (snd (notification_delete_handler now uid i s))"
| step_read: "notify_step s (snd (notification_mark_read_handler now uid i s))"
| step_read_all: "notify_step s (snd (notification_mark_all_read_handler now uid s))"
| step_worker: "k < length (dispatch_queue s) \<Longrightarrow> notify_step s (dispatch_worker mail_id now k s)"
| step_cron: "notify_step s (snd (dispatch_pending now s))"
| step_elsewhere: "same_notifications s s' \<Longrightarrow> notify_step s s'"

inductive_cases notify_stepE: "notify_step s s'"

lemma delete_inv: "notify_inv s \<Longrightarrow> notify_inv (snd (notification_delete now i uid s))"
  by (rule inv_touch_rows [where P = "own_notification i uid" and f = "\<lambda>r. r\<lparr>nf_deletedAt := Some now, nf_updatedAt := now\<rparr>"])
    (simp_all add: notification_delete_def)

lemma read_row_inv:
  assumes "notify_inv s" "notifications s' = update_rows P (read_row now) (notifications s)"
    and "dispatch_queue s' = dispatch_queue s" "finished_jobs s' = finished_jobs s"
  shows "notify_inv s'"
  by (rule inv_touch_rows [OF assms]) (simp_all add: read_row_def)

lemma mark_as_read_inv: "notify_inv s \<Longrightarrow> notify_inv (snd (mark_as_read now i uid s))"
  by (rule read_row_inv) (simp_all add: mark_as_read_def)

lemma mark_all_as_read_inv: "notify_inv s \<Longrightarrow> notify_inv (snd (mark_all_as_read now uid s))"
  by (rule read_row_inv) (simp_all add: mark_all_as_read_def)

lemma delete_handler_inv: "notify_inv s \<Longrightarrow> notify_inv (snd (notification_delete_handler now uid i s))"
  by (simp add: notification_delete_handler_def andThen_def delete_inv split: option.split)

lemma mark_read_handler_inv: "notify_inv s \<Longrightarrow> notify_inv (snd (notification_mark_read_handler now uid i s))"
  by (simp add: notification_mark_read_handler_def andThen_def mark_as_read_inv split: option.split)

lemma notify_step_inv: "notify_inv s \<Longrightarrow> notify_step s s' \<Longrightarrow> notify_inv s'"
  by (erule notify_stepE)
    (simp_all add: create_handler_inv delete_handler_inv mark_read_handler_inv notification_mark_all_read_handler_def
      mark_all_as_read_inv worker_inv dispatch_pending_inv same_inv)

interpretation notifier: transitions no_notifications notify_step notify_inv
  by unfold_locales (simp add: no_notifications_def notify_inv_def, rule notify_step_inv)

lemma pending_ok_jobs:
  "pending_ok r js \<Longrightarrow> (js = [] \<longrightarrow> nf_attempts r = 0) \<and> length js \<le> 1
     \<and> (\<forall>j\<in>set js. dj_attemptsMade j = nf_attempts r \<and> dj_userId j = nf_userId r
         \<and> dj_title j = nf_title r \<and> dj_content j = nf_content r \<and> dj_channel j = nf_channel r)"
  by (cases js rule: remdups_adj.cases) (simp_all add: pending_ok_def)

text \<open>
  C6.  From an empty table and queue, under every order of creations (Redis refusing some of the
  jobs), worker runs, cron runs, reads, deletions and changes of the rest of the database: no two
  notifications share an id and no two waiting jobs a notification; a notification counts at most 5
  attempts; one of the in-app channel is always sent; one that is still pending is not of that
  channel, has attempts left and at most one waiting job, which has its recipient, its text and its
  count of attempts, and if it has none it was never attempted.
\<close>

theorem notification_invariant:
  fixes s :: "('ab, 'x) server_scheme"
  assumes "reach no_notifications notify_step s" "r \<in> set (notifications s)" "nf_deletedAt r = None"
  shows "(\<forall>r'\<in>set (notifications s). nf_id r' = nf_id r \<longrightarrow> r' = r)
    \<and> distinct (map dj_notificationId (dispatch_queue s))
    \<and> 0 \<le> nf_attempts r \<and> nf_attempts r \<le> 5
    \<and> (nf_channel r = IN_APP \<longrightarrow> nf_status r = D_Sent)
    \<and> (nf_status r = D_Pending \<longrightarrow> nf_channel r \<noteq> IN_APP \<and> nf_attempts r < 5
        \<and> (let js = filter (\<lambda>j. dj_notificationId j = nf_id r) (dispatch_queue s) in
            length js \<le> 1 \<and> (js = [] \<longrightarrow> nf_attempts r = 0)
            \<and> (\<forall>j\<in>set js. dj_attemptsMade j = nf_attempts r \<and> dj_userId j = nf_userId r
                 \<and> dj_title j = nf_title r \<and> dj_content j = nf_content r)))"
proof -
  have inv0: "notify_inv s" by (rule notifier.reach_inv [OF assms(1)])
  note inv = notify_invD [OF inv0]
  have ok: "row_ok s r" by (rule inv(5) [OF assms(2,3)])
  have uniq: "\<forall>r'\<in>set (notifications s). nf_id r' = nf_id r \<longrightarrow> r' = r"
    using unique_key_eq [OF inv(1) _ assms(2)] by blast
  show ?thesis
  proof (cases "nf_status r = D_Pending")
    case True
    then have p: "pending_ok r (jobs_of (nf_id r) s)" using ok by (simp add: row_ok_def)
    then have "nf_channel r \<noteq> IN_APP \<and> nf_attempts r < 5" by (simp add: pending_ok_def)
    with pending_ok_jobs [OF p] ok uniq inv(2) show ?thesis by (simp add: row_ok_def jobs_of_def Let_def)
  qed (use ok uniq inv(2) in \<open>simp add: row_ok_def\<close>)
qed

section \<open>Delivery completes\<close>

definition tries_left :: "dispatch_job \<Rightarrow> nat" where
  "tries_left j = max 1 (nat (coalesce (dj_attempts j) 1 - dj_attemptsMade j))"

definition queue_measure :: "('ab, 'x) server_scheme \<Rightarrow> nat" where
  "queue_measure s = sum_list (map tries_left (dispatch_queue s))"

text \<open>The worker on the head of the queue, once per given pair of a mail id and a time.\<close>

definition run_worker :: "(ident \<times> int) list \<Rightarrow> ('ab, 'x) server_scheme \<Rightarrow> ('ab, 'x) server_scheme" where
  "run_worker ts s = fold (\<lambda>t s. dispatch_worker (fst t) (snd t) 0 s) ts s"

lemma run_worker_simps [simp]:
  "run_worker [] s = s"
  "run_worker (t # ts) s = run_worker ts (dispatch_worker (fst t) (snd t) 0 s)"
  by (simp_all add: run_worker_def)

lemma queue_measure_pos: "queue_measure s = 0 \<longleftrightarrow> dispatch_queue s = []"
  by (cases "dispatch_queue s") (simp_all add: queue_measure_def tries_left_def)

lemma worker_measure:
  assumes "notify_inv s" "dispatch_queue s \<noteq> []"
  shows "queue_measure (dispatch_worker m now 0 s) < queue_measure s"
proof -
  note inv = notify_invD [OF assms(1)]
  obtain j q where q: "dispatch_queue s = j # q" using assms(2) by (cases "dispatch_queue s") auto
  obtain out where o: "processed now j (without_job 0 s) out" "dispatch_queue (dispatch_worker m now 0 s)
      = q @ (if requeued j out then [next_job j] else [])"
    by (rule worker_outE [OF inv(2), of 0, where now = now and m = m]) (use q in \<open>simp_all add: that\<close>)
  have "requeued j out \<Longrightarrow> tries_left (next_job j) < tries_left j" by (simp add: requeued_def tries_left_def)
  moreover have "0 < tries_left j" by (simp add: tries_left_def)
  ultimately show ?thesis by (simp add: queue_measure_def o(2) q)
qed

definition waiting :: "('ab, 'x) server_scheme \<Rightarrow> ident \<Rightarrow> bool" where
  "waiting s i = (\<forall>r\<in>set (notifications s). nf_id r = i \<longrightarrow> nf_deletedAt r = None \<longrightarrow> nf_status r = D_Pending
     \<longrightarrow> jobs_of i s \<noteq> [])"

lemma worker_waiting:
  assumes inv0: "notify_inv s" and k: "k < length (dispatch_queue s)" and w: "waiting s i"
  shows "waiting (dispatch_worker m now k s) i"
  unfolding waiting_def
proof (intro ballI impI)
  note inv = notify_invD [OF inv0]
  let ?j = "dispatch_queue s ! k" and ?s' = "dispatch_worker m now k s"
  fix x'
  assume x': "x' \<in> set (notifications ?s')" "nf_id x' = i" "nf_deletedAt x' = None" "nf_status x' = D_Pending"
  obtain out where out: "processed now ?j (without_job k s) out" "notifications ?s' = notifications (snd out)"
    "dispatch_queue ?s' = take k (dispatch_queue s) @ drop (Suc k) (dispatch_queue s) @ (if requeued ?j out then [next_job ?j] else [])"
    "finished_jobs ?s' = (if requeued ?j out then finished_jobs s else take 100 (dj_notificationId ?j # finished_jobs s))"
    "\<And>i. jobs_of i ?s' = (if i = dj_notificationId ?j then (if requeued ?j out then [next_job ?j] else []) else jobs_of i s)"
    by (rule worker_outE [OF inv(2) k, where now = now and m = m]) (rule that)
  have "distinct (map nf_id (notifications (without_job k s)))" using inv(1) by simp
  moreover have "x' \<in> set (notifications (snd out))" using x'(1) out(2) by simp
  ultimately show "jobs_of i ?s' \<noteq> []"
  proof (rule worker_rowsE [OF _ out(1) _ x'(3)], unfold without_job_simps, goal_cases other settled sent failed)
    case other
    with w x'(2-4) show ?case by (auto simp: waiting_def out(5))
  next
    case (failed x msg nxt)
    with x'(4) have "nxt \<noteq> None" by auto
    then have "requeued ?j out" using failed(6,7) next_attempt_left by (auto simp: requeued_def)
    then show ?case using failed(2,5) x'(2) by (simp add: out(5))
  qed (use x'(4) in simp_all)
qed

lemma run_worker_empties:
  fixes s :: "('ab, 'x) server_scheme"
  assumes "notify_inv s" "queue_measure s \<le> length ts"
  shows "dispatch_queue (run_worker ts s) = [] \<and> notify_inv (run_worker ts s)
    \<and> (\<forall>i. waiting s i \<longrightarrow> waiting (run_worker ts s) i)
    \<and> map (\<lambda>r. (nf_id r, nf_deletedAt r)) (notifications (run_worker ts s)) = map (\<lambda>r. (nf_id r, nf_deletedAt r)) (notifications s)"
  using assms
proof (induction ts arbitrary: s)
  case Nil
  then show ?case using queue_measure_pos [of s] by simp
next
  case (Cons t ts)
  let ?s = "dispatch_worker (fst t) (snd t) 0 s"
  show ?case
  proof (cases "dispatch_queue s = []")
    case True
    then have "?s = s" by (simp add: dispatch_worker_def)
    with Cons.IH [OF Cons.prems(1)] True queue_measure_pos [of s] show ?thesis by simp
  next
    case False
    then have k: "0 < length (dispatch_queue s)" by simp
    have "queue_measure ?s \<le> length ts"
      using worker_measure [OF Cons.prems(1) False, of "fst t" "snd t"] Cons.prems(2) by simp
    from Cons.IH [OF worker_inv [OF Cons.prems(1) k] this] worker_keys [OF notify_invD(2) [OF Cons.prems(1)] k]
      worker_waiting [OF Cons.prems(1) k]
    show ?thesis by simp
  qed
qed

lemma measure_bound:
  assumes "notify_inv s"
  shows "queue_measure s \<le> 5 * length (dispatch_queue s)"
proof -
  have "tries_left j \<le> 5" if "j \<in> set (dispatch_queue s)" for j
    using notify_invD(6) [OF assms that] by (auto simp: tries_left_def)
  then have "sum_list (map tries_left (dispatch_queue s)) \<le> sum_list (map (\<lambda>_. 5) (dispatch_queue s))"
    by (rule sum_list_mono)
  then show ?thesis by (simp add: queue_measure_def sum_list_triv mult.commute)
qed


section \<open>One run of the worker\<close>

lemma user_repo_find_by_id_frame:
  "users s' = users s \<Longrightarrow> roles s' = roles s \<Longrightarrow> user_repo_find_by_id i s' = user_repo_find_by_id i s"
  by (cases "find_row (live_id i) (users s)") (simp_all add: user_repo_find_by_id_def with_role_def)

text \<open>
  A run of the worker on the waiting job of a pending e-mail notification whose recipient still
  exists and for which the template \<open>notification\<close> is active as a row: the notification becomes sent,
  the job leaves the queue, and exactly one mail to the address of the recipient, with the title as its
  subject, is stored as pending and queued for the mail service.
\<close>

theorem dispatch_sends:
  fixes s :: "('ab, 'x) server_scheme"
  assumes "dispatch_queue s = j # q" "dj_channel j = EMAIL"
    and "find_row (live_notification (dj_notificationId j)) (notifications s) = Some r" "nf_status r = D_Pending"
    and "user_repo_find_by_id (dj_userId j) s = Some u" "us_email u \<noteq> []" "dj_title j \<noteq> []"
    and "find_row (live_template_name Notification_Template) (mail_templates s) = Some t"
  shows "let s' = dispatch_worker mail_id now 0 s in
    find_row (live_notification (dj_notificationId j)) (notifications s') = Some (sent_row now r)
    \<and> dispatch_queue s' = q
    \<and> (\<exists>m. mails s' = mails s @ [m] \<and> m_id m = mail_id \<and> m_to m = us_email u \<and> m_subject m = dj_title j
         \<and> m_status m = Some Mail_Pending \<and> m_templateId m = mt_id t)
    \<and> (\<exists>mj. mail_queue s' = mail_queue s @ [mj] \<and> mj_mailId mj = mail_id \<and> mj_to mj = us_email u)"
proof -
  let ?i = "dj_notificationId j" and ?s0 = "without_job 0 s"
  let ?ctx = "[(''title'', J_Str (dj_title j)), (''content'', J_Str (dj_content j))]"
  let ?mail = "\<lparr>m_id = mail_id, m_createdAt = now, m_updatedAt = now, m_deletedAt = None,
         m_to = us_email u, m_subject = dj_title j, m_templateId = mt_id t,
         m_status = Some Mail_Pending, m_variables = ?ctx, m_attempts = Some 0, m_errorMessage = None, m_sentAt = None\<rparr>"
  let ?s1 = "?s0\<lparr>mails := mails s @ [?mail]\<rparr>"
  have user: "user_repo_find_by_id (dj_userId j) ?s0 = Some u"
    using assms(5) user_repo_find_by_id_frame [of ?s0 s] by (simp add: without_job_def)
  have template: "find_row (live_template_name Notification_Template) (mail_templates ?s0) = Some t"
    using assms(8) by (simp add: without_job_def)
  have "dispatch_email mail_id now j ?s0 = (Inr (), snd (add_to_queue (to_mail ?mail t) ?s1))"
    using assms(6,7) user template
    by (simp add: dispatch_email_def send_mail_handler_def mail_repo_create_def mail_create_def add_to_queue_def
        andThen_def Let_def without_job_def)
  then have "dispatch_process mail_id now j ?s0 = (Inr (), snd (mark_dispatch_sent now ?i (snd (add_to_queue (to_mail ?mail t) ?s1))))"
    using assms(2-4) by (simp add: dispatch_process_def Let_def notification_find_by_id_def mark_dispatch_sent_def to_notification_def)
  moreover have "nf_id r = ?i" "nf_deletedAt r = None" using find_row_SomeD [OF assms(3)] by (simp_all add: live_notification_def)
  ultimately show ?thesis using assms(1)
    by (auto simp: worker_run Let_def mark_dispatch_sent_def add_to_queue_def without_job_def to_mail_def
        find_row_update_same live_notification_def assms(3))
qed

text \<open>
  When the attempt fails (the recipient is gone, or the mail cannot be stored), the notification
  keeps the message and counts the attempt.  Before the fifth attempt it stays pending, is scheduled
  after 1 second, 10 seconds, and then a minute each time, and its job waits again with one attempt
  more; at the fifth it is marked failed and its job is finished.
\<close>

theorem dispatch_retry_schedule:
  fixes s :: "('ab, 'x) server_scheme"
  assumes "dispatch_queue s = j # q" "dj_channel j = EMAIL" "dj_attempts j = Some 5" "0 \<le> dj_attemptsMade j" "dj_attemptsMade j < 5"
    and "find_row (live_notification (dj_notificationId j)) (notifications s) = Some r" "nf_status r = D_Pending"
    and "fst (dispatch_email mail_id now j (s\<lparr>dispatch_queue := q\<rparr>)) = Inl e"
  shows "let s' = dispatch_worker mail_id now 0 s in
    \<exists>r'. find_row (live_notification (dj_notificationId j)) (notifications s') = Some r'
      \<and> nf_attempts r' = nf_attempts r + 1 \<and> nf_errorMessage r' = Some (error_message e)
      \<and> (if dj_attemptsMade j < 4
         then nf_status r' = D_Pending \<and> nf_failedAt r' = None
           \<and> nf_nextAttemptAt r' = Some (now + [1000, 10000, 60000, 60000] ! nat (dj_attemptsMade j))
           \<and> dispatch_queue s' = q @ [j\<lparr>dj_attemptsMade := dj_attemptsMade j + 1\<rparr>]
         else nf_status r' = D_Failed \<and> nf_failedAt r' = Some now \<and> nf_nextAttemptAt r' = None
           \<and> dispatch_queue s' = q \<and> dj_notificationId j \<in> set (finished_jobs s'))"
proof -
  let ?i = "dj_notificationId j" and ?s0 = "s\<lparr>dispatch_queue := q\<rparr>" and ?nxt = "next_attempt_at now j"
  obtain s1 where e: "dispatch_email mail_id now j ?s0 = (Inl e, s1)" using assms(8) by (metis prod.collapse)
  have f: "notifications s1 = notifications s" "dispatch_queue s1 = q" "finished_jobs s1 = finished_jobs s"
    using dispatch_email_frame [of mail_id now j ?s0] by (simp_all add: e)
  have P: "dispatch_process mail_id now j ?s0
     = (if ?nxt \<noteq> None then Inl e else Inr (), snd (mark_dispatch_failed now ?i (error_message e) ?nxt s1))"
    using assms(2,6,7) e by (simp add: dispatch_process_def Let_def notification_find_by_id_def mark_dispatch_failed_def to_notification_def)
  have row: "find_row (live_notification ?i) (update_rows (live_notification ?i) (failed_row now (error_message e) ?nxt) (notifications s))
     = Some (failed_row now (error_message e) ?nxt r)"
    using assms(6) find_row_SomeD [OF assms(6)] by (simp add: find_row_update_same live_notification_def)
  have w: "without_job 0 s = ?s0" by (simp add: without_job_def assms(1))
  have "dj_attemptsMade j \<in> {0, 1, 2, 3, 4}" using assms(4,5) by auto
  then have n: "?nxt = (if dj_attemptsMade j < 4 then Some (now + [1000, 10000, 60000, 60000] ! nat (dj_attemptsMade j)) else None)"
    using assms(3) by (auto simp: next_attempt_at_def Let_def)
  show ?thesis
  proof (cases "dj_attemptsMade j < 4")
    case True
    with n P w f row assms(1,3) show ?thesis
      by (simp add: worker_run Let_def mark_dispatch_failed_def) (simp add: failed_row_def)
  next
    case False
    with n P w f row assms(1,3) show ?thesis
      by (simp add: worker_run Let_def mark_dispatch_failed_def) (simp add: failed_row_def)
  qed
qed

section \<open>The list endpoint\<close>

definition listed_notifications :: "ident \<Rightarrow> bool option \<Rightarrow> ('ab, 'x) server_scheme \<Rightarrow> notification_row list" where
  "listed_notifications uid is_read s = filter (\<lambda>r. nf_userId r = uid \<and> nf_deletedAt r = None \<and> nf_channel r = IN_APP
      \<and> (is_read \<noteq> None \<longrightarrow> nf_isRead r = is_read)) (notifications s)"

lemma get_handler_page:
  "\<exists>l. notifications_get_handler uid opts s = (Inr (l, unread_count uid s), s)
    \<and> pg_data l = map (notification_to_dto \<circ> to_notification)
        (take 20 (sort_key (\<lambda>r. - nf_createdAt r) (listed_notifications uid (go_isRead opts) s)))
    \<and> pm_page (pg_meta l) = coalesce (go_page opts) 1
    \<and> pm_per_page (pg_meta l) = coalesce (go_per_page opts) 20
    \<and> pm_total (pg_meta l) = int (length (listed_notifications uid (go_isRead opts) s))"
  by (simp add: notifications_get_handler_def andThen_def Let_def notification_find_by_user_def build_paginated_def
      sql_window_def listed_notifications_def notification_where_def [abs_def])

text \<open>
  The list of a user's notifications has always the twenty newest in-app ones, whatever page and
  page size are asked for, although the metadata announce the page and the number of pages asked for.
\<close>

theorem page_is_ignored:
  fixes s :: "('ab, 'x) server_scheme"
  shows "\<exists>l. notifications_get_handler uid opts s = (Inr (l, unread_count uid s), s)
    \<and> pg_data l = map (notification_to_dto \<circ> to_notification)
        (take 20 (sort_key (\<lambda>r. - nf_createdAt r) (listed_notifications uid (go_isRead opts) s)))
    \<and> pm_page (pg_meta l) = coalesce (go_page opts) 1
    \<and> pm_per_page (pg_meta l) = coalesce (go_per_page opts) 20
    \<and> pm_total (pg_meta l) = int (length (listed_notifications uid (go_isRead opts) s))"
  by (rule get_handler_page)

section \<open>Isolation of the users\<close>

definition rows_of_others :: "ident \<Rightarrow> ('ab, 'x) server_scheme \<Rightarrow> notification_row list" where
  "rows_of_others uid s = filter (\<lambda>r. nf_userId r \<noteq> uid) (notifications s)"

lemma filter_update_rows:
  "(\<And>r. P r \<Longrightarrow> \<not> Q r) \<Longrightarrow> (\<And>r. P r \<Longrightarrow> \<not> Q (f r)) \<Longrightarrow> filter Q (update_rows P f rows) = filter Q rows"
  by (induction rows) auto

lemma own_rows_only:
  "rows_of_others uid (snd (notification_delete now i uid s)) = rows_of_others uid s"
  "rows_of_others uid (snd (mark_as_read now i uid s)) = rows_of_others uid s"
  "rows_of_others uid (snd (mark_all_as_read now uid s)) = rows_of_others uid s"
  unfolding rows_of_others_def notification_delete_def mark_as_read_def mark_all_as_read_def
  by (simp; rule filter_update_rows; simp add: own_notification_def unread_of_def read_row_def)+

lemma endpoint_own_rows: "rows_of_others uid (snd (notification_endpoint now uid q s)) = rows_of_others uid s"
  by (cases q) (auto simp: andThen_def notifications_get_handler_def notification_unread_count_handler_def Let_def
      notification_mark_read_handler_def notification_delete_handler_def notification_mark_all_read_handler_def
      notification_delete_def mark_as_read_def mark_all_as_read_def
      own_rows_only [unfolded notification_delete_def mark_as_read_def mark_all_as_read_def snd_conv]
      split: option.split)

text \<open>
  C26.  Whatever request reaches the notification controller, with whatever token: if the token is not
  accepted the table is unchanged; if it is, every row of the other users is unchanged, and a page that
  is returned holds notifications of the user of the token alone.
\<close>

theorem notification_isolation:
  fixes s :: "('ab, 'x) server_scheme"
  shows "case fst (jwt_authenticate (gs_jwt G) (gs_tokens G) (gs_cookie G) (gs_faults G) now req s) of
      Inl e \<Rightarrow> isl (fst (notification_controller G now req q s))
        \<and> notifications (snd (notification_controller G now req q s)) = notifications s
    | Inr v \<Rightarrow> filter (\<lambda>r. nf_userId r \<noteq> vj_userId v) (notifications (snd (notification_controller G now req q s)))
          = filter (\<lambda>r. nf_userId r \<noteq> vj_userId v) (notifications s)
        \<and> (case fst (notification_controller G now req q s) of
            Inr (Page_Reply page n) \<Rightarrow> list_all (\<lambda>d. nd_userId d = vj_userId v) (pg_data page) | _ \<Rightarrow> True)"
proof (cases "fst (jwt_authenticate (gs_jwt G) (gs_tokens G) (gs_cookie G) (gs_faults G) now req s)")
  case (Inl e)
  obtain r where r: "snd (jwt_authenticate (gs_jwt G) (gs_tokens G) (gs_cookie G) (gs_faults G) now req s) = s\<lparr>redis := r\<rparr>"
    using jwt_authenticate_redis by blast
  have "notification_controller G now req q s = (Inl e, s\<lparr>redis := r\<rparr>)"
    unfolding notification_controller_def with_guards_def
    by (rule andThen_err) (metis Inl r prod.collapse)
  with Inl show ?thesis by simp
next
  case (Inr v)
  let ?run = "notification_controller G now req q s"
  have "filter (\<lambda>r. nf_userId r \<noteq> vj_userId v) (notifications (snd ?run)) = filter (\<lambda>r. nf_userId r \<noteq> vj_userId v) (notifications s)
      \<and> (case fst ?run of Inr (Page_Reply page n) \<Rightarrow> list_all (\<lambda>d. nd_userId d = vj_userId v) (pg_data page) | _ \<Rightarrow> True)"
  proof (rule with_guardsE [of G now "Some (notification_policy q)" req "\<lambda>v. notification_endpoint now (vj_userId v) q" s],
      fold notification_controller_def)
    fix e r c
    assume "?run = (Inl e, s\<lparr>redis := r, ability_cache := c\<rparr>)"
    then show ?thesis by simp
  next
    fix v' r c
    assume v': "fst (jwt_authenticate (gs_jwt G) (gs_tokens G) (gs_cookie G) (gs_faults G) now req s) = Inr v'"
      and run: "?run = notification_endpoint now (vj_userId v') q (s\<lparr>redis := r, ability_cache := c\<rparr>)"
    let ?s = "s\<lparr>redis := r, ability_cache := c\<rparr>"
    have v: "v' = v" using Inr v' by simp
    have "rows_of_others (vj_userId v) (snd ?run) = rows_of_others (vj_userId v) ?s"
      unfolding run v by (rule endpoint_own_rows)
    moreover have "case fst ?run of Inr (Page_Reply page n) \<Rightarrow> list_all (\<lambda>d. nd_userId d = vj_userId v) (pg_data page) | _ \<Rightarrow> True"
    proof (cases q)
      case (List_Notifications opts t)
      obtain l where l: "notifications_get_handler (vj_userId v) opts ?s = (Inr (l, unread_count (vj_userId v) ?s), ?s)"
        "pg_data l = map (notification_to_dto \<circ> to_notification)
        (take 20 (sort_key (\<lambda>r. - nf_createdAt r) (listed_notifications (vj_userId v) (go_isRead opts) ?s)))"
        using get_handler_page [of "vj_userId v" opts ?s] by blast
      have "nf_userId x = vj_userId v"
        if "x \<in> set (take 20 (sort_key (\<lambda>r. - nf_createdAt r) (listed_notifications (vj_userId v) (go_isRead opts) ?s)))" for x
        using in_set_takeD [OF that] by (simp add: listed_notifications_def)
      then have "list_all (\<lambda>d. nd_userId d = vj_userId v) (pg_data l)"
        by (auto simp: l(2) list_all_iff notification_to_dto_def)
      then show ?thesis using run v List_Notifications l(1) by simp
    qed (use run v in \<open>auto simp: andThen_def notification_unread_count_handler_def notification_mark_read_handler_def
        notification_delete_handler_def notification_mark_all_read_handler_def notification_delete_def mark_as_read_def
        mark_all_as_read_def split: option.split\<close>)
    ultimately show ?thesis by (simp add: rows_of_others_def)
  qed
  with Inr show ?thesis by simp
qed

section \<open>Concrete runs\<close>

definition demo_server :: "(perm_action \<times> perm_subject) list server" where
  "demo_server = \<lparr>users = [demo_user ''u1'' ''ann@x'' None], roles = [demo_role], permissions = [],
     refreshes = [], resets = [], magics = [], mail_templates = [demo_template Notification_Template], mails = [],
     mail_queue = [], outbox = [], redis = (\<lambda>_. None), events = [], reply = [], ability_cache = (\<lambda>_. None),
     notifications = [], notification_templates = [], dispatch_queue = [], finished_jobs = []\<rparr>"

definition demo_note :: create_notification_payload where
  "demo_note = \<lparr>cn_userId = ''u1'', cn_title = ''Hi'', cn_content = ''Hello'', cn_type = None,
     cn_channels = Some [EMAIL], cn_metadata = None\<rparr>"

text \<open>One e-mail notification, created while Redis was away or not.\<close>

definition demo_notified :: "bool \<Rightarrow> (perm_action \<times> perm_subject) list server" where
  "demo_notified fails = snd (notification_create_handler (\<lambda>_. ''n1'') 5 (\<lambda>_. fails) demo_note demo_server)"

definition demo_note_row :: notification_row where
  "demo_note_row = notification_row_of ''n1'' 5 \<lparr>nn_userId = ''u1'', nn_title = ''Hi'', nn_content = ''Hello'',
     nn_type = N_Info, nn_channel = EMAIL, nn_status = D_Pending, nn_attempts = 0, nn_sentAt = None,
     nn_isRead = False, nn_metadata = None\<rparr>"

definition demo_job :: dispatch_job where
  "demo_job = \<lparr>dj_notificationId = ''n1'', dj_userId = ''u1'', dj_title = ''Hi'', dj_content = ''Hello'',
     dj_type = N_Info, dj_channel = EMAIL, dj_metadata = None, dj_attempts = Some 5, dj_attemptsMade = 0\<rparr>"

lemma demo_notified_state:
  "notifications (demo_notified fails) = [demo_note_row]"
  "dispatch_queue (demo_notified fails) = (if fails then [] else [demo_job])"
  "users (demo_notified fails) = [demo_user ''u1'' ''ann@x'' None]" "roles (demo_notified fails) = [demo_role]"
  "mail_templates (demo_notified fails) = [demo_template Notification_Template]"
  by (simp_all add: demo_notified_def demo_server_def demo_note_def demo_note_row_def demo_job_def
      notification_create_handler_def user_get_by_id_handler_def or_not_found_def user_repo_find_by_id_def live_id_def
      demo_user_def andThen_def chosen_channels_def notification_create_def enqueue_dispatch_def to_notification_def
      notification_row_of_def whenever_def Let_def)

lemma demo_notified_reach: "reach no_notifications notify_step (demo_notified fails)"
proof -
  have "reach no_notifications notify_step demo_server"
    by (rule reach_start) (simp add: no_notifications_def demo_server_def)
  then show ?thesis unfolding demo_notified_def by (rule reach_step) (rule step_create)
qed

lemma demo_note_row_simps:
  "nf_id demo_note_row = ''n1''" "nf_deletedAt demo_note_row = None" "nf_status demo_note_row = D_Pending"
  "nf_attempts demo_note_row = 0" "due 9 demo_note_row"
  by (simp_all add: demo_note_row_def notification_row_of_def due_def)

theorem notification_invariant_witness:
  "nf_attempts demo_note_row < 5 \<and> distinct (map dj_notificationId (dispatch_queue (demo_notified False)))"
  using notification_invariant [OF demo_notified_reach [of False], of demo_note_row]
  by (simp add: demo_notified_state demo_note_row_simps)


theorem dispatch_sends_witness:
  "dispatch_queue (dispatch_worker ''m1'' 7 0 (demo_notified False)) = []
   \<and> nf_status (the (find_row (live_notification ''n1'') (notifications (dispatch_worker ''m1'' 7 0 (demo_notified False))))) = D_Sent"
proof -
  have "find_row (live_notification (dj_notificationId demo_job)) (notifications (demo_notified False)) = Some demo_note_row"
    by (simp add: demo_notified_state live_notification_def demo_note_row_simps demo_job_def)
  moreover have "\<exists>u. user_repo_find_by_id (dj_userId demo_job) (demo_notified False) = Some u \<and> us_email u \<noteq> []"
    by (simp add: demo_notified_state user_repo_find_by_id_def live_id_def demo_user_def demo_job_def with_role_def to_user_def)
  moreover have "\<exists>t. find_row (live_template_name Notification_Template) (mail_templates (demo_notified False)) = Some t"
    by (simp add: demo_notified_state live_template_name_def demo_template_def)
  moreover have "dispatch_queue (demo_notified False) = demo_job # []" by (simp add: demo_notified_state)
  ultimately show ?thesis
    using dispatch_sends [of "demo_notified False" demo_job "[]" demo_note_row _ _ "''m1''" 7]
    by (auto simp: demo_job_def demo_note_row_simps Let_def)
qed

theorem dispatch_retry_schedule_witness:
  "dispatch_queue (dispatch_worker ''m1'' 7 0 ((demo_notified False)\<lparr>users := []\<rparr>)) = [demo_job\<lparr>dj_attemptsMade := 1\<rparr>]"
proof -
  let ?s = "(demo_notified False)\<lparr>users := []\<rparr>"
  have "find_row (live_notification (dj_notificationId demo_job)) (notifications ?s) = Some demo_note_row"
    by (simp add: demo_notified_state live_notification_def demo_note_row_simps demo_job_def)
  moreover have "fst (dispatch_email ''m1'' 7 demo_job (?s\<lparr>dispatch_queue := []\<rparr>)) = Inl (Js_Exn ''User u1 not found'')"
    by (simp add: dispatch_email_def andThen_def user_repo_find_by_id_def demo_job_def)
  moreover have "dispatch_queue ?s = demo_job # []" by (simp add: demo_notified_state)
  ultimately show ?thesis
    using dispatch_retry_schedule [of ?s demo_job "[]" demo_note_row "''m1''" 7]
    by (auto simp: demo_job_def demo_note_row_simps Let_def)
qed

end
