(* ===== verification/File_Module.thy ===== *)
theory File_Module
  imports Object_Store Pagination Users_Schema
begin

text \<open>
  The file module: the tables \<open>file\<close> and \<open>file-version\<close>, \<open>file.repository.drizzle.ts\<close>, the handlers
  and the multipart parsing and endpoints of \<open>file.controller.ts\<close>.  The objects are in the S3 service
  of \<open>Object_Store\<close>; a transaction that fails rolls back the tables and not the objects.
\<close>

section \<open>Rows and entities\<close>

record file_row =
  fi_id :: ident
  fi_createdAt :: int
  fi_updatedAt :: int
  fi_deletedAt :: "int option"
  fi_name :: string
  fi_path :: string
  fi_module :: file_from
  fi_externalId :: ident
  fi_description :: "string option"
  fi_type :: "file_type option"
  fi_lastVersionId :: "ident option"
  fi_userId :: ident

record version_row =
  fv_id :: ident
  fv_createdAt :: int
  fv_updatedAt :: int
  fv_deletedAt :: "int option"
  fv_mimetype :: string
  fv_size :: int
  fv_versionId :: "string option"
  fv_fileId :: "ident option"
  fv_userId :: "ident option"

record 'b file_db = "'b object_db" +
  files :: "file_row list"
  file_versions :: "version_row list"

record file_version =
  ve_id :: ident
  ve_mimetype :: string
  ve_size :: int
  ve_versionId :: "string option"
  ve_fileId :: "ident option"
  ve_userId :: "ident option"
  ve_createdAt :: int
  ve_updatedAt :: int

record file_entity =
  fe_id :: ident
  fe_name :: string
  fe_path :: string
  fe_module :: file_from
  fe_externalId :: ident
  fe_description :: "string option"
  fe_type :: file_type
  fe_lastVersion :: "file_version option"
  fe_lastVersionId :: "ident option"
  fe_userId :: ident
  fe_createdAt :: int
  fe_updatedAt :: int

definition to_version :: "version_row \<Rightarrow> file_version" where
  "to_version row = \<lparr>ve_id = fv_id row, ve_mimetype = fv_mimetype row, ve_size = fv_size row,
     ve_versionId = fv_versionId row, ve_fileId = fv_fileId row, ve_userId = fv_userId row,
     ve_createdAt = fv_createdAt row, ve_updatedAt = fv_updatedAt row\<rparr>"

definition to_file :: "file_row \<Rightarrow> version_row option \<Rightarrow> file_entity" where
  "to_file row version = \<lparr>fe_id = fi_id row, fe_name = fi_name row, fe_path = fi_path row, fe_module = fi_module row,
     fe_externalId = fi_externalId row, fe_description = fi_description row, fe_type = coalesce (fi_type row) Other,
     fe_lastVersion = map_option to_version version, fe_lastVersionId = fi_lastVersionId row,
     fe_userId = fi_userId row, fe_createdAt = fi_createdAt row, fe_updatedAt = fi_updatedAt row\<rparr>"

section \<open>Reading\<close>

text \<open>The left join with the last version.\<close>

definition with_last_version :: "('b, 'x) file_db_scheme \<Rightarrow> file_row \<Rightarrow> file_entity" where
  "with_last_version s r = to_file r (case fi_lastVersionId r of None \<Rightarrow> None
     | Some i \<Rightarrow> find_row (\<lambda>v. fv_id v = i) (file_versions s))"

definition live_file :: "ident \<Rightarrow> file_row \<Rightarrow> bool" where
  "live_file i r = (fi_id r = i \<and> fi_deletedAt r = None)"

definition file_count :: "('b, 'x) file_db_scheme \<Rightarrow> nat" where
  "file_count s = count_rows (\<lambda>r. fi_deletedAt r = None) (files s)"

record found_files =
  ff_nodes :: "file_entity list"
  ff_totalCount :: nat

text \<open>The query has no order: here the order of insertion.\<close>

definition file_find :: "(int \<times> int) option \<Rightarrow> ('b, 'x) file_db_scheme \<Rightarrow> found_files" where
  "file_find options s = (let live = filter (\<lambda>r. fi_deletedAt r = None) (files s);
       (l, off) = coalesce options (20, 0)
     in \<lparr>ff_nodes = map (with_last_version s) (sql_window l off live), ff_totalCount = file_count s\<rparr>)"

definition file_find_by_id :: "ident \<Rightarrow> ('b, 'x) file_db_scheme \<Rightarrow> file_entity option" where
  "file_find_by_id i s = map_option (with_last_version s) (find_row (live_file i) (files s))"

definition file_find_by :: "ident \<Rightarrow> file_from option \<Rightarrow> ('b, 'x) file_db_scheme \<Rightarrow> file_entity option" where
  "file_find_by i m s = map_option (with_last_version s)
     (find_row (\<lambda>r. live_file i r \<and> (m \<noteq> None \<longrightarrow> Some (fi_module r) = m)) (files s))"

definition file_find_version :: "ident \<Rightarrow> ('b, 'x) file_db_scheme \<Rightarrow> file_version list" where
  "file_find_version i s = map to_version (sort_key (\<lambda>v. - fv_createdAt v)
     (filter (\<lambda>v. fv_fileId v = Some i \<and> fv_deletedAt v = None) (file_versions s)))"

definition file_find_version_by_id :: "ident \<Rightarrow> ('b, 'x) file_db_scheme \<Rightarrow> file_version option" where
  "file_find_version_by_id i s =
     map_option to_version (find_row (\<lambda>v. fv_id v = i \<and> fv_deletedAt v = None) (file_versions s))"

section \<open>Downloading\<close>

record file_reply =
  fr_headers :: "(string \<times> string) list"
  fr_body :: string

definition file_path_of :: "adapter_config \<Rightarrow> file_entity \<Rightarrow> exn + string" where
  "file_path_of A f = get_file_path A (fe_userId f) (fe_name f) (fe_module f) (fe_externalId f)"

text \<open>\<open>path.split('/').at(-1)\<close> and the path without it.\<close>

definition last_segment :: "string \<Rightarrow> string" where
  "last_segment p = rev (takeWhile (\<lambda>c. c \<noteq> CHR ''/'') (rev p))"

definition without_last_segment :: "string \<Rightarrow> string" where
  "without_last_segment p = rev (drop 1 (dropWhile (\<lambda>c. c \<noteq> CHR ''/'') (rev p)))"

definition file_not_found :: "ident \<Rightarrow> exn" where
  "file_not_found i = Http_Exn 400 ''file.notFoundWithId'' [(''args'', J_Obj [(''fileId'', J_Str i)])]"

definition version_not_found :: "ident \<Rightarrow> ident \<Rightarrow> exn" where
  "version_not_found i v = Http_Exn 400 ''file.versionNotFoundWithId''
     [(''args'', J_Obj [(''fileId'', J_Str i), (''versionId'', J_Str v)])]"

definition download_object :: "'b s3_client \<Rightarrow> string \<Rightarrow> string option
    \<Rightarrow> (('b, 'x) file_db_scheme, exn, s3_object) comp" where
  "download_object S path version = andThen (adapter_download S path version) (\<lambda>ob.
     if ob_body ob = None
     then throw (Http_Exn 400 ''file.s3DownloadFailed'' [(''args'', J_Obj [(''path'', J_Str path)])])
     else ret ob)"

definition inline_type :: "string \<Rightarrow> bool" where
  "inline_type mimetype = (starts_with mimetype ''image/'' \<or> starts_with mimetype ''video/'' \<or> starts_with mimetype ''audio/'')"

definition nonzero :: "int option \<Rightarrow> bool" where
  "nonzero n = (case n of None \<Rightarrow> False | Some k \<Rightarrow> k \<noteq> 0)"

definition download_headers :: "file_entity \<Rightarrow> file_version option \<Rightarrow> s3_object \<Rightarrow> string \<Rightarrow> (string \<times> string) list" where
  "download_headers f version ob path =
     (let mimetype = or_else (ob_contentType ob) (or_else (map_option ve_mimetype version) ''application/octet-stream'');
          size = (if nonzero (ob_contentLength ob) then ob_contentLength ob else map_option ve_size version)
      in [(''Content-Type'', mimetype),
          (''Content-Disposition'', (if inline_type mimetype then ''inline'' else ''attachment'')
             @ ''; filename='' @ [CHR 0x22] @ last_segment path @ [CHR 0x22])]
       @ (if nonzero size then [(''Content-Length'', show_int (the size))] else [])
       @ (if truthy (ob_lastModified ob) then [(''Last-Modified'', the (ob_lastModified ob))] else [])
       @ (if truthy (ob_etag ob) then [(''ETag'', the (ob_etag ob))] else [])
       @ [(''Cache-Control'', case fe_module f of From_Public \<Rightarrow> ''public, max-age=604800'' | From_User \<Rightarrow> ''private, no-store'')])"

definition privileged :: "string option \<Rightarrow> bool" where
  "privileged role = (role = Some (role_type_str MANAGER) \<or> role = Some (role_type_str ADMIN))"

definition file_download :: "'b s3_client \<Rightarrow> adapter_config \<Rightarrow> ident \<Rightarrow> ident option \<Rightarrow> string option \<Rightarrow> string option
    \<Rightarrow> (('b, 'x) file_db_scheme, exn, file_reply) comp" where
  "file_download S A file_id version_id user_id role =
     andThen (fetch (file_find_by file_id (if \<not> truthy user_id \<or> \<not> truthy role then Some From_Public else None))) (\<lambda>found.
     case found of None \<Rightarrow> throw (file_not_found file_id)
     | Some f \<Rightarrow>
       if truthy user_id \<and> truthy role \<and> Some (fe_userId f) \<noteq> user_id \<and> \<not> privileged role
       then throw (forbidden ''file.accessDenied'')
       else
         andThen (if truthy version_id then fetch (file_find_version_by_id (the version_id)) else ret (fe_lastVersion f)) (\<lambda>version.
         if truthy version_id \<and> (case version of None \<Rightarrow> True | Some v \<Rightarrow> ve_fileId v \<noteq> Some (fe_id f))
         then throw (version_not_found file_id (the version_id))
         else
           andThen (lift (file_path_of A f)) (\<lambda>path.
           andThen (download_object S path (case version of None \<Rightarrow> None | Some v \<Rightarrow> ve_versionId v)) (\<lambda>ob.
           ret \<lparr>fr_headers = download_headers f version ob path, fr_body = the (ob_body ob)\<rparr>))))"

section \<open>Uploading\<close>

record upload_body =
  ub_file_name :: string
  ub_description :: "string option"
  ub_module :: file_from
  ub_externalId :: ident
  ub_type :: file_type
  ub_file :: uploaded_file

record uploaded_version =
  uv_mimetype :: string
  uv_size :: int
  uv_versionId :: "string option"
  uv_fileId :: ident
  uv_userId :: ident

definition upload_version :: "'b s3_client \<Rightarrow> ident \<Rightarrow> ident \<Rightarrow> string \<Rightarrow> upload_body
    \<Rightarrow> (('b, 'x) file_db_scheme, exn, uploaded_version) comp" where
  "upload_version S user_id file_id path u =
     andThen (adapter_upload S user_id (ub_file u) path \<lparr>op_type = Some (ub_type u), op_module = Some (ub_module u),
       op_externalId = Some (ub_externalId u)\<rparr>) (\<lambda>result.
     if \<not> truthy (uo_key result) then throw (bad_request ''file.s3UploadFailed'')
     else andThen (adapter_head S (the (uo_key result)) (uo_versionId result)) (\<lambda>head.
       ret \<lparr>uv_mimetype = uf_mimetype (ub_file u), uv_size = coalesce (ob_contentLength head) 0,
         uv_versionId = uo_versionId result, uv_fileId = file_id, uv_userId = user_id\<rparr>))"

text \<open>\<open>db.transaction\<close>: an exception restores the tables; what S3 did stays done.\<close>

definition file_transaction ::
    "(('b, 'x) file_db_scheme, exn, 'r) comp \<Rightarrow> (('b, 'x) file_db_scheme, exn, 'r) comp" where
  "file_transaction m s = (case m s of
     (Inr r, s') \<Rightarrow> (Inr r, s') | (Inl e, s') \<Rightarrow> (Inl e, s\<lparr>objects := objects s'\<rparr>))"

text \<open>The two unique indexes of the table.  An insert that meets the first becomes an update of the row
  it meets, an insert or update that meets another fails.\<close>

definition same_target :: "string \<Rightarrow> file_from \<Rightarrow> ident \<Rightarrow> file_row \<Rightarrow> bool" where
  "same_target name m e r = (fi_name r = name \<and> fi_module r = m \<and> fi_externalId r = e)"

definition same_place :: "string \<Rightarrow> string \<Rightarrow> file_row \<Rightarrow> bool" where
  "same_place name path r = (fi_name r = name \<and> fi_path r = path)"

definition upsert_file :: "ident \<Rightarrow> int \<Rightarrow> ident \<Rightarrow> string \<Rightarrow> upload_body
    \<Rightarrow> (('b, 'x) file_db_scheme, exn, file_row) comp" where
  "upsert_file new_id now user_id path u s =
     (let target = same_target (ub_file_name u) (ub_module u) (ub_externalId u);
          touch = (\<lambda>r. r\<lparr>fi_description := (if ub_description u = None then fi_description r else ub_description u),
            fi_type := Some (ub_type u), fi_updatedAt := now\<rparr>);
          row = \<lparr>fi_id = new_id, fi_createdAt = now, fi_updatedAt = now, fi_deletedAt = None, fi_name = ub_file_name u,
            fi_path = path, fi_module = ub_module u, fi_externalId = ub_externalId u, fi_description = ub_description u,
            fi_type = Some (ub_type u), fi_lastVersionId = None, fi_userId = user_id\<rparr>
      in case find_row target (files s) of
           Some r \<Rightarrow> (Inr (touch r), s\<lparr>files := update_rows target touch (files s)\<rparr>)
         | None \<Rightarrow>
             if some_row (same_place (ub_file_name u) path) (files s) \<or> some_row (\<lambda>r. fi_id r = new_id) (files s)
             then (Inl (Pg_Exn ''23505''), s)
             else (Inr row, s\<lparr>files := files s @ [row]\<rparr>))"

definition version_row_of :: "ident \<Rightarrow> int \<Rightarrow> uploaded_version \<Rightarrow> version_row" where
  "version_row_of new_id now v = \<lparr>fv_id = new_id, fv_createdAt = now, fv_updatedAt = now, fv_deletedAt = None,
     fv_mimetype = uv_mimetype v, fv_size = uv_size v, fv_versionId = uv_versionId v,
     fv_fileId = Some (uv_fileId v), fv_userId = Some (uv_userId v)\<rparr>"

text \<open>The unique index on \<open>(versionId, fileId)\<close>: rows without a version id do not meet.\<close>

definition same_version :: "uploaded_version \<Rightarrow> version_row \<Rightarrow> bool" where
  "same_version v r = (uv_versionId v \<noteq> None \<and> fv_versionId r = uv_versionId v \<and> fv_fileId r = Some (uv_fileId v))"

definition insert_version :: "ident \<Rightarrow> int \<Rightarrow> uploaded_version \<Rightarrow> (('b, 'x) file_db_scheme, exn, version_row) comp" where
  "insert_version new_id now v s =
     (if some_row (same_version v) (file_versions s) \<or> some_row (\<lambda>r. fv_id r = new_id) (file_versions s)
      then (Inl (Pg_Exn ''23505''), s)
      else (Inr (version_row_of new_id now v), s\<lparr>file_versions := file_versions s @ [version_row_of new_id now v]\<rparr>))"

definition upsert_version :: "ident \<Rightarrow> int \<Rightarrow> uploaded_version \<Rightarrow> (('b, 'x) file_db_scheme, exn, version_row) comp" where
  "upsert_version new_id now v s =
     (let touch = (\<lambda>r. r\<lparr>fv_mimetype := uv_mimetype v, fv_size := uv_size v, fv_updatedAt := now\<rparr>)
      in case find_row (same_version v) (file_versions s) of
           Some r \<Rightarrow> (Inr (touch r), s\<lparr>file_versions := update_rows (same_version v) touch (file_versions s)\<rparr>)
         | None \<Rightarrow> insert_version new_id now v s)"

definition file_update_version :: "int \<Rightarrow> ident \<Rightarrow> ident \<Rightarrow> (('b, 'x) file_db_scheme, exn, nat) comp" where
  "file_update_version now file_id version_id s = (Inr (count_rows (\<lambda>r. fi_id r = file_id) (files s)),
     s\<lparr>files := update_rows (\<lambda>r. fi_id r = file_id)
       (\<lambda>r. r\<lparr>fi_lastVersionId := Some version_id, fi_updatedAt := now\<rparr>) (files s)\<rparr>)"

record upload_ids =
  ui_file :: ident
  ui_version :: ident

definition upload_one :: "'b s3_client \<Rightarrow> adapter_config \<Rightarrow> int \<Rightarrow> ident \<Rightarrow> upload_ids \<times> upload_body
    \<Rightarrow> (('b, 'x) file_db_scheme, exn, file_entity) comp" where
  "upload_one S A now user_id iu = (case iu of (ids, u) \<Rightarrow>
     andThen (lift (get_file_path A user_id (ub_file_name u) (ub_module u) (ub_externalId u))) (\<lambda>path.
     file_transaction
       (andThen (upsert_file (ui_file ids) now user_id (without_last_segment path) u) (\<lambda>saved.
        andThen (upload_version S user_id (fi_id saved) path u) (\<lambda>uploaded.
        andThen (upsert_version (ui_version ids) now uploaded) (\<lambda>version.
        andThen (file_update_version now (fi_id saved) (fv_id version)) (\<lambda>_.
        fetch (\<lambda>s. to_file (the (find_row (\<lambda>r. fi_id r = fi_id saved) (files s))) (Some version)))))))))"

fun upload_each :: "'b s3_client \<Rightarrow> adapter_config \<Rightarrow> int \<Rightarrow> ident \<Rightarrow> (upload_ids \<times> upload_body) list
    \<Rightarrow> (('b, 'x) file_db_scheme, exn, file_entity list) comp" where
  "upload_each S A now user_id [] = ret []"
| "upload_each S A now user_id (u # us) =
     andThen (upload_one S A now user_id u) (\<lambda>f.
     andThen (upload_each S A now user_id us) (\<lambda>fs. ret (f # fs)))"

definition file_uploads :: "'b s3_client \<Rightarrow> adapter_config \<Rightarrow> int \<Rightarrow> ident \<Rightarrow> (upload_ids \<times> upload_body) list
    \<Rightarrow> (('b, 'x) file_db_scheme, exn, found_files) comp" where
  "file_uploads S A now user_id us = andThen (upload_each S A now user_id us) (\<lambda>nodes.
     ret \<lparr>ff_nodes = nodes, ff_totalCount = length nodes\<rparr>)"

section \<open>Updating and deleting\<close>

record update_file_body =
  uf_id :: ident
  uf_name :: "string option"
  uf_description :: "string option"
  uf_file :: "uploaded_file option"

text \<open>The update of the row meets the unique indexes when it changes the name.\<close>

definition rename_file :: "int \<Rightarrow> ident \<Rightarrow> update_file_body \<Rightarrow> (('b, 'x) file_db_scheme, exn, unit) comp" where
  "rename_file now i b s =
     (let change = (\<lambda>r. r\<lparr>fi_name := coalesce (uf_name b) (fi_name r),
            fi_description := (if uf_description b = None then fi_description r else uf_description b), fi_updatedAt := now\<rparr>);
          clash = (\<lambda>r'. \<exists>r\<in>set (files s). fi_id r = i \<and> fi_id r' \<noteq> i
            \<and> (same_target (fi_name (change r)) (fi_module r) (fi_externalId r) r' \<or> same_place (fi_name (change r)) (fi_path r) r'))
      in if some_row clash (files s) then (Inl (Pg_Exn ''23505''), s)
         else (Inr (), s\<lparr>files := update_rows (\<lambda>r. fi_id r = i) change (files s)\<rparr>))"

text \<open>The new content that an update brings.\<close>

definition replace_content :: "'b s3_client \<Rightarrow> adapter_config \<Rightarrow> ident \<Rightarrow> int \<Rightarrow> ident \<Rightarrow> exn + string \<Rightarrow> ident \<Rightarrow> upload_body
    \<Rightarrow> (('b, 'x) file_db_scheme, exn, unit) comp" where
  "replace_content S A version_id now i path user_id u =
     andThen (lift path) (\<lambda>path.
     andThen (upload_version S user_id i path u) (\<lambda>uploaded.
     andThen (insert_version version_id now uploaded) (\<lambda>version.
     andThen (file_update_version now i (fv_id version)) (\<lambda>_. ret ()))))"

definition file_update :: "'b s3_client \<Rightarrow> adapter_config \<Rightarrow> ident \<Rightarrow> int \<Rightarrow> ident \<Rightarrow> update_file_body
    \<Rightarrow> (('b, 'x) file_db_scheme, exn, file_entity) comp" where
  "file_update S A version_id now i b = andThen (fetch (file_find_by_id i)) (\<lambda>found. case found of
     None \<Rightarrow> throw (file_not_found i)
   | Some existing \<Rightarrow>
       (let name = coalesce (uf_name b) (fe_name existing);
            description = (if uf_description b = None then fe_description existing else uf_description b)
        in andThen (whenever (uf_name b \<noteq> None \<or> uf_description b \<noteq> None) (rename_file now i b)) (\<lambda>_.
           andThen (case uf_file b of
               None \<Rightarrow> ret ()
             | Some file \<Rightarrow>
                 replace_content S A version_id now i
                   (get_file_path A (fe_userId existing) name (fe_module existing) (fe_externalId existing)) (fe_userId existing)
                   \<lparr>ub_file_name = name, ub_description = description, ub_module = fe_module existing,
                     ub_externalId = fe_externalId existing, ub_type = fe_type existing, ub_file = file\<rparr>) (\<lambda>_.
           andThen (fetch (file_find_by_id i)) (\<lambda>result. case result of
             None \<Rightarrow> throw (Http_Exn 400 ''file.notFoundAfterUpdate'' [(''args'', J_Obj [(''fileId'', J_Str i)])])
           | Some f \<Rightarrow> ret f)))))"

definition file_delete :: "int \<Rightarrow> ident \<Rightarrow> (('b, 'x) file_db_scheme, exn, nat) comp" where
  "file_delete now i s = (Inr (count_rows (live_file i) (files s)),
     s\<lparr>files := update_rows (live_file i) (\<lambda>r. r\<lparr>fi_deletedAt := Some now, fi_updatedAt := now\<rparr>) (files s)\<rparr>)"

section \<open>Handlers\<close>

record file_version_dto =
  vd_id :: ident
  vd_mimetype :: string
  vd_size :: int
  vd_versionId :: "string option"
  vd_userId :: "ident option"
  vd_createdAt :: int
  vd_updatedAt :: int

record file_dto =
  fd_id :: ident
  fd_name :: string
  fd_description :: "string option"
  fd_lastVersion :: "file_version_dto option"
  fd_lastVersionId :: "ident option"
  fd_versions :: "file_version_dto list"
  fd_userId :: ident
  fd_createdAt :: int
  fd_updatedAt :: int

definition version_to_dto :: "file_version \<Rightarrow> file_version_dto" where
  "version_to_dto v = \<lparr>vd_id = ve_id v, vd_mimetype = ve_mimetype v, vd_size = ve_size v,
     vd_versionId = ve_versionId v, vd_userId = ve_userId v, vd_createdAt = ve_createdAt v, vd_updatedAt = ve_updatedAt v\<rparr>"

text \<open>The entities of the repository have no \<open>versions\<close>, so the list is empty.\<close>

definition file_to_dto :: "file_entity \<Rightarrow> file_dto" where
  "file_to_dto f = \<lparr>fd_id = fe_id f, fd_name = fe_name f, fd_description = fe_description f,
     fd_lastVersion = map_option version_to_dto (fe_lastVersion f), fd_lastVersionId = fe_lastVersionId f,
     fd_versions = [], fd_userId = fe_userId f, fd_createdAt = fe_createdAt f, fd_updatedAt = fe_updatedAt f\<rparr>"

definition file_delete_handler :: "int \<Rightarrow> ident \<Rightarrow> ident \<Rightarrow> string option \<Rightarrow> (('b, 'x) file_db_scheme, exn, bool) comp" where
  "file_delete_handler now i user_id role = andThen (fetch (file_find_by_id i)) (\<lambda>found. case found of
     None \<Rightarrow> throw (not_found ''file.notFound'')
   | Some f \<Rightarrow>
       if fe_userId f \<noteq> user_id \<and> \<not> privileged role then throw (forbidden ''file.accessDenied'')
       else andThen (file_delete now i) (\<lambda>affected. ret (affected > 0)))"

definition file_update_handler :: "'b s3_client \<Rightarrow> adapter_config \<Rightarrow> ident \<Rightarrow> int \<Rightarrow> update_file_body \<Rightarrow> ident \<Rightarrow> string option
    \<Rightarrow> (('b, 'x) file_db_scheme, exn, file_dto) comp" where
  "file_update_handler S A version_id now b user_id role = andThen (fetch (file_find_by_id (uf_id b))) (\<lambda>found. case found of
     None \<Rightarrow> throw (not_found ''file.notFound'')
   | Some f \<Rightarrow>
       if fe_userId f \<noteq> user_id \<and> \<not> privileged role then throw (forbidden ''file.accessDenied'')
       else andThen (file_update S A version_id now (uf_id b) b) (\<lambda>f. ret (file_to_dto f)))"

definition file_get_by_id_handler :: "ident \<Rightarrow> (('b, 'x) file_db_scheme, exn, file_dto) comp" where
  "file_get_by_id_handler i = andThen (fetch (file_find_by_id i)) (\<lambda>found. case found of
     None \<Rightarrow> throw (Http_Exn 404 ''file.notFoundWithId'' [(''args'', J_Obj [(''fileId'', J_Str i)])])
   | Some f \<Rightarrow> ret (file_to_dto f))"

definition files_get_handler :: "int option \<Rightarrow> int option \<Rightarrow> (('b, 'x) file_db_scheme, exn, file_dto paginated) comp" where
  "files_get_handler page per_page = (let p = coalesce page 1; n = coalesce per_page 20 in
     andThen (fetch (file_find (Some (to_sql_pagination p n)))) (\<lambda>found.
     ret (build_paginated (map file_to_dto (ff_nodes found)) (int (ff_totalCount found)) p n)))"

definition files_upload_handler :: "'b s3_client \<Rightarrow> adapter_config \<Rightarrow> int \<Rightarrow> ident \<Rightarrow> (upload_ids \<times> upload_body) list
    \<Rightarrow> (('b, 'x) file_db_scheme, exn, file_dto paginated) comp" where
  "files_upload_handler S A now user_id us = andThen (file_uploads S A now user_id us) (\<lambda>found.
     let items = map file_to_dto (ff_nodes found) in
     ret (build_paginated items (int (ff_totalCount found)) 1 (if items = [] then 1 else int (length items))))"

section \<open>The controller\<close>

text \<open>The parts of a multipart request in their order; the parser of Fastify gives them.\<close>

datatype multipart =
    Field string "string option"
  | File_Part string "string option" "string option" string

definition parse_file_type :: "string option \<Rightarrow> file_type" where
  "parse_file_type value = (if \<not> truthy value then User_File
     else coalesce (List.find (\<lambda>t. file_type_str t = the value) [User_File, Image, Video, Document, Other]) User_File)"

definition trimmed :: "string option \<Rightarrow> string option" where
  "trimmed s = map_option js_trim s"

fun parse_parts :: "ident \<Rightarrow> (string \<Rightarrow> string option) \<Rightarrow> multipart list \<Rightarrow> upload_body list" where
  "parse_parts user_id flds [] = []"
| "parse_parts user_id flds (Field k v # ps) = parse_parts user_id (flds(k \<mapsto> coalesce v [])) ps"
| "parse_parts user_id flds (File_Part fieldname filename mimetype buffer # ps) =
     (if fieldname \<noteq> ''file'' then parse_parts user_id flds ps
      else let name = or_else (trimmed (flds ''name'')) (or_else filename ''file'') in
        \<lparr>ub_file_name = name,
         ub_description = (let d = trimmed (flds ''description'') in if truthy d then d else None),
         ub_module = From_User, ub_externalId = user_id, ub_type = parse_file_type (flds ''type''),
         ub_file = \<lparr>uf_body = buffer, uf_mimetype = or_else mimetype ''application/octet-stream'',
           uf_filename = or_else filename name\<rparr>\<rparr> # parse_parts user_id flds ps)"

definition parse_current_user_uploads :: "multipart list option \<Rightarrow> ident \<Rightarrow> exn + upload_body list" where
  "parse_current_user_uploads parts user_id = (case parts of
     None \<Rightarrow> Inl (bad_request ''file.multipartRequired'')
   | Some ps \<Rightarrow> (let uploads = parse_parts user_id (\<lambda>_. None) ps in
       if uploads = [] then Inl (bad_request ''file.fileRequired'') else Inr uploads))"

text \<open>\<open>ids\<close> are the generated keys of each upload.\<close>

definition upload_endpoint :: "'b s3_client \<Rightarrow> adapter_config \<Rightarrow> int \<Rightarrow> (nat \<Rightarrow> upload_ids) \<Rightarrow> multipart list option \<Rightarrow> ident
    \<Rightarrow> (('b, 'x) file_db_scheme, exn, file_dto paginated) comp" where
  "upload_endpoint S A now ids parts user_id = andThen (lift (parse_current_user_uploads parts user_id)) (\<lambda>payload.
     files_upload_handler S A now user_id (map (\<lambda>k. (ids k, payload ! k)) [0..<length payload]))"

text \<open>The four download endpoints; \<open>is_uuid\<close> is \<open>isUUID\<close> of class-validator.  The public ones pass no
  principal.\<close>

definition download_endpoint :: "'b s3_client \<Rightarrow> adapter_config \<Rightarrow> (string \<Rightarrow> bool) \<Rightarrow> ident \<Rightarrow> ident option
    \<Rightarrow> string option \<Rightarrow> string option \<Rightarrow> (('b, 'x) file_db_scheme, exn, file_reply) comp" where
  "download_endpoint S A is_uuid file_id version_id user_id role =
     (if \<not> is_uuid file_id
      then throw (Http_Exn 400 ''file.invalidId'' [(''args'', J_Obj [(''fileId'', J_Str file_id)])])
      else file_download S A file_id version_id user_id role)"

definition download_public_endpoint :: "'b s3_client \<Rightarrow> adapter_config \<Rightarrow> (string \<Rightarrow> bool) \<Rightarrow> ident \<Rightarrow> ident option
    \<Rightarrow> (('b, 'x) file_db_scheme, exn, file_reply) comp" where
  "download_public_endpoint S A is_uuid file_id version_id = download_endpoint S A is_uuid file_id version_id None None"

end
