(* ===== verification/File_Properties.thy ===== *)
theory File_Properties
  imports File_Module
begin

text \<open>
  The file module: what holds of its tables after every sequence of uploads, updates and deletions;
  that a download gives back what was uploaded, and to whom; the two ways in which a file is lost
  although the request that loses it succeeds.
\<close>

section \<open>The invariant of the tables\<close>

definition file_target :: "file_row \<Rightarrow> string \<times> file_from \<times> ident" where
  "file_target r = (fi_name r, fi_module r, fi_externalId r)"

definition own_row :: "file_row \<Rightarrow> bool" where
  "own_row r = (fi_module r = From_User \<and> fi_externalId r = fi_userId r)"

definition tables_ok :: "('b, 'x) file_db_scheme \<Rightarrow> bool" where
  "tables_ok s = (distinct (map fi_id (files s)) \<and> distinct (map fv_id (file_versions s))
     \<and> distinct (map file_target (files s)) \<and> (\<forall>r\<in>set (files s). own_row r))"

definition row_versioned :: "version_row list \<Rightarrow> file_row \<Rightarrow> bool" where
  "row_versioned vs r = (\<exists>v\<in>set vs. fi_lastVersionId r = Some (fv_id v) \<and> fv_fileId v = Some (fi_id r))"

definition file_inv :: "('b, 'x) file_db_scheme \<Rightarrow> bool" where
  "file_inv s = (tables_ok s \<and> (\<forall>r\<in>set (files s). row_versioned (file_versions s) r))"

lemma tables_okD:
  assumes "tables_ok s"
  shows "distinct (map fi_id (files s))" "distinct (map fv_id (file_versions s))"
    "distinct (map file_target (files s))" "\<And>r. r \<in> set (files s) \<Longrightarrow> own_row r"
  using assms by (simp_all add: tables_ok_def)

lemma file_invD:
  assumes "file_inv s"
  shows "tables_ok s" "\<And>r. r \<in> set (files s) \<Longrightarrow> row_versioned (file_versions s) r"
  using assms by (simp_all add: file_inv_def)

definition same_tables :: "('b, 'x) file_db_scheme \<Rightarrow> ('b, 'x) file_db_scheme \<Rightarrow> bool" where
  "same_tables s s' = (files s' = files s \<and> file_versions s' = file_versions s)"

lemma same_tables_inv: "same_tables s s' \<Longrightarrow> file_inv s' = file_inv s" "same_tables s s' \<Longrightarrow> tables_ok s' = tables_ok s"
  by (simp_all add: same_tables_def file_inv_def tables_ok_def)

lemma same_target_iff: "same_target n m e r \<longleftrightarrow> file_target r = (n, m, e)"
  by (auto simp: same_target_def file_target_def)

section \<open>The steps of an upload\<close>

definition own_upload :: "ident \<Rightarrow> upload_body \<Rightarrow> bool" where
  "own_upload user_id u = (ub_module u = From_User \<and> ub_externalId u = user_id)"

lemma upload_version_tables: "same_tables s (snd (upload_version S user_id i path u s))"
  by (auto simp: upload_version_def andThen_def adapter_upload_def send_upload_def adapter_head_def same_tables_def
      split: prod.split sum.split)

lemma update_rows_touched: "r \<in> set rows \<Longrightarrow> P r \<Longrightarrow> f r \<in> set (update_rows P f rows)"
  by (auto simp: set_update_rows)

lemma upsert_file_spec:
  assumes ok: "tables_ok s" and own: "own_upload user_id u"
    and run: "upsert_file new_id now user_id path u s = (Inr saved, s')"
  shows "tables_ok s' \<and> file_versions s' = file_versions s \<and> objects s' = objects s \<and> saved \<in> set (files s')
    \<and> fi_name saved = ub_file_name u \<and> fi_userId saved = user_id \<and> own_row saved
    \<and> (\<forall>r\<in>set (files s'). fi_id r \<noteq> fi_id saved \<longrightarrow> r \<in> set (files s))
    \<and> (case find_row (same_target (ub_file_name u) (ub_module u) (ub_externalId u)) (files s) of
        Some r \<Rightarrow> fi_id saved = fi_id r \<and> fi_deletedAt saved = fi_deletedAt r
      | None \<Rightarrow> fi_id saved = new_id \<and> fi_deletedAt saved = None)"
proof (cases "find_row (same_target (ub_file_name u) (ub_module u) (ub_externalId u)) (files s)")
  case None
  note ok = tables_okD [OF ok]
  have fresh: "\<forall>r\<in>set (files s). fi_id r \<noteq> new_id"
    and eqs: "saved = \<lparr>fi_id = new_id, fi_createdAt = now, fi_updatedAt = now, fi_deletedAt = None, fi_name = ub_file_name u,
            fi_path = path, fi_module = ub_module u, fi_externalId = ub_externalId u, fi_description = ub_description u,
            fi_type = Some (ub_type u), fi_lastVersionId = None, fi_userId = user_id\<rparr>"
      "s' = s\<lparr>files := files s @ [saved]\<rparr>"
    using run None by (auto simp: upsert_file_def Let_def some_row_iff split: if_splits)
  have "\<forall>r\<in>set (files s). file_target r \<noteq> file_target saved"
    using None by (auto simp: find_row_None same_target_iff eqs file_target_def)
  then have "distinct (map file_target (files s'))" using ok(3) by (force simp: eqs(2))
  moreover have "distinct (map fi_id (files s'))" using ok(1) fresh by (force simp: eqs)
  moreover have "own_row saved" using own by (simp add: eqs own_row_def own_upload_def)
  ultimately show ?thesis using ok None by (auto simp: eqs(2) tables_ok_def) (simp_all add: eqs(1))
next
  case (Some r)
  note ok = tables_okD [OF ok]
  let ?target = "same_target (ub_file_name u) (ub_module u) (ub_externalId u)"
  let ?touch = "\<lambda>r. r\<lparr>fi_description := (if ub_description u = None then fi_description r else ub_description u),
            fi_type := Some (ub_type u), fi_updatedAt := now\<rparr>"
  have r: "r \<in> set (files s)" "?target r" using find_row_SomeD [OF Some] by simp_all
  have eqs: "saved = ?touch r" "s' = s\<lparr>files := update_rows ?target ?touch (files s)\<rparr>"
    using run Some by (simp_all add: upsert_file_def Let_def)
  have keep: "map fi_id (files s') = map fi_id (files s)" "map file_target (files s') = map file_target (files s)"
    by (simp_all add: eqs(2) file_target_def map_update_rows)
  have "\<forall>x\<in>set (update_rows ?target ?touch (files s)). own_row x"
  proof (rule update_rows_all)
    show "own_row (?touch x)" if "own_row x" for x using that by (simp add: own_row_def)
    show "\<forall>x\<in>set (files s). own_row x" using ok(4) by blast
  qed
  then have owned: "\<forall>x\<in>set (files s'). own_row x" by (simp add: eqs(2))
  have saved: "saved \<in> set (files s')" using update_rows_touched [of r "files s" ?target ?touch] r by (simp add: eqs)
  have only: "\<forall>x\<in>set (files s'). fi_id x \<noteq> fi_id saved \<longrightarrow> x \<in> set (files s)"
  proof (intro ballI impI)
    fix x
    assume x: "x \<in> set (files s')" "fi_id x \<noteq> fi_id saved"
    have "x \<in> set (update_rows ?target ?touch (files s))" using x(1) by (simp add: eqs(2))
    then obtain y where y: "y \<in> set (files s)" "x = (if ?target y then ?touch y else y)" by (rule in_update_rowsE)
    have "\<not> ?target y"
    proof
      assume t: "?target y"
      then have "y = r" using unique_key_eq [OF ok(3) y(1) r(1)] r(2) by (simp add: same_target_iff)
      with x(2) y(2) t show False by (simp add: eqs(1))
    qed
    with y show "x \<in> set (files s)" by simp
  qed
  have "own_row r" by (rule ok(4) [OF r(1)])
  with own r(2) have "fi_userId saved = user_id" "own_row saved" "fi_name saved = ub_file_name u"
    by (auto simp: eqs(1) own_row_def own_upload_def same_target_def)
  with Some keep owned saved only ok eqs show ?thesis by (simp add: tables_ok_def)
qed

definition versions_extended :: "version_row list \<Rightarrow> version_row list \<Rightarrow> bool" where
  "versions_extended vs vs' = (\<forall>v\<in>set vs. \<exists>v'\<in>set vs'. fv_id v' = fv_id v \<and> fv_fileId v' = fv_fileId v)"

lemma row_versioned_extended: "versions_extended vs vs' \<Longrightarrow> row_versioned vs r \<Longrightarrow> row_versioned vs' r"
  unfolding versions_extended_def row_versioned_def by metis

lemma insert_version_spec:
  assumes "distinct (map fv_id (file_versions s))" "insert_version new_id now v s = (Inr ver, s')"
  shows "files s' = files s \<and> objects s' = objects s \<and> distinct (map fv_id (file_versions s')) \<and> ver \<in> set (file_versions s')
    \<and> fv_fileId ver = Some (uv_fileId v) \<and> fv_versionId ver = uv_versionId v \<and> fv_mimetype ver = uv_mimetype v
    \<and> versions_extended (file_versions s) (file_versions s')"
  using assms by (auto simp: insert_version_def version_row_of_def some_row_iff versions_extended_def split: if_splits)

lemma upsert_version_spec:
  assumes d: "distinct (map fv_id (file_versions s))" and run: "upsert_version new_id now v s = (Inr ver, s')"
  shows "files s' = files s \<and> objects s' = objects s \<and> distinct (map fv_id (file_versions s')) \<and> ver \<in> set (file_versions s')
    \<and> fv_fileId ver = Some (uv_fileId v) \<and> fv_versionId ver = uv_versionId v \<and> fv_mimetype ver = uv_mimetype v
    \<and> versions_extended (file_versions s) (file_versions s')"
proof (cases "find_row (same_version v) (file_versions s)")
  case None
  with insert_version_spec [OF d] run show ?thesis by (simp add: upsert_version_def Let_def)
next
  case (Some r)
  let ?touch = "\<lambda>r. r\<lparr>fv_mimetype := uv_mimetype v, fv_size := uv_size v, fv_updatedAt := now\<rparr>"
  have eqs: "ver = ?touch r" "s' = s\<lparr>file_versions := update_rows (same_version v) ?touch (file_versions s)\<rparr>"
    using run Some by (simp_all add: upsert_version_def Let_def)
  have r: "r \<in> set (file_versions s)" "same_version v r" using find_row_SomeD [OF Some] by simp_all
  have "map fv_id (file_versions s') = map fv_id (file_versions s)" by (simp add: eqs(2) map_update_rows)
  moreover have "versions_extended (file_versions s) (file_versions s')"
    unfolding versions_extended_def
  proof
    fix x
    assume x: "x \<in> set (file_versions s)"
    then have "(if same_version v x then ?touch x else x) \<in> set (file_versions s')" by (auto simp: eqs(2) set_update_rows)
    then show "\<exists>v'\<in>set (file_versions s'). fv_id v' = fv_id x \<and> fv_fileId v' = fv_fileId x"
      by (rule rev_bexI) simp
  qed
  moreover have "ver \<in> set (file_versions s')" using r by (auto simp: eqs set_update_rows)
  ultimately show ?thesis using d r by (simp add: eqs same_version_def)
qed

lemma attach_version_inv:
  assumes ok: "tables_ok s" and v: "v \<in> set (file_versions s)" "fv_fileId v = Some i"
    and others: "\<And>r. r \<in> set (files s) \<Longrightarrow> fi_id r \<noteq> i \<Longrightarrow> row_versioned (file_versions s) r"
  shows "file_inv (snd (file_update_version now i (fv_id v) s))"
proof -
  note ok = tables_okD [OF ok]
  let ?f = "\<lambda>r. r\<lparr>fi_lastVersionId := Some (fv_id v), fi_updatedAt := now\<rparr>"
  let ?s = "snd (file_update_version now i (fv_id v) s)"
  have s: "files ?s = update_rows (\<lambda>r. fi_id r = i) ?f (files s)" "file_versions ?s = file_versions s"
    by (simp_all add: file_update_version_def)
  have "map fi_id (files ?s) = map fi_id (files s)" "map file_target (files ?s) = map file_target (files s)"
    by (simp_all add: s file_target_def map_update_rows)
  moreover have "\<forall>r\<in>set (files ?s). own_row r \<and> row_versioned (file_versions s) r"
    unfolding s(1) using ok(4) others v by (auto simp: set_update_rows own_row_def row_versioned_def)
  ultimately show ?thesis using ok(1-3) by (simp add: file_inv_def tables_ok_def s(2))
qed

section \<open>The operations keep the invariant\<close>

lemma upload_oneE:
  assumes "upload_one S A now user_id (ids, u) s = (Inr f, s')"
  obtains path saved s1 up s2 ver s3 where
    "get_file_path A user_id (ub_file_name u) (ub_module u) (ub_externalId u) = Inr path"
    "upsert_file (ui_file ids) now user_id (without_last_segment path) u s = (Inr saved, s1)"
    "upload_version S user_id (fi_id saved) path u s1 = (Inr up, s2)"
    "upsert_version (ui_version ids) now up s2 = (Inr ver, s3)"
    "s' = snd (file_update_version now (fi_id saved) (fv_id ver) s3)"
    "f = to_file (the (find_row (\<lambda>r. fi_id r = fi_id saved) (files s'))) (Some ver)"
proof -
  let ?body = "\<lambda>path. andThen (upsert_file (ui_file ids) now user_id (without_last_segment path) u) (\<lambda>saved.
        andThen (upload_version S user_id (fi_id saved) path u) (\<lambda>uploaded.
        andThen (upsert_version (ui_version ids) now uploaded) (\<lambda>version.
        andThen (file_update_version now (fi_id saved) (fv_id version)) (\<lambda>_.
        fetch (\<lambda>s. to_file (the (find_row (\<lambda>r. fi_id r = fi_id saved) (files s))) (Some version))))))"
  have "andThen (lift (get_file_path A user_id (ub_file_name u) (ub_module u) (ub_externalId u)))
      (\<lambda>path. file_transaction (?body path)) s = (Inr f, s')"
    using assms by (simp add: upload_one_def)
  then obtain path where path: "get_file_path A user_id (ub_file_name u) (ub_module u) (ub_externalId u) = Inr path"
    and t: "file_transaction (?body path) s = (Inr f, s')" by (auto elim: andThen_InrE)
  from t have "?body path s = (Inr f, s')" by (simp add: file_transaction_def split: prod.splits sum.splits)
  then obtain saved s1 up s2 ver s3 n s4 where steps: "upsert_file (ui_file ids) now user_id (without_last_segment path) u s = (Inr saved, s1)"
    "upload_version S user_id (fi_id saved) path u s1 = (Inr up, s2)"
    "upsert_version (ui_version ids) now up s2 = (Inr ver, s3)"
    and last: "file_update_version now (fi_id saved) (fv_id ver) s3 = (Inr n, s4)"
      "s' = s4" "f = to_file (the (find_row (\<lambda>r. fi_id r = fi_id saved) (files s4))) (Some ver)"
    by (elim andThen_InrE) (rule that, assumption+, simp_all)
  from last have "s' = snd (file_update_version now (fi_id saved) (fv_id ver) s3)"
    "f = to_file (the (find_row (\<lambda>r. fi_id r = fi_id saved) (files s'))) (Some ver)"
    by (auto simp: file_update_version_def)
  with path steps show thesis by (rule that)
qed

lemma upload_version_run:
  assumes "upload_version S user_id i path u s = (Inr up, s')"
  shows "uv_fileId up = i \<and> uv_mimetype up = uf_mimetype (ub_file u) \<and> files s' = files s \<and> file_versions s' = file_versions s"
  using assms upload_version_tables [of s S user_id i path u]
  by (auto simp: upload_version_def same_tables_def elim!: andThen_InrE split: if_splits)

lemma upload_one_inv:
  assumes "file_inv s" "own_upload user_id u"
  shows "file_inv (snd (upload_one S A now user_id (ids, u) s))"
proof (cases "fst (upload_one S A now user_id (ids, u) s)")
  case (Inl e)
  then have "same_tables s (snd (upload_one S A now user_id (ids, u) s))"
    by (auto simp: upload_one_def andThen_def file_transaction_def same_tables_def split: sum.splits prod.splits)
  with assms(1) show ?thesis by (simp add: same_tables_inv)
next
  case (Inr f)
  then obtain s' where run: "upload_one S A now user_id (ids, u) s = (Inr f, s')" by (metis prod.collapse)
  note inv = file_invD [OF assms(1)]
  from run show ?thesis
  proof (rule upload_oneE)
    fix path saved s1 up s2 ver s3
    assume "upsert_file (ui_file ids) now user_id (without_last_segment path) u s = (Inr saved, s1)"
      and up: "upload_version S user_id (fi_id saved) path u s1 = (Inr up, s2)"
      and ver: "upsert_version (ui_version ids) now up s2 = (Inr ver, s3)"
      and s': "s' = snd (file_update_version now (fi_id saved) (fv_id ver) s3)"
    from upsert_file_spec [OF inv(1) assms(2) this(1)] have a: "tables_ok s1" "file_versions s1 = file_versions s"
      "\<forall>r\<in>set (files s1). fi_id r \<noteq> fi_id saved \<longrightarrow> r \<in> set (files s)" by simp_all
    have b: "uv_fileId up = fi_id saved" "files s2 = files s1" "file_versions s2 = file_versions s1"
      using upload_version_run [OF up] by simp_all
    have "distinct (map fv_id (file_versions s2))" using tables_okD(2) [OF a(1)] by (simp add: b)
    from upsert_version_spec [OF this ver] have c: "files s3 = files s2" "distinct (map fv_id (file_versions s3))"
      "ver \<in> set (file_versions s3)" "fv_fileId ver = Some (fi_id saved)" "versions_extended (file_versions s2) (file_versions s3)"
      using b by simp_all
    have "tables_ok s3" using a(1) b c(1,2) by (simp add: tables_ok_def)
    moreover have "row_versioned (file_versions s3) r" if "r \<in> set (files s3)" "fi_id r \<noteq> fi_id saved" for r
    proof -
      have "r \<in> set (files s)" using a(3) b(2) c(1) that by simp
      from inv(2) [OF this] row_versioned_extended [OF c(5)] a(2) b(3) show ?thesis by simp
    qed
    ultimately have "file_inv s'" unfolding s' by (rule attach_version_inv [OF _ c(3,4)])
    then show ?thesis by (simp add: run)
  qed
qed

lemma upload_each_inv:
  "file_inv s \<Longrightarrow> \<forall>iu\<in>set us. own_upload user_id (snd iu) \<Longrightarrow> file_inv (snd (upload_each S A now user_id us s))"
proof (induction us arbitrary: s)
  case (Cons iu us)
  have one: "file_inv (snd (upload_one S A now user_id iu s))"
    using upload_one_inv [OF Cons.prems(1), of user_id "snd iu" S A now "fst iu"] Cons.prems(2) by simp
  obtain r s1 where r: "upload_one S A now user_id iu s = (r, s1)" by fastforce
  show ?case
  proof (cases r)
    case (Inl e)
    with r one show ?thesis by simp
  next
    case (Inr f)
    with r have "snd (upload_each S A now user_id (iu # us) s) = snd (upload_each S A now user_id us s1)"
      by (simp add: andThen_def split: prod.split sum.split)
    with Cons.IH [of s1] Cons.prems(2) one r show ?thesis by simp
  qed
qed simp

lemma parse_parts_own: "u \<in> set (parse_parts user_id flds ps) \<Longrightarrow> own_upload user_id u"
  by (induction user_id flds ps rule: parse_parts.induct) (auto simp: own_upload_def Let_def split: if_splits)

lemma upload_endpoint_inv: "file_inv s \<Longrightarrow> file_inv (snd (upload_endpoint S A now ids parts user_id s))"
proof (cases "parse_current_user_uploads parts user_id")
  case (Inl e)
  assume "file_inv s"
  with Inl show ?thesis by (simp add: upload_endpoint_def)
next
  case (Inr us)
  assume inv: "file_inv s"
  let ?us = "map (\<lambda>k. (ids k, us ! k)) [0..<length us]"
  have "\<forall>u\<in>set us. own_upload user_id u"
    using Inr by (auto simp: parse_current_user_uploads_def Let_def parse_parts_own split: option.splits if_splits)
  then have "\<forall>iu\<in>set ?us. own_upload user_id (snd iu)" by auto
  from upload_each_inv [OF inv this] have "file_inv (snd (upload_each S A now user_id ?us s))" .
  moreover have "snd (upload_endpoint S A now ids parts user_id s) = snd (upload_each S A now user_id ?us s)"
    using Inr by (simp add: upload_endpoint_def files_upload_handler_def file_uploads_def andThen_def Let_def
        split: prod.split sum.split)
  ultimately show ?thesis by simp
qed

lemma file_delete_inv: "file_inv s \<Longrightarrow> file_inv (snd (file_delete now i s))"
proof -
  assume inv: "file_inv s"
  let ?f = "\<lambda>r. r\<lparr>fi_deletedAt := Some now, fi_updatedAt := now\<rparr>" and ?s = "snd (file_delete now i s)"
  have s: "files ?s = update_rows (live_file i) ?f (files s)" "file_versions ?s = file_versions s"
    by (simp_all add: file_delete_def)
  have "map fi_id (files ?s) = map fi_id (files s)" "map file_target (files ?s) = map file_target (files s)"
    by (simp_all add: s file_target_def map_update_rows)
  moreover have "\<forall>r\<in>set (files ?s). own_row r \<and> row_versioned (file_versions s) r"
    unfolding s(1)
  proof (rule update_rows_all)
    show "own_row (?f r) \<and> row_versioned (file_versions s) (?f r)" if "own_row r \<and> row_versioned (file_versions s) r" for r
      using that by (simp add: own_row_def row_versioned_def)
    show "\<forall>r\<in>set (files s). own_row r \<and> row_versioned (file_versions s) r"
      using inv by (simp add: file_inv_def tables_ok_def)
  qed
  ultimately show ?thesis using inv by (simp add: file_inv_def tables_ok_def s(2))
qed

lemma file_delete_handler_inv: "file_inv s \<Longrightarrow> file_inv (snd (file_delete_handler now i user_id role s))"
  using file_delete_inv [of s now i]
  by (simp add: file_delete_handler_def andThen_def file_delete_def split: option.split)

lemma rename_file_inv:
  assumes inv: "file_inv s"
  shows "file_inv (snd (rename_file now i b s))"
proof -
  let ?change = "\<lambda>r. r\<lparr>fi_name := coalesce (uf_name b) (fi_name r),
            fi_description := (if uf_description b = None then fi_description r else uf_description b), fi_updatedAt := now\<rparr>"
  let ?clash = "\<lambda>r'. \<exists>r\<in>set (files s). fi_id r = i \<and> fi_id r' \<noteq> i
      \<and> (same_target (fi_name (?change r)) (fi_module r) (fi_externalId r) r' \<or> same_place (fi_name (?change r)) (fi_path r) r')"
  let ?s = "snd (rename_file now i b s)"
  note ok = tables_okD [OF file_invD(1) [OF inv]]
  show ?thesis
  proof (cases "some_row ?clash (files s)")
    case True
    with inv show ?thesis by (simp add: rename_file_def Let_def)
  next
    case False
    have s: "files ?s = update_rows (\<lambda>r. fi_id r = i) ?change (files s)" "file_versions ?s = file_versions s"
      unfolding rename_file_def Let_def if_not_P [OF False] by simp_all
    have ids: "map fi_id (files ?s) = map fi_id (files s)" by (simp add: s map_update_rows)
    have rows: "\<forall>r\<in>set (files ?s). own_row r \<and> row_versioned (file_versions s) r"
      unfolding s(1)
    proof (rule update_rows_all)
      show "own_row (?change r) \<and> row_versioned (file_versions s) (?change r)"
        if "own_row r \<and> row_versioned (file_versions s) r" for r
        using that by (simp add: own_row_def row_versioned_def)
      show "\<forall>r\<in>set (files s). own_row r \<and> row_versioned (file_versions s) r"
        using inv by (simp add: file_inv_def tables_ok_def)
    qed
    have "inj_on file_target (set (files ?s))"
    proof (rule inj_onI)
      fix x y
      assume xy: "x \<in> set (files ?s)" "y \<in> set (files ?s)" "file_target x = file_target y"
      obtain x0 y0 where 0: "x0 \<in> set (files s)" "x = (if fi_id x0 = i then ?change x0 else x0)"
          "y0 \<in> set (files s)" "y = (if fi_id y0 = i then ?change y0 else y0)"
        using xy(1,2) unfolding s(1) by (elim in_update_rowsE) (rule that)
      have no: "\<not> (fi_id a = i \<and> fi_id b' \<noteq> i \<and> file_target (?change a) = file_target b')"
        if "a \<in> set (files s)" "b' \<in> set (files s)" for a b'
      proof
        assume *: "fi_id a = i \<and> fi_id b' \<noteq> i \<and> file_target (?change a) = file_target b'"
        then have "same_target (fi_name (?change a)) (fi_module a) (fi_externalId a) b'"
          by (simp add: same_target_iff file_target_def)
        with * that have "?clash b'" by blast
        with False that(2) show False by (auto simp only: some_row_iff)
      qed
      show "x = y"
      proof (cases "fi_id x0 = i"; cases "fi_id y0 = i")
        assume "fi_id x0 = i" "fi_id y0 = i"
        with unique_key_eq [OF ok(1) 0(1,3)] 0 show ?thesis by simp
      next
        assume "fi_id x0 = i" "fi_id y0 \<noteq> i"
        with no [OF 0(1,3)] 0 xy(3) show ?thesis by simp
      next
        assume "fi_id x0 \<noteq> i" "fi_id y0 = i"
        with no [OF 0(3,1)] 0 xy(3) show ?thesis by simp
      next
        assume "fi_id x0 \<noteq> i" "fi_id y0 \<noteq> i"
        with unique_key_eq [OF ok(3) 0(1,3)] 0 xy(3) show ?thesis by simp
      qed
    qed
    moreover have "distinct (files ?s)" using ids ok(1) by (metis distinct_map)
    ultimately have "distinct (map file_target (files ?s))" by (simp add: distinct_map)
    with ids rows ok(1,2) show ?thesis by (simp add: file_inv_def tables_ok_def s(2))
  qed
qed

lemma replace_content_inv:
  assumes inv: "file_inv s"
  shows "file_inv (snd (replace_content S A version_id now i path user_id u s))"
proof (cases path)
  case (Inl e)
  with inv show ?thesis by (simp add: replace_content_def)
next
  case path: (Inr p)
  obtain r s1 where up: "upload_version S user_id i p u s = (r, s1)" by fastforce
  have "same_tables s s1" using upload_version_tables [of s S user_id i p u] by (simp add: up)
  then have inv1: "file_inv s1" using inv by (simp add: same_tables_inv)
  show ?thesis
  proof (cases r)
    case (Inl e)
    with path up inv1 show ?thesis by (simp add: replace_content_def)
  next
    case r: (Inr v)
    obtain q s2 where ins: "insert_version version_id now v s1 = (q, s2)" by fastforce
    have vi: "uv_fileId v = i" using upload_version_run up r by blast
    show ?thesis
    proof (cases q)
      case (Inl e)
      then have "s2 = s1" using ins by (auto simp: insert_version_def split: if_splits)
      with path up r ins Inl inv1 show ?thesis by (simp add: replace_content_def)
    next
      case (Inr ver)
      note ok = file_invD(1) [OF inv1]
      have sp: "files s2 = files s1" "distinct (map fv_id (file_versions s2))" "ver \<in> set (file_versions s2)"
        "fv_fileId ver = Some i" "versions_extended (file_versions s1) (file_versions s2)"
        using insert_version_spec [OF tables_okD(2) [OF ok] ins [unfolded Inr]] vi by simp_all
      have "tables_ok s2" using ok sp(1,2) by (simp add: tables_ok_def)
      moreover have "row_versioned (file_versions s2) r" if "r \<in> set (files s2)" for r
        using file_invD(2) [OF inv1, of r] that sp(1) row_versioned_extended [OF sp(5)] by simp
      ultimately have "file_inv (snd (file_update_version now i (fv_id ver) s2))"
        by (intro attach_version_inv [OF _ sp(3,4)])
      with path up r ins Inr show ?thesis by (simp add: replace_content_def file_update_version_def)
    qed
  qed
qed

lemma file_update_keeps: "keeps file_inv (file_update S A version_id now i b)"
proof -
  have "keeps file_inv (rename_file now i b)" by (rule keepsI) (rule rename_file_inv)
  moreover have "keeps file_inv (replace_content S A version_id now i path user_id u)" for path user_id u
    by (rule keepsI) (rule replace_content_inv)
  ultimately show ?thesis
    unfolding file_update_def Let_def
    by (intro keeps_andThen keeps_fetch) (auto split: option.split intro!: keeps_andThen)
qed

lemma file_update_handler_keeps: "keeps file_inv (file_update_handler S A version_id now b user_id role)"
  unfolding file_update_handler_def
  by (intro keeps_andThen keeps_fetch) (auto split: option.split intro!: keeps_andThen file_update_keeps)

section \<open>The state machine\<close>

definition no_files :: "('b, 'x) file_db_scheme \<Rightarrow> bool" where
  "no_files s = (files s = [] \<and> file_versions s = [])"

inductive file_step :: "'b s3_client \<Rightarrow> adapter_config \<Rightarrow> ('b, 'x) file_db_scheme \<Rightarrow> ('b, 'x) file_db_scheme \<Rightarrow> bool"
  for S A where
  step_upload: "file_step S A s (snd (upload_endpoint S A now ids parts user_id s))"
| step_file_update: "file_step S A s (snd (file_update_handler S A version_id now b user_id role s))"
| step_file_delete: "file_step S A s (snd (file_delete_handler now i user_id role s))"
| step_file_elsewhere: "same_tables s s' \<Longrightarrow> file_step S A s s'"

inductive_cases file_stepE: "file_step S A s s'"

interpretation file_machine: transitions no_files "file_step S A" file_inv for S A
  by unfold_locales
    (simp add: no_files_def file_inv_def tables_ok_def, erule file_stepE,
      auto simp: upload_endpoint_inv keepsD [OF file_update_handler_keeps] file_delete_handler_inv same_tables_inv)

section \<open>What is uploaded is downloaded\<close>

lemma upload_version_stored:
  assumes ok: "s3_ok S" and run: "upload_version S user_id i path u s = (Inr up, s')"
  shows "\<exists>ob. s3_get S path (uv_versionId up) (objects s') = Inr ob \<and> ob_body ob = Some (uf_body (ub_file u))
    \<and> ob_contentType ob = Some (uf_mimetype (ub_file u))"
proof -
  let ?p = "\<lparr>up_key = path, up_body = uf_body (ub_file u), up_contentType = uf_mimetype (ub_file u),
     up_metadata = [(''userId'', user_id), (''type'', file_type_str (coalesce (Some (ub_type u)) Other)),
       (''module'', file_from_str (coalesce (Some (ub_module u)) From_Public)),
       (''externalId'', coalesce (Some (ub_externalId u)) NIL_UUID)]\<rparr>"
  from run obtain out s1 where send: "send_upload S ?p s = (Inr out, s1)"
    and rest: "uv_versionId up = uo_versionId out" "objects s' = objects s1"
    by (auto simp: upload_version_def adapter_upload_def adapter_head_def elim!: andThen_InrE split: if_splits)
  show ?thesis
  proof (rule send_upload_ok [OF ok send])
    fix b
    assume b: "s1 = s\<lparr>objects := b\<rparr>"
      and get: "\<And>v. v = None \<or> v = uo_versionId out \<Longrightarrow> \<exists>ob. s3_get S (up_key ?p) v b = Inr ob
       \<and> s3_head S (up_key ?p) v b = Inr (ob\<lparr>ob_body := None\<rparr>)
       \<and> ob_body ob = Some (up_body ?p) \<and> ob_contentType ob = Some (up_contentType ?p)"
    obtain ob where ob: "s3_get S (up_key ?p) (uo_versionId out) b = Inr ob" "ob_body ob = Some (up_body ?p)"
      "ob_contentType ob = Some (up_contentType ?p)" using get [OF disjI2 [OF refl]] by blast
    show ?thesis by (rule exI [of _ ob]) (use ob b rest in simp)
  qed
qed

text \<open>The state after an upload that succeeded.\<close>

lemma upload_one_state:
  assumes inv: "file_inv s" and own: "own_upload user_id u" and s3: "s3_ok S"
    and run: "upload_one S A now user_id (ids, u) s = (Inr f, s')"
  obtains r v path ob where "find_row (\<lambda>r. fi_id r = fe_id f) (files s') = Some r" "fi_name r = ub_file_name u"
    "fi_userId r = user_id" "own_row r" "fi_id r = fe_id f"
    "find_row (\<lambda>v. Some (fv_id v) = fi_lastVersionId r) (file_versions s') = Some v"
    "fv_fileId v = Some (fi_id r)" "fv_mimetype v = uf_mimetype (ub_file u)"
    "get_file_path A user_id (ub_file_name u) From_User user_id = Inr path"
    "s3_get S path (fv_versionId v) (objects s') = Inr ob" "ob_body ob = Some (uf_body (ub_file u))"
    "ob_contentType ob = Some (uf_mimetype (ub_file u))"
    "case find_row (same_target (ub_file_name u) (ub_module u) (ub_externalId u)) (files s) of
        Some r0 \<Rightarrow> fi_id r = fi_id r0 \<and> fi_deletedAt r = fi_deletedAt r0 | None \<Rightarrow> fi_deletedAt r = None"
proof -
  note inv1 = file_invD [OF inv]
  from run show thesis
  proof (rule upload_oneE)
    fix path saved s1 up s2 ver s3
    assume path: "get_file_path A user_id (ub_file_name u) (ub_module u) (ub_externalId u) = Inr path"
      and saved: "upsert_file (ui_file ids) now user_id (without_last_segment path) u s = (Inr saved, s1)"
      and up: "upload_version S user_id (fi_id saved) path u s1 = (Inr up, s2)"
      and ver: "upsert_version (ui_version ids) now up s2 = (Inr ver, s3)"
      and s': "s' = snd (file_update_version now (fi_id saved) (fv_id ver) s3)"
      and f: "f = to_file (the (find_row (\<lambda>r. fi_id r = fi_id saved) (files s'))) (Some ver)"
    note spec = upsert_file_spec [OF inv1(1) own saved]
    have b: "uv_fileId up = fi_id saved" "files s2 = files s1" "file_versions s2 = file_versions s1"
      "uv_mimetype up = uf_mimetype (ub_file u)" using upload_version_run [OF up] by simp_all
    have "distinct (map fv_id (file_versions s2))" using spec tables_okD(2) by (metis b(3))
    note c = upsert_version_spec [OF this ver]
    let ?r = "saved\<lparr>fi_lastVersionId := Some (fv_id ver), fi_updatedAt := now\<rparr>"
    have "distinct (map fi_id (files s1))" using spec tables_okD(1) by blast
    then have "find_row (\<lambda>r. fi_id r = fi_id saved) (files s1) = Some saved"
      using spec by (intro find_row_unique_key [where k = fi_id]) auto
    then have find: "find_row (\<lambda>r. fi_id r = fi_id saved) (files s') = Some ?r"
      using c b(2) by (simp add: s' file_update_version_def find_row_update_same)
    have id: "fe_id f = fi_id saved" by (simp add: f find to_file_def)
    have objs: "objects s' = objects s2" using c by (simp add: s' file_update_version_def)
    obtain ob where ob: "s3_get S path (uv_versionId up) (objects s2) = Inr ob" "ob_body ob = Some (uf_body (ub_file u))"
      "ob_contentType ob = Some (uf_mimetype (ub_file u))" using upload_version_stored [OF s3 up] by blast
    have vs: "file_versions s' = file_versions s3" by (simp add: s' file_update_version_def)
    have fv: "find_row (\<lambda>v. Some (fv_id v) = fi_lastVersionId ?r) (file_versions s') = Some ver"
      using c by (intro find_row_unique_key [where k = fv_id]) (simp_all add: vs)
    show thesis
    proof (rule that [of ?r ver path ob])
      show "case find_row (same_target (ub_file_name u) (ub_module u) (ub_externalId u)) (files s) of
        Some r0 \<Rightarrow> fi_id ?r = fi_id r0 \<and> fi_deletedAt ?r = fi_deletedAt r0 | None \<Rightarrow> fi_deletedAt ?r = None"
        using spec by (simp split: option.splits)
    qed (use find fv id objs ob c b path own spec in \<open>simp_all add: own_row_def own_upload_def\<close>)
  qed
qed

lemma find_live_file:
  assumes "find_row (\<lambda>r. fi_id r = i) rows = Some r" "distinct (map fi_id rows)" "fi_deletedAt r = None"
  shows "find_row (live_file i) rows = Some r"
  using find_row_SomeD [OF assms(1)] assms(2,3)
  by (intro find_row_unique_key [where k = fi_id]) (auto simp: live_file_def)

lemma find_deleted_file:
  assumes "find_row (\<lambda>r. fi_id r = i) rows = Some r" "distinct (map fi_id rows)" "fi_deletedAt r \<noteq> None"
  shows "find_row (live_file i) rows = None"
  unfolding find_row_None
proof
  fix x
  assume x: "x \<in> set rows"
  show "\<not> live_file i x"
    using unique_key_eq [OF assms(2) x, of r] find_row_SomeD [OF assms(1)] assms(3) by (auto simp: live_file_def)
qed

lemma download_header_lookup:
  "map_of (download_headers f v ob path) ''Content-Type'' =
     Some (or_else (ob_contentType ob) (or_else (map_option ve_mimetype v) ''application/octet-stream''))"
  "map_of (download_headers f v ob path) ''Cache-Control'' =
     Some (case fe_module f of From_Public \<Rightarrow> ''public, max-age=604800'' | From_User \<Rightarrow> ''private, no-store'')"
  by (simp_all add: download_headers_def Let_def map_add_def)

lemma download_of_found:
  assumes "find_row (\<lambda>r. live_file i r \<and> (m \<noteq> None \<longrightarrow> Some (fi_module r) = m)) (files s) = Some r"
    and "m = (if \<not> truthy uid \<or> \<not> truthy role then Some From_Public else None)"
    and "truthy uid \<and> truthy role \<longrightarrow> Some (fi_userId r) = uid \<or> privileged role"
    and "find_row (\<lambda>v. Some (fv_id v) = fi_lastVersionId r) (file_versions s) = Some v"
    and "get_file_path A (fi_userId r) (fi_name r) (fi_module r) (fi_externalId r) = Inr path"
  shows "file_download S A i None uid role s = (case s3_get S path (fv_versionId v) (objects s) of
     Inl e \<Rightarrow> (Inl e, s)
   | Inr ob \<Rightarrow> (case ob_body ob of
       None \<Rightarrow> (Inl (Http_Exn 400 ''file.s3DownloadFailed'' [(''args'', J_Obj [(''path'', J_Str path)])]), s)
     | Some body \<Rightarrow> (Inr \<lparr>fr_headers = download_headers (with_last_version s r) (Some (to_version v)) ob path, fr_body = body\<rparr>, s)))"
proof -
  obtain l where l: "fi_lastVersionId r = Some l" "l = fv_id v" using find_row_SomeD [OF assms(4)] by auto
  have v: "find_row (\<lambda>v. fv_id v = l) (file_versions s) = Some v"
    using assms(4) l(1) by (simp add: eq_commute)
  have f: "fe_lastVersion (with_last_version s r) = Some (to_version v)" "fe_userId (with_last_version s r) = fi_userId r"
    "file_path_of A (with_last_version s r) = Inr path"
    using l v assms(5) by (simp_all add: with_last_version_def to_file_def file_path_of_def)
  have found: "file_find_by i m s = Some (with_last_version s r)" using assms(1) by (simp add: file_find_by_def)
  show ?thesis
    using found f assms(2,3)
    by (auto simp: file_download_def andThen_def download_object_def adapter_download_def to_version_def
        split: sum.split option.split)
qed


text \<open>
  Uploading a file under the name of one that its owner deleted succeeds, stores the object and
  answers with the file, but revives nothing: the answered id still finds no file and cannot be
  downloaded.
\<close>

theorem reupload_stays_deleted:
  fixes s :: "('b, 'x) file_db_scheme"
  assumes "reach no_files (file_step S A) s" "s3_ok S" "own_upload user_id u"
    and "upload_one S A now user_id (ids, u) s = (Inr f, s')"
    and "r \<in> set (files s)" "same_target (ub_file_name u) (ub_module u) (ub_externalId u) r" "fi_deletedAt r \<noteq> None"
  shows "fe_id f = fi_id r \<and> file_find_by_id (fe_id f) s' = None
    \<and> (\<forall>uid role. file_download S A (fe_id f) None uid role s' = (Inl (file_not_found (fe_id f)), s'))"
proof -
  have inv: "file_inv s" by (rule file_machine.reach_inv [OF assms(1)])
  obtain r' v path ob where st: "find_row (\<lambda>r. fi_id r = fe_id f) (files s') = Some r'" "fi_name r' = ub_file_name u"
    "fi_userId r' = user_id" "own_row r'" "fi_id r' = fe_id f"
    "find_row (\<lambda>v. Some (fv_id v) = fi_lastVersionId r') (file_versions s') = Some v"
    "fv_fileId v = Some (fi_id r')" "fv_mimetype v = uf_mimetype (ub_file u)"
    "get_file_path A user_id (ub_file_name u) From_User user_id = Inr path"
    "s3_get S path (fv_versionId v) (objects s') = Inr ob" "ob_body ob = Some (uf_body (ub_file u))"
    "ob_contentType ob = Some (uf_mimetype (ub_file u))"
    "case find_row (same_target (ub_file_name u) (ub_module u) (ub_externalId u)) (files s) of
        Some r0 \<Rightarrow> fi_id r' = fi_id r0 \<and> fi_deletedAt r' = fi_deletedAt r0 | None \<Rightarrow> fi_deletedAt r' = None"
    by (rule upload_one_state [OF inv assms(3,2,4)]) (rule that)
  have find: "find_row (same_target (ub_file_name u) (ub_module u) (ub_externalId u)) (files s) = Some r"
    using tables_okD(3) [OF file_invD(1) [OF inv]] assms(5,6)
    by (intro find_row_unique_key [where k = file_target]) (simp_all add: same_target_iff)
  have r': "fi_id r' = fi_id r" "fi_deletedAt r' \<noteq> None" using st(13) find assms(7) by simp_all
  have "file_inv s'" using upload_one_inv [OF inv assms(3), of S A now ids] by (simp add: assms(4))
  then have d: "distinct (map fi_id (files s'))" using tables_okD(1) file_invD(1) by blast
  have none: "find_row (live_file (fe_id f)) (files s') = None" by (rule find_deleted_file [OF st(1) d r'(2)])
  then have "find_row (\<lambda>r. live_file (fe_id f) r \<and> Q r) (files s') = None" for Q by (simp add: find_row_None)
  then have "file_find_by (fe_id f) m s' = None" for m by (simp add: file_find_by_def)
  with none r'(1) st(5) show ?thesis by (simp add: file_download_def file_find_by_id_def)
qed

text \<open>
  C14.  The tables of the file module after every sequence of uploads, updates, deletions and of
  whatever else leaves them alone: ids and the triples of name, module and owner are unique, every file
  belongs to a user, and its last version is a version of this file.  So no public file exists, and
  the public download endpoints answer every id with 400.
\<close>

theorem file_table_invariant:
  fixes s :: "('b, 'x) file_db_scheme"
  assumes "reach no_files (file_step S A) s" "r \<in> set (files s)"
  shows "(\<forall>r'\<in>set (files s). fi_id r' = fi_id r \<or> same_target (fi_name r) (fi_module r) (fi_externalId r) r' \<longrightarrow> r' = r)
    \<and> fi_module r = From_User \<and> fi_externalId r = fi_userId r
    \<and> (\<exists>v. find_row (\<lambda>v. Some (fv_id v) = fi_lastVersionId r) (file_versions s) = Some v \<and> fv_fileId v = Some (fi_id r))
    \<and> (\<forall>i v. file_download S A i v None None s = (Inl (file_not_found i), s))"
proof -
  have inv: "file_inv s" by (rule file_machine.reach_inv [OF assms(1)])
  note ok = tables_okD [OF file_invD(1) [OF inv]]
  have own: "own_row r" by (rule ok(4) [OF assms(2)])
  obtain v where v: "v \<in> set (file_versions s)" "fi_lastVersionId r = Some (fv_id v)" "fv_fileId v = Some (fi_id r)"
    using file_invD(2) [OF inv assms(2)] by (auto simp: row_versioned_def)
  have "find_row (\<lambda>v. Some (fv_id v) = fi_lastVersionId r) (file_versions s) = Some v"
    using v ok(2) by (intro find_row_unique_key [where k = fv_id]) simp_all
  moreover have "r' = r" if "r' \<in> set (files s)" "fi_id r' = fi_id r \<or> same_target (fi_name r) (fi_module r) (fi_externalId r) r'" for r'
    using that(2) unique_key_eq [OF ok(1) that(1) assms(2)] unique_key_eq [OF ok(3) that(1) assms(2)]
    by (auto simp: same_target_iff file_target_def)
  moreover have "file_find_by i (Some From_Public) s = None" for i
    using ok(4) by (auto simp: file_find_by_def find_row_None own_row_def)
  ultimately show ?thesis using own v(3) by (auto simp: own_row_def file_download_def)
qed

section \<open>Who may download\<close>

text \<open>
  C27.  A download changes nothing, and it answers with content only for a file that is not deleted, and
  then to its owner, to a manager or to an administrator, or to anyone if the file is public; a
  version that is asked for is a version of that file.
\<close>

theorem download_access:
  fixes s :: "('b, 'x) file_db_scheme"
  assumes "file_download S A i version uid role s = (Inr reply, s')"
  shows "s' = s \<and> (\<exists>r\<in>set (files s). fi_id r = i \<and> fi_deletedAt r = None
    \<and> (if truthy uid \<and> truthy role then Some (fi_userId r) = uid \<or> privileged role else fi_module r = From_Public)
    \<and> (if truthy version then \<exists>w\<in>set (file_versions s). Some (fv_id w) = version \<and> fv_fileId w = Some i \<and> fv_deletedAt w = None
       else True))"
proof -
  let ?m = "if \<not> truthy uid \<or> \<not> truthy role then Some From_Public else None"
  obtain f where f: "file_find_by i ?m s = Some f"
    using assms by (cases "file_find_by i ?m s") (simp_all add: file_download_def)
  then obtain r where r: "find_row (\<lambda>r. live_file i r \<and> (?m \<noteq> None \<longrightarrow> Some (fi_module r) = ?m)) (files s) = Some r"
      "f = with_last_version s r" by (auto simp: file_find_by_def)
  note row = find_row_SomeD [OF r(1)]
  have fe: "fe_userId f = fi_userId r" "fe_id f = fi_id r" using r(2) by (simp_all add: with_last_version_def to_file_def)
  have access: "\<not> (truthy uid \<and> truthy role \<and> Some (fe_userId f) \<noteq> uid \<and> \<not> privileged role)"
  proof
    assume "truthy uid \<and> truthy role \<and> Some (fe_userId f) \<noteq> uid \<and> \<not> privileged role"
    with assms f show False by (simp add: file_download_def)
  qed
  have "s' = s \<and> (truthy version \<longrightarrow> (\<exists>v. file_find_version_by_id (the version) s = Some v \<and> ve_fileId v = Some (fe_id f)))"
    using assms f access
    by (auto simp: file_download_def download_object_def adapter_download_def elim!: andThen_InrE
        split: if_splits option.splits)
  moreover have "\<exists>w\<in>set (file_versions s). Some (fv_id w) = version \<and> fv_fileId w = Some i \<and> fv_deletedAt w = None"
    if "truthy version" "file_find_version_by_id (the version) s = Some v" "ve_fileId v = Some (fe_id f)" for v
  proof -
    from that(1) have "version \<noteq> None" by (cases version) simp_all
    then obtain x where x: "version = Some x" by blast
    from that(2) x obtain w where w: "find_row (\<lambda>v. fv_id v = x \<and> fv_deletedAt v = None) (file_versions s) = Some w" "v = to_version w"
      by (auto simp: file_find_version_by_id_def)
    have "ve_fileId v = fv_fileId w" by (simp add: w(2) to_version_def)
    with find_row_SomeD [OF w(1)] x that(3) fe(2) row show ?thesis by (auto simp: live_file_def)
  qed
  moreover have "if truthy uid \<and> truthy role then Some (fi_userId r) = uid \<or> privileged role else fi_module r = From_Public"
    using access fe(1) row by (auto split: if_splits)
  ultimately show ?thesis using row by (auto simp: live_file_def)
qed

section \<open>Renaming\<close>

text \<open>
  The key of an object contains the slug of the name, and a change of the name alone moves no
  object.  So when an owner renames a file successfully and nothing is stored under the key of the new
  name, every later download of the file fails, although the file is still listed under its new name.
\<close>

theorem rename_loses_content:
  fixes s :: "('b, 'x) file_db_scheme"
  assumes "reach no_files (file_step S A) s" "r \<in> set (files s)" "fi_deletedAt r = None"
    and "file_update_handler S A version_id now \<lparr>uf_id = fi_id r, uf_name = Some n, uf_description = None, uf_file = None\<rparr>
           (fi_userId r) role s = (Inr dto, s')"
    and "get_file_path A (fi_userId r) n From_User (fi_userId r) = Inr new_path"
    and "\<And>v. s3_get S new_path v (objects s) = Inl e" "fi_userId r \<noteq> []" "truthy role"
  shows "file_download S A (fi_id r) None (Some (fi_userId r)) role s' = (Inl e, s')
    \<and> (\<exists>f. file_find_by_id (fi_id r) s' = Some f \<and> fe_name f = n)"
proof -
  let ?b = "\<lparr>uf_id = fi_id r, uf_name = Some n, uf_description = None, uf_file = None\<rparr>" and ?i = "fi_id r"
  let ?change = "\<lambda>r. r\<lparr>fi_name := n, fi_description := fi_description r, fi_updatedAt := now\<rparr>"
  have inv: "file_inv s" by (rule file_machine.reach_inv [OF assms(1)])
  note ok = tables_okD [OF file_invD(1) [OF inv]]
  have find: "find_row (live_file ?i) (files s) = Some r"
    using assms(2,3) ok(1) by (intro find_row_unique_key [where k = fi_id]) (auto simp: live_file_def)
  then have by_id: "file_find_by_id ?i s = Some (with_last_version s r)" by (simp add: file_find_by_id_def)
  have "\<exists>f. file_update S A version_id now ?i ?b s = (Inr f, s')"
    using assms(4) by_id by (auto simp: file_update_handler_def elim!: andThen_InrE split: if_splits)
  then obtain u where u: "rename_file now ?i ?b s = (Inr u, s')"
    using by_id by (auto simp: file_update_def whenever_def elim!: andThen_InrE split: option.splits)
  have s': "s' = s\<lparr>files := update_rows (\<lambda>r. fi_id r = ?i) ?change (files s)\<rparr>"
    using u unfolding rename_file_def Let_def by (simp only: split: if_splits) simp_all
  have find': "find_row (live_file ?i) (files s') = Some (?change r)"
    using find by (simp add: s' find_row_update_same live_file_def)
  obtain v where v: "v \<in> set (file_versions s)" "fi_lastVersionId r = Some (fv_id v)"
    using file_invD(2) [OF inv assms(2)] by (auto simp: row_versioned_def)
  have fv: "find_row (\<lambda>v. Some (fv_id v) = fi_lastVersionId (?change r)) (file_versions s') = Some v"
    using v ok(2) by (intro find_row_unique_key [where k = fv_id]) (simp_all add: s')
  have own: "fi_module r = From_User" "fi_externalId r = fi_userId r" using ok(4) [OF assms(2)] by (simp_all add: own_row_def)
  have "file_download S A ?i None (Some (fi_userId r)) role s' = (Inl e, s')"
    using download_of_found [of ?i None s' "?change r" "Some (fi_userId r)" role v A new_path S] find' fv own assms(5-8)
    by (simp add: s')
  moreover have "file_find_by_id ?i s' = Some (with_last_version s' (?change r))" using find' by (simp add: file_find_by_id_def)
  moreover have "fe_name (with_last_version s' (?change r)) = n" by (simp add: with_last_version_def to_file_def)
  ultimately show ?thesis by blast
qed

section \<open>Concrete runs\<close>

definition demo_adapter :: adapter_config where
  "demo_adapter = \<lparr>environment = ''test'', slug = (\<lambda>n. n)\<rparr>"

definition demo_files :: "(string \<times> string \<times> s3_object) list file_db" where
  "demo_files = \<lparr>objects = [], files = [], file_versions = []\<rparr>"

definition demo_upload :: upload_body where
  "demo_upload = \<lparr>ub_file_name = ''a'', ub_description = None, ub_module = From_User, ub_externalId = ''u'',
     ub_type = Image, ub_file = \<lparr>uf_body = ''data'', uf_mimetype = ''image/png'', uf_filename = ''a''\<rparr>\<rparr>"

definition demo_ids :: upload_ids where
  "demo_ids = \<lparr>ui_file = ''f1'', ui_version = ''v1''\<rparr>"

definition demo_uploaded :: "(string \<times> string \<times> s3_object) list file_db" where
  "demo_uploaded = snd (upload_one demo_s3 demo_adapter 5 ''u'' (demo_ids, demo_upload) demo_files)"

definition demo_file :: file_entity where
  "demo_file = projr (fst (upload_one demo_s3 demo_adapter 5 ''u'' (demo_ids, demo_upload) demo_files))"

lemma demo_upload_run: "upload_one demo_s3 demo_adapter 5 ''u'' (demo_ids, demo_upload) demo_files = (Inr demo_file, demo_uploaded)"
proof -
  have "\<not> isl (fst (upload_one demo_s3 demo_adapter 5 ''u'' (demo_ids, demo_upload) demo_files))" by code_simp
  then show ?thesis unfolding demo_file_def demo_uploaded_def by (metis prod.collapse sum.collapse(2))
qed

lemma demo_own: "own_upload ''u'' demo_upload" by (simp add: own_upload_def demo_upload_def)

lemma demo_files_reach: "reach no_files (file_step demo_s3 demo_adapter) demo_files"
  by (rule reach_start) (simp add: no_files_def demo_files_def)

text \<open>The same upload through the endpoint.\<close>

definition demo_stored :: "(string \<times> string \<times> s3_object) list file_db" where
  "demo_stored = snd (upload_endpoint demo_s3 demo_adapter 5 (\<lambda>_. demo_ids)
     (Some [Field ''type'' (Some ''IMAGE''), File_Part ''file'' (Some ''a'') (Some ''image/png'') ''data'']) ''u'' demo_files)"

lemma demo_stored_reach: "reach no_files (file_step demo_s3 demo_adapter) demo_stored"
  unfolding demo_stored_def by (rule reach_step [OF demo_files_reach]) (rule step_upload)

definition demo_row :: file_row where
  "demo_row = \<lparr>fi_id = ''f1'', fi_createdAt = 5, fi_updatedAt = 5, fi_deletedAt = None, fi_name = ''a'',
     fi_path = ''test/user/u/u'', fi_module = From_User, fi_externalId = ''u'', fi_description = None,
     fi_type = Some Image, fi_lastVersionId = Some ''v1'', fi_userId = ''u''\<rparr>"

lemma demo_stored_files: "files demo_stored = [demo_row]"
  by code_simp


definition demo_deleted :: "(string \<times> string \<times> s3_object) list file_db" where
  "demo_deleted = snd (file_delete_handler 7 ''f1'' ''u'' (Some ''user'') demo_stored)"

theorem reupload_stays_deleted_witness:
  "file_find_by_id ''f1'' (snd (upload_one demo_s3 demo_adapter 9 ''u'' (demo_ids\<lparr>ui_version := ''v2''\<rparr>, demo_upload) demo_deleted)) = None"
proof -
  let ?run = "upload_one demo_s3 demo_adapter 9 ''u'' (demo_ids\<lparr>ui_version := ''v2''\<rparr>, demo_upload) demo_deleted"
  let ?row = "demo_row\<lparr>fi_deletedAt := Some 7, fi_updatedAt := 7\<rparr>"
  have reach: "reach no_files (file_step demo_s3 demo_adapter) demo_deleted"
    unfolding demo_deleted_def by (rule reach_step [OF demo_stored_reach]) (rule step_file_delete)
  have "files demo_deleted = [?row]" by code_simp
  then have row: "?row \<in> set (files demo_deleted)" by simp
  have same: "same_target (ub_file_name demo_upload) (ub_module demo_upload) (ub_externalId demo_upload) ?row"
    "fi_deletedAt ?row \<noteq> None" by (simp_all add: demo_row_def demo_upload_def same_target_def)
  have "\<not> isl (fst ?run)" by code_simp
  then have run: "?run = (Inr (projr (fst ?run)), snd ?run)" by (metis prod.collapse sum.collapse(2))
  from reupload_stays_deleted [OF reach demo_s3_ok demo_own run row same]
  have "fe_id (projr (fst ?run)) = fi_id ?row" "file_find_by_id (fe_id (projr (fst ?run))) (snd ?run) = None" by blast+
  moreover have "fi_id ?row = ''f1''" by (simp add: demo_row_def)
  ultimately show ?thesis by (simp only:)
qed

theorem file_table_invariant_witness:
  "fst (file_download demo_s3 demo_adapter ''f1'' None None None demo_stored) = Inl (file_not_found ''f1'')"
  using file_table_invariant [OF demo_stored_reach, of demo_row] by (simp add: demo_stored_files)

theorem download_access_witness:
  "\<exists>reply. fst (file_download demo_s3 demo_adapter ''f1'' None (Some ''u'') (Some ''user'') demo_stored) = Inr reply
     \<and> snd (file_download demo_s3 demo_adapter ''f1'' None (Some ''u'') (Some ''user'') demo_stored) = demo_stored"
proof -
  let ?run = "file_download demo_s3 demo_adapter ''f1'' None (Some ''u'') (Some ''user'') demo_stored"
  have "\<not> isl (fst ?run)" by code_simp
  then have "?run = (Inr (projr (fst ?run)), snd ?run)" by (metis prod.collapse sum.collapse(2))
  from download_access [OF this] \<open>\<not> isl (fst ?run)\<close> show ?thesis by (metis sum.collapse(2))
qed

theorem rename_loses_content_witness:
  "fst (file_download demo_s3 demo_adapter ''f1'' None (Some ''u'') (Some ''user'')
     (snd (file_update_handler demo_s3 demo_adapter ''v2'' 9
       \<lparr>uf_id = ''f1'', uf_name = Some ''b'', uf_description = None, uf_file = None\<rparr> ''u'' (Some ''user'') demo_stored)))
   = Inl (Js_Exn ''NoSuchKey'')"
proof -
  let ?run = "file_update_handler demo_s3 demo_adapter ''v2'' 9
       \<lparr>uf_id = ''f1'', uf_name = Some ''b'', uf_description = None, uf_file = None\<rparr> ''u'' (Some ''user'') demo_stored"
  have "\<not> isl (fst ?run)" by code_simp
  then have run: "?run = (Inr (projr (fst ?run)), snd ?run)" by (metis prod.collapse sum.collapse(2))
  have path: "get_file_path demo_adapter ''u'' ''b'' From_User ''u'' = Inr ''test/user/u/u/b''" by code_simp
  have "list_all (\<lambda>x. fst x \<noteq> ''test/user/u/u/b'') (objects demo_stored)" by code_simp
  then have "\<forall>x\<in>set (objects demo_stored). fst x \<noteq> ''test/user/u/u/b''" by (simp add: list_all_iff)
  then have "s3_get demo_s3 ''test/user/u/u/b'' v (objects demo_stored) = Inl (Js_Exn ''NoSuchKey'')" for v
  proof -
    have "List.find (\<lambda>(k', v', ob). k' = ''test/user/u/u/b'' \<and> (v = None \<or> v = Some v')) (objects demo_stored) = None"
      using \<open>\<forall>x\<in>set (objects demo_stored). fst x \<noteq> ''test/user/u/u/b''\<close> by (auto simp: find_None_iff)
    then show ?thesis by (simp add: demo_s3_def demo_find_def)
  qed
  then show ?thesis
    using rename_loses_content [OF demo_stored_reach, of demo_row "''v2''" 9 "''b''" "Some ''user''" "projr (fst ?run)" "snd ?run"
        "''test/user/u/u/b''" "Js_Exn ''NoSuchKey''"] run path
    by (simp add: demo_stored_files demo_row_def)
qed

end
