(* ===== verification/Translation.thy ===== *)
theory Translation
  imports Js_Values
begin

text \<open>
  \<open>I18nService\<close> of \<open>i18n/i18n.service.ts\<close> and the interceptors that shape every response:
  \<open>LanguageInterceptor\<close>, \<open>TransformInterceptor\<close> and the summary that \<open>LoggerInterceptor\<close> writes.
  The dictionaries are the JSON files beside the service, an argument \<open>dicts\<close> of the
  definitions: a nested object of strings per locale.  A value that may be \<open>undefined\<close> is an option.
\<close>

section \<open>Locales\<close>

datatype locale_name = En | Ru

fun locale_str :: "locale_name \<Rightarrow> string" where
  "locale_str En = ''en''" | "locale_str Ru = ''ru''"

text \<open>\<open>s.replace('_', '-')\<close> with a string pattern: the first occurrence only.\<close>

fun replace_first :: "char \<Rightarrow> char \<Rightarrow> string \<Rightarrow> string" where
  "replace_first a b [] = []"
| "replace_first a b (x # xs) = (if x = a then b # xs else x # replace_first a b xs)"

definition normalize_language :: "string option \<Rightarrow> locale_name" where
  "normalize_language language = (let
     normalized = hd (split_at CHR ''-'' (replace_first CHR ''_'' CHR ''-''
       (map js_lower_char (js_trim (coalesce language [])))))
   in if normalized = ''en'' then En else Ru)"

text \<open>A header value is a string or a list of strings.\<close>

datatype header_value = One string | Many "string list"

definition header_first :: "header_value option \<Rightarrow> string option" where
  "header_first h = (case h of None \<Rightarrow> None | Some (One s) \<Rightarrow> Some s
     | Some (Many xs) \<Rightarrow> (case xs of [] \<Rightarrow> None | x # _ \<Rightarrow> Some x))"

definition preferred_language :: "string \<Rightarrow> string option" where
  "preferred_language raw = find_row (\<lambda>p. p \<noteq> [])
     (map (\<lambda>part. hd (split_at CHR '';'' (js_trim part))) (split_at CHR '','' raw))"

definition resolve_language :: "locale_name \<Rightarrow> header_value option \<Rightarrow> locale_name" where
  "resolve_language fallback input = (let raw = header_first input in
     if \<not> truthy raw then fallback else normalize_language (preferred_language (the raw)))"

section \<open>Keys\<close>

definition key_char :: "char \<Rightarrow> bool" where
  "key_char c = (is_lower c \<or> is_upper c
     \<or> is_decimal c \<or> c = CHR ''_'' \<or> c = CHR ''-'')"

definition key_head_char :: "char \<Rightarrow> bool" where
  "key_head_char c = (is_lower c \<or> is_decimal c
     \<or> c = CHR ''_'' \<or> c = CHR ''-'')"

text \<open>The pattern \<open>^[a-z][a-z0-9_-]*(\.[a-zA-Z0-9_-]+)+$\<close>: no character class holds the dot, so the
  match is the split at the dots.\<close>

definition is_translation_key :: "string \<Rightarrow> bool" where
  "is_translation_key s = (case split_at CHR ''.'' s of
       h # rest \<Rightarrow> h \<noteq> [] \<and> is_lower (hd h) \<and> list_all key_head_char h
         \<and> rest \<noteq> [] \<and> list_all (\<lambda>seg. seg \<noteq> [] \<and> list_all key_char seg) rest
     | [] \<Rightarrow> False)"

text \<open>An object holds each key once; \<open>JSON.parse\<close> keeps the last value of a repeated key, and the
  association lists of the model are read from the left.\<close>

definition get :: "string \<Rightarrow> (string \<times> json) list \<Rightarrow> json option" where
  "get k obj = map_of obj k"

text \<open>\<open>JSON.stringify\<close> leaves a property out whose value is \<open>undefined\<close>.\<close>

definition field :: "string \<Rightarrow> json option \<Rightarrow> (string \<times> json) list" where
  "field k v = (case v of None \<Rightarrow> [] | Some j \<Rightarrow> [(k, j)])"

lemma get_simps [simp]:
  "get k [] = None"
  "get k ((k', v) # obj) = (if k = k' then Some v else get k obj)"
  by (simp_all add: get_def)

lemma get_append [simp]: "get k (xs @ ys) = (case get k xs of Some v \<Rightarrow> Some v | None \<Rightarrow> get k ys)"
  by (induction xs) auto

lemma field_simps_obj [simp]: "field k None = []" "field k (Some j) = [(k, j)]"
  by (simp_all add: field_def)

fun lookup_path :: "json option \<Rightarrow> string list \<Rightarrow> json option" where
  "lookup_path acc [] = acc"
| "lookup_path acc (seg # segs) = lookup_path
     (case acc of Some (J_Obj obj) \<Rightarrow> get seg obj | _ \<Rightarrow> None) segs"

definition lookup_key :: "json \<Rightarrow> string \<Rightarrow> json option" where
  "lookup_key dictionary key = lookup_path (Some dictionary) (split_at CHR ''.'' key)"

section \<open>JSON text\<close>

fun json_escape :: "char \<Rightarrow> string" where
  "json_escape c = (let n = of_char c :: nat in
     if c = CHR ''\"'' then [CHR 0x5C, CHR ''\"'']
     else if n = 92 then [CHR 0x5C, CHR 0x5C]
     else if n = 8 then [CHR 0x5C, CHR ''b'']
     else if n = 12 then [CHR 0x5C, CHR ''f'']
     else if n = 10 then [CHR 0x5C, CHR ''n'']
     else if n = 13 then [CHR 0x5C, CHR ''r'']
     else if n = 9 then [CHR 0x5C, CHR ''t'']
     else if n < 32 then CHR 0x5C # ''u00'' @ hex_encode [n]
     else [c])"

definition json_string :: "string \<Rightarrow> string" where
  "json_string s = ''\"'' @ concat (map json_escape s) @ ''\"''"

fun commas :: "string list \<Rightarrow> string" where
  "commas [] = []"
| "commas [s] = s"
| "commas (s # t # ss) = s @ '','' @ commas (t # ss)"

fun json_stringify :: "json \<Rightarrow> string" where
  "json_stringify J_Null = ''null''"
| "json_stringify (J_Bool b) = (if b then ''true'' else ''false'')"
| "json_stringify (J_Num i) = show_int i"
| "json_stringify (J_Str s) = json_string s"
| "json_stringify (J_Arr xs) = ''['' @ commas (map json_stringify xs) @ '']''"
| "json_stringify (J_Obj obj) =
     ''{'' @ commas (map (\<lambda>(k, v). json_string k @ '':'' @ json_stringify v) obj) @ ''}''"

section \<open>Translation\<close>

definition arg_char :: "char \<Rightarrow> bool" where
  "arg_char c = (key_char c \<or> c = CHR ''.'')"

fun arg_text :: "json \<Rightarrow> string" where
  "arg_text (J_Str s) = s"
| "arg_text (J_Num i) = show_int i"
| "arg_text (J_Bool b) = (if b then ''true'' else ''false'')"
| "arg_text j = json_stringify j"

text \<open>The replacement of \<open>{key}\<close>: an argument that is absent or \<open>null\<close> leaves the text as it is.\<close>

definition arg_value :: "(string \<times> json) list \<Rightarrow> string \<Rightarrow> string" where
  "arg_value args key = (case get key args of
       None \<Rightarrow> ''{'' @ key @ ''}'' | Some J_Null \<Rightarrow> ''{'' @ key @ ''}'' | Some v \<Rightarrow> arg_text v)"

function fill :: "(string \<times> json) list \<Rightarrow> string \<Rightarrow> string" where
  "fill args [] = []"
| "fill args (c # cs) = (let key = takeWhile arg_char cs; rest = dropWhile arg_char cs in
     if c = CHR ''{'' \<and> key \<noteq> [] \<and> rest \<noteq> [] \<and> hd rest = CHR ''}''
     then arg_value args key @ fill args (tl rest)
     else c # fill args cs)"
  by pat_completeness auto
termination fill
proof (relation "measure (length \<circ> snd)", goal_cases)
  case 1
  then show ?case by simp
next
  case (2 args c cs x xa)
  have "length (tl (dropWhile arg_char cs)) \<le> length cs"
    by (metis diff_le_self le_trans length_dropWhile_le length_tl)
  with 2 show ?case by (simp add: le_imp_less_Suc)
next
  case 3
  then show ?case by simp
qed

definition interpolate :: "string \<Rightarrow> (string \<times> json) list option \<Rightarrow> string" where
  "interpolate template args = (case args of None \<Rightarrow> template | Some a \<Rightarrow> fill a template)"

record i18n =
  fallbackLanguage :: locale_name
  dicts :: "locale_name \<Rightarrow> json"

definition translate_string ::
    "i18n \<Rightarrow> string \<Rightarrow> string option \<Rightarrow> (string \<times> json) list option \<Rightarrow> string" where
  "translate_string i key language args = (if \<not> is_translation_key key then key else
     let lang = resolve_language (fallbackLanguage i) (map_option One language);
         translated = (case lookup_key (dicts i lang) key of
             Some j \<Rightarrow> if j = J_Null then lookup_key (dicts i (fallbackLanguage i)) key else Some j
           | None \<Rightarrow> lookup_key (dicts i (fallbackLanguage i)) key)
     in case translated of Some (J_Str s) \<Rightarrow> interpolate s args | _ \<Rightarrow> key)"

text \<open>\<open>value.args ?? args\<close>: the arguments of the message, or the ones given.  Arguments that are not
  an object have no property to insert (\<open>{length}\<close> of a string or an array apart).\<close>

definition args_of :: "(string \<times> json) list \<Rightarrow> (string \<times> json) list option \<Rightarrow> (string \<times> json) list option" where
  "args_of obj args = (case get ''args'' obj of
       None \<Rightarrow> args | Some J_Null \<Rightarrow> args | Some (J_Obj a) \<Rightarrow> Some a | Some _ \<Rightarrow> Some [])"

fun translate :: "i18n \<Rightarrow> json \<Rightarrow> string option \<Rightarrow> (string \<times> json) list option \<Rightarrow> json" where
  "translate i (J_Str s) language args = J_Str (translate_string i s language args)"
| "translate i (J_Arr xs) language args = J_Arr (map (\<lambda>x. translate i x language args) xs)"
| "translate i (J_Obj obj) language args = (case get ''message'' obj of
       Some (J_Str m) \<Rightarrow> J_Str (translate_string i m language (args_of obj args))
     | _ \<Rightarrow> J_Obj obj)"
| "translate i j language args = j"

text \<open>\<open>default_language\<close> comes from the package \<open>country-locale-map\<close>.\<close>

definition init_i18n :: "string \<Rightarrow> string option \<Rightarrow> (locale_name \<Rightarrow> json) \<Rightarrow> i18n" where
  "init_i18n default_language settings_language d =
     \<lparr>fallbackLanguage = normalize_language (Some (coalesce settings_language default_language)), dicts = d\<rparr>"


section \<open>Response interceptors\<close>

text \<open>What a controller method resolves to: \<open>undefined\<close> is \<open>None\<close>.  Objects of the model are plain
  objects; instances of classes (\<open>Date\<close>, \<open>Buffer\<close>, a stream) are \<open>isPlainObject\<close>'s other case and
  stand for themselves as a \<open>J_Str\<close> or \<open>J_Num\<close> of the response they serialise to.\<close>

text \<open>\<open>translated[key] = \<dots>\<close>: replaces the value of a present key, appends a new one.\<close>

definition set_key :: "string \<Rightarrow> json \<Rightarrow> (string \<times> json) list \<Rightarrow> (string \<times> json) list" where
  "set_key k v obj = (if k \<in> fst ` set obj then map (\<lambda>(k', v'). (k', if k' = k then v else v')) obj
     else obj @ [(k, v)])"

definition is_str :: "json option \<Rightarrow> bool" where
  "is_str j = (case j of Some (J_Str _) \<Rightarrow> True | _ \<Rightarrow> False)"

definition add_message_key :: "(string \<times> json) list \<Rightarrow> (string \<times> json) list \<Rightarrow> (string \<times> json) list" where
  "add_message_key rec translated = (case get ''message'' rec of
       Some (J_Str m) \<Rightarrow> (if is_translation_key m \<and> \<not> is_str (get ''messageKey'' rec)
         then set_key ''messageKey'' (J_Str m) translated else translated)
     | _ \<Rightarrow> translated)"

fun translate_messages :: "i18n \<Rightarrow> string option \<Rightarrow> json \<Rightarrow> json" where
  "translate_messages i language (J_Arr xs) = J_Arr (map (translate_messages i language) xs)"
| "translate_messages i language (J_Obj obj) = J_Obj (add_message_key obj
     (map (\<lambda>(key, nested). (key, if key = ''message'' then translate i nested language None
                              else translate_messages i language nested)) obj))"
| "translate_messages i language j = j"

record language_request =
  lr_language :: "string option"
  lr_xLanguage :: "header_value option"
  lr_xLang :: "header_value option"
  lr_queryLanguage :: "header_value option"
  lr_queryLang :: "header_value option"
  lr_acceptLanguage :: "header_value option"

text \<open>\<open>toString\<close> of a list joins with commas.\<close>

fun header_text :: "header_value \<Rightarrow> string" where
  "header_text (One s) = s"
| "header_text (Many xs) = commas xs"

fun first_some :: "'a option list \<Rightarrow> 'a option" where
  "first_some [] = None"
| "first_some (None # xs) = first_some xs"
| "first_some (Some x # xs) = Some x"

definition requested_language :: "language_request \<Rightarrow> header_value option" where
  "requested_language r = first_some [map_option (One \<circ> header_text) (lr_xLanguage r),
     map_option (One \<circ> header_text) (lr_xLang r), lr_queryLanguage r, lr_queryLang r,
     map_option (One \<circ> header_text) (lr_acceptLanguage r)]"

definition request_language :: "i18n \<Rightarrow> language_request \<Rightarrow> locale_name" where
  "request_language i r = resolve_language (fallbackLanguage i)
     (first_some [map_option One (lr_language r), requested_language r])"

definition request_locale :: "i18n \<Rightarrow> language_request \<Rightarrow> string" where
  "request_locale i r = (if request_language i r = En then ''en_US'' else ''ru_RU'')"

definition language_interceptor :: "i18n \<Rightarrow> language_request \<Rightarrow> json option \<Rightarrow> json option" where
  "language_interceptor i r value = map_option
     (translate_messages i (Some (locale_str (request_language i r)))) value"

text \<open>Truthiness of a JSON value.\<close>

fun json_truthy :: "json \<Rightarrow> bool" where
  "json_truthy J_Null = False"
| "json_truthy (J_Bool b) = b"
| "json_truthy (J_Num i) = (i \<noteq> 0)"
| "json_truthy (J_Str s) = (s \<noteq> [])"
| "json_truthy _ = True"

fun is_object :: "json \<Rightarrow> bool" where
  "is_object (J_Obj _) = True"
| "is_object (J_Arr _) = True"
| "is_object _ = False"

text \<open>An array has neither \<open>data\<close> nor \<open>meta\<close>.\<close>

definition is_paginated_response :: "json \<Rightarrow> bool" where
  "is_paginated_response j = (case j of
       J_Obj obj \<Rightarrow> (case get ''data'' obj of Some (J_Arr _) \<Rightarrow> True | _ \<Rightarrow> False)
         \<and> (case get ''meta'' obj of Some m \<Rightarrow> json_truthy m \<and> is_object m | None \<Rightarrow> False)
     | _ \<Rightarrow> False)"

definition transform_response :: "json option \<Rightarrow> json" where
  "transform_response v = (case v of
       None \<Rightarrow> J_Obj [(''data'', J_Null)]
     | Some J_Null \<Rightarrow> J_Obj [(''data'', J_Null)]
     | Some j \<Rightarrow> (if is_paginated_response j then j else J_Obj [(''data'', j)]))"

text \<open>The interceptors in the order \<open>main.ts\<close> registers them: a response passes the last one first.\<close>

definition respond :: "i18n \<Rightarrow> language_request \<Rightarrow> json option \<Rightarrow> json option" where
  "respond i r value = language_interceptor i r (Some (transform_response value))"

definition sensitive_keys :: "string list" where
  "sensitive_keys = [''accessToken'', ''refreshToken'', ''csrfToken'', ''token'', ''password'',
     ''currentPassword'', ''newPassword'']"

definition is_sensitive_key :: "string \<Rightarrow> bool" where
  "is_sensitive_key k = (k \<in> set sensitive_keys)"

definition summarize_response :: "json option \<Rightarrow> (string \<times> json) list" where
  "summarize_response data = (case data of
       Some (J_Arr xs) \<Rightarrow> [(''type'', J_Str ''array''), (''length'', J_Num (int (length xs)))]
     | Some (J_Obj obj) \<Rightarrow> [(''type'', J_Str ''object''),
         (''keys'', J_Arr (map J_Str (filter (\<lambda>k. \<not> is_sensitive_key k) (map fst obj))))]
     | Some J_Null \<Rightarrow> [(''type'', J_Str ''object'')]
     | Some (J_Bool _) \<Rightarrow> [(''type'', J_Str ''boolean'')]
     | Some (J_Num _) \<Rightarrow> [(''type'', J_Str ''number'')]
     | Some (J_Str _) \<Rightarrow> [(''type'', J_Str ''string'')]
     | None \<Rightarrow> [(''type'', J_Str ''undefined'')])"

end
