(* ===== verification/Exception_Filter.thy ===== *)
theory Exception_Filter
  imports Translation
begin

text \<open>
  The last stage of a failed request: \<open>AllExceptionFilter\<close> of \<open>exceptions/all.exception.ts\<close>, which
  turns whatever was thrown into a status and an error envelope, and the validation-error factory of
  \<open>i18n/validation-exception.factory.ts\<close>.  \<open>thrown_of\<close> ties the filter to the exceptions of the
  other theories: it is what Nest's exception classes and drizzle's error wrapper make of them.
\<close>

section \<open>What reaches the filter\<close>

text \<open>A Nest exception has the name of its class, a status, the value of \<open>getResponse()\<close> and a
  message; any other \<open>Error\<close> has the name of its class, its message and perhaps a \<open>code\<close> and a
  \<open>cause\<close> with a \<open>code\<close>.\<close>

datatype thrown =
    Http_Thrown string nat json string
  | Error_Thrown string string "json option" "json option"

fun class_name :: "thrown \<Rightarrow> string" where
  "class_name (Http_Thrown n _ _ _) = n"
| "class_name (Error_Thrown n _ _ _) = n"

fun exception_response :: "thrown \<Rightarrow> json option" where
  "exception_response (Http_Thrown _ _ r _) = Some r"
| "exception_response (Error_Thrown _ _ _ _) = None"

section \<open>Database errors\<close>

record safe_error =
  se_status :: nat
  se_message :: string

definition map_pg_code :: "string \<Rightarrow> safe_error" where
  "map_pg_code code =
     (if code = ''23505'' then \<lparr>se_status = 409, se_message = ''common.db.uniqueViolation''\<rparr>
      else if code = ''23503'' then \<lparr>se_status = 400, se_message = ''common.db.foreignKeyViolation''\<rparr>
      else if code = ''23502'' then \<lparr>se_status = 400, se_message = ''common.db.notNullViolation''\<rparr>
      else if starts_with code ''23'' then \<lparr>se_status = 400, se_message = ''common.db.constraintViolation''\<rparr>
      else if starts_with code ''22'' then \<lparr>se_status = 400, se_message = ''common.db.dataError''\<rparr>
      else if starts_with code ''08'' then \<lparr>se_status = 503, se_message = ''common.server.unavailable''\<rparr>
      else \<lparr>se_status = 500, se_message = ''common.server.internal''\<rparr>)"

text \<open>The pattern \<open>^[0-9A-Z]{5}$\<close>.\<close>

definition sqlstate_like :: "string \<Rightarrow> bool" where
  "sqlstate_like s = (length s = 5 \<and>
     list_all (\<lambda>c. is_decimal c \<or> is_upper c) s)"

fun parse_message :: "string \<Rightarrow> json option \<Rightarrow> json option \<Rightarrow> safe_error option" where
  "parse_message message code cause_code =
     (if starts_with message ''Failed query:'' then (case cause_code of
          Some (J_Str c) \<Rightarrow> Some (map_pg_code c)
        | _ \<Rightarrow> Some \<lparr>se_status = 500, se_message = ''common.server.internal''\<rparr>)
      else (case code of
          Some (J_Str c) \<Rightarrow> (if sqlstate_like c then Some (map_pg_code c) else None)
        | _ \<Rightarrow> None))"

text \<open>The result is read only where the exception is not an \<open>HttpException\<close>.\<close>

fun parse_database_error :: "thrown \<Rightarrow> safe_error option" where
  "parse_database_error (Http_Thrown _ _ _ message) = parse_message message None None"
| "parse_database_error (Error_Thrown _ message code cause_code) = parse_message message code cause_code"

section \<open>Messages\<close>

text \<open>The pattern \<open>^Cannot\s+(GET|POST|PUT|PATCH|DELETE|OPTIONS|HEAD)\s+\<close> with the flag \<open>i\<close>.\<close>

definition http_methods :: "string list" where
  "http_methods = [''get'', ''post'', ''put'', ''patch'', ''delete'', ''options'', ''head'']"

definition cannot_route :: "string \<Rightarrow> bool" where
  "cannot_route m = (let s = map js_lower_char m; rest = drop 6 s; verb = dropWhile js_space rest in
     starts_with s ''cannot'' \<and> rest \<noteq> verb
     \<and> list_ex (\<lambda>v. starts_with verb v \<and> drop (length v) verb \<noteq> [] \<and> js_space (hd (drop (length v) verb)))
         http_methods)"

fun normalize_framework_message :: "nat \<Rightarrow> json \<Rightarrow> json" where
  "normalize_framework_message status (J_Arr xs) = J_Arr (map (normalize_framework_message status) xs)"
| "normalize_framework_message status (J_Str m) =
     (if m = ''Unauthorized'' then J_Str ''common.auth.unauthorized''
      else if m = ''Forbidden resource'' then J_Str ''common.auth.forbidden''
      else if m = ''Bad Request'' then J_Str ''common.request.bad''
      else if m = ''Internal server error'' then J_Str ''common.server.internal''
      else if status = 404 \<and> cannot_route m then J_Str ''common.route.notFound''
      else J_Str m)"
| "normalize_framework_message status j = j"

definition raw_message :: "thrown \<Rightarrow> json option" where
  "raw_message e = (case e of
       Http_Thrown _ _ response message \<Rightarrow> (case response of
           J_Obj obj \<Rightarrow> (case get ''message'' obj of
               None \<Rightarrow> Some (J_Str message)
             | Some (J_Arr msgs) \<Rightarrow> (case msgs of [] \<Rightarrow> None | m # _ \<Rightarrow> Some m)
             | Some m \<Rightarrow> Some m)
         | _ \<Rightarrow> Some (J_Str message))
     | Error_Thrown _ _ _ _ \<Rightarrow> Some (J_Str (case parse_database_error e of
           Some se \<Rightarrow> se_message se | None \<Rightarrow> ''common.server.internal'')))"

definition thrown_status :: "thrown \<Rightarrow> nat" where
  "thrown_status e = (case e of
       Http_Thrown _ status _ _ \<Rightarrow> status
     | Error_Thrown _ _ _ _ \<Rightarrow> (case parse_database_error e of Some se \<Rightarrow> se_status se | None \<Rightarrow> 500))"

definition translation_args :: "thrown \<Rightarrow> (string \<times> json) list option" where
  "translation_args e = (case exception_response e of
       Some (J_Obj obj) \<Rightarrow> args_of obj None
     | _ \<Rightarrow> None)"

section \<open>Codes and details\<close>

definition name_map :: "(string \<times> string) list" where
  "name_map = [(''NotFoundException'', ''NOT_FOUND''),
     (''UnauthorizedException'', ''UNAUTHORIZED''),
     (''ForbiddenException'', ''FORBIDDEN''),
     (''BadRequestException'', ''BAD_REQUEST''),
     (''ConflictException'', ''CONFLICT''),
     (''ThrottlerException'', ''TOO_MANY_REQUESTS''),
     (''UnprocessableEntityException'', ''UNPROCESSABLE_ENTITY''),
     (''InternalServerErrorException'', ''INTERNAL_SERVER_ERROR''),
     (''ServiceUnavailableException'', ''SERVICE_UNAVAILABLE'')]"

definition status_map :: "(nat \<times> string) list" where
  "status_map = [(400, ''BAD_REQUEST''), (401, ''UNAUTHORIZED''), (403, ''FORBIDDEN''),
     (404, ''NOT_FOUND''), (409, ''CONFLICT''), (422, ''UNPROCESSABLE_ENTITY''),
     (429, ''TOO_MANY_REQUESTS''), (500, ''INTERNAL_SERVER_ERROR''), (503, ''SERVICE_UNAVAILABLE'')]"

definition get_error_code :: "thrown \<Rightarrow> nat \<Rightarrow> string" where
  "get_error_code e status = (case map_of name_map (class_name e) of
       Some code \<Rightarrow> code
     | None \<Rightarrow> coalesce (map_of status_map status) ''INTERNAL_SERVER_ERROR'')"

definition details_errors :: "(string \<times> json) list \<Rightarrow> (string \<times> json) list" where
  "details_errors res = (case get ''message'' res of
     Some (J_Arr msgs) \<Rightarrow> (if msgs \<noteq> [] then [(''errors'', J_Arr msgs)] else []) | _ \<Rightarrow> [])"

definition details_captcha :: "(string \<times> json) list \<Rightarrow> (string \<times> json) list" where
  "details_captcha res = (case get ''requiresCaptcha'' res of
     Some (J_Bool b) \<Rightarrow> [(''requiresCaptcha'', J_Bool b)] | _ \<Rightarrow> [])"

definition details_lock :: "(string \<times> json) list \<Rightarrow> (string \<times> json) list" where
  "details_lock res = (case get ''lockedUntil'' res of
     Some (J_Str t) \<Rightarrow> [(''lockedUntil'', J_Str t)] | _ \<Rightarrow> [])"

definition build_details :: "json option \<Rightarrow> string option \<Rightarrow> (string \<times> json) list" where
  "build_details response message_key =
     (case message_key of Some k \<Rightarrow> [(''messageKey'', J_Str k)] | None \<Rightarrow> [])
     @ (case response of
          Some (J_Obj res) \<Rightarrow> details_errors res @ details_captcha res @ details_lock res
        | _ \<Rightarrow> [])"

section \<open>The filter\<close>

record filter_request =
  fr_language :: "string option"
  fr_acceptLanguage :: "header_value option"
  fr_id :: "string option"

record http_reply =
  rp_status :: nat
  rp_body :: json

definition filter_language :: "filter_request \<Rightarrow> string option" where
  "filter_language r = first_some [fr_language r, map_option header_text (fr_acceptLanguage r)]"

definition normalized_message :: "thrown \<Rightarrow> json option" where
  "normalized_message e = map_option (normalize_framework_message (thrown_status e)) (raw_message e)"

definition filter_message :: "i18n option \<Rightarrow> filter_request \<Rightarrow> thrown \<Rightarrow> json option" where
  "filter_message i r e = (case i of
       None \<Rightarrow> normalized_message e
     | Some i \<Rightarrow> map_option (\<lambda>m. translate i m (filter_language r) (translation_args e)) (normalized_message e))"

definition filter_message_key :: "i18n option \<Rightarrow> thrown \<Rightarrow> string option" where
  "filter_message_key i e = (case normalized_message e of
       Some (J_Str m) \<Rightarrow> (if i \<noteq> None \<and> is_translation_key m then Some m else None)
     | _ \<Rightarrow> None)"

definition catch_exception :: "i18n option \<Rightarrow> filter_request \<Rightarrow> thrown \<Rightarrow> http_reply" where
  "catch_exception i r e = \<lparr>rp_status = thrown_status e,
     rp_body = J_Obj [(''error'', J_Obj (
         [(''code'', J_Str (get_error_code e (thrown_status e)))]
         @ field ''message'' (filter_message i r e)
         @ [(''details'', J_Obj (build_details (exception_response e) (filter_message_key i e))),
            (''request_id'', (case fr_id r of None \<Rightarrow> J_Null | Some x \<Rightarrow> J_Str x))]))]\<rparr>"

section \<open>Validation errors\<close>

text \<open>A \<open>ValidationError\<close> of class-validator: the property, the rejected value, the violated
  constraints with their messages, the errors of nested objects.\<close>

datatype validation_error =
  Validation_Error string "json option" "(string \<times> string) list" "validation_error list"

definition constraint_to_key :: "(string \<times> string) list" where
  "constraint_to_key = [(''isDefined'', ''validation.IS_DEFINED''), (''isEmpty'', ''validation.IS_EMPTY''),
     (''isNotEmpty'', ''validation.IS_NOT_EMPTY''), (''isPhoneNumber'', ''validation.IS_PHONE_NUMBER''),
     (''isUUID'', ''validation.IS_UUID''), (''isNumber'', ''validation.IS_NUMBER''),
     (''isInt'', ''validation.IS_INT''), (''isEnum'', ''validation.IS_ENUM''),
     (''isString'', ''validation.IS_STRING''), (''isDate'', ''validation.IS_DATE''),
     (''isEmail'', ''validation.IS_EMAIL''), (''isBoolean'', ''validation.IS_BOOLEAN''),
     (''isUrl'', ''validation.IS_URL''), (''isJSON'', ''validation.IS_JSON''),
     (''isPositive'', ''validation.IS_POSITIVE''), (''isOptional'', ''validation.IS_OPTIONAL''),
     (''matches'', ''validation.MATCHES''), (''min'', ''validation.MIN''),
     (''minLength'', ''validation.MIN_LENGTH''), (''max'', ''validation.MAX''),
     (''maxLength'', ''validation.MAX_LENGTH''), (''length'', ''validation.LENGTH''),
     (''validateNested'', ''validation.VALIDATE_NESTED'')]"

definition resolve_validation_message_key :: "string \<Rightarrow> string \<Rightarrow> string" where
  "resolve_validation_message_key constr raw = (if starts_with raw ''validation.'' then raw
     else coalesce (map_of constraint_to_key constr) ''validation.INVALID'')"

definition validation_message :: "string \<Rightarrow> json option \<Rightarrow> string \<times> string \<Rightarrow> json" where
  "validation_message property v = (\<lambda>(constr, raw). J_Obj [
     (''message'', J_Str (resolve_validation_message_key constr raw)),
     (''args'', J_Obj ((''property'', J_Str property) # field ''value'' v))])"

definition property_path :: "string \<Rightarrow> string \<Rightarrow> string" where
  "property_path parent property = (if parent \<noteq> [] then parent @ ''.'' @ property else property)"

fun flatten_validation_error :: "string \<Rightarrow> validation_error \<Rightarrow> json list" where
  "flatten_validation_error parent (Validation_Error property v constraints children) =
     (let path = property_path parent property in
      map (validation_message path v) constraints
      @ concat (map (flatten_validation_error path) children))"

definition create_validation_exception :: "validation_error list \<Rightarrow> thrown" where
  "create_validation_exception errors = Http_Thrown ''BadRequestException'' 400
     (J_Obj [(''message'', J_Arr (concat (map (flatten_validation_error []) errors)))])
     ''Bad Request Exception''"

section \<open>The exceptions of the other theories\<close>

text \<open>Nest's class for a status, and the reason phrase it puts in the response when the exception is
  built from a message only.  \<open>sql\<close> is the query and the parameters drizzle puts in the message.\<close>

definition exception_class :: "nat \<Rightarrow> string" where
  "exception_class status = (case map_of [(400, ''BadRequestException''), (401, ''UnauthorizedException''),
     (403, ''ForbiddenException''), (404, ''NotFoundException''), (409, ''ConflictException''),
     (410, ''GoneException''), (422, ''UnprocessableEntityException''),
     (429, ''ThrottlerException''), (503, ''ServiceUnavailableException'')] status of
       Some n \<Rightarrow> n | None \<Rightarrow> ''HttpException'')"

fun thrown_of :: "string \<Rightarrow> exn \<Rightarrow> thrown" where
  "thrown_of sql (Http_Exn status key props) =
     Http_Thrown (exception_class status) status (J_Obj ((''message'', J_Str key) # props)) key"
| "thrown_of sql (Pg_Exn code) =
     Error_Thrown ''DrizzleQueryError'' (''Failed query: '' @ sql) None (Some (J_Str code))"
| "thrown_of sql (Js_Exn m) = Error_Thrown ''Error'' m None None"

end
