(* ===== verification/Response_Properties.thy ===== *)
theory Response_Properties
  imports Exception_Filter
begin

text \<open>
  What a client can count on in a response: the language it is written in, the parts of it that the
  language interceptor may touch, the type of the error envelope, and that no message of a driver
  or a programming error reaches it.
\<close>

section \<open>Languages\<close>

lemma normalize_language_locale [simp]: "normalize_language (Some (locale_str l)) = l"
proof -
  have "normalize_language (Some (locale_str En)) = En" "normalize_language (Some (locale_str Ru)) = Ru"
    by code_simp+
  then show ?thesis by (cases l) simp_all
qed

lemma resolve_locale [simp]: "resolve_language f (Some (One (locale_str l))) = l"
proof -
  have "preferred_language (locale_str En) = Some (locale_str En)"
    "preferred_language (locale_str Ru) = Some (locale_str Ru)" by code_simp+
  then have "preferred_language (locale_str l) = Some (locale_str l)" by (cases l) simp_all
  moreover have "locale_str l \<noteq> []" by (cases l) simp_all
  ultimately show ?thesis by (simp add: resolve_language_def header_first_def)
qed

lemma resolve_absent [simp]: "resolve_language f None = f"
  by (simp add: resolve_language_def header_first_def)

lemma resolve_language_cases:
  assumes "truthy (header_first h)"
  shows "resolve_language f h = En
     \<longleftrightarrow> normalize_language (preferred_language (the (header_first h))) = En"
  using assms by (simp add: resolve_language_def Let_def)

text \<open>The interceptor stores the locale in the request, and every later reader resolves it again.\<close>

lemma request_language_settled:
  "request_language i (r\<lparr>lr_language := Some (locale_str (request_language i r'))\<rparr>) = request_language i r'"
  by (simp add: request_language_def)

lemma request_language_explicit:
  "lr_language r = None \<Longrightarrow> lr_xLanguage r = Some (One s) \<Longrightarrow> s \<noteq> []
   \<Longrightarrow> request_language i r = normalize_language (preferred_language s)"
  by (simp add: request_language_def requested_language_def resolve_language_def header_first_def)

text \<open>A language the service has no dictionary for is answered in Russian, whatever
  \<open>settings.language\<close> says.\<close>

lemma unsupported_language_is_russian:
  "resolve_language En (Some (One ''fr-FR,fr;q=0.9,en;q=0.8'')) = Ru"
  by code_simp

section \<open>Placeholders\<close>

declare fill.simps [simp del]

lemma fill_Nil [simp]: "fill args [] = []"
  by (simp add: fill.simps)

lemma fill_other: "CHR ''{'' \<noteq> c \<Longrightarrow> fill args (c # cs) = c # fill args cs"
  by (auto simp: fill.simps Let_def)

lemma fill_plain: "CHR ''{'' \<notin> set pre \<Longrightarrow> fill args (pre @ s) = pre @ fill args s"
  by (induction pre) (simp_all add: fill_other)

lemma fill_id: "CHR ''{'' \<notin> set s \<Longrightarrow> fill args s = s"
  using fill_plain [of s args "[]"] by simp

lemma arg_char_brace [simp]: "\<not> arg_char CHR ''}''"
  by code_simp

lemma fill_placeholder:
  assumes "key \<noteq> []" "list_all arg_char key"
  shows "fill args (CHR ''{'' # key @ CHR ''}'' # post) = arg_value args key @ fill args post"
proof -
  have all: "\<And>c. c \<in> set key \<Longrightarrow> arg_char c" using assms(2) by (simp add: list_all_iff)
  have "takeWhile arg_char (key @ CHR ''}'' # post) = key"
    using all by (simp add: takeWhile_append2)
  moreover have "dropWhile arg_char (key @ CHR ''}'' # post) = CHR ''}'' # post"
    using all by (simp add: dropWhile_append2)
  ultimately show ?thesis using assms(1) by (simp add: fill.simps(2) [of args "CHR ''{''"] Let_def)
qed

text \<open>The text of an argument is inserted as it is: a placeholder inside it is not read again.\<close>

lemma interpolate_once:
  assumes "CHR ''{'' \<notin> set pre" "CHR ''{'' \<notin> set post" "key \<noteq> []" "list_all arg_char key"
    and "get key args = Some (J_Str v)"
  shows "interpolate (pre @ CHR ''{'' # key @ CHR ''}'' # post) (Some args) = pre @ v @ post"
  using assms by (simp add: interpolate_def fill_plain fill_placeholder fill_id arg_value_def)

section \<open>Translation of keys\<close>

lemma translate_string_plain [simp]: "\<not> is_translation_key k \<Longrightarrow> translate_string i k l args = k"
  by (simp add: translate_string_def)

lemma translate_string_found:
  assumes "is_translation_key k"
    and "lookup_key (dicts i (resolve_language (fallbackLanguage i) (map_option One l))) k = Some (J_Str s)"
  shows "translate_string i k l args = interpolate s args"
  using assms by (simp add: translate_string_def Let_def)

lemma translate_string_missing:
  assumes "\<And>lang. lookup_key (dicts i lang) k = None"
  shows "translate_string i k l args = k"
  using assms by (simp add: translate_string_def Let_def)

section \<open>The language interceptor touches messages only\<close>

text \<open>\<open>without_messages\<close> takes the members \<open>message\<close> and \<open>messageKey\<close> out of every object.\<close>

fun without_messages :: "json \<Rightarrow> json" where
  "without_messages (J_Arr xs) = J_Arr (map without_messages xs)"
| "without_messages (J_Obj obj) = J_Obj (map (\<lambda>(k, v). (k, without_messages v))
     (filter (\<lambda>(k, v). k \<noteq> ''message'' \<and> k \<noteq> ''messageKey'') obj))"
| "without_messages j = j"

abbreviation other_keys :: "(string \<times> json) list \<Rightarrow> (string \<times> json) list" where
  "other_keys obj \<equiv> filter (\<lambda>(k, v). k \<noteq> ''message'' \<and> k \<noteq> ''messageKey'') obj"

lemma other_keys_set: "other_keys (set_key ''messageKey'' v obj) = other_keys obj"
proof -
  have "other_keys (map (\<lambda>(k', v'). (k', if k' = ''messageKey'' then v else v')) obj) = other_keys obj"
    by (induction obj) auto
  then show ?thesis by (simp add: set_key_def)
qed

lemma other_keys_add: "other_keys (add_message_key rec obj) = other_keys obj"
  by (simp add: add_message_key_def other_keys_set split: option.splits json.splits)

lemma other_keys_map:
  "other_keys (map (\<lambda>(k, v). (k, if k = ''message'' then f v else g v)) obj)
   = map (\<lambda>(k, v). (k, g v)) (other_keys obj)"
  by (induction obj) auto

lemma without_messages_cong:
  assumes "other_keys obj = map (\<lambda>(k, v). (k, g v)) (other_keys obj')"
    and "\<And>k v. (k, v) \<in> set obj' \<Longrightarrow> k \<noteq> ''message'' \<Longrightarrow> without_messages (g v) = without_messages v"
  shows "without_messages (J_Obj obj) = without_messages (J_Obj obj')"
  using assms by (auto simp: split_beta intro!: map_cong)

text \<open>The language interceptor rewrites messages and nothing else: once the members \<open>message\<close> and
  \<open>messageKey\<close> are left out at every depth, the body it sends is the body the handler returned, with
  the order of members and elements kept.\<close>

theorem only_messages_translated:
  "without_messages (translate_messages i language body) = without_messages body"
proof (induction i language body rule: translate_messages.induct)
  case (1 i language xs)
  then show ?case by (simp cong: map_cong)
next
  case (2 i language obj)
  show ?case unfolding translate_messages.simps(2)
  proof (rule without_messages_cong [where g = "translate_messages i language"])
    fix k v
    assume "(k, v) \<in> set obj" "k \<noteq> ''message''"
    then show "without_messages (translate_messages i language v) = without_messages v"
      by (rule 2 [OF _ refl])
  qed (simp only: other_keys_add other_keys_map)
qed simp_all

section \<open>The error envelope has a type\<close>

definition error_codes :: "string list" where
  "error_codes = map snd name_map"

fun detail_ok :: "string \<times> json \<Rightarrow> bool" where
  "detail_ok (k, J_Str s) = (k = ''messageKey'' \<and> is_translation_key s \<or> k = ''lockedUntil'')"
| "detail_ok (k, J_Arr xs) = (k = ''errors'' \<and> xs \<noteq> [])"
| "detail_ok (k, J_Bool b) = (k = ''requiresCaptcha'')"
| "detail_ok _ = False"

text \<open>The type of the body the API documents for every failure.\<close>

fun nullable_string :: "json \<Rightarrow> bool" where
  "nullable_string J_Null = True"
| "nullable_string (J_Str _) = True"
| "nullable_string _ = False"

definition error_fields_ok :: "(string \<times> json) list \<Rightarrow> bool" where
  "error_fields_ok fs = (
     (\<exists>code \<in> set error_codes. get ''code'' fs = Some (J_Str code))
     \<and> (\<exists>ds. get ''details'' fs = Some (J_Obj ds) \<and> list_all detail_ok ds \<and> distinct (map fst ds))
     \<and> (\<exists>x. get ''request_id'' fs = Some x \<and> nullable_string x)
     \<and> distinct (map fst fs) \<and> set (map fst fs) \<subseteq> {''code'', ''message'', ''details'', ''request_id''})"

definition error_body_ok :: "json \<Rightarrow> bool" where
  "error_body_ok body = (\<exists>fs. body = J_Obj [(''error'', J_Obj fs)] \<and> error_fields_ok fs)"

lemma status_codes: "map_of status_map status = Some code \<Longrightarrow> code \<in> set error_codes"
  by (auto simp: status_map_def error_codes_def name_map_def split: if_splits)

lemma error_code_in: "get_error_code e status \<in> set error_codes"
proof (cases "map_of name_map (class_name e)")
  case None
  show ?thesis
    by (cases "map_of status_map status")
      (simp_all add: get_error_code_def None status_codes, simp add: error_codes_def name_map_def)
next
  case (Some code)
  then have "code \<in> snd ` set name_map" by (auto dest!: map_of_SomeD intro: rev_image_eqI)
  then show ?thesis by (simp add: get_error_code_def Some error_codes_def)
qed

lemma details_errors_cases: "details_errors res = [] \<or> (\<exists>xs. xs \<noteq> [] \<and> details_errors res = [(''errors'', J_Arr xs)])"
  by (simp add: details_errors_def split: option.split json.split)

lemma details_captcha_cases: "details_captcha res = [] \<or> (\<exists>b. details_captcha res = [(''requiresCaptcha'', J_Bool b)])"
  by (simp add: details_captcha_def split: option.split json.split)

lemma details_lock_cases: "details_lock res = [] \<or> (\<exists>t. details_lock res = [(''lockedUntil'', J_Str t)])"
  by (simp add: details_lock_def split: option.split json.split)

lemma details_of_response_ok:
  "list_all detail_ok (details_errors res @ details_captcha res @ details_lock res)
   \<and> distinct (map fst (details_errors res @ details_captcha res @ details_lock res))
   \<and> ''messageKey'' \<notin> set (map fst (details_errors res @ details_captcha res @ details_lock res))"
  using details_errors_cases [of res] details_captcha_cases [of res] details_lock_cases [of res]
  by (elim disjE exE conjE) simp_all

lemma details_ok:
  assumes "\<And>k. key = Some k \<Longrightarrow> is_translation_key k"
  shows "list_all detail_ok (build_details response key) \<and> distinct (map fst (build_details response key))"
proof -
  let ?m = "case key of Some k \<Rightarrow> [(''messageKey'', J_Str k)] | None \<Rightarrow> []"
  have m: "list_all detail_ok ?m \<and> distinct (map fst ?m) \<and> set (map fst ?m) \<subseteq> {''messageKey''}"
    using assms by (cases key) simp_all
  show ?thesis
  proof (cases "\<exists>res. response = Some (J_Obj res)")
    case True
    then obtain res where "response = Some (J_Obj res)" ..
    with m details_of_response_ok [of res] show ?thesis
      by (simp only: build_details_def option.case json.case list_all_append map_append distinct_append) blast
  next
    case False
    then have "build_details response key = ?m"
      by (simp add: build_details_def split: option.split json.split)
    with m show ?thesis by simp
  qed
qed

lemma filter_message_key_is_key: "filter_message_key i e = Some k \<Longrightarrow> is_translation_key k"
  by (simp add: filter_message_key_def split: option.splits json.splits if_splits)

text \<open>C15. Whatever is thrown, the client receives a body of one type: an object \<open>error\<close> whose
  \<open>code\<close> is one of the nine published codes, whose \<open>details\<close> hold no member beside the translation
  key, a non-empty list of validation errors, the captcha flag and the end of the lock, each of its
  type, and whose \<open>request_id\<close> is a string or null; the status is the exception's own, or the one
  of the database error, or 500.\<close>

theorem error_envelope_typed:
  "error_body_ok (rp_body (catch_exception i r e))
   \<and> rp_status (catch_exception i r e) = (case e of
       Http_Thrown _ status _ _ \<Rightarrow> status
     | Error_Thrown _ m code cause \<Rightarrow> (case parse_message m code cause of Some se \<Rightarrow> se_status se | None \<Rightarrow> 500))"
proof -
  have d: "list_all detail_ok (build_details (exception_response e) (filter_message_key i e))
      \<and> distinct (map fst (build_details (exception_response e) (filter_message_key i e)))"
    by (rule details_ok) (rule filter_message_key_is_key)
  have "nullable_string (case fr_id r of None \<Rightarrow> J_Null | Some x \<Rightarrow> J_Str x)"
    by (cases "fr_id r") simp_all
  with d have "error_body_ok (rp_body (catch_exception i r e))"
    by (cases "filter_message i r e")
      (simp_all add: error_body_ok_def catch_exception_def error_fields_ok_def error_code_in)
  then show ?thesis by (simp add: catch_exception_def thrown_status_def split: thrown.split)
qed

section \<open>Internal errors are sealed\<close>

definition sealed_replies :: "(nat \<times> string) list" where
  "sealed_replies = [(409, ''common.db.uniqueViolation''), (400, ''common.db.foreignKeyViolation''),
     (400, ''common.db.notNullViolation''), (400, ''common.db.constraintViolation''),
     (400, ''common.db.dataError''), (503, ''common.server.unavailable''), (500, ''common.server.internal'')]"

definition sealed_reply :: "i18n \<Rightarrow> filter_request \<Rightarrow> nat \<times> string \<Rightarrow> http_reply" where
  "sealed_reply i r p = \<lparr>rp_status = fst p, rp_body = J_Obj [(''error'', J_Obj [
       (''code'', J_Str (the (map_of status_map (fst p)))),
       (''message'', J_Str (translate_string i (snd p) (filter_language r) None)),
       (''details'', J_Obj [(''messageKey'', J_Str (snd p))]),
       (''request_id'', (case fr_id r of None \<Rightarrow> J_Null | Some x \<Rightarrow> J_Str x))])]\<rparr>"

lemma map_pg_code_sealed: "(se_status (map_pg_code c), se_message (map_pg_code c)) \<in> set sealed_replies"
  by (simp add: map_pg_code_def sealed_replies_def)

lemma parse_message_sealed:
  "parse_message m code cause = Some se \<Longrightarrow> (se_status se, se_message se) \<in> set sealed_replies"
  by (auto simp: map_pg_code_sealed split: option.splits json.splits if_splits)
    (simp_all add: sealed_replies_def)

lemma sealed_keys:
  assumes "p \<in> set sealed_replies"
  shows "is_translation_key (snd p)" "\<exists>code. map_of status_map (fst p) = Some code"
    "normalize_framework_message st (J_Str (snd p)) = J_Str (snd p)"
proof -
  have "list_all (\<lambda>p. is_translation_key (snd p) \<and> map_of status_map (fst p) \<noteq> None
      \<and> \<not> cannot_route (snd p) \<and> hd (snd p) = CHR ''c'') sealed_replies" by code_simp
  with assms show "is_translation_key (snd p)" "\<exists>code. map_of status_map (fst p) = Some code"
    "normalize_framework_message st (J_Str (snd p)) = J_Str (snd p)"
    by (auto simp: list_all_iff)
qed

lemma error_thrown_sealed:
  assumes "map_of name_map n = None"
  obtains p where "p \<in> set sealed_replies" "catch_exception (Some i) r (Error_Thrown n m code cause) = sealed_reply i r p"
    "p = (case parse_message m code cause of None \<Rightarrow> (500, ''common.server.internal'')
          | Some se \<Rightarrow> (se_status se, se_message se))"
proof -
  define p where "p = (case parse_message m code cause of None \<Rightarrow> (500, ''common.server.internal'')
          | Some se \<Rightarrow> (se_status se, se_message se))"
  let ?e = "Error_Thrown n m code cause"
  have p: "p \<in> set sealed_replies"
    by (cases "parse_message m code cause")
      (simp_all only: p_def option.case parse_message_sealed, simp add: sealed_replies_def)
  have st: "thrown_status ?e = fst p" and raw: "raw_message ?e = Some (J_Str (snd p))"
    by (simp_all add: thrown_status_def raw_message_def p_def del: parse_message.simps split: option.split)
  have norm: "normalized_message ?e = Some (J_Str (snd p))"
    by (simp add: normalized_message_def raw sealed_keys(3) [OF p] del: normalize_framework_message.simps)
  obtain c where c: "map_of status_map (fst p) = Some c" using sealed_keys(2) [OF p] by blast
  have "catch_exception (Some i) r ?e = sealed_reply i r p"
    by (simp add: catch_exception_def sealed_reply_def st norm filter_message_def filter_message_key_def
        sealed_keys(1) [OF p] build_details_def get_error_code_def assms c translation_args_def)
  with p show thesis using that p_def by blast
qed

text \<open>The reply to a database or programming error, by its kind alone.\<close>

fun sealed_kind :: "exn \<Rightarrow> nat \<times> string" where
  "sealed_kind (Pg_Exn code) = (se_status (map_pg_code code), se_message (map_pg_code code))"
| "sealed_kind _ = (500, ''common.server.internal'')"

lemma sealed_kind_sealed: "sealed_kind x \<in> set sealed_replies"
  by (cases x) (simp_all add: map_pg_code_sealed, simp_all add: sealed_replies_def)

lemma parse_message_plain:
  "(case parse_message m None None of None \<Rightarrow> (500, ''common.server.internal'')
    | Some se \<Rightarrow> (se_status se, se_message se)) = (500, ''common.server.internal'')"
  by simp

lemma pg_exn_sealed: "catch_exception (Some i) r (thrown_of sql (Pg_Exn c)) = sealed_reply i r (sealed_kind (Pg_Exn c))"
proof -
  have "map_of name_map ''DrizzleQueryError'' = None" by code_simp
  then show ?thesis
    by (rule error_thrown_sealed [where i = i and r = r and m = "''Failed query: '' @ sql"
        and code = None and cause = "Some (J_Str c)"]) (simp add: starts_with_def)
qed

lemma js_exn_sealed: "catch_exception (Some i) r (thrown_of sql (Js_Exn m)) = sealed_reply i r (sealed_kind (Js_Exn m))"
proof -
  have "map_of name_map ''Error'' = None" by code_simp
  then show ?thesis
    by (rule error_thrown_sealed [where i = i and r = r and m = m and code = None and cause = None])
      (simp only: parse_message_plain thrown_of.simps sealed_kind.simps)
qed

text \<open>C16. No text of a database or programming error reaches the client: the reply to it is one of
  seven fixed replies in the language of the request; for a database error it depends on the
  SQLSTATE alone, not on the SQL and the parameters that drizzle puts in its message, and any two
  programming errors get the same reply.\<close>

theorem internal_errors_sealed:
  "catch_exception (Some i) r (thrown_of sql (Pg_Exn c)) = sealed_reply i r (sealed_kind (Pg_Exn c))
   \<and> sealed_kind (Pg_Exn c) \<in> set sealed_replies
   \<and> catch_exception (Some i) r (thrown_of sql (Pg_Exn c)) = catch_exception (Some i) r (thrown_of sql' (Pg_Exn c))
   \<and> catch_exception (Some i) r (thrown_of sql (Js_Exn m)) = sealed_reply i r (500, ''common.server.internal'')
   \<and> catch_exception (Some i) r (thrown_of sql (Js_Exn m)) = catch_exception (Some i) r (thrown_of sql' (Js_Exn m'))"
  using pg_exn_sealed [of i r sql c] pg_exn_sealed [of i r sql' c] js_exn_sealed [of i r sql m]
    js_exn_sealed [of i r sql' m'] sealed_kind_sealed [of "Pg_Exn c"]
  by (simp only: sealed_kind.simps)

section \<open>Replies to the application's exceptions\<close>

lemma error_code_of_status:
  "get_error_code (thrown_of sql (Http_Exn status key props)) status
   = coalesce (map_of status_map status) ''INTERNAL_SERVER_ERROR''"
  by (simp add: get_error_code_def exception_class_def name_map_def status_map_def)

lemma key_char_no_space: "key_char c \<or> c = CHR ''.'' \<Longrightarrow> \<not> js_space c"
  by (auto simp: key_char_def char_classes js_space_def Let_def less_eq_char_def)

lemma key_head_key_char: "key_head_char c \<Longrightarrow> key_char c"
  by (auto simp: key_head_char_def key_char_def)

lemma key_chars: "is_translation_key s \<Longrightarrow> c \<in> set s \<Longrightarrow> key_char c \<or> c = CHR ''.''"
  using split_at_set [of s "CHR ''.''"]
  by (fastforce simp: is_translation_key_def list_all_iff key_head_key_char split: list.splits)

lemma key_not_framework: "is_translation_key k
   \<Longrightarrow> k \<noteq> ''Unauthorized'' \<and> k \<noteq> ''Forbidden resource'' \<and> k \<noteq> ''Bad Request'' \<and> k \<noteq> ''Internal server error''"
proof -
  have "\<not> is_translation_key ''Unauthorized''" "\<not> is_translation_key ''Forbidden resource''"
    "\<not> is_translation_key ''Bad Request''" "\<not> is_translation_key ''Internal server error''" by code_simp+
  then show "is_translation_key k \<Longrightarrow> ?thesis" by blast
qed

lemma key_not_cannot_route:
  assumes "is_translation_key k"
  shows "\<not> cannot_route k"
proof
  let ?rest = "drop 6 (map js_lower_char k)"
  assume "cannot_route k"
  then have "?rest \<noteq> dropWhile js_space ?rest" by (simp add: cannot_route_def Let_def)
  then obtain c where "c \<in> set ?rest" "js_space c"
    by (metis dropWhile_eq_self_iff hd_in_set)
  then obtain d where "d \<in> set k" "c = js_lower_char d" by (auto dest!: in_set_dropD)
  moreover from \<open>d \<in> set k\<close> have "\<not> js_space d" by (rule key_char_no_space [OF key_chars [OF assms]])
  ultimately show False using \<open>js_space c\<close> by (auto simp: js_lower_char_def js_space_def js_upper_def Let_def split: if_splits)
qed

lemma normalize_key: "is_translation_key k \<Longrightarrow> normalize_framework_message st (J_Str k) = J_Str k"
  using key_not_framework [of k] key_not_cannot_route [of k] by simp

lemma raw_message_of [simp]: "raw_message (thrown_of sql (Http_Exn status key props)) = Some (J_Str key)"
  by (simp add: raw_message_def)

lemma status_of [simp]: "thrown_status (thrown_of sql (Http_Exn status key props)) = status"
  by (simp add: thrown_status_def)

text \<open>A refusal of the application keeps its meaning on the wire: the reply to an exception built
  from a translation key has its status, the text of the key in the language of the request, the
  key itself, and of its other properties only the captcha flag and the end of the lock; the code
  is the one of the status, and a status outside the table (410 Gone) is reported as
  \<open>INTERNAL_SERVER_ERROR\<close>.\<close>

theorem application_error_reply:
  assumes "is_translation_key key" "get ''message'' props = None"
  shows "catch_exception (Some i) r (thrown_of sql (Http_Exn status key props)) = \<lparr>rp_status = status,
     rp_body = J_Obj [(''error'', J_Obj [
       (''code'', J_Str (coalesce (map_of status_map status) ''INTERNAL_SERVER_ERROR'')),
       (''message'', J_Str (translate_string i key (filter_language r) (args_of props None))),
       (''details'', J_Obj ((''messageKey'', J_Str key) # details_captcha props @ details_lock props)),
       (''request_id'', (case fr_id r of None \<Rightarrow> J_Null | Some x \<Rightarrow> J_Str x))])]\<rparr>"
proof -
  let ?e = "thrown_of sql (Http_Exn status key props)"
  have norm: "normalized_message ?e = Some (J_Str key)"
    by (simp only: normalized_message_def raw_message_of status_of option.map normalize_key [OF assms(1)])
  have details: "build_details (exception_response ?e) (Some key)
      = (''messageKey'', J_Str key) # details_captcha props @ details_lock props"
    by (simp add: build_details_def details_errors_def details_captcha_def details_lock_def)
  have "translation_args ?e = args_of props None" by (simp add: translation_args_def args_of_def)
  then show ?thesis
    by (simp only: catch_exception_def status_of error_code_of_status details filter_message_key_def norm
        filter_message_def option.case json.case option.map translate.simps assms(1) field_simps_obj
        append_Cons append_Nil if_True option.distinct not_False_eq_True simp_thms)
qed

definition demo_dictionary :: "locale_name \<Rightarrow> json" where
  "demo_dictionary l = J_Obj [(''user'', J_Obj [(''auth'', J_Obj [
     (''accountLocked'', J_Str (if l = En then ''Account is locked until {lockedUntil}'' else ''Zablokirovan'')),
     (''invalidCredentials'', J_Str ''Invalid email or password'')])])]"

definition demo_i18n :: i18n where
  "demo_i18n = \<lparr>fallbackLanguage = Ru, dicts = demo_dictionary\<rparr>"

definition demo_filter_request :: filter_request where
  "demo_filter_request = \<lparr>fr_language = Some ''en'', fr_acceptLanguage = None, fr_id = Some ''r-1''\<rparr>"

theorem application_error_reply_witness:
  "rp_body (catch_exception (Some demo_i18n) demo_filter_request
     (thrown_of [] (Http_Exn 403 ''user.auth.accountLocked'' [(''lockedUntil'', J_Str ''2026-01-01'')])))
   = J_Obj [(''error'', J_Obj [(''code'', J_Str ''FORBIDDEN''),
       (''message'', J_Str ''Account is locked until {lockedUntil}''),
       (''details'', J_Obj [(''messageKey'', J_Str ''user.auth.accountLocked''),
          (''lockedUntil'', J_Str ''2026-01-01'')]),
       (''request_id'', J_Str ''r-1'')])]"
proof -
  have key: "is_translation_key ''user.auth.accountLocked''" by code_simp
  have props: "get ''message'' [(''lockedUntil'', J_Str ''2026-01-01'')] = None" by code_simp
  have wording: "translate_string demo_i18n ''user.auth.accountLocked'' (filter_language demo_filter_request)
      (args_of [(''lockedUntil'', J_Str ''2026-01-01'')] None) = ''Account is locked until {lockedUntil}''"
    by code_simp
  show ?thesis
    unfolding application_error_reply [OF key props] wording
    by (simp add: status_map_def details_captcha_def details_lock_def demo_filter_request_def)
qed

text \<open>An expired captcha challenge is a 410, whose code the table does not have.\<close>

lemma gone_is_internal:
  "get_error_code (thrown_of sql (gone key)) 410 = ''INTERNAL_SERVER_ERROR''"
  by (simp only: error_code_of_status) (simp add: status_map_def)

text \<open>Login gives an unknown address and a wrong password the same message; the reply to a wrong
  password alone carries the captcha flag, so the two can be told apart.\<close>

lemma login_replies_differ:
  "rp_body (catch_exception (Some i) r (thrown_of sql (unauthorized ''user.auth.invalidCredentials'')))
   \<noteq> rp_body (catch_exception (Some i) r (thrown_of sql
       (Http_Exn 401 ''user.auth.invalidCredentials'' [(''requiresCaptcha'', J_Bool b)])))"
proof -
  have "is_translation_key ''user.auth.invalidCredentials''" by code_simp
  then show ?thesis
    by (simp add: application_error_reply details_captcha_def details_lock_def del: thrown_of.simps)
qed

section \<open>Validation errors\<close>

text \<open>A constraint violated at a node of the error tree, with the path of the node.\<close>

inductive violation :: "string \<Rightarrow> validation_error \<Rightarrow> string \<Rightarrow> json option \<Rightarrow> string \<times> string \<Rightarrow> bool" where
  here: "c \<in> set cs \<Longrightarrow> violation parent (Validation_Error p v cs ch) (property_path parent p) v c"
| below: "e \<in> set ch \<Longrightarrow> violation (property_path parent p) e path v c
    \<Longrightarrow> violation parent (Validation_Error p w cs ch) path v c"

inductive_cases violationE: "violation parent (Validation_Error p w cs ch) path v c"

lemma flatten_violations:
  "j \<in> set (flatten_validation_error parent e)
   \<longleftrightarrow> (\<exists>path v c. violation parent e path v c \<and> j = validation_message path v c)"
proof (induction parent e rule: flatten_validation_error.induct)
  case (1 parent p w cs ch)
  have "j \<in> set (flatten_validation_error parent (Validation_Error p w cs ch)) \<longleftrightarrow>
      (\<exists>c\<in>set cs. j = validation_message (property_path parent p) w c)
      \<or> (\<exists>e\<in>set ch. j \<in> set (flatten_validation_error (property_path parent p) e))"
    by (auto simp: Let_def)
  also have "\<dots> \<longleftrightarrow> (\<exists>c\<in>set cs. j = validation_message (property_path parent p) w c)
      \<or> (\<exists>e\<in>set ch. \<exists>path v c. violation (property_path parent p) e path v c \<and> j = validation_message path v c)"
    using 1 by blast
  also have "\<dots> \<longleftrightarrow> (\<exists>path v c. violation parent (Validation_Error p w cs ch) path v c
      \<and> j = validation_message path v c)"
    by (blast intro: here below elim: violationE)
  finally show ?case .
qed

lemma validation_key_prefix: "starts_with (resolve_validation_message_key constr raw) ''validation.''"
proof -
  have "list_all (\<lambda>(c, k). starts_with k ''validation.'') constraint_to_key" by code_simp
  then have "\<And>k. map_of constraint_to_key constr = Some k \<Longrightarrow> starts_with k ''validation.''"
    by (fastforce simp: list_all_iff dest: map_of_SomeD)
  moreover have "starts_with ''validation.INVALID'' ''validation.''" by code_simp
  ultimately show ?thesis
    by (cases "map_of constraint_to_key constr") (simp_all add: resolve_validation_message_key_def)
qed

text \<open>C29. A request that fails validation is answered with 400 \<open>BAD_REQUEST\<close>, and \<open>details.errors\<close>
  lists exactly the violated constraints of the error tree, at every depth, each with the dotted path
  of its property, a message key under \<open>validation.\<close> and the value that was sent - a rejected
  password included.\<close>

theorem validation_error_reply:
  assumes "\<exists>e\<in>set errors. \<exists>path v c. violation [] e path v c"
  shows "\<exists>ms m.
    catch_exception (Some i) r (create_validation_exception errors) = \<lparr>rp_status = 400,
       rp_body = J_Obj [(''error'', J_Obj [(''code'', J_Str ''BAD_REQUEST''), (''message'', m),
         (''details'', J_Obj [(''errors'', J_Arr ms)]),
         (''request_id'', (case fr_id r of None \<Rightarrow> J_Null | Some x \<Rightarrow> J_Str x))])]\<rparr>
    \<and> (\<forall>j. j \<in> set ms \<longleftrightarrow> (\<exists>e\<in>set errors. \<exists>path v constr raw. violation [] e path v (constr, raw)
       \<and> starts_with (resolve_validation_message_key constr raw) ''validation.''
       \<and> j = J_Obj [(''message'', J_Str (resolve_validation_message_key constr raw)),
                    (''args'', J_Obj ((''property'', J_Str path) # field ''value'' v))]))"
proof -
  let ?ms = "concat (map (flatten_validation_error []) errors)"
  let ?e = "create_validation_exception errors"
  have mem: "j \<in> set ?ms \<longleftrightarrow> (\<exists>e\<in>set errors. \<exists>path v c. violation [] e path v c \<and> j = validation_message path v c)" for j
    by (simp add: flatten_violations)
  from assms obtain m0 ms0 where ms: "?ms = m0 # ms0" by (cases ?ms) (use mem in force)+
  from ms mem [of m0] obtain path v c where m0: "m0 = validation_message path v c" by auto
  then obtain fs where fs: "m0 = J_Obj fs" by (cases c) (simp add: validation_message_def)
  have resp: "exception_response ?e = Some (J_Obj [(''message'', J_Arr ?ms)])"
    by (simp add: create_validation_exception_def)
  have norm: "normalized_message ?e = Some m0"
    by (simp add: normalized_message_def raw_message_def create_validation_exception_def ms fs)
  have "catch_exception (Some i) r ?e = \<lparr>rp_status = 400,
       rp_body = J_Obj [(''error'', J_Obj [(''code'', J_Str ''BAD_REQUEST''),
         (''message'', translate i m0 (filter_language r) (translation_args ?e)),
         (''details'', J_Obj [(''errors'', J_Arr ?ms)]),
         (''request_id'', (case fr_id r of None \<Rightarrow> J_Null | Some x \<Rightarrow> J_Str x))])]\<rparr>"
    unfolding catch_exception_def resp filter_message_def filter_message_key_def norm
    by (simp add: fs build_details_def details_errors_def details_captcha_def details_lock_def ms
        thrown_status_def create_validation_exception_def get_error_code_def name_map_def)
  moreover have "j \<in> set ?ms \<longleftrightarrow> (\<exists>e\<in>set errors. \<exists>path v constr raw. violation [] e path v (constr, raw)
       \<and> starts_with (resolve_validation_message_key constr raw) ''validation.''
       \<and> j = J_Obj [(''message'', J_Str (resolve_validation_message_key constr raw)),
                    (''args'', J_Obj ((''property'', J_Str path) # field ''value'' v))])" for j
    unfolding mem by (simp add: validation_message_def validation_key_prefix split_paired_Ex)
  ultimately show ?thesis by blast
qed

theorem validation_error_reply_witness:
  "\<exists>ms m. catch_exception (Some demo_i18n) demo_filter_request (create_validation_exception
      [Validation_Error ''password'' (Some (J_Str ''hunter2'')) [(''minLength'', ''password is too short'')] []])
    = \<lparr>rp_status = 400, rp_body = J_Obj [(''error'', J_Obj [(''code'', J_Str ''BAD_REQUEST''), (''message'', m),
         (''details'', J_Obj [(''errors'', J_Arr ms)]), (''request_id'', J_Str ''r-1'')])]\<rparr>
    \<and> J_Obj [(''message'', J_Str ''validation.MIN_LENGTH''),
          (''args'', J_Obj [(''property'', J_Str ''password''), (''value'', J_Str ''hunter2'')])] \<in> set ms"
proof -
  let ?e = "Validation_Error ''password'' (Some (J_Str ''hunter2'')) [(''minLength'', ''password is too short'')] []"
  have v: "violation [] ?e ''password'' (Some (J_Str ''hunter2'')) (''minLength'', ''password is too short'')"
    using here [of "(''minLength'', ''password is too short'')" "[(''minLength'', ''password is too short'')]" "[]"
      "''password''" "Some (J_Str ''hunter2'')" "[]"] by (simp add: property_path_def)
  then have "\<exists>e\<in>set [?e]. \<exists>path v c. violation [] e path v c" by (simp, blast)
  note reply = validation_error_reply [OF this, of demo_i18n demo_filter_request]
  have key: "resolve_validation_message_key ''minLength'' ''password is too short'' = ''validation.MIN_LENGTH''"
    by code_simp
  have id: "(case fr_id demo_filter_request of None \<Rightarrow> J_Null | Some x \<Rightarrow> J_Str x) = J_Str ''r-1''"
    by (simp add: demo_filter_request_def)
  let ?j = "J_Obj [(''message'', J_Str ''validation.MIN_LENGTH''),
          (''args'', J_Obj [(''property'', J_Str ''password''), (''value'', J_Str ''hunter2'')])]"
  have "\<exists>e\<in>set [?e]. \<exists>path v constr raw. violation [] e path v (constr, raw)
       \<and> starts_with (resolve_validation_message_key constr raw) ''validation.''
       \<and> ?j = J_Obj [(''message'', J_Str (resolve_validation_message_key constr raw)),
                    (''args'', J_Obj ((''property'', J_Str path) # field ''value'' v))]"
  proof (intro bexI exI conjI)
    show "violation [] ?e ''password'' (Some (J_Str ''hunter2'')) (''minLength'', ''password is too short'')" by (rule v)
  qed (simp_all add: key validation_key_prefix starts_with_def)
  with reply show ?thesis unfolding id by blast
qed

end
