(* ===== verification/Byte_Codec.thy ===== *)
theory Byte_Codec
  imports Password_Service
begin

text \<open>
  \<open>Buffer\<close>'s encodings: base64 and UTF-8, on bytes below 256.  The base64 decoder skips characters
  outside the two alphabets and stops at the first padding character; the UTF-8 decoder is for text
  of the model, Latin-1, and puts a question mark where a byte sequence encodes no such character.
\<close>

section \<open>Base64\<close>

definition b64_char :: "nat \<Rightarrow> char" where
  "b64_char n = char_of (if n < 26 then 65 + n else if n < 52 then 71 + n else if n < 62 then n - 4
     else if n = 62 then 43 else 47)"

definition b64_value :: "char \<Rightarrow> nat option" where
  "b64_value c = (let n = of_char c :: nat in
     if 65 \<le> n \<and> n \<le> 90 then Some (n - 65)
     else if 97 \<le> n \<and> n \<le> 122 then Some (n - 71)
     else if 48 \<le> n \<and> n \<le> 57 then Some (n + 4)
     else if n = 43 \<or> n = 45 then Some 62
     else if n = 47 \<or> n = 95 then Some 63
     else None)"

fun b64_encode :: "nat list \<Rightarrow> string" where
  "b64_encode [] = []"
| "b64_encode [a] = [b64_char (a div 4), b64_char (a mod 4 * 16), CHR ''='', CHR ''='']"
| "b64_encode [a, b] = [b64_char (a div 4), b64_char (a mod 4 * 16 + b div 16), b64_char (b mod 16 * 4), CHR ''='']"
| "b64_encode (a # b # c # bs) = b64_char (a div 4) # b64_char (a mod 4 * 16 + b div 16)
     # b64_char (b mod 16 * 4 + c div 64) # b64_char (c mod 64) # b64_encode bs"

fun b64_bytes :: "nat list \<Rightarrow> nat list" where
  "b64_bytes (v # w # x # y # vs) =
     (v * 4 + w div 16) # (w mod 16 * 16 + x div 4) # (x mod 4 * 64 + y) # b64_bytes vs"
| "b64_bytes [v, w, x] = [v * 4 + w div 16, w mod 16 * 16 + x div 4]"
| "b64_bytes [v, w] = [v * 4 + w div 16]"
| "b64_bytes _ = []"

definition b64_decode :: "string \<Rightarrow> nat list" where
  "b64_decode s = b64_bytes (List.map_filter b64_value (takeWhile (\<lambda>c. c \<noteq> CHR ''='') s))"

lemma of_b64_char: "n < 64 \<Longrightarrow> (of_char (b64_char n) :: nat) = (if n < 26 then 65 + n else if n < 52 then 71 + n
    else if n < 62 then n - 4 else if n = 62 then 43 else 47)"
  by (simp add: b64_char_def)

lemma b64_char_simps [simp]:
  assumes "n < 64"
  shows "b64_value (b64_char n) = Some n" "b64_char n \<noteq> CHR ''=''" "b64_char n \<noteq> CHR '':''" "CHR '':'' \<noteq> b64_char n"
proof -
  have neq: "(of_char (b64_char n) :: nat) \<noteq> 61" "(of_char (b64_char n) :: nat) \<noteq> 58"
    using assms by (auto simp: of_b64_char)
  show "b64_value (b64_char n) = Some n"
    using assms by (auto simp: b64_value_def of_b64_char Let_def)
  from neq show "b64_char n \<noteq> CHR ''=''" "b64_char n \<noteq> CHR '':''" by auto
  then show "CHR '':'' \<noteq> b64_char n" by (rule_tac not_sym)
qed

lemma map_filter_Cons: "List.map_filter f (x # xs) = (case f x of None \<Rightarrow> List.map_filter f xs | Some y \<Rightarrow> y # List.map_filter f xs)"
  by (cases "f x") (simp_all add: List.map_filter_def)

lemma map_filter_Nil [simp]: "List.map_filter f [] = []"
  by (simp add: List.map_filter_def)

lemma pack_nat:
  fixes x y k :: nat
  assumes "y < k"
  shows "(x * k + y) div k = x" "(x * k + y) mod k = y"
  using assms by simp_all

lemma sextets [simp]:
  fixes a b c :: nat
  shows "a < 256 \<Longrightarrow> a div 4 < 64" "a mod 4 * 16 < 64" "b < 256 \<Longrightarrow> a mod 4 * 16 + b div 16 < 64"
    "b mod 16 * 4 < 64" "c < 256 \<Longrightarrow> b mod 16 * 4 + c div 64 < 64" "c mod 64 < 64"
proof -
  have "a mod 4 < 4" "b mod 16 < 16" "b < 256 \<Longrightarrow> b div 16 < 16" "c < 256 \<Longrightarrow> c div 64 < 4" by simp_all
  then show "a < 256 \<Longrightarrow> a div 4 < 64" "a mod 4 * 16 < 64" "b < 256 \<Longrightarrow> a mod 4 * 16 + b div 16 < 64"
    "b mod 16 * 4 < 64" "c < 256 \<Longrightarrow> b mod 16 * 4 + c div 64 < 64" "c mod 64 < 64"
    by linarith+
qed

text \<open>The three bytes of a group, out of its four sextets.\<close>

lemma unpack_group [simp]:
  fixes a b c :: nat
  shows "a div 4 * 4 + a mod 4 * 16 div 16 = a"
    "b < 256 \<Longrightarrow> a div 4 * 4 + (a mod 4 * 16 + b div 16) div 16 = a"
    "b < 256 \<Longrightarrow> (a mod 4 * 16 + b div 16) mod 16 * 16 + b mod 16 = b"
    "b < 256 \<Longrightarrow> c < 256 \<Longrightarrow> (a mod 4 * 16 + b div 16) mod 16 * 16 + (b mod 16 * 4 + c div 64) div 4 = b"
    "c < 256 \<Longrightarrow> (b mod 16 * 4 + c div 64) mod 4 * 64 + c mod 64 = c"
proof -
  have lt: "b < 256 \<Longrightarrow> b div 16 < 16" "c < 256 \<Longrightarrow> c div 64 < 4" by simp_all
  show "a div 4 * 4 + a mod 4 * 16 div 16 = a" by simp
  show "b < 256 \<Longrightarrow> a div 4 * 4 + (a mod 4 * 16 + b div 16) div 16 = a"
    by (simp only: pack_nat lt div_mult_mod_eq)
  show "b < 256 \<Longrightarrow> (a mod 4 * 16 + b div 16) mod 16 * 16 + b mod 16 = b"
    by (simp only: pack_nat lt div_mult_mod_eq)
  show "b < 256 \<Longrightarrow> c < 256 \<Longrightarrow> (a mod 4 * 16 + b div 16) mod 16 * 16 + (b mod 16 * 4 + c div 64) div 4 = b"
    by (simp only: pack_nat lt div_mult_mod_eq)
  show "c < 256 \<Longrightarrow> (b mod 16 * 4 + c div 64) mod 4 * 64 + c mod 64 = c"
    by (simp only: pack_nat lt div_mult_mod_eq)
qed

lemma b64_roundtrip: "\<forall>b\<in>set bs. b < 256 \<Longrightarrow> b64_decode (b64_encode bs) = bs"
  by (induction bs rule: b64_encode.induct)
    (simp_all add: b64_decode_def map_filter_Cons del: div_mult_self3 div_mult_self4 mod_mult_self3 mod_mult_self4)

lemma b64_no_colon: "\<forall>b\<in>set bs. b < 256 \<Longrightarrow> CHR '':'' \<notin> set (b64_encode bs)"
  by (induction bs rule: b64_encode.induct) auto

section \<open>UTF-8\<close>

fun utf8_decode :: "nat list \<Rightarrow> string" where
  "utf8_decode [] = []"
| "utf8_decode (b # bs) = (if b < 128 then char_of b # utf8_decode bs
     else (case bs of
         c # cs \<Rightarrow> (if (b = 194 \<or> b = 195) \<and> 128 \<le> c \<and> c < 192
           then char_of (b mod 4 * 64 + c mod 64) # utf8_decode cs
           else CHR ''?'' # utf8_decode bs)
       | [] \<Rightarrow> [CHR ''?'']))"

lemma latin1_pair:
  assumes "128 \<le> n" "n < (256 :: nat)"
  shows "n div 64 = 2 \<or> n div 64 = 3" "n div 64 mod 4 * 64 + n mod 64 = n"
proof -
  have lt: "n div 64 < 4" using assms(2) by (simp add: div_less_iff_less_mult)
  moreover have "2 \<le> n div 64" using div_le_mono [OF assms(1), of 64] by simp
  ultimately show "n div 64 = 2 \<or> n div 64 = 3" by linarith
  show "n div 64 mod 4 * 64 + n mod 64 = n" by (simp only: mod_less [OF lt] div_mult_mod_eq)
qed

lemma utf8_decode_char: "utf8_decode (utf8_char c @ bs) = c # utf8_decode bs"
proof -
  define n where "n = (of_char c :: nat)"
  have n: "n < 256" "c = char_of n" by (simp_all add: n_def)
  show ?thesis
  proof (cases "n < 128")
    case False
    have hi: "192 + n div 64 = 194 \<or> 192 + n div 64 = 195" using latin1_pair(1) [of n] False n(1) by auto
    have "(192 + n div 64) mod 4 = n div 64 mod 4" using mod_mult_self3 [of 48 4 "n div 64"] by simp
    moreover have "(128 + n mod 64) mod 64 = n mod 64" using mod_mult_self3 [of 2 64 "n mod 64"] by simp
    ultimately have "(192 + n div 64) mod 4 * 64 + (128 + n mod 64) mod 64 = n"
      using latin1_pair(2) [of n] False n(1) by simp
    moreover have "128 + n mod 64 < 192" by simp
    ultimately show ?thesis using False hi n(2)
      by (simp only: utf8_char_def n_def [symmetric] Let_def if_False append_Cons append_Nil
          utf8_decode.simps list.case) auto
  qed (simp add: utf8_char_def n_def)
qed

lemma utf8_roundtrip [simp]: "utf8_decode (utf8_bytes s) = s"
  by (induction s) (simp_all add: utf8_bytes_def utf8_decode_char)

lemma utf8_bytes_Nil_iff [simp]: "utf8_bytes s = [] \<longleftrightarrow> s = []"
  by (cases s) (simp_all add: utf8_bytes_def utf8_char_def Let_def)

lemma utf8_bytes_byte: "b \<in> set (utf8_bytes s) \<Longrightarrow> b < 256"
proof -
  have "b < 256" if "b \<in> set (utf8_char c)" for b c
  proof -
    have "(of_char c :: nat) < 256" by simp
    then have "(of_char c :: nat) div 64 < 4" "(of_char c :: nat) mod 64 < 64"
      by (simp_all add: less_mult_imp_div_less)
    then have "192 + (of_char c :: nat) div 64 < 256" "128 + (of_char c :: nat) mod 64 < 256" by linarith+
    with that show ?thesis by (auto simp: utf8_char_def Let_def split: if_splits)
  qed
  then show "b \<in> set (utf8_bytes s) \<Longrightarrow> ?thesis" by (auto simp: utf8_bytes_def)
qed

end
