(* ===== verification/Encryption.thy ===== *)
theory Encryption
  imports Byte_Codec
begin

text \<open>
  \<open>EncryptionService\<close> of \<open>common/crypto/encryption.service.ts\<close>: the wire format of encrypted columns,
  the lookup fingerprints and the key formats.  AES-256-GCM and SHA-256 of \<open>node:crypto\<close> are the
  parameter \<open>cipher\<close>; the random nonce is an argument.
\<close>

record cipher =
  gcm_encrypt :: "nat list \<Rightarrow> nat list \<Rightarrow> nat list \<Rightarrow> nat list \<times> nat list"
  gcm_decrypt :: "nat list \<Rightarrow> nat list \<Rightarrow> nat list \<Rightarrow> nat list \<Rightarrow> nat list option"
  sha256_hex :: "nat list \<Rightarrow> string"

text \<open>What the documentation of GCM promises: the ciphertext has the length of the plaintext and the
  tag 16 bytes; decryption inverts encryption; and a pair of ciphertext and tag that is accepted is
  the encryption of the plaintext returned.\<close>

definition gcm_ok :: "cipher \<Rightarrow> bool" where
  "gcm_ok C = (\<forall>key nonce plain c t. (\<forall>b\<in>set plain. b < 256) \<longrightarrow> gcm_encrypt C key nonce plain = (c, t) \<longrightarrow>
       length c = length plain \<and> length t = 16 \<and> (\<forall>b\<in>set c. b < 256) \<and> (\<forall>b\<in>set t. b < 256)
       \<and> gcm_decrypt C key nonce c t = Some plain)"

definition gcm_authentic :: "cipher \<Rightarrow> bool" where
  "gcm_authentic C = (\<forall>key nonce plain c t. gcm_decrypt C key nonce c t = Some plain \<longrightarrow>
       gcm_encrypt C key nonce plain = (c, t))"

definition ENCRYPTED_PREFIX :: string where
  "ENCRYPTED_PREFIX = ''enc:v1:''"

definition HASH_PREFIX :: string where
  "HASH_PREFIX = ''sha256:''"

definition KEY_BYTES :: nat where "KEY_BYTES = 32"

definition NONCE_BYTES :: nat where "NONCE_BYTES = 12"

definition AUTH_TAG_BYTES :: nat where "AUTH_TAG_BYTES = 16"

definition is_encrypted :: "string \<Rightarrow> bool" where
  "is_encrypted v = starts_with v ENCRYPTED_PREFIX"

definition wire :: "nat list \<Rightarrow> nat list \<Rightarrow> nat list \<Rightarrow> string" where
  "wire nonce tag ciphertext = ENCRYPTED_PREFIX @ b64_encode nonce @ '':'' @ b64_encode tag
     @ '':'' @ b64_encode ciphertext"

definition encrypt_nullable :: "cipher \<Rightarrow> nat list \<Rightarrow> nat list \<Rightarrow> string option \<Rightarrow> string option" where
  "encrypt_nullable C key nonce v = (case v of
       None \<Rightarrow> None
     | Some s \<Rightarrow> (if s = [] then Some []
         else if is_encrypted s then Some s
         else let (ciphertext, tag) = gcm_encrypt C key nonce (utf8_bytes s)
              in Some (wire nonce tag ciphertext)))"

definition payload_invalid :: exn where
  "payload_invalid = Js_Exn ''crypto.encryptedPayloadInvalid''"

text \<open>A tag that does not match makes \<open>decipher.final\<close> throw.\<close>

definition decrypt_parts :: "cipher \<Rightarrow> nat list \<Rightarrow> nat list \<Rightarrow> nat list \<Rightarrow> nat list \<Rightarrow> exn + string option" where
  "decrypt_parts C key nonce tag ciphertext =
     (if length nonce \<noteq> NONCE_BYTES \<or> length tag \<noteq> AUTH_TAG_BYTES \<or> length ciphertext = 0
      then Inl payload_invalid
      else (case gcm_decrypt C key nonce ciphertext tag of
          None \<Rightarrow> Inl (Js_Exn ''Unsupported state or unable to authenticate data'')
        | Some plain \<Rightarrow> Inr (Some (utf8_decode plain))))"

definition decrypt_nullable :: "cipher \<Rightarrow> nat list \<Rightarrow> string option \<Rightarrow> exn + string option" where
  "decrypt_nullable C key v = (case v of
       None \<Rightarrow> Inr None
     | Some s \<Rightarrow> (if s = [] then Inr (Some [])
         else if \<not> is_encrypted s then Inr (Some s)
         else (case split_at CHR '':'' (drop (length ENCRYPTED_PREFIX) s) of
             [nonce, tag, ciphertext] \<Rightarrow>
               decrypt_parts C key (b64_decode nonce) (b64_decode tag) (b64_decode ciphertext)
           | _ \<Rightarrow> Inl payload_invalid)))"

definition hash_lookup_secret :: "cipher \<Rightarrow> string \<Rightarrow> string" where
  "hash_lookup_secret C v = (if starts_with v HASH_PREFIX then v
     else HASH_PREFIX @ sha256_hex C (utf8_bytes v))"

definition is_hashed_lookup_secret :: "string \<Rightarrow> bool" where
  "is_hashed_lookup_secret v = starts_with v HASH_PREFIX"

text \<open>\<open>Buffer.from(s, 'hex')\<close> of an even number of hexadecimal digits.\<close>

definition hex_value :: "char \<Rightarrow> nat option" where
  "hex_value c = (let n = of_char c :: nat in
     if 48 \<le> n \<and> n \<le> 57 then Some (n - 48)
     else if 97 \<le> n \<and> n \<le> 102 then Some (n - 87)
     else if 65 \<le> n \<and> n \<le> 70 then Some (n - 55) else None)"

fun hex_decode :: "string \<Rightarrow> nat list" where
  "hex_decode (a # b # cs) = (case (hex_value a, hex_value b) of
       (Some x, Some y) \<Rightarrow> (x * 16 + y) # hex_decode cs | _ \<Rightarrow> [])"
| "hex_decode _ = []"

definition parse_key :: "string \<Rightarrow> exn + nat list" where
  "parse_key raw = (let trimmed = js_trim raw;
     candidates = [b64_decode trimmed,
       if length trimmed = 64 \<and> list_all (\<lambda>c. hex_value c \<noteq> None) trimmed then hex_decode trimmed else [],
       utf8_bytes trimmed]
   in case find_row (\<lambda>c. length c = KEY_BYTES) candidates of
        None \<Rightarrow> Inl (Js_Exn ''security.encryptionKeyInvalid'')
      | Some key \<Rightarrow> Inr key)"

section \<open>Properties\<close>

lemma split_wire:
  assumes "\<forall>b\<in>set n. b < 256" "\<forall>b\<in>set t. b < 256" "\<forall>b\<in>set c. b < 256"
  shows "split_at CHR '':'' (b64_encode n @ '':'' @ b64_encode t @ '':'' @ b64_encode c)
    = [b64_encode n, b64_encode t, b64_encode c]"
  using b64_no_colon [OF assms(1)] b64_no_colon [OF assms(2)] b64_no_colon [OF assms(3)]
  by (simp add: split_at_append split_at_single)

lemma is_encrypted_wire [simp]: "is_encrypted (wire n t c)"
  by (simp add: is_encrypted_def wire_def)

lemma decrypt_wire:
  assumes "\<forall>b\<in>set n. b < 256" "\<forall>b\<in>set t. b < 256" "\<forall>b\<in>set c. b < 256"
  shows "decrypt_nullable C key (Some (wire n t c)) = decrypt_parts C key n t c"
proof -
  have "wire n t c \<noteq> []" by (simp add: wire_def ENCRYPTED_PREFIX_def)
  moreover have "drop (length ENCRYPTED_PREFIX) (wire n t c)
      = b64_encode n @ '':'' @ b64_encode t @ '':'' @ b64_encode c" by (simp add: wire_def)
  ultimately show ?thesis using is_encrypted_wire [of n t c]
    by (simp only: decrypt_nullable_def option.case if_False if_True not_True_eq_False split_wire [OF assms]
        list.case b64_roundtrip [OF assms(1)] b64_roundtrip [OF assms(2)] b64_roundtrip [OF assms(3)])
qed

text \<open>C35. What \<open>encryptNullable\<close> writes, \<open>decryptNullable\<close> reads back - null, the empty string and every
  text that does not itself begin with the wire prefix - and a non-empty plaintext never appears in
  the column unencrypted: the value has the wire prefix.\<close>

theorem encryption_roundtrip:
  assumes gcm: "gcm_ok C"
    and nonce: "length nonce = 12" "\<forall>b\<in>set nonce. b < 256"
    and plain: "\<And>s. v = Some s \<Longrightarrow> \<not> is_encrypted s"
  shows "decrypt_nullable C key (encrypt_nullable C key nonce v) = Inr v
    \<and> (truthy v \<longrightarrow> is_encrypted (the (encrypt_nullable C key nonce v)))"
proof (cases "truthy v")
  case False
  then have "v = None \<or> v = Some []" by (cases v) (auto simp: truthy_iff)
  then show ?thesis by (auto simp: encrypt_nullable_def decrypt_nullable_def)
next
  case True
  then obtain s where s: "v = Some s" "s \<noteq> []" by (auto simp: truthy_iff)
  obtain c t where ct: "gcm_encrypt C key nonce (utf8_bytes s) = (c, t)" by fastforce
  with gcm have c: "length c = length (utf8_bytes s)" "length t = 16" "\<forall>b\<in>set c. b < 256" "\<forall>b\<in>set t. b < 256"
    "gcm_decrypt C key nonce c t = Some (utf8_bytes s)"
    unfolding gcm_ok_def using utf8_bytes_byte [of _ s] by blast+
  have enc: "encrypt_nullable C key nonce v = Some (wire nonce t c)"
    using plain [OF s(1)] s by (simp add: encrypt_nullable_def ct)
  have "c \<noteq> []" using c(1) s(2) by auto
  then have "decrypt_parts C key nonce t c = Inr (Some s)"
    by (simp add: decrypt_parts_def nonce c s(2) NONCE_BYTES_def AUTH_TAG_BYTES_def)
  with enc show ?thesis by (simp add: s decrypt_wire [OF nonce(2) c(4) c(3)])
qed

text \<open>C36. A value that \<open>decryptNullable\<close> accepts has not been altered: its nonce, tag and ciphertext are
  what encrypting the returned text under the key gives.\<close>

theorem decryption_authentic:
  assumes "gcm_authentic C" "is_encrypted s" "decrypt_nullable C key (Some s) = Inr v"
  shows "\<exists>plain n t c. v = Some (utf8_decode plain) \<and> length n = 12 \<and> length t = 16 \<and> c \<noteq> []
    \<and> gcm_encrypt C key n plain = (c, t)
    \<and> map b64_decode (split_at CHR '':'' (drop 7 s)) = [n, t, c]"
proof -
  have "s \<noteq> []" using assms(2) by (auto simp: is_encrypted_def starts_with_def ENCRYPTED_PREFIX_def)
  moreover have "length ENCRYPTED_PREFIX = 7" by (simp add: ENCRYPTED_PREFIX_def)
  ultimately obtain a b d where parts: "split_at CHR '':'' (drop 7 s) = [a, b, d]"
    and dec: "decrypt_parts C key (b64_decode a) (b64_decode b) (b64_decode d) = Inr v"
    using assms(2,3) by (auto simp: decrypt_nullable_def split: list.splits)
  then obtain plain where "gcm_decrypt C key (b64_decode a) (b64_decode d) (b64_decode b) = Some plain"
    "v = Some (utf8_decode plain)" "length (b64_decode a) = 12" "length (b64_decode b) = 16" "b64_decode d \<noteq> []"
    by (auto simp: decrypt_parts_def NONCE_BYTES_def AUTH_TAG_BYTES_def split: if_splits option.splits)
  moreover from this(1) have "gcm_encrypt C key (b64_decode a) plain = (b64_decode d, b64_decode b)"
    using assms(1) unfolding gcm_authentic_def by blast
  ultimately show ?thesis using parts by auto
qed

text \<open>A plaintext that begins with the wire prefix is stored as it is and cannot be read back.\<close>

lemma prefixed_plaintext_lost:
  "encrypt_nullable C key nonce (Some ''enc:v1:secret'') = Some ''enc:v1:secret''
   \<and> decrypt_nullable C key (Some ''enc:v1:secret'') = Inl payload_invalid"
  by (simp add: encrypt_nullable_def decrypt_nullable_def is_encrypted_def starts_with_def ENCRYPTED_PREFIX_def)

text \<open>A fingerprint taken from the database is its own fingerprint: presented as the secret, it is found.\<close>

lemma fingerprint_is_accepted:
  "hash_lookup_secret C (hash_lookup_secret C v) = hash_lookup_secret C v"
  by (simp add: hash_lookup_secret_def)

lemma parse_key_length: "parse_key raw = Inr key \<Longrightarrow> length key = 32"
  by (auto simp: parse_key_def Let_def KEY_BYTES_def split: option.splits if_splits)

section \<open>A cipher that meets the contracts\<close>

definition demo_cipher :: cipher where
  "demo_cipher = \<lparr>gcm_encrypt = (\<lambda>key nonce plain. (plain, replicate 16 0)),
     gcm_decrypt = (\<lambda>key nonce c t. if t = replicate 16 0 then Some c else None),
     sha256_hex = hex_encode\<rparr>"

lemma demo_cipher_ok: "gcm_ok demo_cipher" "gcm_authentic demo_cipher"
  by (auto simp: gcm_ok_def gcm_authentic_def demo_cipher_def)

theorem encryption_roundtrip_witness:
  "decrypt_nullable demo_cipher [] (encrypt_nullable demo_cipher [] (replicate 12 7) (Some ''token'')) = Inr (Some ''token'')"
  using encryption_roundtrip [OF demo_cipher_ok(1), of "replicate 12 7" "Some ''token''" "[]"]
  by (simp add: is_encrypted_def starts_with_def ENCRYPTED_PREFIX_def)

theorem decryption_authentic_witness:
  "\<exists>plain n t c. Some ''token'' = Some (utf8_decode plain) \<and> length n = 12 \<and> length t = 16 \<and> c \<noteq> []
    \<and> gcm_encrypt demo_cipher [] n plain = (c, t)
    \<and> map b64_decode (split_at CHR '':'' (drop 7 (wire (replicate 12 7) (replicate 16 0) (utf8_bytes ''token'')))) = [n, t, c]"
proof (rule decryption_authentic [OF demo_cipher_ok(2) is_encrypted_wire])
  have "utf8_bytes ''token'' \<noteq> []" by simp
  moreover have "\<forall>b\<in>set (utf8_bytes ''token''). b < 256" using utf8_bytes_byte by blast
  ultimately show "decrypt_nullable demo_cipher [] (Some (wire (replicate 12 7) (replicate 16 0) (utf8_bytes ''token'')))
      = Inr (Some ''token'')"
    by (simp add: decrypt_wire decrypt_parts_def NONCE_BYTES_def AUTH_TAG_BYTES_def demo_cipher_def)
qed

end
