(* ===== verification/Password_Generator.thy ===== *)
theory Password_Generator
  imports Js_Values "HOL-Library.Multiset"
begin

text \<open>
  \<open>generateStrongPassword\<close> of \<open>common/generate-password.ts\<close>.  The draws of \<open>randomInt(0, n)\<close> are the
  argument \<open>rnd\<close>: \<open>rnd k n\<close> is what the k-th call of the run returns when its bound is \<open>n\<close>.
\<close>

definition draws_ok :: "(nat \<Rightarrow> nat \<Rightarrow> nat) \<Rightarrow> bool" where
  "draws_ok rnd = (\<forall>k n. 0 < n \<longrightarrow> rnd k n < n)"

definition lowercase :: string where
  "lowercase = ''abcdefghijklmnopqrstuvwxyz''"

definition uppercase :: string where
  "uppercase = ''ABCDEFGHIJKLMNOPQRSTUVWXYZ''"

definition numbers :: string where
  "numbers = ''0123456789''"

definition symbols :: string where
  "symbols = ''!@#$%^&*()_+-=[]{}|;:,.<>?''"

definition all_chars :: string where
  "all_chars = lowercase @ uppercase @ numbers @ symbols"

definition pick :: "(nat \<Rightarrow> nat \<Rightarrow> nat) \<Rightarrow> nat \<Rightarrow> string \<Rightarrow> char" where
  "pick rnd k cs = cs ! rnd k (length cs)"

definition required_chars :: "(nat \<Rightarrow> nat \<Rightarrow> nat) \<Rightarrow> string" where
  "required_chars rnd = [pick rnd 0 lowercase, pick rnd 1 uppercase, pick rnd 2 numbers, pick rnd 3 symbols]"

definition random_chars :: "(nat \<Rightarrow> nat \<Rightarrow> nat) \<Rightarrow> nat \<Rightarrow> string" where
  "random_chars rnd remaining = map (\<lambda>i. pick rnd (4 + i) all_chars) [0..<remaining]"

text \<open>The destructuring swap of two elements.\<close>

definition swap_elems :: "nat \<Rightarrow> nat \<Rightarrow> 'a list \<Rightarrow> 'a list" where
  "swap_elems i j xs = xs[i := xs ! j, j := xs ! i]"

text \<open>The shuffle for \<open>i\<close> down to 1; \<open>k\<close> counts the draws made before.\<close>

fun shuffle_down :: "(nat \<Rightarrow> nat \<Rightarrow> nat) \<Rightarrow> nat \<Rightarrow> nat \<Rightarrow> 'a list \<Rightarrow> 'a list" where
  "shuffle_down rnd k 0 xs = xs"
| "shuffle_down rnd k (Suc i) xs =
     shuffle_down rnd (Suc k) i (swap_elems (Suc i) (rnd k (Suc (Suc i))) xs)"

definition generate_strong_password :: "(nat \<Rightarrow> nat \<Rightarrow> nat) \<Rightarrow> int \<Rightarrow> exn + string" where
  "generate_strong_password rnd len = (if len < 8 then Inl (Js_Exn ''common.password.minLength'')
     else let n = nat len; chars = required_chars rnd @ random_chars rnd (n - 4)
          in Inr (shuffle_down rnd n (n - 1) chars))"

section \<open>Properties\<close>

lemma length_swap_elems [simp]: "length (swap_elems i j xs) = length xs"
  by (simp add: swap_elems_def)

lemma length_shuffle [simp]: "length (shuffle_down rnd k i xs) = length xs"
  by (induction i arbitrary: k xs) simp_all

lemma mset_swap_elems: "i < length xs \<Longrightarrow> j < length xs \<Longrightarrow> mset (swap_elems i j xs) = mset xs"
  by (simp add: swap_elems_def mset_swap)

lemma mset_shuffle: "draws_ok rnd \<Longrightarrow> i < length xs \<Longrightarrow> mset (shuffle_down rnd k i xs) = mset xs"
proof (induction i arbitrary: k xs)
  case (Suc i)
  have "rnd k (Suc (Suc i)) < Suc (Suc i)" using Suc.prems(1) by (simp add: draws_ok_def)
  then have j: "rnd k (Suc (Suc i)) < length xs" using Suc.prems(2) by linarith
  then show ?case using Suc by (simp add: mset_swap_elems)
qed simp

lemma pick_in: "draws_ok rnd \<Longrightarrow> cs \<noteq> [] \<Longrightarrow> pick rnd k cs \<in> set cs"
  by (simp add: pick_def draws_ok_def)

lemma alphabets_nonempty [simp]: "lowercase \<noteq> []" "uppercase \<noteq> []" "numbers \<noteq> []" "symbols \<noteq> []" "all_chars \<noteq> []"
  by (simp_all add: lowercase_def uppercase_def numbers_def symbols_def all_chars_def)

lemma random_chars_in: "draws_ok rnd \<Longrightarrow> set (random_chars rnd n) \<subseteq> set all_chars"
  by (auto simp: random_chars_def intro: pick_in)

lemma required_chars_in: "draws_ok rnd \<Longrightarrow> set (required_chars rnd) \<subseteq> set all_chars"
  using pick_in [of rnd lowercase 0] pick_in [of rnd uppercase 1] pick_in [of rnd numbers 2] pick_in [of rnd symbols 3]
  by (auto simp: required_chars_def all_chars_def)

text \<open>Whatever the draws, a generated password of at least eight characters has the length asked
  for, only characters of the four alphabets and one of each of them at least; the shuffle is a
  permutation of the characters drawn, and a shorter length is refused.\<close>

theorem generated_password_strong:
  assumes "draws_ok rnd"
  shows "(len < 8 \<longrightarrow> generate_strong_password rnd len = Inl (Js_Exn ''common.password.minLength''))
    \<and> (8 \<le> len \<longrightarrow> (\<exists>pw. generate_strong_password rnd len = Inr pw \<and> int (length pw) = len
         \<and> set pw \<subseteq> set all_chars
         \<and> mset pw = mset (required_chars rnd) + mset (random_chars rnd (nat len - 4))
         \<and> (\<forall>a \<in> {lowercase, uppercase, numbers, symbols}. \<exists>c \<in> set pw. c \<in> set a)))"
proof (intro conjI impI)
  assume len: "8 \<le> len"
  let ?chars = "required_chars rnd @ random_chars rnd (nat len - 4)"
  define pw where "pw = shuffle_down rnd (nat len) (nat len - 1) ?chars"
  have length: "length ?chars = nat len" using len by (simp add: required_chars_def random_chars_def)
  then have mset: "mset pw = mset ?chars" unfolding pw_def using assms len by (intro mset_shuffle) simp_all
  then have set: "set pw = set ?chars" by (metis set_mset_mset)
  have "\<exists>c \<in> set pw. c \<in> set a" if "a \<in> {lowercase, uppercase, numbers, symbols}" for a
    using that pick_in [OF assms, of lowercase 0] pick_in [OF assms, of uppercase 1]
      pick_in [OF assms, of numbers 2] pick_in [OF assms, of symbols 3]
    by (auto simp: set required_chars_def)
  moreover have "set pw \<subseteq> set all_chars" using random_chars_in [OF assms] required_chars_in [OF assms] set by simp
  moreover have "int (length pw) = len" using length len by (simp add: pw_def)
  moreover have "generate_strong_password rnd len = Inr pw" using len by (simp add: generate_strong_password_def pw_def Let_def)
  ultimately show "\<exists>pw. generate_strong_password rnd len = Inr pw \<and> int (length pw) = len \<and> set pw \<subseteq> set all_chars
      \<and> mset pw = mset (required_chars rnd) + mset (random_chars rnd (nat len - 4))
      \<and> (\<forall>a \<in> {lowercase, uppercase, numbers, symbols}. \<exists>c \<in> set pw. c \<in> set a)"
    using mset by (metis mset_append)
qed (simp add: generate_strong_password_def)

theorem generated_password_strong_witness:
  "\<exists>pw. generate_strong_password (\<lambda>k n. n - 1) 12 = Inr pw \<and> int (length pw) = 12"
proof -
  have "draws_ok (\<lambda>k n. n - 1)" by (simp add: draws_ok_def)
  from generated_password_strong [OF this, of 12] show ?thesis by auto
qed

end
