(* ===== verification/Admin.thy ===== *)
theory Admin
  imports Notification Translation Backend_Auth
begin

text \<open>
  The admin module: the tables of \<open>admin.schema.ts\<close>, the query and command handlers of
  \<open>admin.handlers.ts\<close>, the audit handlers that \<open>auth-audit.handlers.ts\<close> subscribes to the
  authentication events, and \<open>admin.controller.ts\<close> behind its two guards.  The state extends the
  server's by the access log and the system settings; the bounds of the \<open>varchar\<close> columns are not
  modelled.
\<close>

section \<open>Tables\<close>

record access_log_row =
  al_id :: ident
  al_createdAt :: int
  al_userId :: "ident option"
  al_email :: "string option"
  al_action :: string
  al_ipAddress :: "string option"
  al_userAgent :: "string option"
  al_details :: "string option"

record setting_row =
  ss_key :: string
  ss_value :: string
  ss_updatedAt :: int

record 'ab admin_server = "'ab server" +
  access_logs :: "access_log_row list"
  system_settings :: "setting_row list"

section \<open>The access log\<close>

record access_log_payload =
  lp_userId :: "ident option"
  lp_email :: "string option"
  lp_ipAddress :: "string option"
  lp_userAgent :: "string option"
  lp_details :: "(string \<times> json) list option"

definition no_payload :: access_log_payload where
  "no_payload = \<lparr>lp_userId = None, lp_email = None, lp_ipAddress = None, lp_userAgent = None, lp_details = None\<rparr>"

definition access_log_row_of :: "ident \<Rightarrow> int \<Rightarrow> string \<Rightarrow> access_log_payload \<Rightarrow> access_log_row" where
  "access_log_row_of new_id now action p = \<lparr>al_id = new_id, al_createdAt = now, al_userId = lp_userId p,
     al_email = lp_email p, al_action = action, al_ipAddress = lp_ipAddress p, al_userAgent = lp_userAgent p,
     al_details = map_option (\<lambda>d. json_stringify (J_Obj d)) (lp_details p)\<rparr>"

text \<open>The insert checks the primary key and the reference to the user.\<close>

definition write_access_log_handler ::
    "ident \<Rightarrow> int \<Rightarrow> string \<Rightarrow> access_log_payload \<Rightarrow> (('ab, 'x) admin_server_scheme, exn, unit) comp" where
  "write_access_log_handler new_id now action p s =
     (if some_row (\<lambda>r. al_id r = new_id) (access_logs s) then (Inl (Pg_Exn ''23505''), s)
      else if (\<exists>i. lp_userId p = Some i \<and> \<not> some_row (\<lambda>u. u_id u = i) (users s)) then (Inl (Pg_Exn ''23503''), s)
      else (Inr (), s\<lparr>access_logs := access_logs s @ [access_log_row_of new_id now action p]\<rparr>))"

text \<open>The seven audit handlers; no handler is subscribed to \<open>UserCreatedEvent\<close> here.\<close>

fun audit_entry :: "auth_event \<Rightarrow> (string \<times> access_log_payload) option" where
  "audit_entry (User_Login_Succeeded i email) =
     Some (''login_success'', no_payload\<lparr>lp_userId := Some i, lp_email := Some email\<rparr>)"
| "audit_entry (User_Login_Failed email) = Some (''login_failed'', no_payload\<lparr>lp_email := Some email\<rparr>)"
| "audit_entry (User_Logged_Out success) =
     Some (''logout'', no_payload\<lparr>lp_details := Some [(''success'', J_Bool success)]\<rparr>)"
| "audit_entry (Password_Reset_Requested email i) =
     Some (''password_reset_requested'', no_payload\<lparr>lp_userId := i, lp_email := Some email\<rparr>)"
| "audit_entry (Password_Reset_Completed i) =
     Some (''password_reset_completed'', no_payload\<lparr>lp_userId := Some i\<rparr>)"
| "audit_entry (Password_Changed i) = Some (''password_changed'', no_payload\<lparr>lp_userId := Some i\<rparr>)"
| "audit_entry (Admin_Password_Reset_Requested i) =
     Some (''admin_password_reset_requested'', no_payload\<lparr>lp_userId := Some i\<rparr>)"
| "audit_entry (User_Created i email name surname) = None"

definition audit_handle :: "ident \<Rightarrow> int \<Rightarrow> auth_event \<Rightarrow> (('ab, 'x) admin_server_scheme, exn, unit) comp" where
  "audit_handle new_id now e = (case audit_entry e of
     None \<Rightarrow> ret () | Some (action, p) \<Rightarrow> write_access_log_handler new_id now action p)"

text \<open>The event bus hands the events of a request to their handlers, in the order of publication; a
  handler that throws is logged and the next event is delivered.\<close>

fun deliver_events :: "(nat \<Rightarrow> ident) \<Rightarrow> int \<Rightarrow> auth_event list \<Rightarrow> (('ab, 'x) admin_server_scheme, exn, unit) comp" where
  "deliver_events ids now [] = ret ()"
| "deliver_events ids now (e # es) =
     andThen (swallow (audit_handle (ids (length es)) now e)) (\<lambda>_. deliver_events ids now es)"

record access_logs_filter =
  lf_action :: "string option"
  lf_page :: "int option"
  lf_per_page :: "int option"

definition access_log_matches :: "access_logs_filter \<Rightarrow> access_log_row \<Rightarrow> bool" where
  "access_log_matches f r = (if truthy (lf_action f) then Some (al_action r) = lf_action f else True)"

definition access_logs_handler ::
    "access_logs_filter \<Rightarrow> (('ab, 'x) admin_server_scheme, exn, access_log_row paginated) comp" where
  "access_logs_handler f s = (let page = coalesce (lf_page f) 1; per_page = coalesce (lf_per_page f) 20;
     (limit, offset) = to_sql_pagination page per_page;
     matching = filter (access_log_matches f) (access_logs s)
   in (Inr (build_paginated (sql_window limit offset (sort_key al_createdAt matching))
         (int (length matching)) page per_page), s))"

section \<open>Settings\<close>

definition system_settings_handler :: "(('ab, 'x) admin_server_scheme, exn, setting_row list) comp" where
  "system_settings_handler = fetch system_settings"

definition system_setting_update_handler ::
    "int \<Rightarrow> string \<Rightarrow> string \<Rightarrow> (('ab, 'x) admin_server_scheme, exn, setting_row) comp" where
  "system_setting_update_handler now key v s = (let row = \<lparr>ss_key = key, ss_value = v, ss_updatedAt = now\<rparr> in
     if some_row (\<lambda>r. ss_key r = key) (system_settings s)
     then (Inr row, s\<lparr>system_settings := update_rows (\<lambda>r. ss_key r = key)
        (\<lambda>r. r\<lparr>ss_value := v, ss_updatedAt := now\<rparr>) (system_settings s)\<rparr>)
     else (Inr row, s\<lparr>system_settings := system_settings s @ [row]\<rparr>))"

section \<open>The dashboard\<close>

record dashboard =
  db_totalUsers :: nat
  db_activeUsers :: nat
  db_totalRoles :: nat
  db_unreadNotifications :: nat
  db_queuedMails :: nat

definition dashboard_of :: "('ab, 'x) admin_server_scheme \<Rightarrow> dashboard" where
  "dashboard_of s = \<lparr>
     db_totalUsers = count_rows (\<lambda>u. u_deletedAt u = None) (users s),
     db_activeUsers = count_rows (\<lambda>u. u_deletedAt u = None \<and> u_blocked u = Some False) (users s),
     db_totalRoles = count_rows (\<lambda>r. ur_deletedAt r = None) (roles s),
     db_unreadNotifications = count_rows (\<lambda>n. nf_deletedAt n = None \<and> nf_isRead n = Some False) (notifications s),
     db_queuedMails = count_rows (\<lambda>m. m_deletedAt m = None \<and> m_status m = Some Mail_Pending) (mails s)\<rparr>"

definition dashboard_handler :: "(('ab, 'x) admin_server_scheme, exn, dashboard) comp" where
  "dashboard_handler = fetch dashboard_of"

section \<open>The controller\<close>

datatype admin_request =
    Get_Dashboard
  | Get_Access_Logs access_logs_filter
  | Get_Settings
  | Patch_Setting string string

datatype admin_reply =
    Dashboard_Reply dashboard
  | Access_Logs_Reply "access_log_row paginated"
  | Settings_Reply "setting_row list"
  | Setting_Reply setting_row

fun admin_policy :: "admin_request \<Rightarrow> perm_action \<times> subject_arg" where
  "admin_policy Get_Dashboard = (Read, One_Subject S_AdminDashboard)"
| "admin_policy (Get_Access_Logs _) = (Read, One_Subject S_AdminAccessLog)"
| "admin_policy Get_Settings = (Read, One_Subject S_AdminSettings)"
| "admin_policy (Patch_Setting _ _) = (Update, One_Subject S_AdminSettings)"

fun admin_endpoint :: "int \<Rightarrow> admin_request \<Rightarrow> (('ab, 'x) admin_server_scheme, exn, admin_reply) comp" where
  "admin_endpoint now Get_Dashboard = andThen dashboard_handler (\<lambda>d. ret (Dashboard_Reply d))"
| "admin_endpoint now (Get_Access_Logs f) = andThen (access_logs_handler f) (\<lambda>p. ret (Access_Logs_Reply p))"
| "admin_endpoint now Get_Settings = andThen system_settings_handler (\<lambda>xs. ret (Settings_Reply xs))"
| "admin_endpoint now (Patch_Setting key v) =
     andThen (system_setting_update_handler now key v) (\<lambda>r. ret (Setting_Reply r))"

definition admin_controller :: "'ab http_guards \<Rightarrow> int \<Rightarrow> http_request \<Rightarrow> admin_request
    \<Rightarrow> (('ab, 'x) admin_server_scheme, exn, admin_reply) comp" where
  "admin_controller G now req q = with_guards G now (Some (admin_policy q)) req (\<lambda>_. admin_endpoint now q)"

end
