(* ===== verification/Admin_Properties.thy ===== *)
theory Admin_Properties
  imports Admin Auth_Http_Properties Notification_Properties
begin

text \<open>
  The audit trail that the authentication requests leave, what the paginated access log shows of it,
  and the store of system settings.
\<close>

section \<open>Delivery of events\<close>

definition user_exists :: "ident \<Rightarrow> ('ab, 'x) admin_server_scheme \<Rightarrow> bool" where
  "user_exists i s = (i \<in> u_id ` set (users s))"

lemma some_row_user_id: "some_row (\<lambda>u. u_id u = i) (users s) = user_exists i s"
  by (auto simp: some_row_iff user_exists_def image_iff)

lemma deliver_one:
  assumes "ids 0 \<notin> al_id ` set (access_logs s)" "audit_entry e = Some (action, p)"
    and "\<And>i. lp_userId p = Some i \<Longrightarrow> user_exists i s"
  shows "snd (deliver_events ids now [e] s) = s\<lparr>access_logs := access_logs s @ [access_log_row_of (ids 0) now action p]\<rparr>"
proof -
  have "\<not> some_row (\<lambda>r. al_id r = ids 0) (access_logs s)" using assms(1) by (force simp: some_row_iff)
  moreover have "\<not> (\<exists>i. lp_userId p = Some i \<and> \<not> some_row (\<lambda>u. u_id u = i) (users s))"
    using assms(3) by (auto simp: some_row_user_id)
  ultimately show ?thesis
    by (simp add: andThen_def audit_handle_def assms(2) write_access_log_handler_def)
qed

section \<open>Events of the authentication requests\<close>

text \<open>What a request publishes, as a function of what it answers; \<open>known i\<close> says that the account
  exists.\<close>

fun published :: "(ident \<Rightarrow> bool) \<Rightarrow> auth_request \<Rightarrow> exn + auth_reply \<Rightarrow> auth_event list \<Rightarrow> bool" where
  "published known (Post_Login e pw) (Inr (Login_Reply d)) es =
     (known (ud_id (ar_user d)) \<and> (\<exists>em. es = [User_Login_Succeeded (ud_id (ar_user d)) em]))"
| "published known (Post_Login e pw) (Inl x) es = (es = [User_Login_Failed e])"
| "published known (Post_Logout b) (Inr (Logout_Reply d)) es =
     (es = (if ld_message d = ''user.auth.logout.tokenNotProvided'' then [] else [User_Logged_Out (ld_success d)]))"
| "published known (Post_Forgot e) (Inr x) es =
     (\<exists>i. (\<forall>k. i = Some k \<longrightarrow> known k) \<and> es = [Password_Reset_Requested e i])"
| "published known (Post_Reset t pw) (Inr x) es = (\<exists>i. known i \<and> es = [Password_Reset_Completed i])"
| "published known (Post_Change i cur pw) (Inr x) es = (known i \<and> es = [Password_Changed i])"
| "published known r x es = (es = [])"

text \<open>A request leaves the tables that the auth service does not know as they are, and adds no account.\<close>

definition same_frame :: "'x backend_scheme \<Rightarrow> 'x backend_scheme \<Rightarrow> bool" where
  "same_frame s0 s = (backend.more s = backend.more s0 \<and> map u_id (users s) = map u_id (users s0))"

context auth_gateway
begin

lemma refresh_events: "events (snd (refresh_tokens_handler gw cfg token req s)) = events s"
  using refresh_outside [of s "\<lparr>rq_refreshToken = token, rq_requestIp = request_ip req, rq_userAgent = user_agent req\<rparr>"]
  by (auto simp: refresh_tokens_handler_def andThen_def set_auth_cookies_def outside_def split: prod.splits sum.splits)

lemma logout_events:
  "case user_logout_handler gw cfg token s of
     (Inl e, s') \<Rightarrow> events s' = events s
   | (Inr d, s') \<Rightarrow> events s' = events s @ [User_Logged_Out (ld_success d)] \<and> ld_message d \<noteq> ''user.auth.logout.tokenNotProvided''"
  using logout_outside [of s token]
  by (auto simp: user_logout_handler_def andThen_def clear_auth_cookies_def publish_def outside_def
      split: prod.splits sum.splits)

lemma forgot_events:
  "case forgot_password_command gw e s of
     (Inl x, s') \<Rightarrow> events s' = events s
   | (Inr x, s') \<Rightarrow> \<exists>r s1. gw_forgot gw e s = (Inr r, s1) \<and>
       events s' = events s @ [Password_Reset_Requested e (if fg_userId r \<noteq> [] then Some (fg_userId r) else None)]"
  using forgot_outside [of s e]
  by (auto simp: forgot_password_command_def andThen_def publish_def outside_def split: prod.splits sum.splits)

lemma reset_events:
  "case reset_password_command gw t pw s of
     (Inl x, s') \<Rightarrow> events s' = events s
   | (Inr x, s') \<Rightarrow> \<exists>r s1. gw_reset gw t pw s = (Inr r, s1) \<and> rs_success r \<and>
       events s' = events s @ [Password_Reset_Completed (rs_userId r)]"
  using reset_outside [of s t pw]
  by (auto simp: reset_password_command_def andThen_def publish_def outside_def split: prod.splits sum.splits)

lemma change_events:
  "case change_password_command gw i cur pw s of
     (Inl x, s') \<Rightarrow> events s' = events s
   | (Inr x, s') \<Rightarrow> \<exists>r s1. gw_change gw i cur pw s = (Inr r, s1) \<and> cp_success r \<and>
       events s' = events s @ [Password_Changed i]"
  using change_outside [of s i cur pw]
  by (auto simp: change_password_command_def andThen_def publish_def outside_def split: prod.splits sum.splits)

lemma keeps_frame_call: "(\<And>s. outside s (snd (m s))) \<Longrightarrow> keeps (same_frame s0) m"
  by (simp add: keeps_def same_frame_def outside_def)

lemma keeps_frame_gateway:
  "keeps (same_frame s0) (gw_login gw c)" "keeps (same_frame s0) (gw_refresh gw rc)"
  "keeps (same_frame s0) (gw_logout gw t)" "keeps (same_frame s0) (gw_forgot gw e)"
  "keeps (same_frame s0) (gw_reset gw t pw)" "keeps (same_frame s0) (gw_change gw i pw pw')"
  by (intro keeps_frame_call login_outside refresh_outside logout_outside forgot_outside reset_outside change_outside)+

lemma keeps_frame_reply:
  "keeps (same_frame s0) (publish ev)" "keeps (same_frame s0) (set_auth_cookies cfg t)"
  "keeps (same_frame s0) (clear_auth_cookies cfg)"
  by (simp_all add: keeps_def same_frame_def publish_def set_auth_cookies_def clear_auth_cookies_def)

lemma keeps_frame_controller: "keeps (same_frame s0) (auth_controller gw cfg req r)"
  by (cases r)
    (auto simp: auth_controller_def user_get_by_id_handler_def or_not_found_def login_endpoint_def
      user_login_handler_def refresh_endpoint_def refresh_tokens_handler_def logout_endpoint_def
      user_logout_handler_def forgot_password_command_def reset_password_command_def change_password_command_def
      Let_def intro!: keeps_andThen keeps_frame_gateway keeps_frame_reply split: option.split)

lemma controller_frame:
  "backend.more (snd (auth_controller gw cfg req r s)) = backend.more s
   \<and> map u_id (users (snd (auth_controller gw cfg req r s))) = map u_id (users s)"
  using keepsD [OF keeps_frame_controller [of s cfg req r], of s] by (simp add: same_frame_def)

end

section \<open>The gateway to the auth service\<close>

lemma account_id: "find_by_email e b s = Some u \<Longrightarrow> au_id u \<in> u_id ` set (users s)"
  using find_by_email_some_row [of e b s u] by (force simp: some_row_iff)

lemma forgot_user_known:
  assumes "forgot_password_handler E ff now e s = (Inr r, s')" "fg_userId r \<noteq> []"
  shows "fg_userId r \<in> u_id ` set (users s)"
  using assms account_id [of e False s]
  by (auto simp: forgot_password_handler_def andThen_def Let_def split: option.splits if_splits prod.splits sum.splits)

lemma update_known: "auth_user_update_row i p s = (Inr x, s') \<Longrightarrow> i \<in> u_id ` set (users s)"
  by (auto simp: auth_user_update_row_def Let_def some_row_iff split: if_splits)

lemma reset_known:
  assumes "reset_password_handler E salt now t pw s = (Inr r, s')" "rs_success r"
  shows "rs_userId r \<in> u_id ` set (users s)"
  using assms
  by (auto simp: reset_password_handler_def andThen_def dest: update_known split: option.splits if_splits prod.splits sum.splits)

lemma change_known:
  assumes "change_password_handler E salt i cur pw s = (Inr r, s')" "cp_success r"
  shows "i \<in> u_id ` set (users s)"
  using assms
  by (auto simp: change_password_handler_def change_failed_def andThen_def dest: update_known
      split: option.splits if_splits prod.splits sum.splits)

text \<open>What a request publishes fits what it answers.\<close>

lemma request_published:
  fixes s :: "'x backend_scheme"
  assumes gw_def: "gw = auth_grpc_gateway E rpc_error gf now"
  shows "\<exists>es. events (snd (auth_controller gw cfg req r s)) = events s @ es
    \<and> published (\<lambda>i. i \<in> u_id ` set (users s)) r (fst (auth_controller gw cfg req r s)) es"
proof (cases r)
  case (Get_Me i)
  then show ?thesis
    by (auto simp: auth_controller_def andThen_def user_get_by_id_handler_def or_not_found_def split: option.split)
next
  case (Post_Login e pw)
  show ?thesis
  proof (cases "login_answer E now pw (find_by_email e True s)")
    case None
    then obtain u where u: "find_by_email e True s = Some u"
      by (cases "find_by_email e True s") (simp_all add: login_answer_def)
    with None have "login_permitted E now (browser_login e pw req) u" using login_answer_None [of E now pw u e req] by simp
    with u have run: "\<exists>s1. gw_login gw (browser_login e pw req) s = (Inr (login_success_response E (gf_login gf) now u), s1)"
      using login_permitted_run [of "browser_login e pw req" s u E now "gf_login gf"]
      by (simp add: gw_def auth_grpc_gateway_def)
    then obtain s1 where "gw_login gw (browser_login e pw req) s = (Inr (login_success_response E (gf_login gf) now u), s1)" ..
    from grpc.login_accepted [OF this [unfolded gw_def browser_login_def], of cfg] obtain dto s2 where
      "user_login_handler gw cfg e pw req s = (Inr dto, s2)" "events s2 = events s @ [User_Login_Succeeded (au_id u) (au_email u)]"
      "ud_id (ar_user dto) = au_id u"
      by (auto simp: gw_def login_success_response_def)
    with account_id [OF u] show ?thesis by (simp add: Post_Login auth_controller_def login_endpoint_def andThen_def)
  next
    case (Some x)
    obtain reason l cap s1 where
      "login_handler E (gf_login gf) now (browser_login e pw req) s = (Inr (login_failed reason l cap), s1)"
      using login_answer_Some [OF Some, of "gf_login gf" req] by blast
    from http_refused [OF this, of rpc_error cfg] show ?thesis
      by (auto simp: Post_Login auth_controller_def gw_def andThen_def)
  qed
next
  case (Post_Refresh b)
  show ?thesis
  proof (cases "truthy (presented_refresh_token req b)")
    case True
    obtain x s' where x: "refresh_tokens_handler gw cfg (the (presented_refresh_token req b)) req s = (x, s')" by fastforce
    with True grpc.refresh_events [of E rpc_error gf now cfg "the (presented_refresh_token req b)" req s] show ?thesis
      by (cases x) (simp_all add: gw_def Post_Refresh auth_controller_def refresh_endpoint_def andThen_def Let_def)
  qed (simp add: Post_Refresh auth_controller_def refresh_endpoint_def andThen_def Let_def)
next
  case (Post_Logout b)
  show ?thesis
  proof (cases "truthy (presented_refresh_token req b)")
    case True
    obtain x s' where x: "user_logout_handler gw cfg (the (presented_refresh_token req b)) s = (x, s')" by fastforce
    with True grpc.logout_events [where E = E and rpc_error = rpc_error and gf = gf and now = now and s = s and cfg = cfg
        and token = "the (presented_refresh_token req b)"] show ?thesis
      by (cases x) (simp_all add: gw_def Post_Logout auth_controller_def logout_endpoint_def andThen_def Let_def)
  qed (simp add: Post_Logout auth_controller_def logout_endpoint_def andThen_def Let_def)
next
  case (Post_Forgot e)
  obtain x s' where x: "forgot_password_command gw e s = (x, s')" by fastforce
  show ?thesis
  proof (cases x)
    case (Inl y)
    with x grpc.forgot_events [where E = E and rpc_error = rpc_error and gf = gf and now = now and s = s and e = e] show ?thesis
      by (simp add: gw_def Post_Forgot auth_controller_def andThen_def)
  next
    case (Inr y)
    with x grpc.forgot_events [where E = E and rpc_error = rpc_error and gf = gf and now = now and s = s and e = e] obtain r' s1 where
      "gw_forgot gw e s = (Inr r', s1)" and ev: "events s' = events s @ [Password_Reset_Requested e
         (if fg_userId r' \<noteq> [] then Some (fg_userId r') else None)]"
      by (auto simp: gw_def)
    then have "forgot_password_handler E (gf_forgot gf) now e s = (Inr r', s1)" by (simp add: gw_def auth_grpc_gateway_def)
    from forgot_user_known [OF this] ev x Inr show ?thesis
      by (auto simp: Post_Forgot auth_controller_def andThen_def)
  qed
next
  case (Post_Reset t pw)
  obtain x s' where x: "reset_password_command gw t pw s = (x, s')" by fastforce
  show ?thesis
  proof (cases x)
    case (Inl y)
    with x grpc.reset_events [where E = E and rpc_error = rpc_error and gf = gf and now = now and s = s and t = t and pw = pw] show ?thesis
      by (simp add: gw_def Post_Reset auth_controller_def andThen_def)
  next
    case (Inr y)
    with x grpc.reset_events [where E = E and rpc_error = rpc_error and gf = gf and now = now and s = s and t = t and pw = pw] obtain r' s1 where
      "gw_reset gw t pw s = (Inr r', s1)" "rs_success r'" and ev: "events s' = events s @ [Password_Reset_Completed (rs_userId r')]"
      by (auto simp: gw_def)
    then have "reset_password_handler E (fr_salt (gf_login gf)) now t pw s = (Inr r', s1)" by (simp add: gw_def auth_grpc_gateway_def)
    from reset_known [OF this \<open>rs_success r'\<close>] ev x Inr show ?thesis
      by (auto simp: Post_Reset auth_controller_def andThen_def)
  qed
next
  case (Post_Change i cur pw)
  obtain x s' where x: "change_password_command gw i cur pw s = (x, s')" by fastforce
  show ?thesis
  proof (cases x)
    case (Inl y)
    with x grpc.change_events [where E = E and rpc_error = rpc_error and gf = gf and now = now and s = s and i = i and cur = cur and pw = pw] show ?thesis
      by (simp add: gw_def Post_Change auth_controller_def andThen_def)
  next
    case (Inr y)
    with x grpc.change_events [where E = E and rpc_error = rpc_error and gf = gf and now = now and s = s and i = i and cur = cur and pw = pw] obtain r' s1 where
      "gw_change gw i cur pw s = (Inr r', s1)" "cp_success r'" and ev: "events s' = events s @ [Password_Changed i]"
      by (auto simp: gw_def)
    then have "change_password_handler E (fr_salt (gf_login gf)) i cur pw s = (Inr r', s1)" by (simp add: gw_def auth_grpc_gateway_def)
    from change_known [OF this \<open>cp_success r'\<close>] ev x Inr show ?thesis
      by (auto simp: Post_Change auth_controller_def andThen_def)
  qed
qed

section \<open>The audit trail\<close>

lemma more_logs:
  fixes s t :: "('ab, 'x) admin_server_scheme"
  assumes "backend.more s = backend.more t"
  shows "access_logs s = access_logs t"
  using assms by (cases s; cases t) simp

text \<open>The entries of a request: action, user and address.\<close>

fun audit_rows :: "auth_request \<Rightarrow> exn + auth_reply \<Rightarrow> (string \<times> ident option \<times> string option) list \<Rightarrow> bool" where
  "audit_rows (Post_Login e pw) (Inr (Login_Reply d)) rows =
     (\<exists>em. rows = [(''login_success'', Some (ud_id (ar_user d)), Some em)])"
| "audit_rows (Post_Login e pw) (Inl x) rows = (rows = [(''login_failed'', None, Some e)])"
| "audit_rows (Post_Logout b) (Inr (Logout_Reply d)) rows =
     (rows = (if ld_message d = ''user.auth.logout.tokenNotProvided'' then [] else [(''logout'', None, None)]))"
| "audit_rows (Post_Forgot e) (Inr x) rows = (\<exists>i. rows = [(''password_reset_requested'', i, Some e)])"
| "audit_rows (Post_Reset t pw) (Inr x) rows = (\<exists>i. rows = [(''password_reset_completed'', Some i, None)])"
| "audit_rows (Post_Change i cur pw) (Inr x) rows = (rows = [(''password_changed'', Some i, None)])"
| "audit_rows r x rows = (rows = [])"

definition audited :: "(nat \<Rightarrow> ident) \<Rightarrow> int \<Rightarrow> auth_event \<Rightarrow> access_log_row list" where
  "audited ids now e = (case audit_entry e of None \<Rightarrow> [] | Some (action, p) \<Rightarrow> [access_log_row_of (ids 0) now action p])"

lemma deliver_audited:
  fixes s :: "('ab, 'x) admin_server_scheme"
  assumes "ids 0 \<notin> al_id ` set (access_logs s)" "es = [] \<or> (\<exists>e. es = [e])"
    and "\<And>e action p i. e \<in> set es \<Longrightarrow> audit_entry e = Some (action, p) \<Longrightarrow> lp_userId p = Some i \<Longrightarrow> user_exists i s"
  shows "access_logs (snd (deliver_events ids now es s)) = access_logs s @ concat (map (audited ids now) es)"
proof (cases es)
  case (Cons e rest)
  with assms(2) have es: "es = [e]" by simp
  show ?thesis
  proof (cases "audit_entry e")
    case None
    then show ?thesis by (simp add: es andThen_def audit_handle_def audited_def)
  next
    case (Some x)
    then obtain action p where x: "audit_entry e = Some (action, p)" by (cases x) simp
    have "\<And>i. lp_userId p = Some i \<Longrightarrow> user_exists i s" using assms(3) [of e action p] x es by simp
    with deliver_one [of ids s e action p now] assms(1) x show ?thesis by (simp add: es audited_def del: deliver_events.simps)
  qed
qed simp

lemma published_single: "published known r x es \<Longrightarrow> es = [] \<or> (\<exists>e. es = [e])"
  by (cases "(known, r, x, es)" rule: published.cases) (auto split: if_splits)

lemma published_known:
  assumes "published known r x es" "e \<in> set es" "audit_entry e = Some (action, p)" "lp_userId p = Some i"
  shows "known i"
  using assms by (cases "(known, r, x, es)" rule: published.cases) (auto simp: no_payload_def split: if_splits)

lemma published_rows:
  assumes "published known r x es"
  shows "audit_rows r x (map (\<lambda>l. (al_action l, al_userId l, al_email l)) (concat (map (audited ids now) es)))"
  using assms
  by (cases "(known, r, x, es)" rule: published.cases)
    (auto simp: audited_def access_log_row_of_def no_payload_def split: if_splits)

lemma audited_origin:
  assumes "published known r x es" "l \<in> set (concat (map (audited ids now) es))"
  shows "al_ipAddress l = None \<and> al_userAgent l = None \<and> al_createdAt l = now"
  using assms
  by (cases "(known, r, x, es)" rule: published.cases)
    (auto simp: audited_def access_log_row_of_def no_payload_def split: if_splits)

text \<open>C17. The audit trail of the authentication endpoints is complete and keeps what it has: once the
  events of a request are delivered, the log holds the earlier entries and one entry for a login,
  accepted or refused, for a logout with a token, and for a password that was asked to be reset, was
  reset or was changed - and none for any other request.  Nothing in an entry says where the request came from: address
  and user agent are never written.\<close>

theorem audit_trail:
  fixes s :: "('ab, 'x) admin_server_scheme"
  assumes "ids 0 \<notin> al_id ` set (access_logs s)"
  shows "\<exists>es rows. let run = auth_controller (auth_grpc_gateway E rpc_error gf now) cfg req r s in
     events (snd run) = events s @ es
     \<and> access_logs (snd (deliver_events ids now es (snd run))) = access_logs s @ rows
     \<and> audit_rows r (fst run) (map (\<lambda>l. (al_action l, al_userId l, al_email l)) rows)
     \<and> (\<forall>l\<in>set rows. al_ipAddress l = None \<and> al_userAgent l = None \<and> al_createdAt l = now)"
proof -
  let ?run = "auth_controller (auth_grpc_gateway E rpc_error gf now) cfg req r s"
  obtain es where es: "events (snd ?run) = events s @ es"
    "published (\<lambda>i. i \<in> u_id ` set (users s)) r (fst ?run) es"
    using request_published [OF refl, of E rpc_error gf now cfg req r s] by blast
  have frame: "backend.more (snd ?run) = backend.more s" "map u_id (users (snd ?run)) = map u_id (users s)"
    using grpc.controller_frame [of E rpc_error gf now cfg req r s] by simp_all
  have logs: "access_logs (snd ?run) = access_logs s" by (rule more_logs [OF frame(1)])
  have known: "u_id ` set (users (snd ?run)) = u_id ` set (users s)" using frame(2) by (metis set_map)
  let ?rows = "concat (map (audited ids now) es)"
  have "access_logs (snd (deliver_events ids now es (snd ?run))) = access_logs (snd ?run) @ ?rows"
    by (rule deliver_audited)
      (use assms logs published_single [OF es(2)] published_known [OF es(2)] in
        \<open>auto simp: user_exists_def known\<close>)
  then have "access_logs (snd (deliver_events ids now es (snd ?run))) = access_logs s @ ?rows" by (simp only: logs)
  moreover have "\<forall>l\<in>set ?rows. al_ipAddress l = None \<and> al_userAgent l = None \<and> al_createdAt l = now"
    using audited_origin [OF es(2)] by blast
  ultimately show ?thesis
    unfolding Let_def using es(1) published_rows [OF es(2)] by blast
qed

section \<open>Reading the log\<close>

definition logged_page :: "access_logs_filter \<Rightarrow> int \<Rightarrow> ('ab, 'x) admin_server_scheme \<Rightarrow> access_log_row paginated" where
  "logged_page f page s = (case fst (access_logs_handler (f\<lparr>lf_page := Some page\<rparr>) s) of Inr p \<Rightarrow> p)"

lemma logged_page_data:
  "pg_data (logged_page f page s) = page_of page (coalesce (lf_per_page f) 20)
     (sort_key al_createdAt (filter (access_log_matches f) (access_logs s)))"
  "pg_meta (logged_page f page s) = pg_meta (build_paginated ([] :: unit list) (int (length (filter (access_log_matches f) (access_logs s))))
     page (coalesce (lf_per_page f) 20))"
proof -
  have "access_log_matches (f\<lparr>lf_page := Some page\<rparr>) = access_log_matches f"
    by (simp add: fun_eq_iff access_log_matches_def)
  then show "pg_data (logged_page f page s) = page_of page (coalesce (lf_per_page f) 20)
      (sort_key al_createdAt (filter (access_log_matches f) (access_logs s)))"
    "pg_meta (logged_page f page s) = pg_meta (build_paginated ([] :: unit list) (int (length (filter (access_log_matches f) (access_logs s))))
      page (coalesce (lf_per_page f) 20))"
    by (simp_all add: logged_page_def access_logs_handler_def Let_def page_of_def build_paginated_def split: prod.split)
qed

section \<open>System settings\<close>

definition setting :: "string \<Rightarrow> ('ab, 'x) admin_server_scheme \<Rightarrow> string option" where
  "setting key s = map_option ss_value (find_row (\<lambda>r. ss_key r = key) (system_settings s))"

lemma find_setting_update:
  "find_row (\<lambda>r. ss_key r = k) (update_rows (\<lambda>r. ss_key r = key) (\<lambda>r. r\<lparr>ss_value := v, ss_updatedAt := t\<rparr>) rows)
   = map_option (\<lambda>r. if ss_key r = key then r\<lparr>ss_value := v, ss_updatedAt := t\<rparr> else r) (find_row (\<lambda>r. ss_key r = k) rows)"
  by (rule find_row_update_same) simp

lemma setting_update_values:
  "setting k (snd (system_setting_update_handler now key v s)) = (if k = key then Some v else setting k s)"
proof (cases "some_row (\<lambda>r. ss_key r = key) (system_settings s)")
  case True
  have old: "\<exists>r. find_row (\<lambda>r. ss_key r = key) (system_settings s) = Some r \<and> ss_key r = key"
    using True by (auto simp: some_row_find dest: find_row_SomeD)
  have "system_settings (snd (system_setting_update_handler now key v s))
      = update_rows (\<lambda>r. ss_key r = key) (\<lambda>r. r\<lparr>ss_value := v, ss_updatedAt := now\<rparr>) (system_settings s)"
    using True by (simp add: system_setting_update_handler_def Let_def)
  then have new: "setting k (snd (system_setting_update_handler now key v s))
      = map_option (\<lambda>r. if ss_key r = key then v else ss_value r) (find_row (\<lambda>r. ss_key r = k) (system_settings s))"
    by (simp add: setting_def find_setting_update option.map_comp comp_def if_distrib cong: if_cong)
  show ?thesis
  proof (cases "k = key")
    case True
    with new old show ?thesis by auto
  next
    case False
    have "ss_key r \<noteq> key" if "find_row (\<lambda>r. ss_key r = k) (system_settings s) = Some r" for r
      using find_row_SomeD [OF that] False by simp
    with new False show ?thesis by (cases "find_row (\<lambda>r. ss_key r = k) (system_settings s)") (simp_all add: setting_def)
  qed
next
  case False
  then have "find_row (\<lambda>r. ss_key r = key) (system_settings s) = None" by (simp add: some_row_find)
  then show ?thesis
    using False by (auto simp: setting_def system_setting_update_handler_def Let_def find_row_append split: option.split)
qed

lemma setting_update_keys:
  assumes "distinct (map ss_key (system_settings s))"
  shows "distinct (map ss_key (system_settings (snd (system_setting_update_handler now key v s))))"
proof (cases "some_row (\<lambda>r. ss_key r = key) (system_settings s)")
  case True
  have "map ss_key (update_rows (\<lambda>r. ss_key r = key) (\<lambda>r. r\<lparr>ss_value := v, ss_updatedAt := now\<rparr>) (system_settings s))
      = map ss_key (system_settings s)"
    by (rule map_update_rows) simp
  with True assms show ?thesis by (simp add: system_setting_update_handler_def Let_def)
next
  case False
  then have "key \<notin> ss_key ` set (system_settings s)" by (auto simp: some_row_iff)
  with False assms show ?thesis by (simp add: system_setting_update_handler_def Let_def)
qed

text \<open>Settings are a map: a \<open>PATCH\<close> that the guards admit sets the value of its key, leaves the value of
  every other key, never makes a second row of a key, and touches no other table; one that they
  refuse changes no setting.\<close>

theorem setting_store:
  fixes s :: "('ab, 'x) admin_server_scheme"
  assumes "distinct (map ss_key (system_settings s))"
  shows "let run = admin_controller G now req (Patch_Setting key v) s in
     distinct (map ss_key (system_settings (snd run)))
     \<and> (if isl (fst run) then system_settings (snd run) = system_settings s
        else (\<forall>k. setting k (snd run) = (if k = key then Some v else setting k s)))
     \<and> access_logs (snd run) = access_logs s \<and> users (snd run) = users s"
proof (rule with_guardsE [of G now "Some (admin_policy (Patch_Setting key v))" req "\<lambda>_. admin_endpoint now (Patch_Setting key v)" s],
    fold admin_controller_def)
  fix e r c
  assume "admin_controller G now req (Patch_Setting key v) s = (Inl e, s\<lparr>redis := r, ability_cache := c\<rparr>)"
  with assms show ?thesis by simp
next
  fix u r c
  let ?s = "s\<lparr>redis := r, ability_cache := c\<rparr>"
  assume run: "admin_controller G now req (Patch_Setting key v) s = admin_endpoint now (Patch_Setting key v) ?s"
  have step: "admin_endpoint now (Patch_Setting key v) ?s
      = (Inr (Setting_Reply \<lparr>ss_key = key, ss_value = v, ss_updatedAt = now\<rparr>), snd (system_setting_update_handler now key v ?s))"
    by (simp add: andThen_def system_setting_update_handler_def Let_def)
  have "setting k ?s = setting k s" for k by (simp add: setting_def)
  moreover have "access_logs (snd (system_setting_update_handler now key v ?s)) = access_logs s"
    "users (snd (system_setting_update_handler now key v ?s)) = users s"
    by (simp_all add: system_setting_update_handler_def Let_def)
  ultimately show ?thesis
    using setting_update_keys [of ?s now key v] assms by (simp add: run step Let_def setting_update_values del: admin_endpoint.simps)
qed

text \<open>Reading the log page by page, for a filter on the action or for none, gives every matching entry
  exactly once, oldest first; the number of pages the metadata announce is the number of non-empty ones.\<close>

theorem access_log_pages:
  assumes "1 \<le> coalesce (lf_per_page f) 20"
  shows "let matching = sort_key al_createdAt (filter (access_log_matches f) (access_logs s));
             pages = pm_pages (pg_meta (logged_page f 1 s)) in
     concat (map (\<lambda>i. pg_data (logged_page f (int i + 1) s)) [0..<nat pages]) = matching
     \<and> (\<forall>i. 1 \<le> i \<longrightarrow> i \<le> pages \<longrightarrow> pg_data (logged_page f i s) \<noteq> [])
     \<and> pg_data (logged_page f (pages + 1) s) = []"
  using pages_partition [OF assms, of "sort_key al_createdAt (filter (access_log_matches f) (access_logs s))"]
  by (simp add: logged_page_data build_paginated_def Let_def)

section \<open>Concrete runs\<close>

definition demo_log :: "access_log_row list" where
  "demo_log = [access_log_row_of ''l1'' 7 ''login_failed'' (no_payload\<lparr>lp_email := Some ''ann@x''\<rparr>),
     access_log_row_of ''l2'' 5 ''logout'' no_payload, access_log_row_of ''l3'' 9 ''login_failed'' no_payload]"

definition demo_admin_server :: "(perm_action \<times> perm_subject) list admin_server" where
  "demo_admin_server = server.extend (demo_server\<lparr>users := users demo_db, roles := roles demo_db\<rparr>)
     \<lparr>access_logs = demo_log, system_settings = [\<lparr>ss_key = ''a'', ss_value = ''1'', ss_updatedAt = 0\<rparr>]\<rparr>"

theorem audit_trail_witness:
  "\<exists>es rows. let run = auth_controller (auth_grpc_gateway demo_env id demo_grpc 0) demo_config (demo_request [] [])
       (Post_Login ''ann@x'' ''wrong'') demo_admin_server in
     events (snd run) = events demo_admin_server @ es
     \<and> access_logs (snd (deliver_events (\<lambda>_. ''l4'') 0 es (snd run))) = access_logs demo_admin_server @ rows
     \<and> audit_rows (Post_Login ''ann@x'' ''wrong'') (fst run) (map (\<lambda>l. (al_action l, al_userId l, al_email l)) rows)
     \<and> (\<forall>l\<in>set rows. al_ipAddress l = None \<and> al_userAgent l = None \<and> al_createdAt l = 0)"
  by (rule audit_trail) (simp add: demo_admin_server_def demo_log_def access_log_row_of_def server.defs)

theorem access_log_pages_witness:
  "concat (map (\<lambda>i. map al_id (pg_data (logged_page \<lparr>lf_action = Some ''login_failed'', lf_page = None, lf_per_page = Some 1\<rparr> (int i + 1) demo_admin_server))) [0..<2])
   = [''l1'', ''l3'']"
proof -
  let ?f = "\<lparr>lf_action = Some ''login_failed'', lf_page = None, lf_per_page = Some 1\<rparr>"
  have m: "sort_key al_createdAt (filter (access_log_matches ?f) (access_logs demo_admin_server))
      = [access_log_row_of ''l1'' 7 ''login_failed'' (no_payload\<lparr>lp_email := Some ''ann@x''\<rparr>),
         access_log_row_of ''l3'' 9 ''login_failed'' no_payload]" by code_simp
  have p: "pm_pages (pg_meta (logged_page ?f 1 demo_admin_server)) = 2" by code_simp
  have "1 \<le> coalesce (lf_per_page ?f) 20" by simp
  from access_log_pages [OF this, of demo_admin_server] have
    "concat (map (\<lambda>i. pg_data (logged_page ?f (int i + 1) demo_admin_server)) [0..<nat 2])
     = [access_log_row_of ''l1'' 7 ''login_failed'' (no_payload\<lparr>lp_email := Some ''ann@x''\<rparr>),
         access_log_row_of ''l3'' 9 ''login_failed'' no_payload]"
    unfolding Let_def m p by blast
  then have "map al_id (concat (map (\<lambda>i. pg_data (logged_page ?f (int i + 1) demo_admin_server)) [0..<nat 2])) = [''l1'', ''l3'']"
    by (simp add: access_log_row_of_def)
  then show ?thesis by (simp add: map_concat comp_def)
qed

theorem setting_store_witness:
  "distinct (map ss_key (system_settings (snd (admin_controller G now req (Patch_Setting ''a'' ''2'') demo_admin_server))))"
proof -
  have "distinct (map ss_key (system_settings demo_admin_server))" by (simp add: demo_admin_server_def server.defs)
  from setting_store [OF this, of G now req "''a''" "''2''"] show ?thesis by (simp add: Let_def)
qed

end
