(* ===== verification/Request_Validation.thy ===== *)
theory Request_Validation
  imports Exception_Filter
begin

text \<open>
  The validation of request bodies and queries: the DTO classes of \<open>presentation/dtos\<close> as lists of
  their decorated properties, and the global \<open>ValidationPipe\<close> of \<open>main.ts\<close>.  The libraries
  class-validator and class-transformer are the argument \<open>V\<close>; what their documentation says of the
  decorators is \<open>rule_holds\<close> and \<open>accepts\<close>, and the hypothesis \<open>class_validator V\<close>.
  The properties come in the order of the class, and a property's rules in the order of its decorators.
\<close>

section \<open>Decorators\<close>

datatype rule =
    Is_String | Is_Not_Empty | Is_Email | Is_UUID nat | Is_Int | Is_Boolean | Is_Date | Is_Object | Is_Array
  | Is_Enum "string list" | Each_Is_Enum "string list"
  | Min_Of int | Max_Of int | Min_Length nat | Max_Length nat | Matches_Password string

text \<open>\<open>@Type(() => Date)\<close>, \<open>@Type(() => Number)\<close> or no \<open>@Type\<close>.\<close>

datatype conversion = As_Sent | To_Date | To_Number

record dto_field =
  df_name :: string
  df_optional :: bool
  df_type :: conversion
  df_rules :: "rule list"

type_synonym dto_class = "dto_field list"

definition required :: "string \<Rightarrow> rule list \<Rightarrow> dto_field" where
  "required name rules = \<lparr>df_name = name, df_optional = False, df_type = As_Sent, df_rules = rules\<rparr>"

definition optional :: "string \<Rightarrow> rule list \<Rightarrow> dto_field" where
  "optional name rules = \<lparr>df_name = name, df_optional = True, df_type = As_Sent, df_rules = rules\<rparr>"

section \<open>The DTO classes\<close>

text \<open>\<open>PASSWORD_REGEX\<close>: four lookaheads and a character class between \<open>^\<close> and \<open>$\<close>.  \<open>.*\<close> does not
  cross a line end, but a string with one fails the class anyway.\<close>

definition special_chars :: string where
  "special_chars = ''@$!%*?&._-''"

definition password_char :: "char \<Rightarrow> bool" where
  "password_char c = (is_upper c \<or> is_lower c \<or> is_decimal c \<or> c \<in> set special_chars)"

definition password_regex :: "string \<Rightarrow> bool" where
  "password_regex s = (list_ex is_lower s \<and> list_ex is_upper s \<and> list_ex is_decimal s
     \<and> list_ex (\<lambda>c. c \<in> set special_chars) s
     \<and> list_all password_char s \<and> 12 \<le> length s \<and> length s \<le> 32)"

definition gender_values :: "string list" where
  "gender_values = [''male'', ''female'']"

definition theme_values :: "string list" where
  "theme_values = [''light'', ''dark'', ''auto'', ''system'']"

definition role_type_values :: "string list" where
  "role_type_values = [''admin'', ''manager'', ''user'', ''public'']"

definition login_body :: dto_class where
  "login_body = [required ''email'' [Is_Email, Is_Not_Empty], required ''password'' [Is_String, Is_Not_Empty]]"

definition create_user_class :: dto_class where
  "create_user_class = [
     required ''email'' [Is_Email, Is_Not_Empty],
     required ''password'' [Is_String, Min_Length 12, Max_Length 32, Matches_Password ''validation.PASSWORD_TOO_WEAK''],
     required ''name'' [Is_String, Is_Not_Empty],
     required ''surname'' [Is_String, Is_Not_Empty],
     optional ''middleName'' [Is_String],
     optional ''phone'' [Is_String],
     optional ''gender'' [Is_Enum gender_values],
     (optional ''birthday'' [Is_Date])\<lparr>df_type := To_Date\<rparr>,
     required ''roleId'' [Is_UUID 4, Is_Not_Empty]]"

definition update_user_class :: dto_class where
  "update_user_class = [
     optional ''email'' [Is_Email],
     optional ''name'' [Is_String],
     optional ''surname'' [Is_String],
     optional ''middleName'' [Is_String],
     optional ''phone'' [Is_String],
     optional ''gender'' [Is_Enum gender_values],
     (optional ''birthday'' [Is_Date])\<lparr>df_type := To_Date\<rparr>,
     optional ''roleId'' [Is_UUID 4],
     optional ''blocked'' [Is_Boolean]]"

definition update_theme_class :: dto_class where
  "update_theme_class = [required ''theme'' [Is_Enum theme_values]]"

definition refresh_token_body :: dto_class where
  "refresh_token_body = [optional ''refreshToken'' [Is_String]]"

text \<open>The two properties of every paginated query.\<close>

definition users_query :: dto_class where
  "users_query = [
     (optional ''page'' [Is_Int, Min_Of 1])\<lparr>df_type := To_Number\<rparr>,
     (optional ''per_page'' [Is_Int, Min_Of 1, Max_Of 100])\<lparr>df_type := To_Number\<rparr>]"

definition forgot_password_body :: dto_class where
  "forgot_password_body = [required ''email'' [Is_Email]]"

definition reset_password_body :: dto_class where
  "reset_password_body = [required ''token'' [Is_String], required ''newPassword'' [Is_String, Min_Length 12]]"

definition change_password_body :: dto_class where
  "change_password_body = [required ''currentPassword'' [Is_String],
     required ''newPassword'' [Is_String, Min_Length 12]]"

definition magic_link_request_body :: dto_class where
  "magic_link_request_body = [required ''email'' [Is_Email, Is_Not_Empty]]"

definition magic_link_authenticate_body :: dto_class where
  "magic_link_authenticate_body = [required ''token'' [Is_String, Is_Not_Empty]]"

definition update_preferences_body :: dto_class where
  "update_preferences_body =
     [required ''channels'' [Is_Array, Each_Is_Enum [''in_app'', ''email'', ''telegram'', ''sms'']]]"

definition create_user_role_body :: dto_class where
  "create_user_role_body = [required ''name'' [Is_String, Is_Not_Empty], optional ''description'' [Is_String],
     required ''type'' [Is_Enum role_type_values, Is_Not_Empty]]"

definition update_user_role_body :: dto_class where
  "update_user_role_body = [optional ''name'' [Is_String], optional ''description'' [Is_String],
     optional ''type'' [Is_Enum role_type_values]]"

definition notifications_query :: dto_class where
  "notifications_query = [
     optional ''isRead'' [Is_Boolean],
     optional ''type'' [Is_Enum [''SYSTEM'', ''INFO'', ''WARNING'', ''SUCCESS'', ''ERROR'']],
     (optional ''page'' [Is_Int, Min_Of 1])\<lparr>df_type := To_Number\<rparr>,
     (optional ''per_page'' [Is_Int, Min_Of 1, Max_Of 100])\<lparr>df_type := To_Number\<rparr>]"

definition access_logs_query :: dto_class where
  "access_logs_query = [
     optional ''action'' [Is_String],
     (optional ''page'' [Is_Int, Min_Of 1])\<lparr>df_type := To_Number\<rparr>,
     (optional ''per_page'' [Is_Int, Min_Of 1, Max_Of 100])\<lparr>df_type := To_Number\<rparr>]"

definition update_system_setting_body :: dto_class where
  "update_system_setting_body = [required ''key'' [Is_String], required ''value'' [Is_String]]"

definition difficulty_values :: "string list" where
  "difficulty_values = [''easy'', ''medium'', ''hard'']"

definition create_captcha_template_body :: dto_class where
  "create_captcha_template_body = [
     required ''code'' [Is_String, Min_Length 3],
     required ''name'' [Is_String, Min_Length 3],
     optional ''type'' [Is_Enum [''image_text'', ''math_expression'']],
     optional ''status'' [Is_Enum [''draft'', ''active'', ''archived'']],
     optional ''defaultDifficulty'' [Is_Enum difficulty_values],
     optional ''generator'' [Is_String]]"

definition create_captcha_config_body :: dto_class where
  "create_captcha_config_body = [required ''configJson'' [Is_Object]]"

definition captcha_preview_body :: dto_class where
  "captcha_preview_body = [optional ''count'' [Is_Int, Min_Of 1, Max_Of 10],
     optional ''difficulty'' [Is_Enum difficulty_values]]"

definition captcha_batch_body :: dto_class where
  "captcha_batch_body = [optional ''count'' [Is_Int, Min_Of 1, Max_Of 500],
     optional ''difficulty'' [Is_Enum difficulty_values]]"

definition create_captcha_challenge_body :: dto_class where
  "create_captcha_challenge_body = [
     required ''context'' [Is_Enum [''login'', ''register'', ''password_reset'', ''api_sensitive_action'']],
     optional ''riskScore'' [Is_Int, Min_Of 0, Max_Of 100],
     optional ''difficulty'' [Is_Enum difficulty_values],
     optional ''templateCode'' [Is_String],
     optional ''subject'' [Is_String]]"

definition verify_captcha_body :: dto_class where
  "verify_captcha_body = [required ''answer'' [Is_String, Min_Length 1]]"

section \<open>The libraries\<close>

text \<open>
  A property of the object that class-transformer makes of a request: the value as it was sent, a
  \<open>Date\<close> (\<open>None\<close> is the invalid date) or the number \<open>NaN\<close>.
\<close>

datatype field_value = Plain json | Date_Value "int option" | Not_A_Number

type_synonym dto_object = "(string \<times> field_value) list"

record validator =
  vl_is_email :: "string \<Rightarrow> bool"
  vl_is_uuid :: "nat \<Rightarrow> string \<Rightarrow> bool"
  vl_convert :: "conversion \<Rightarrow> json \<Rightarrow> field_value"
  vl_transform :: "dto_class \<Rightarrow> json \<Rightarrow> dto_object"
  vl_validate :: "dto_class \<Rightarrow> dto_object \<Rightarrow> validation_error list"

text \<open>The documented meaning of a decorator; \<open>None\<close> is \<open>undefined\<close>.\<close>

fun plain_holds :: "validator \<Rightarrow> rule \<Rightarrow> json \<Rightarrow> bool" where
  "plain_holds V Is_Not_Empty j = (j \<noteq> J_Null \<and> j \<noteq> J_Str [])"
| "plain_holds V Is_String (J_Str s) = True"
| "plain_holds V Is_Email (J_Str s) = vl_is_email V s"
| "plain_holds V (Is_UUID version) (J_Str s) = vl_is_uuid V version s"
| "plain_holds V (Is_Enum vs) (J_Str s) = (s \<in> set vs)"
| "plain_holds V (Min_Length n) (J_Str s) = (n \<le> length s)"
| "plain_holds V (Max_Length n) (J_Str s) = (length s \<le> n)"
| "plain_holds V (Matches_Password m) (J_Str s) = password_regex s"
| "plain_holds V Is_Int (J_Num n) = True"
| "plain_holds V (Min_Of k) (J_Num n) = (k \<le> n)"
| "plain_holds V (Max_Of k) (J_Num n) = (n \<le> k)"
| "plain_holds V Is_Boolean (J_Bool b) = True"
| "plain_holds V Is_Object (J_Obj obj) = True"
| "plain_holds V Is_Array (J_Arr xs) = True"
| "plain_holds V (Each_Is_Enum vs) (J_Arr xs) = list_all (\<lambda>j. case j of J_Str s \<Rightarrow> s \<in> set vs | _ \<Rightarrow> False) xs"
| "plain_holds V _ _ = False"

fun rule_holds :: "validator \<Rightarrow> rule \<Rightarrow> field_value option \<Rightarrow> bool" where
  "rule_holds V r (Some (Plain j)) = plain_holds V r j"
| "rule_holds V r (Some (Date_Value d)) = (case r of
     Is_Date \<Rightarrow> d \<noteq> None | Is_Not_Empty \<Rightarrow> True | Is_Object \<Rightarrow> True | _ \<Rightarrow> False)"
| "rule_holds V r (Some Not_A_Number) = (r = Is_Not_Empty)"
| "rule_holds V r None = False"

text \<open>\<open>@IsOptional\<close> skips the other decorators of an \<open>undefined\<close> or \<open>null\<close> property.\<close>

definition absent :: "field_value option \<Rightarrow> bool" where
  "absent v = (v = None \<or> v = Some (Plain J_Null))"

definition field_accepts :: "validator \<Rightarrow> dto_object \<Rightarrow> dto_field \<Rightarrow> bool" where
  "field_accepts V obj f = (let v = map_of obj (df_name f) in
     df_optional f \<and> absent v \<or> list_all (\<lambda>r. rule_holds V r v) (df_rules f))"

definition accepts :: "validator \<Rightarrow> dto_class \<Rightarrow> dto_object \<Rightarrow> bool" where
  "accepts V cls obj = list_all (field_accepts V obj) cls"

fun error_property :: "validation_error \<Rightarrow> string" where
  "error_property (Validation_Error p v cs es) = p"

text \<open>
  What the code relies on: the transformation converts the properties of the class and, with
  \<open>whitelist\<close>, drops the others; the validation reports no error exactly when every property
  satisfies its decorators, and each error names a property that does not.
\<close>

definition class_validator :: "validator \<Rightarrow> bool" where
  "class_validator V = (
     (\<forall>j. vl_convert V As_Sent j = Plain j)
   \<and> (\<forall>cls obj k. map_of (vl_transform V cls (J_Obj obj)) k = (case find_row (\<lambda>f. df_name f = k) cls of
         None \<Rightarrow> None | Some f \<Rightarrow> map_option (vl_convert V (df_type f)) (get k obj)))
   \<and> (\<forall>cls d. vl_validate V cls d = [] \<longleftrightarrow> accepts V cls d)
   \<and> (\<forall>cls d e. e \<in> set (vl_validate V cls d)
         \<longrightarrow> (\<exists>f \<in> set cls. df_name f = error_property e \<and> \<not> field_accepts V d f)))"

section \<open>The pipe\<close>

definition validation_pipe :: "validator \<Rightarrow> dto_class \<Rightarrow> json \<Rightarrow> thrown + dto_object" where
  "validation_pipe V cls sent = (let d = vl_transform V cls sent in
     case vl_validate V cls d of [] \<Rightarrow> Inr d | errors \<Rightarrow> Inl (create_validation_exception errors))"

text \<open>Reading a property of a validated object at its declared type.\<close>

definition dto_string :: "string \<Rightarrow> dto_object \<Rightarrow> string option" where
  "dto_string k d = (case map_of d k of Some (Plain (J_Str s)) \<Rightarrow> Some s | _ \<Rightarrow> None)"

definition dto_int :: "string \<Rightarrow> dto_object \<Rightarrow> int option" where
  "dto_int k d = (case map_of d k of Some (Plain (J_Num n)) \<Rightarrow> Some n | _ \<Rightarrow> None)"

text \<open>\<open>raised sql m\<close> is \<open>m\<close> as the exception filter sees it: what it throws is the exception object.\<close>

definition raised :: "string \<Rightarrow> ('s, exn, 'a) comp \<Rightarrow> ('s, thrown, 'a) comp" where
  "raised sql m = (\<lambda>s. case m s of (Inl e, s') \<Rightarrow> (Inl (thrown_of sql e), s') | (Inr x, s') \<Rightarrow> (Inr x, s'))"

definition with_body :: "validator \<Rightarrow> dto_class \<Rightarrow> json \<Rightarrow> (dto_object \<Rightarrow> ('s, thrown, 'a) comp)
    \<Rightarrow> ('s, thrown, 'a) comp" where
  "with_body V cls sent endpoint = (case validation_pipe V cls sent of Inl t \<Rightarrow> throw t | Inr d \<Rightarrow> endpoint d)"

section \<open>A validator\<close>

text \<open>The hypothesis can hold: the documented behaviour is computable.\<close>

definition reference_convert :: "conversion \<Rightarrow> json \<Rightarrow> field_value" where
  "reference_convert c j = (case c of As_Sent \<Rightarrow> Plain j
     | To_Number \<Rightarrow> (case j of J_Num n \<Rightarrow> Plain j
         | J_Str s \<Rightarrow> (if s \<noteq> [] \<and> list_all is_decimal s then Plain (J_Num (read_pos s)) else Not_A_Number)
         | _ \<Rightarrow> Not_A_Number)
     | To_Date \<Rightarrow> (case j of J_Num n \<Rightarrow> Date_Value (Some n) | J_Null \<Rightarrow> Plain J_Null | _ \<Rightarrow> Date_Value None))"

definition reference_transform :: "dto_class \<Rightarrow> json \<Rightarrow> dto_object" where
  "reference_transform cls j = (case j of
     J_Obj obj \<Rightarrow> concat (map (\<lambda>f. case get (df_name f) obj of
       None \<Rightarrow> [] | Some v \<Rightarrow> [(df_name f, reference_convert (df_type f) v)]) cls)
   | _ \<Rightarrow> [])"

definition rule_name :: "rule \<Rightarrow> string \<times> string" where
  "rule_name r = (case r of Is_String \<Rightarrow> (''isString'', []) | Is_Not_Empty \<Rightarrow> (''isNotEmpty'', [])
     | Is_Email \<Rightarrow> (''isEmail'', []) | Min_Length _ \<Rightarrow> (''minLength'', []) | Max_Length _ \<Rightarrow> (''maxLength'', [])
     | Matches_Password m \<Rightarrow> (''matches'', m) | Is_Int \<Rightarrow> (''isInt'', []) | Is_Boolean \<Rightarrow> (''isBoolean'', [])
     | Is_Date \<Rightarrow> (''isDate'', []) | Min_Of _ \<Rightarrow> (''min'', []) | Max_Of _ \<Rightarrow> (''max'', [])
     | Is_Enum _ \<Rightarrow> (''isEnum'', []) | Each_Is_Enum _ \<Rightarrow> (''isEnum'', []) | _ \<Rightarrow> (''other'', []))"

definition base_validator :: "(string \<Rightarrow> bool) \<Rightarrow> validator" where
  "base_validator uuid = \<lparr>vl_is_email = (\<lambda>s. CHR ''@'' \<in> set s), vl_is_uuid = (\<lambda>_. uuid),
     vl_convert = reference_convert, vl_transform = reference_transform, vl_validate = (\<lambda>_ _. [])\<rparr>"

definition error_of :: "validator \<Rightarrow> dto_object \<Rightarrow> dto_field \<Rightarrow> validation_error" where
  "error_of V d f = Validation_Error (df_name f) None
     (map rule_name (filter (\<lambda>r. \<not> rule_holds V r (map_of d (df_name f))) (df_rules f))) []"

definition reference_validator :: "(string \<Rightarrow> bool) \<Rightarrow> validator" where
  "reference_validator uuid = (let V = base_validator uuid in V\<lparr>vl_validate := (\<lambda>cls d.
     map (error_of V d) (filter (\<lambda>f. \<not> field_accepts V d f) cls))\<rparr>)"

lemma rule_holds_library [simp]: "rule_holds (V\<lparr>vl_validate := f\<rparr>) r v = rule_holds V r v"
proof -
  have plain: "plain_holds (V\<lparr>vl_validate := f\<rparr>) r j = plain_holds V r j" for j
    by (cases "(V, r, j)" rule: plain_holds.cases) simp_all
  show ?thesis by (cases "(V, r, v)" rule: rule_holds.cases) (simp_all add: plain)
qed

lemma field_accepts_library [simp]: "field_accepts (V\<lparr>vl_validate := f\<rparr>) d fl = field_accepts V d fl"
  by (simp add: field_accepts_def)

lemma reference_lookup:
  "map_of (concat (map (\<lambda>f. case get (df_name f) obj of None \<Rightarrow> [] | Some v \<Rightarrow> [(df_name f, g f v)]) cls)) k
   = (case find_row (\<lambda>f. df_name f = k) cls of None \<Rightarrow> None | Some f \<Rightarrow> map_option (g f) (get k obj))"
  by (induction cls) (auto simp: find_row_def map_add_def split: option.split)

lemma reference_validator_simps:
  "vl_convert (reference_validator uuid) = reference_convert"
  "vl_transform (reference_validator uuid) = reference_transform"
  by (simp_all add: reference_validator_def base_validator_def Let_def)

lemma reference_validate:
  "vl_validate (reference_validator uuid) cls d
     = map (error_of (base_validator uuid) d) (filter (\<lambda>f. \<not> field_accepts (base_validator uuid) d f) cls)"
  "field_accepts (reference_validator uuid) d f = field_accepts (base_validator uuid) d f"
  by (simp_all add: reference_validator_def Let_def)

lemma reference_validator_ok: "class_validator (reference_validator uuid)"
  unfolding class_validator_def
proof (intro conjI allI impI)
  fix cls obj k
  show "map_of (vl_transform (reference_validator uuid) cls (J_Obj obj)) k = (case find_row (\<lambda>f. df_name f = k) cls of
         None \<Rightarrow> None | Some f \<Rightarrow> map_option (vl_convert (reference_validator uuid) (df_type f)) (get k obj))"
    by (cases "find_row (\<lambda>f. df_name f = k) cls")
      (simp_all add: reference_validator_simps reference_transform_def reference_lookup)
next
  fix cls d e
  assume "e \<in> set (vl_validate (reference_validator uuid) cls d)"
  then show "\<exists>f \<in> set cls. df_name f = error_property e \<and> \<not> field_accepts (reference_validator uuid) d f"
    by (auto simp: reference_validate error_of_def)
qed (simp_all add: reference_validator_simps reference_validate accepts_def list_all_iff filter_empty_conv
    reference_convert_def)

end
