(* ===== verification/User_Controllers.thy ===== *)
theory User_Controllers
  imports Request_Validation Backend_Auth Policies
begin

text \<open>
  The controllers of the users module with their guards, \<open>user.controller.ts\<close> and
  \<open>user-role.controller.ts\<close>, on the typed input that the validation hands them; and the bodies of
  \<open>auth.controller.ts\<close> from the JSON of the request to the endpoint.  A route without \<open>@Policy\<close> has
  only \<open>JwtAuthGuard\<close>, which is \<open>with_guards\<close> without a policy.
\<close>

section \<open>Parameters\<close>

text \<open>\<open>ParseUUIDPipe\<close> of \<open>@nestjs/common\<close>, with the check \<open>uuid\<close>; pipes run behind the guards.\<close>

definition parse_uuid :: "(string \<Rightarrow> bool) \<Rightarrow> string \<Rightarrow> ('s, exn, unit) comp" where
  "parse_uuid uuid i = (if uuid i then ret () else throw (bad_request ''Validation failed (uuid is expected)''))"

definition with_id :: "(string \<Rightarrow> bool) \<Rightarrow> ident \<Rightarrow> ('s, exn, 'a) comp \<Rightarrow> ('s, exn, 'a) comp" where
  "with_id uuid i endpoint = andThen (parse_uuid uuid i) (\<lambda>_. endpoint)"

text \<open>\<open>@CurrentRoleType\<close>: a claim that is no role type compares like one that is neither admin nor manager.\<close>

definition claimed_role :: "validate_jwt \<Rightarrow> role_type" where
  "claimed_role v = coalesce (parse_role_type (vj_roleType v)) PUBLIC"

section \<open>Users\<close>

record users_env =
  ue_config :: backend_config
  ue_crypto :: crypto
  ue_uuid :: "string \<Rightarrow> bool"

record users_fresh =
  uf_salt :: string
  uf_new_id :: ident
  uf_reset :: forgot_fresh

definition admin_action :: "perm_action \<Rightarrow> (perm_action \<times> subject_arg) option" where
  "admin_action a = Some (a, One_Subject S_UserAdmin)"

definition users_route :: "'ab http_guards \<Rightarrow> int \<Rightarrow> http_request \<Rightarrow> int option \<Rightarrow> int option
    \<Rightarrow> (('ab, 'x) policy_state_scheme, exn, user_dto paginated) comp" where
  "users_route G now req page per_page =
     with_guards G now (admin_action Read) req (\<lambda>_. users_get_handler page per_page)"

definition user_get_by_id_route :: "users_env \<Rightarrow> 'ab http_guards \<Rightarrow> int \<Rightarrow> http_request \<Rightarrow> ident
    \<Rightarrow> (('ab, 'x) policy_state_scheme, exn, user_dto) comp" where
  "user_get_by_id_route E G now req i = with_guards G now None req (\<lambda>v.
     with_id (ue_uuid E) i (user_get_by_id_endpoint i (vj_userId v) (claimed_role v)))"

definition user_create_route :: "users_env \<Rightarrow> users_fresh \<Rightarrow> 'ab http_guards \<Rightarrow> int \<Rightarrow> http_request
    \<Rightarrow> create_user_body \<Rightarrow> (('ab, 'x) policy_state_scheme, exn, user_dto) comp" where
  "user_create_route E fr G now req input = with_guards G now (admin_action Create) req (\<lambda>_.
     user_create_handler (ue_crypto E) (uf_salt fr) (uf_new_id fr) now input)"

definition user_update_route :: "users_env \<Rightarrow> 'ab http_guards \<Rightarrow> int \<Rightarrow> http_request \<Rightarrow> ident
    \<Rightarrow> update_user_body \<Rightarrow> (('ab, 'x) policy_state_scheme, exn, user_dto) comp" where
  "user_update_route E G now req i input = with_guards G now (admin_action Update) req (\<lambda>_.
     with_id (ue_uuid E) i (user_update_handler (gs_faults G) i input))"

definition user_delete_route :: "users_env \<Rightarrow> 'ab http_guards \<Rightarrow> int \<Rightarrow> http_request \<Rightarrow> ident
    \<Rightarrow> (('ab, 'x) policy_state_scheme, exn, bool) comp" where
  "user_delete_route E G now req i = with_guards G now (admin_action Delete) req (\<lambda>_.
     with_id (ue_uuid E) i (user_delete_endpoint now i))"

definition user_update_theme_route :: "'ab http_guards \<Rightarrow> int \<Rightarrow> http_request \<Rightarrow> theme
    \<Rightarrow> (('ab, 'x) policy_state_scheme, exn, user_dto) comp" where
  "user_update_theme_route G now req t = with_guards G now None req (\<lambda>v. user_update_theme_handler (vj_userId v) t)"

definition user_unlock_route :: "users_env \<Rightarrow> 'ab http_guards \<Rightarrow> int \<Rightarrow> http_request \<Rightarrow> ident
    \<Rightarrow> (('ab, 'x) policy_state_scheme, exn, bool) comp" where
  "user_unlock_route E G now req i = with_guards G now (admin_action Update) req (\<lambda>_.
     with_id (ue_uuid E) i (user_unlock_handler i))"

definition admin_reset_password_route :: "users_env \<Rightarrow> users_fresh \<Rightarrow> 'ab http_guards \<Rightarrow> int \<Rightarrow> http_request
    \<Rightarrow> ident \<Rightarrow> (('ab, 'x) policy_state_scheme, exn, bool) comp" where
  "admin_reset_password_route E fr G now req i = with_guards G now (admin_action Update) req (\<lambda>_.
     with_id (ue_uuid E) i (admin_reset_password_handler (ue_config E) (uf_reset fr) now i))"

definition get_preferences_route :: "'ab http_guards \<Rightarrow> int \<Rightarrow> http_request
    \<Rightarrow> (('ab, 'x) policy_state_scheme, exn, string list) comp" where
  "get_preferences_route G now req =
     with_guards G now None req (\<lambda>v. get_notification_preferences_endpoint (vj_userId v))"

definition update_preferences_route :: "'ab http_guards \<Rightarrow> int \<Rightarrow> http_request \<Rightarrow> string list
    \<Rightarrow> (('ab, 'x) policy_state_scheme, exn, string list) comp" where
  "update_preferences_route G now req channels =
     with_guards G now None req (\<lambda>v. update_notification_preferences_endpoint (vj_userId v) channels)"

text \<open>The whole controller.\<close>

datatype user_request =
    Get_Users "int option" "int option"
  | Get_User ident
  | Create_User create_user_body
  | Update_User ident update_user_body
  | Delete_User ident
  | Update_My_Theme theme
  | Unlock_User ident
  | Reset_User_Password ident
  | Get_My_Preferences
  | Put_My_Preferences "string list"

datatype users_reply =
    Users_Reply "user_dto paginated"
  | User_Reply user_dto
  | Flag_Of_Users bool
  | Channels_Reply "string list"

definition answer :: "('r \<Rightarrow> 'q) \<Rightarrow> ('s, 'e, 'r) comp \<Rightarrow> ('s, 'e, 'q) comp" where
  "answer f m = andThen m (\<lambda>r. ret (f r))"

fun user_controller :: "users_env \<Rightarrow> users_fresh \<Rightarrow> 'ab http_guards \<Rightarrow> int \<Rightarrow> http_request \<Rightarrow> user_request
    \<Rightarrow> (('ab, 'x) policy_state_scheme, exn, users_reply) comp" where
  "user_controller E fr G now req (Get_Users page per_page) = answer Users_Reply (users_route G now req page per_page)"
| "user_controller E fr G now req (Get_User i) = answer User_Reply (user_get_by_id_route E G now req i)"
| "user_controller E fr G now req (Create_User b) = answer User_Reply (user_create_route E fr G now req b)"
| "user_controller E fr G now req (Update_User i b) = answer User_Reply (user_update_route E G now req i b)"
| "user_controller E fr G now req (Delete_User i) = answer Flag_Of_Users (user_delete_route E G now req i)"
| "user_controller E fr G now req (Update_My_Theme t) = answer User_Reply (user_update_theme_route G now req t)"
| "user_controller E fr G now req (Unlock_User i) = answer Flag_Of_Users (user_unlock_route E G now req i)"
| "user_controller E fr G now req (Reset_User_Password i) =
     answer Flag_Of_Users (admin_reset_password_route E fr G now req i)"
| "user_controller E fr G now req Get_My_Preferences = answer Channels_Reply (get_preferences_route G now req)"
| "user_controller E fr G now req (Put_My_Preferences cs) = answer Channels_Reply (update_preferences_route G now req cs)"

section \<open>Roles\<close>

datatype role_request =
    Get_Roles
  | Get_Role ident
  | Create_Role string "string option" role_type
  | Update_Role ident role_update
  | Delete_Role ident

datatype role_reply = Roles_Reply "role_dto paginated" | Role_Reply role_dto | Flag_Of_Roles bool

fun role_action :: "role_request \<Rightarrow> perm_action" where
  "role_action Get_Roles = Read"
| "role_action (Get_Role _) = Read"
| "role_action (Create_Role _ _ _) = Create"
| "role_action (Update_Role _ _) = Update"
| "role_action (Delete_Role _) = Delete"

fun role_endpoint :: "(string \<Rightarrow> bool) \<Rightarrow> ident \<Rightarrow> int \<Rightarrow> role_request
    \<Rightarrow> ('x backend_scheme, exn, role_reply) comp" where
  "role_endpoint uuid new_id now Get_Roles = answer Roles_Reply user_roles_endpoint"
| "role_endpoint uuid new_id now (Get_Role i) = answer Role_Reply (with_id uuid i (role_get_by_id_handler i))"
| "role_endpoint uuid new_id now (Create_Role name description rt) =
     answer Role_Reply (role_create_handler new_id now name description rt)"
| "role_endpoint uuid new_id now (Update_Role i p) = answer Role_Reply (with_id uuid i (role_update_handler now i p))"
| "role_endpoint uuid new_id now (Delete_Role i) =
     answer Flag_Of_Roles (with_id uuid i (user_role_delete_endpoint now i))"

definition user_role_controller :: "users_env \<Rightarrow> users_fresh \<Rightarrow> 'ab http_guards \<Rightarrow> int \<Rightarrow> http_request \<Rightarrow> role_request
    \<Rightarrow> (('ab, 'x) policy_state_scheme, exn, role_reply) comp" where
  "user_role_controller E fr G now req q = with_guards G now (Some (role_action q, One_Subject S_UserRole)) req
     (\<lambda>_. role_endpoint (ue_uuid E) (uf_new_id fr) now q)"

section \<open>The bodies of the authentication controller\<close>

datatype auth_route = Route_Login | Route_Refresh | Route_Logout | Route_Forgot | Route_Reset | Route_Change

fun auth_body_class :: "auth_route \<Rightarrow> dto_class" where
  "auth_body_class Route_Login = login_body"
| "auth_body_class Route_Refresh = refresh_token_body"
| "auth_body_class Route_Logout = refresh_token_body"
| "auth_body_class Route_Forgot = forgot_password_body"
| "auth_body_class Route_Reset = reset_password_body"
| "auth_body_class Route_Change = change_password_body"

text \<open>The endpoint's arguments from the validated object; \<open>null\<close> and \<open>undefined\<close> are both falsy.\<close>

definition text_of :: "string \<Rightarrow> dto_object \<Rightarrow> string" where
  "text_of k d = coalesce (dto_string k d) []"

fun auth_request_of :: "ident \<Rightarrow> auth_route \<Rightarrow> dto_object \<Rightarrow> auth_request" where
  "auth_request_of user_id Route_Login d = Post_Login (text_of ''email'' d) (text_of ''password'' d)"
| "auth_request_of user_id Route_Refresh d = Post_Refresh (dto_string ''refreshToken'' d)"
| "auth_request_of user_id Route_Logout d = Post_Logout (dto_string ''refreshToken'' d)"
| "auth_request_of user_id Route_Forgot d = Post_Forgot (text_of ''email'' d)"
| "auth_request_of user_id Route_Reset d = Post_Reset (text_of ''token'' d) (text_of ''newPassword'' d)"
| "auth_request_of user_id Route_Change d =
     Post_Change user_id (text_of ''currentPassword'' d) (text_of ''newPassword'' d)"

definition auth_http :: "validator \<Rightarrow> string \<Rightarrow> 'x backend_scheme auth_port \<Rightarrow> backend_config \<Rightarrow> http_request
    \<Rightarrow> ident \<Rightarrow> auth_route \<Rightarrow> json \<Rightarrow> ('x backend_scheme, thrown, auth_reply) comp" where
  "auth_http V sql gw cfg req user_id route sent = with_body V (auth_body_class route) sent (\<lambda>d.
     raised sql (auth_controller gw cfg req (auth_request_of user_id route d)))"

section \<open>Creating a user from a body\<close>

fun parse_gender :: "string \<Rightarrow> gender option" where
  "parse_gender s = (if s = ''male'' then Some Male else if s = ''female'' then Some Female else None)"

definition dto_date :: "string \<Rightarrow> dto_object \<Rightarrow> int option" where
  "dto_date k d = (case map_of d k of Some (Date_Value t) \<Rightarrow> t | _ \<Rightarrow> None)"

text \<open>An absent property takes the default of its column.  A \<open>null\<close> is inserted as \<open>NULL\<close>: that differs
  only in the raw column of a \<open>gender\<close> that is \<open>null\<close>, which every read maps to the default again.\<close>

definition create_user_input :: "dto_object \<Rightarrow> create_user_body" where
  "create_user_input d = \<lparr>cu_email = text_of ''email'' d, cu_password = text_of ''password'' d,
     cu_name = text_of ''name'' d, cu_surname = text_of ''surname'' d,
     cu_middleName = dto_string ''middleName'' d, cu_phone = dto_string ''phone'' d,
     cu_gender = (case dto_string ''gender'' d of None \<Rightarrow> None | Some g \<Rightarrow> parse_gender g),
     cu_birthday = dto_date ''birthday'' d, cu_roleId = text_of ''roleId'' d\<rparr>"

definition post_user :: "validator \<Rightarrow> string \<Rightarrow> users_env \<Rightarrow> users_fresh \<Rightarrow> int \<Rightarrow> json
    \<Rightarrow> ('x backend_scheme, thrown, user_dto) comp" where
  "post_user V sql E fr now sent = with_body V create_user_class sent (\<lambda>d.
     raised sql (user_create_handler (ue_crypto E) (uf_salt fr) (uf_new_id fr) now (create_user_input d)))"

text \<open>The window that the list of users reads for a query.\<close>

definition users_window :: "dto_object \<Rightarrow> int \<times> int" where
  "users_window d = to_sql_pagination (coalesce (dto_int ''page'' d) 1) (coalesce (dto_int ''per_page'' d) 20)"

definition get_users :: "validator \<Rightarrow> string \<Rightarrow> json \<Rightarrow> ('x backend_scheme, thrown, user_dto paginated) comp" where
  "get_users V sql sent = with_body V users_query sent (\<lambda>d.
     raised sql (users_get_handler (dto_int ''page'' d) (dto_int ''per_page'' d)))"

end
