(* ===== verification/Request_Properties.thy ===== *)
theory Request_Properties
  imports User_Controllers User_Properties Auth_Http_Properties Policy_Properties
begin

text \<open>
  What the validation and the guards give the handlers: which passwords reach the auth service and
  the table of users, the window of a list, and which request of whom may change whose row.
\<close>

section \<open>The libraries' contract\<close>

lemma transform_lookup:
  assumes "class_validator V" "find_row (\<lambda>f. df_name f = k) cls = Some f" "df_type f = As_Sent"
  shows "map_of (vl_transform V cls (J_Obj obj)) k = map_option Plain (get k obj)"
  using assms by (cases "get k obj") (simp_all add: class_validator_def)

lemma pipe_accepts:
  assumes "class_validator V"
  shows "validation_pipe V cls sent = (if accepts V cls (vl_transform V cls sent)
     then Inr (vl_transform V cls sent)
     else Inl (create_validation_exception (vl_validate V cls (vl_transform V cls sent))))"
proof -
  have "vl_validate V cls d = [] \<longleftrightarrow> accepts V cls d" for d using assms by (simp add: class_validator_def)
  then show ?thesis by (auto simp: validation_pipe_def Let_def split: list.split) (metis list.distinct(1))
qed

lemma accepted_field:
  assumes "accepts V cls d" "f \<in> set cls" "\<not> df_optional f" "r \<in> set (df_rules f)"
  shows "rule_holds V r (map_of d (df_name f))"
  using assms by (auto simp: accepts_def list_all_iff field_accepts_def Let_def)

lemma with_body_run:
  assumes "class_validator V"
  shows "with_body V cls sent endpoint s = (if accepts V cls (vl_transform V cls sent)
     then endpoint (vl_transform V cls sent) s
     else (Inl (create_validation_exception (vl_validate V cls (vl_transform V cls sent))), s))"
  by (simp add: with_body_def pipe_accepts [OF assms])

lemma raised_Inl: "raised sql m s = (Inl t, s') \<longleftrightarrow> (\<exists>e. m s = (Inl e, s') \<and> t = thrown_of sql e)"
  by (auto simp: raised_def split: prod.splits sum.splits)

lemma raised_Inr [simp]: "raised sql m s = (Inr x, s') \<longleftrightarrow> m s = (Inr x, s')"
  by (auto simp: raised_def split: prod.splits sum.splits)

lemma plain_string: "plain_holds V Is_String j \<Longrightarrow> \<exists>s. j = J_Str s"
  by (cases j) auto

lemma validation_not_thrown: "create_validation_exception es \<noteq> thrown_of sql e"
  by (cases e) (auto simp: create_validation_exception_def)

lemma rejected_status [simp]: "rp_status (catch_exception i r (create_validation_exception es)) = 400"
  by (simp add: catch_exception_def create_validation_exception_def thrown_status_def)

section \<open>Passwords\<close>

lemma accepted_new_password_text:
  assumes "class_validator V" "accepts V (auth_body_class route) (vl_transform V (auth_body_class route) (J_Obj obj))"
    and "route = Route_Reset \<or> route = Route_Change"
  shows "\<exists>pw. get ''newPassword'' obj = Some (J_Str pw) \<and> 12 \<le> length pw
    \<and> text_of ''newPassword'' (vl_transform V (auth_body_class route) (J_Obj obj)) = pw"
proof -
  let ?f = "required ''newPassword'' [Is_String, Min_Length 12]"
  let ?d = "vl_transform V (auth_body_class route) (J_Obj obj)"
  have f: "?f \<in> set (auth_body_class route)" "find_row (\<lambda>f. df_name f = ''newPassword'') (auth_body_class route) = Some ?f"
    using assms(3) by (auto simp: reset_password_body_def change_password_body_def required_def)
  have look: "map_of ?d ''newPassword'' = map_option Plain (get ''newPassword'' obj)"
    by (rule transform_lookup [OF assms(1) f(2)]) (simp add: required_def)
  have "rule_holds V Is_String (map_of ?d ''newPassword'')" "rule_holds V (Min_Length 12) (map_of ?d ''newPassword'')"
    using accepted_field [OF assms(2) f(1)] by (auto simp: required_def)
  then show ?thesis
    unfolding look text_of_def dto_string_def
    by (cases "get ''newPassword'' obj") (auto dest!: plain_string)
qed

lemma strong_enough:
  assumes "12 \<le> length pw"
  shows "reset_password_handler E salt now t pw s = (Inr r, s') \<Longrightarrow> rs_failureReason r \<noteq> ''WEAK_PASSWORD''"
    and "change_password_handler E salt i cur pw s = (Inr c, s') \<Longrightarrow> cp_failureReason c \<noteq> ''WEAK_PASSWORD''"
  using assms by (auto simp: reset_password_handler_def change_password_handler_def change_failed_def andThen_def
      split: option.splits if_splits prod.splits sum.splits)

lemma over_rpc_Inl: "over_rpc f m s = (Inl x, s') \<longleftrightarrow> (\<exists>e. m s = (Inl e, s') \<and> x = f e)"
  by (auto simp: over_rpc_def split: prod.splits sum.splits)

abbreviation weak_password :: exn where
  "weak_password \<equiv> bad_request ''user.auth.passwordMinLength''"

lemma reset_never_weak:
  assumes "12 \<le> length pw" "\<And>e. rpc_error e \<noteq> weak_password"
  shows "fst (reset_password_command (auth_grpc_gateway E rpc_error gf now) t pw s) \<noteq> Inl weak_password"
  using assms(2)
  by (auto dest: strong_enough(1) [OF assms(1)] simp: reset_password_command_def auth_grpc_gateway_def andThen_def over_rpc_Inl publish_def
      split: prod.splits sum.splits)

lemma change_never_weak:
  assumes "12 \<le> length pw" "\<And>e. rpc_error e \<noteq> weak_password"
  shows "fst (change_password_command (auth_grpc_gateway E rpc_error gf now) i cur pw s) \<noteq> Inl weak_password"
  using assms(2)
  by (auto dest: strong_enough(2) [OF assms(1)] simp: change_password_command_def auth_grpc_gateway_def change_error_def andThen_def over_rpc_Inl publish_def
      split: prod.splits sum.splits)

lemma thrown_of_http: "thrown_of sql e = thrown_of sql (Http_Exn st k ps) \<Longrightarrow> e = Http_Exn st k ps"
  by (cases e) auto

text \<open>C25. The minimum length of a new password is decided before the auth service is called: a body whose
  \<open>newPassword\<close> the validation does not accept changes nothing and is answered with 400, and for a body
  it does accept neither a reset nor a change of password is ever refused as too weak, so that branch
  of the service is unreachable over HTTP.\<close>

theorem weak_password_unreachable:
  fixes s :: "'x backend_scheme"
  assumes "class_validator V" "\<forall>e. rpc_error e \<noteq> bad_request ''user.auth.passwordMinLength''"
    and "route = Route_Reset \<or> route = Route_Change"
    and run: "auth_http V sql (auth_grpc_gateway E rpc_error gf now) cfg req i route (J_Obj obj) s = (r, s')"
  shows "r \<noteq> Inl (thrown_of sql (bad_request ''user.auth.passwordMinLength''))
    \<and> ((\<forall>pw. get ''newPassword'' obj = Some (J_Str pw) \<longrightarrow> length pw < 12)
        \<longrightarrow> s' = s \<and> (\<exists>t. r = Inl t \<and> rp_status (catch_exception lang fr t) = 400))"
proof -
  let ?cls = "auth_body_class route"
  let ?d = "vl_transform V ?cls (J_Obj obj)"
  let ?pw = "text_of ''newPassword'' ?d"
  note body = run [unfolded auth_http_def with_body_run [OF assms(1)]]
  show ?thesis
  proof (cases "accepts V ?cls ?d")
    case True
    have long: "12 \<le> length ?pw" using accepted_new_password_text [OF assms(1) True assms(3)] by auto
    have never: "fst (auth_controller (auth_grpc_gateway E rpc_error gf now) cfg req (auth_request_of i route ?d) s)
        \<noteq> Inl weak_password"
      using assms(2,3) reset_never_weak [OF long, of rpc_error E gf now "text_of ''token'' ?d" s]
        change_never_weak [OF long, of rpc_error E gf now i "text_of ''currentPassword'' ?d" s]
      by (auto simp: auth_controller_def andThen_def split: prod.splits sum.splits)
    have "r \<noteq> Inl (thrown_of sql weak_password)"
    proof
      assume "r = Inl (thrown_of sql weak_password)"
      then obtain e where "auth_controller (auth_grpc_gateway E rpc_error gf now) cfg req (auth_request_of i route ?d) s = (Inl e, s')"
        and "thrown_of sql weak_password = thrown_of sql e"
        using body True by (auto simp: raised_Inl)
      then show False using never thrown_of_http [of sql e] by (metis fst_conv)
    qed
    moreover have "\<exists>pw. get ''newPassword'' obj = Some (J_Str pw) \<and> 12 \<le> length pw"
      using accepted_new_password_text [OF assms(1) True assms(3)] long by auto
    ultimately show ?thesis using linorder_not_less by blast
  next
    case False
    then have "s' = s" "r = Inl (create_validation_exception (vl_validate V ?cls ?d))" using body by auto
    then show ?thesis using validation_not_thrown [of "vl_validate V ?cls ?d" sql weak_password] by simp
  qed
qed

section \<open>Creating an account\<close>

lemma created_row:
  assumes "user_create_handler C salt new_id now b s = (Inr dto, s')" "cu_roleId b \<noteq> []"
  shows "users s' = users s @ [new_user_row new_id now (user_create_entity b (hash_password C salt (cu_password b)) True)]
    \<and> (\<forall>u \<in> set (users s). u_email u \<noteq> cu_email b) \<and> role_repo_find_by_id (cu_roleId b) s \<noteq> None"
  using assms
  by (auto simp: user_create_handler_def andThen_def publish_def role_get_by_id_handler_def or_not_found_def
      user_repo_create_def user_create_entity_def some_row_iff Let_def
      split: if_splits option.splits)

lemma accepted_text:
  assumes "class_validator V" "accepts V cls (vl_transform V cls (J_Obj obj))" "required k rules \<in> set cls"
    and "find_row (\<lambda>f. df_name f = k) cls = Some (required k rules)"
    and "r \<in> set rules" "\<And>j. plain_holds V r j \<Longrightarrow> \<exists>t. j = J_Str t"
  shows "\<exists>t. get k obj = Some (J_Str t) \<and> text_of k (vl_transform V cls (J_Obj obj)) = t
    \<and> (\<forall>r' \<in> set rules. plain_holds V r' (J_Str t))"
proof -
  have look: "map_of (vl_transform V cls (J_Obj obj)) k = map_option Plain (get k obj)"
    by (rule transform_lookup [OF assms(1,4)]) (simp add: required_def)
  have all: "rule_holds V r' (map_option Plain (get k obj))" if "r' \<in> set rules" for r'
    using accepted_field [OF assms(2,3), of r'] that by (simp add: required_def look)
  then obtain j where j: "get k obj = Some j" using assms(5) by (cases "get k obj") auto
  with all assms(5,6) obtain t where "j = J_Str t" by fastforce
  with all j show ?thesis by (auto simp: text_of_def dto_string_def look)
qed

lemma string_rules:
  "plain_holds V Is_String j \<Longrightarrow> \<exists>t. j = J_Str t"
  "plain_holds V Is_Email j \<Longrightarrow> \<exists>t. j = J_Str t"
  "plain_holds V (Is_UUID n) j \<Longrightarrow> \<exists>t. j = J_Str t"
  by (cases j; simp)+

text \<open>C24. An administrator can create an account only with a well-formed address that no account, live or
  deleted, has, with a role that exists, and with a password of 12 to 32 characters that holds a lower
  and an upper case letter, a digit and a special character; the table gains exactly that row, with
  the hash of that password.\<close>

theorem created_account_valid:
  fixes s :: "'x backend_scheme"
  assumes "class_validator V" and run: "post_user V sql E fr now (J_Obj obj) s = (Inr dto, s')"
  shows "\<exists>email pw row. get ''email'' obj = Some (J_Str email) \<and> vl_is_email V email
    \<and> get ''password'' obj = Some (J_Str pw) \<and> password_regex pw
    \<and> users s' = users s @ [row] \<and> u_id row = uf_new_id fr \<and> u_email row = email
    \<and> u_password row = Some (hash_password (ue_crypto E) (uf_salt fr) pw)
    \<and> (\<forall>u \<in> set (users s). u_email u \<noteq> email) \<and> role_repo_find_by_id (u_roleId row) s \<noteq> None"
proof -
  let ?d = "vl_transform V create_user_class (J_Obj obj)"
  have acc: "accepts V create_user_class ?d"
    and create: "user_create_handler (ue_crypto E) (uf_salt fr) (uf_new_id fr) now (create_user_input ?d) s = (Inr dto, s')"
    using run by (auto simp: post_user_def with_body_run [OF assms(1)] split: if_splits)
  obtain email where email: "get ''email'' obj = Some (J_Str email)" "text_of ''email'' ?d = email" "vl_is_email V email"
    using accepted_text [OF assms(1) acc, of "''email''" "[Is_Email, Is_Not_Empty]" Is_Email] string_rules(2)
    by (auto simp: create_user_class_def required_def)
  obtain pw where pw: "get ''password'' obj = Some (J_Str pw)" "text_of ''password'' ?d = pw" "password_regex pw"
    using accepted_text [OF assms(1) acc, of "''password''"
        "[Is_String, Min_Length 12, Max_Length 32, Matches_Password ''validation.PASSWORD_TOO_WEAK'']" Is_String] string_rules(1)
    by (auto simp: create_user_class_def required_def)
  obtain role where role: "text_of ''roleId'' ?d = role" "role \<noteq> []"
    using accepted_text [OF assms(1) acc, of "''roleId''" "[Is_UUID 4, Is_Not_Empty]" "Is_UUID 4"] string_rules(3)
    by (auto simp: create_user_class_def required_def optional_def)
  have "cu_roleId (create_user_input ?d) \<noteq> []" using role by (simp add: create_user_input_def)
  from created_row [OF create this] show ?thesis
    using email pw role by (auto simp: create_user_input_def user_create_entity_def new_user_row_def)
qed

text \<open>A password that a reset or a change accepts need not be one that an account can be created with.\<close>

lemma reset_password_weaker:
  "validation_pipe (reference_validator (\<lambda>s. length s = 36)) reset_password_body
     (J_Obj [(''token'', J_Str ''t''), (''newPassword'', J_Str ''aaaaaaaaaaaa'')])
   = Inr [(''token'', Plain (J_Str ''t'')), (''newPassword'', Plain (J_Str ''aaaaaaaaaaaa''))]
   \<and> \<not> password_regex ''aaaaaaaaaaaa''"
  by code_simp

section \<open>Queries\<close>

lemma paging_field:
  assumes "field_accepts V d \<lparr>df_name = k, df_optional = True, df_type = t, df_rules = Is_Int # Min_Of 1 # rules\<rparr>"
  shows "dto_int k d = None \<or> (\<exists>n. dto_int k d = Some n \<and> 1 \<le> n \<and> list_all (\<lambda>r. plain_holds V r (J_Num n)) rules)"
proof (cases "map_of d k")
  case (Some v)
  show ?thesis
  proof (cases v)
    case (Plain j)
    with Some assms show ?thesis by (cases j) (auto simp: field_accepts_def absent_def dto_int_def)
  qed (use Some assms in \<open>auto simp: field_accepts_def absent_def dto_int_def\<close>)
qed (simp add: dto_int_def)

lemma paging_bounds:
  assumes "accepts V users_query d"
  shows "1 \<le> coalesce (dto_int ''page'' d) 1"
    "1 \<le> coalesce (dto_int ''per_page'' d) 20" "coalesce (dto_int ''per_page'' d) 20 \<le> 100"
  using assms paging_field [of V d "''page''" To_Number "[]"] paging_field [of V d "''per_page''" To_Number "[Max_Of 100]"]
  by (auto simp: accepts_def users_query_def optional_def)

lemma page_size: "length (page_of page per_page rows) \<le> nat per_page"
  by (simp add: page_of_def to_sql_pagination_def sql_window_def)

text \<open>C40. Whatever query a client sends, the list of users answers at most a hundred accounts and a page
  of at most the size it announces, with a page number and a page size of at least one, so that the
  window of the SQL query never has a negative offset; a query outside these bounds is answered with 400.\<close>

theorem users_query_bounds:
  fixes s :: "'x backend_scheme"
  assumes "class_validator V" and run: "get_users V sql (J_Obj obj) s = (r, s')"
  shows "s' = s \<and> (case r of
      Inl t \<Rightarrow> rp_status (catch_exception lang fr t) = 400
    | Inr p \<Rightarrow> 1 \<le> pm_page (pg_meta p) \<and> 1 \<le> pm_per_page (pg_meta p) \<and> pm_per_page (pg_meta p) \<le> 100
        \<and> int (length (pg_data p)) \<le> pm_per_page (pg_meta p)
        \<and> 0 \<le> snd (users_window (vl_transform V users_query (J_Obj obj))))"
proof (cases "accepts V users_query (vl_transform V users_query (J_Obj obj))")
  case True
  let ?d = "vl_transform V users_query (J_Obj obj)"
  note bounds = paging_bounds [OF True]
  have "int (length (page_of (coalesce (dto_int ''page'' ?d) 1) (coalesce (dto_int ''per_page'' ?d) 20) rows))
      \<le> coalesce (dto_int ''per_page'' ?d) 20" for rows :: "user_row list"
    using page_size [of "coalesce (dto_int ''page'' ?d) 1" "coalesce (dto_int ''per_page'' ?d) 20" rows] bounds(2) by linarith
  moreover have "0 \<le> snd (users_window ?d)"
    using bounds by (simp add: users_window_def to_sql_pagination_def)
  ultimately show ?thesis
    using run True bounds
    by (auto simp: get_users_def with_body_run [OF assms(1)] raised_def users_list_is_page Let_def build_paginated_def)
next
  case False
  with run show ?thesis by (auto simp: get_users_def with_body_run [OF assms(1)])
qed

text \<open>The filter of the notification list on read and unread ones cannot be used: the values of a
  query string are strings, or lists of them, the class does not convert \<open>isRead\<close>, and the validation
  refuses every value that is not a boolean.\<close>

theorem read_filter_unusable:
  assumes "class_validator V" "get ''isRead'' obj = Some v" "\<forall>b. v \<noteq> J_Bool b" "v \<noteq> J_Null"
  shows "\<exists>es. es \<noteq> [] \<and> validation_pipe V notifications_query (J_Obj obj) = Inl (create_validation_exception es)"
proof -
  let ?f = "optional ''isRead'' [Is_Boolean]"
  let ?d = "vl_transform V notifications_query (J_Obj obj)"
  have "map_of ?d ''isRead'' = Some (Plain v)"
    using transform_lookup [OF assms(1), of "''isRead''" notifications_query ?f obj] assms(2)
    by (simp add: notifications_query_def optional_def)
  then have "\<not> field_accepts V ?d ?f"
    using assms(3,4) by (cases v) (auto simp: field_accepts_def optional_def absent_def)
  then have "\<not> accepts V notifications_query ?d"
    by (simp add: accepts_def notifications_query_def)
  moreover from this have "vl_validate V notifications_query ?d \<noteq> []"
    using assms(1) by (simp add: class_validator_def)
  ultimately show ?thesis using pipe_accepts [OF assms(1)] by auto
qed

section \<open>Who may change which account\<close>

fun user_policy :: "user_request \<Rightarrow> (perm_action \<times> subject_arg) option" where
  "user_policy (Get_Users _ _) = admin_action Read"
| "user_policy (Create_User _) = admin_action Create"
| "user_policy (Update_User _ _) = admin_action Update"
| "user_policy (Delete_User _) = admin_action Delete"
| "user_policy (Unlock_User _) = admin_action Update"
| "user_policy (Reset_User_Password _) = admin_action Update"
| "user_policy _ = None"

text \<open>The account whose row a request of the user \<open>me\<close> may change.\<close>

fun changed_account :: "ident \<Rightarrow> user_request \<Rightarrow> ident option" where
  "changed_account me (Update_User i _) = Some i"
| "changed_account me (Delete_User i) = Some i"
| "changed_account me (Unlock_User i) = Some i"
| "changed_account me (Update_My_Theme _) = Some me"
| "changed_account me (Put_My_Preferences _) = Some me"
| "changed_account me _ = None"

text \<open>What the guards of a route answer: the principal, where they admit the request.\<close>

definition admitted :: "'ab http_guards \<Rightarrow> int \<Rightarrow> http_request \<Rightarrow> user_request \<Rightarrow> ('ab, 'x) policy_state_scheme
    \<Rightarrow> exn + validate_jwt" where
  "admitted G now req q s = fst (with_guards G now (user_policy q) req ret s)"

lemma with_guards_split: "with_guards G now p req ep = andThen (with_guards G now p req ret) ep"
  by (auto simp: with_guards_def andThen_def fun_eq_iff split: prod.splits sum.splits)

lemma guarded_run:
  fixes s :: "('ab, 'x) policy_state_scheme"
  obtains (no) e r c where "fst (with_guards G now p req ret s) = Inl e"
      "with_guards G now p req ep s = (Inl e, s\<lparr>redis := r, ability_cache := c\<rparr>)"
  | (yes) v r c where "fst (with_guards G now p req ret s) = Inr v"
      "fst (jwt_authenticate (gs_jwt G) (gs_tokens G) (gs_cookie G) (gs_faults G) now req s) = Inr v"
      "with_guards G now p req ep s = ep v (s\<lparr>redis := r, ability_cache := c\<rparr>)"
proof (rule with_guardsE [of G now p req ret s])
  fix e r c assume "with_guards G now p req ret s = (Inl e, s\<lparr>redis := r, ability_cache := c\<rparr>)"
  then show thesis using no [of e c r] by (simp add: with_guards_split [of G now p req ep])
next
  fix v r c
  assume "fst (jwt_authenticate (gs_jwt G) (gs_tokens G) (gs_cookie G) (gs_faults G) now req s) = Inr v"
    and "with_guards G now p req ret s = ret v (s\<lparr>redis := r, ability_cache := c\<rparr>)"
  then show thesis using yes [of v c r] by (simp add: with_guards_split [of G now p req ep])
qed

text \<open>\<open>only_row i s\<close>: compared with \<open>s\<close>, every row is still there except perhaps those of account \<open>i\<close>.\<close>

definition only_row :: "ident option \<Rightarrow> 'x users_db_scheme \<Rightarrow> 'x users_db_scheme \<Rightarrow> bool" where
  "only_row i s s' = (\<forall>u \<in> set (users s). u \<notin> set (users s') \<longrightarrow> i = Some (u_id u))"

named_theorems row_intro

lemma only_row_refl [simp]: "only_row i s s"
  by (simp add: only_row_def)

lemma only_row_update_rows:
  assumes "\<And>u. P u \<Longrightarrow> u_id u = i" "only_row (Some i) s0 s"
  shows "only_row (Some i) s0 (s\<lparr>users := update_rows P f (users s)\<rparr>)"
proof -
  have "u \<in> set (update_rows P f (users s))" if "u \<in> set (users s)" "u_id u \<noteq> i" for u
    using that assms(1) by (force simp: set_update_rows)
  with assms(2) show ?thesis by (auto simp: only_row_def)
qed

lemma only_row_user_update [row_intro]: "keeps (only_row (Some i) s0) (user_repo_update i p)"
  by (rule keepsI) (auto simp: user_repo_update_def intro: only_row_update_rows)

lemma only_row_user_delete [row_intro]: "keeps (only_row (Some i) s0) (user_repo_delete now i)"
  by (rule keepsI) (auto simp: user_repo_delete_def live_id_def intro: only_row_update_rows)

lemma only_row_users_kept:
  assumes "\<And>s. users (snd (m s)) = users s"
  shows "keeps (only_row i s0) m"
  using assms by (simp add: keeps_def only_row_def)

lemma only_row_publish [row_intro]: "keeps (only_row i s0) (publish e)"
  by (rule only_row_users_kept) (simp add: publish_def)

lemma only_row_with_id [row_intro]: "keeps (only_row i s0) m \<Longrightarrow> keeps (only_row i s0) (with_id uuid j m)"
  by (auto simp: with_id_def parse_uuid_def keeps_def andThen_def)

lemma only_row_or_not_found [row_intro]: "keeps (only_row i s0) (or_not_found k x)"
  by (simp add: or_not_found_def split: option.split)

lemma only_row_redis [row_intro]:
  "keeps (only_row i s0) (clear_cached_version b j)" "keeps (only_row i s0) (set_version b j n)"
  by (rule only_row_users_kept, simp add: clear_cached_version_def set_version_def)+

lemma only_row_increment [row_intro]: "keeps (only_row (Some i) s0) (user_repo_increment_token_version i)"
  by (rule keepsI) (auto simp: user_repo_increment_token_version_def Let_def intro: only_row_update_rows split: option.split)

lemma only_row_bump [row_intro]: "keeps (only_row (Some i) s0) (bump_version fl i)"
proof -
  have "keeps (only_row (Some i) s0) (\<lambda>s. case set_version b i n s of (Inr _, s') \<Rightarrow> (Inr (), s')
      | (Inl _, s') \<Rightarrow> clear_cached_version b' i s')" for b b' n
    by (rule only_row_users_kept) (simp add: set_version_def clear_cached_version_def)
  then show ?thesis unfolding bump_version_def by (intro keeps_andThen row_intro keeps_ret)
qed

lemma only_row_create [row_intro]: "keeps (only_row i s0) (user_repo_create new_id now n)"
  by (rule keepsI) (auto simp: user_repo_create_def only_row_def Let_def split: option.split)

lemma only_row_lookups [row_intro]:
  "keeps (only_row i s0) (user_get_by_id_handler j)" "keeps (only_row i s0) (role_get_by_id_handler j)"
  unfolding user_get_by_id_handler_def role_get_by_id_handler_def
  by (intro keeps_andThen keeps_fetch keeps_ret row_intro)+

lemma only_row_if [row_intro]:
  "(b \<Longrightarrow> keeps I m) \<Longrightarrow> (\<not> b \<Longrightarrow> keeps I m') \<Longrightarrow> keeps I (if b then m else m')"
  "keeps I m \<Longrightarrow> (\<And>y. keeps I (k y)) \<Longrightarrow> keeps I (case x of None \<Rightarrow> m | Some y \<Rightarrow> k y)"
  by (auto split: option.split)

lemmas row_steps = keeps_andThen keeps_ret keeps_throw keeps_fetch row_intro

lemma only_row_handlers [row_intro]:
  "keeps (only_row None s0) (user_create_handler C salt new_id now b)"
  "keeps (only_row (Some i) s0) (user_update_handler fl i u)"
  "keeps (only_row (Some i) s0) (user_delete_endpoint now i)"
  "keeps (only_row (Some i) s0) (user_unlock_handler i)"
  "keeps (only_row (Some i) s0) (user_update_theme_handler i t)"
  "keeps (only_row (Some i) s0) (update_notification_preferences_endpoint i cs)"
  unfolding user_create_handler_def user_update_handler_def user_delete_endpoint_def user_delete_handler_def
    user_unlock_handler_def user_update_theme_handler_def update_notification_preferences_endpoint_def
    user_update_channels_handler_def
  by (intro row_steps)+

lemma only_row_admin_reset [row_intro]: "keeps (only_row None s0) (admin_reset_password_handler cfg ff now i)"
proof -
  have "keeps (only_row None s0) (reset_create j now t)" "keeps (only_row None s0) (mail_repo_create j now m)"
    "keeps (only_row None s0) (add_to_queue q)" "keeps (only_row None s0) (Backend_Auth.get_or_throw k x)" for j t m q k x
    by (rule only_row_users_kept,
        simp add: reset_create_def mail_repo_create_def add_to_queue_def Backend_Auth.get_or_throw_def Let_def split: option.split)+
  then show ?thesis unfolding admin_reset_password_handler_def Let_def by (intro row_steps)
qed

lemma only_row_queries [row_intro]:
  "keeps (only_row None s0) (users_get_handler page pp)"
  "keeps (only_row None s0) (user_get_by_id_endpoint i me rt)"
  "keeps (only_row None s0) (get_notification_preferences_endpoint i)"
  by (rule only_row_users_kept, simp add: users_get_handler_def user_get_by_id_endpoint_def user_get_by_id_handler_def
      get_notification_preferences_endpoint_def or_not_found_def andThen_def Let_def
      split: option.split prod.split)+

lemma answer_users [simp]: "users (snd (answer f m s)) = users (snd (m s))"
  by (simp add: answer_def andThen_def split: prod.split sum.split)

lemma guarded_only_row:
  fixes s :: "('ab, 'x) policy_state_scheme"
  assumes "\<And>v. keeps (only_row (t v) s) (ep v)" "u \<in> set (users s)" "u \<notin> set (users (snd (with_guards G now p req ep s)))"
  shows "\<exists>v. fst (with_guards G now p req ret s) = Inr v
     \<and> fst (jwt_authenticate (gs_jwt G) (gs_tokens G) (gs_cookie G) (gs_faults G) now req s) = Inr v \<and> t v = Some (u_id u)"
proof (rule guarded_run [of G now p req s ep])
  fix e r c assume "with_guards G now p req ep s = (Inl e, s\<lparr>redis := r, ability_cache := c\<rparr>)"
  with assms(2,3) show ?thesis by simp
next
  fix v r c
  assume v: "fst (with_guards G now p req ret s) = Inr v"
    "fst (jwt_authenticate (gs_jwt G) (gs_tokens G) (gs_cookie G) (gs_faults G) now req s) = Inr v"
    and run: "with_guards G now p req ep s = ep v (s\<lparr>redis := r, ability_cache := c\<rparr>)"
  have "only_row (t v) s (s\<lparr>redis := r, ability_cache := c\<rparr>)" by (simp add: only_row_def)
  from keepsD [OF assms(1) this] have "t v = Some (u_id u)" using assms(2,3) run by (auto simp: only_row_def)
  with v show ?thesis by blast
qed

lemma controller_only_row:
  fixes s :: "('ab, 'x) policy_state_scheme"
  assumes "u \<notin> set (users (snd (user_controller E fr G now req q s)))" "u \<in> set (users s)"
    and "user_controller E fr G now req q = answer f (with_guards G now (user_policy q) req ep)"
    and "\<And>v. keeps (only_row (changed_account (vj_userId v) q) s) (ep v)"
  shows "\<exists>v. admitted G now req q s = Inr v
    \<and> fst (jwt_authenticate (gs_jwt G) (gs_tokens G) (gs_cookie G) (gs_faults G) now req s) = Inr v
    \<and> changed_account (vj_userId v) q = Some (u_id u)"
  using guarded_only_row [where t = "\<lambda>v. changed_account (vj_userId v) q" and ep = ep, OF assms(4,2)] assms(1,3)
  by (simp add: admitted_def)

lemmas user_routes = user_controller.simps user_policy.simps users_route_def user_get_by_id_route_def
  user_create_route_def user_update_route_def user_delete_route_def user_update_theme_route_def
  user_unlock_route_def admin_reset_password_route_def get_preferences_route_def update_preferences_route_def

text \<open>C23. A request to the controller of the users changes or removes no row of the table but the one it
  names, or the principal's own row where it is about his own preferences; and only after the guards
  of its route have admitted the principal, for the routes of the administration the policy that
  asks for the permission on \<open>user.admin\<close> included.\<close>

theorem users_changed_only_by_right:
  fixes s :: "('ab, 'x) policy_state_scheme"
  assumes "u \<in> set (users s)" "u \<notin> set (users (snd (user_controller E fr G now req q s)))"
  shows "\<exists>v. admitted G now req q s = Inr v
    \<and> fst (jwt_authenticate (gs_jwt G) (gs_tokens G) (gs_cookie G) (gs_faults G) now req s) = Inr v
    \<and> changed_account (vj_userId v) q = Some (u_id u)"
  using assms(2)
  by (cases q) (hypsubst, erule controller_only_row [OF _ assms(1)], unfold user_routes, rule refl,
      unfold changed_account.simps, intro row_intro)+

section \<open>Concrete requests\<close>

definition demo_new_user :: "(string \<times> json) list" where
  "demo_new_user = [(''email'', J_Str ''eve@x''), (''password'', J_Str ''Str0ng!Password''), (''name'', J_Str ''Eve''),
     (''surname'', J_Str ''Fox''), (''roleId'', J_Str ''role-user''), (''admin'', J_Bool True)]"

text \<open>The identifiers of the concrete tables are short.\<close>

abbreviation demo_validator :: validator where
  "demo_validator \<equiv> reference_validator (\<lambda>s. s \<noteq> [])"

lemmas demo_validator_ok = reference_validator_ok [of "\<lambda>s. s \<noteq> []"]

definition demo_users_env :: users_env where
  "demo_users_env = \<lparr>ue_config = demo_config, ue_crypto = demo_crypto, ue_uuid = (\<lambda>s. s \<noteq> [])\<rparr>"

definition demo_users_fresh :: users_fresh where
  "demo_users_fresh = \<lparr>uf_salt = ''salt'', uf_new_id = ''u9'', uf_reset = demo_forgot\<rparr>"

theorem weak_password_unreachable_witness:
  "fst (auth_http demo_validator ''q'' (auth_grpc_gateway demo_env (\<lambda>_. Js_Exn ''rpc'') demo_grpc 9) demo_config
      (demo_request [] []) ''u1'' Route_Reset (J_Obj [(''token'', J_Str ''t''), (''newPassword'', J_Str ''short'')]) demo_http)
    \<noteq> Inl (thrown_of ''q'' (bad_request ''user.auth.passwordMinLength''))"
proof -
  let ?run = "auth_http demo_validator ''q'' (auth_grpc_gateway demo_env (\<lambda>_. Js_Exn ''rpc'') demo_grpc 9) demo_config
      (demo_request [] []) ''u1'' Route_Reset (J_Obj [(''token'', J_Str ''t''), (''newPassword'', J_Str ''short'')]) demo_http"
  have "?run = (fst ?run, snd ?run)" by simp
  from weak_password_unreachable [OF demo_validator_ok _ _ this] show ?thesis by (simp del: thrown_of.simps)
qed

theorem created_account_valid_witness:
  "\<exists>row. users (snd (post_user demo_validator ''q'' demo_users_env demo_users_fresh 3 (J_Obj demo_new_user) demo_backend))
      = users demo_backend @ [row] \<and> u_email row = ''eve@x''"
proof -
  let ?run = "post_user demo_validator ''q'' demo_users_env demo_users_fresh 3 (J_Obj demo_new_user) demo_backend"
  have "\<not> isl (fst ?run)" by code_simp
  then obtain dto where "?run = (Inr dto, snd ?run)" by (cases ?run; cases "fst ?run") auto
  from created_account_valid [OF demo_validator_ok this] show ?thesis by (auto simp: demo_new_user_def)
qed

theorem users_query_bounds_witness:
  "snd (get_users demo_validator ''q'' (J_Obj [(''page'', J_Str ''2''), (''per_page'', J_Str ''100'')]) demo_backend) = demo_backend"
proof -
  let ?run = "get_users demo_validator ''q'' (J_Obj [(''page'', J_Str ''2''), (''per_page'', J_Str ''100'')]) demo_backend"
  have "?run = (fst ?run, snd ?run)" by simp
  from users_query_bounds [OF demo_validator_ok this] show ?thesis by blast
qed

theorem read_filter_unusable_witness:
  "\<exists>es. es \<noteq> [] \<and> validation_pipe demo_validator notifications_query (J_Obj [(''isRead'', J_Str ''true'')])
     = Inl (create_validation_exception es)"
  by (rule read_filter_unusable [OF demo_validator_ok, of _ "J_Str ''true''"]) simp_all

text \<open>A user sets his own channels with the cookie of his session.\<close>

definition demo_guards :: "(perm_action \<times> perm_subject) list http_guards" where
  "demo_guards = \<lparr>gs_jwt = \<lparr>jwt_sign = (\<lambda>_ _ _. []), jwt_verify = (\<lambda>_ _ _ t. Some \<lparr>c_sub = Some t, c_rid = Some ''role-user'',
       c_rty = Some ''user'', c_lng = Some ''ru'', c_tv = Some 1\<rparr>)\<rparr>,
     gs_tokens = demo_tokens, gs_cookie = ''accessToken'', gs_faults = redis_up, gs_casl = demo_casl, gs_db_fails = False\<rparr>"

theorem users_changed_only_by_right_witness:
  "\<exists>v. admitted demo_guards 5 (demo_request [] [(''accessToken'', ''u1'')]) (Put_My_Preferences [''email'']) demo_policies = Inr v
    \<and> vj_userId v = ''u1''"
proof -
  let ?run = "user_controller demo_users_env demo_users_fresh demo_guards 5 (demo_request [] [(''accessToken'', ''u1'')])
      (Put_My_Preferences [''email'']) demo_policies"
  let ?u = "demo_user ''u1'' ''ann@x'' None"
  have "list_all (\<lambda>u. u_notificationChannels u = Some [''email'']) (users (snd ?run))" by code_simp
  moreover have "u_notificationChannels ?u \<noteq> Some [''email'']" by (simp add: demo_user_def)
  ultimately have "?u \<notin> set (users (snd ?run))" by (auto simp: list_all_iff)
  moreover have "?u \<in> set (users demo_policies)" by (simp add: demo_policies_def)
  ultimately show ?thesis
    using users_changed_only_by_right [of ?u demo_policies demo_users_env demo_users_fresh demo_guards 5
        "demo_request [] [(''accessToken'', ''u1'')]" "Put_My_Preferences [''email'']"]
    by (auto simp: demo_user_def)
qed

end
