(* ===== verification/Captcha_Controllers.thy ===== *)
theory Captcha_Controllers
  imports Captcha Role_Seeding User_Controllers
begin

text \<open>
  The two controllers of the captcha module: \<open>admin-captcha.controller.ts\<close> behind its guards and
  \<open>captcha.controller.ts\<close>, which has none.  The state is the server's with the captcha module's own
  database and object store as one more component.
\<close>

section \<open>State\<close>

record ('ab, 'b) captcha_server = "'ab policy_state" +
  captcha_part :: "'b captcha_db"

definition on_captcha :: "('b captcha_db, exn, 'a) comp \<Rightarrow> (('ab, 'b, 'x) captcha_server_scheme, exn, 'a) comp" where
  "on_captcha m = (\<lambda>s. case m (captcha_part s) of (r, c) \<Rightarrow> (r, s\<lparr>captcha_part := c\<rparr>))"

section \<open>The administrator's routes\<close>

datatype captcha_admin_request =
    List_Templates
  | Create_Template create_template_input
  | List_Configs ident
  | Create_Config ident json_object
  | Activate_Config ident
  | Preview_Config ident "nat option" "captcha_difficulty option"
  | Generate_Batch ident "nat option" "captcha_difficulty option"
  | Get_Pools
  | Get_Metrics

datatype captcha_admin_reply =
    Templates_Reply "captcha_template list"
  | Template_Reply captcha_template
  | Configs_Reply "captcha_config list"
  | Config_Reply captcha_config
  | Previews_Reply "(string \<times> string \<times> json_object) list"
  | Batch_Reply "bool \<times> nat \<times> captcha_difficulty"
  | Pools_Reply "(string \<times> captcha_difficulty \<times> nat) list"
  | Metrics_Reply "(captcha_asset_status \<times> captcha_difficulty \<times> nat) list \<times> challenge_counts"

text \<open>The renderer, the Redis prefix and \<open>ParseUUIDPipe\<close>; then what a request draws.\<close>

record captcha_admin_env =
  an_uuid :: "string \<Rightarrow> bool"
  an_render :: svg_renderer
  an_prefix :: string

record captcha_admin_fresh =
  af_new_id :: ident
  af_draws :: "nat \<Rightarrow> nat \<Rightarrow> nat"

fun captcha_admin_action :: "captcha_admin_request \<Rightarrow> perm_action" where
  "captcha_admin_action List_Templates = Read"
| "captcha_admin_action (Create_Template _) = Create"
| "captcha_admin_action (List_Configs _) = Read"
| "captcha_admin_action (Create_Config _ _) = Create"
| "captcha_admin_action (Activate_Config _) = Update"
| "captcha_admin_action (Preview_Config _ _ _) = Read"
| "captcha_admin_action (Generate_Batch _ _ _) = Create"
| "captcha_admin_action Get_Pools = Read"
| "captcha_admin_action Get_Metrics = Read"

fun captcha_admin_endpoint :: "captcha_admin_env \<Rightarrow> captcha_admin_fresh \<Rightarrow> int \<Rightarrow> ident \<Rightarrow> captcha_admin_request
    \<Rightarrow> ('b captcha_db, exn, captcha_admin_reply) comp" where
  "captcha_admin_endpoint A fr now me List_Templates = answer Templates_Reply (fetch cap_list_templates)"
| "captcha_admin_endpoint A fr now me (Create_Template input) =
     answer Template_Reply (create_captcha_template_handler (af_new_id fr) now input)"
| "captcha_admin_endpoint A fr now me (List_Configs i) =
     answer Configs_Reply (with_id (an_uuid A) i (fetch (cap_list_configs i)))"
| "captcha_admin_endpoint A fr now me (Create_Config i json) =
     answer Config_Reply (with_id (an_uuid A) i (create_config_draft_handler (af_new_id fr) now i json (Some me)))"
| "captcha_admin_endpoint A fr now me (Activate_Config i) =
     answer Config_Reply (with_id (an_uuid A) i (activate_config_handler now i))"
| "captcha_admin_endpoint A fr now me (Preview_Config i n d) =
     answer Previews_Reply (with_id (an_uuid A) i (preview_endpoint (an_render A) (af_draws fr) i n d))"
| "captcha_admin_endpoint A fr now me (Generate_Batch i n d) =
     answer Batch_Reply (with_id (an_uuid A) i (generate_batch_endpoint i n d))"
| "captcha_admin_endpoint A fr now me Get_Pools = answer Pools_Reply (fetch (pools_handler (an_prefix A)))"
| "captcha_admin_endpoint A fr now me Get_Metrics = answer Metrics_Reply (fetch metrics_handler)"

definition captcha_admin_controller :: "captcha_admin_env \<Rightarrow> captcha_admin_fresh \<Rightarrow> 'ab http_guards \<Rightarrow> int
    \<Rightarrow> http_request \<Rightarrow> captcha_admin_request
    \<Rightarrow> (('ab, 'b, 'x) captcha_server_scheme, exn, captcha_admin_reply) comp" where
  "captcha_admin_controller A fr G now req q =
     with_guards G now (Some (captcha_admin_action q, One_Subject S_CaptchaAdmin)) req
       (\<lambda>v. on_captcha (captcha_admin_endpoint A fr now (vj_userId v) q))"

section \<open>The public routes\<close>

datatype captcha_request =
    Create_Challenge challenge_input
  | Get_Image ident
  | Verify_Challenge ident string

datatype captcha_reply =
    Challenge_Reply challenge_reply
  | Image_Of_Challenge image_reply
  | Verify_Reply "bool \<times> int"

text \<open>\<open>ip\<close> and \<open>agent\<close> are \<open>req.ip\<close> and the header \<open>user-agent\<close>.\<close>

fun captcha_controller :: "'b captcha_env \<Rightarrow> (string \<Rightarrow> bool) \<Rightarrow> ident \<Rightarrow> int \<Rightarrow> string option \<Rightarrow> string option
    \<Rightarrow> captcha_request \<Rightarrow> (('b, 'x) captcha_db_scheme, exn, captcha_reply) comp" where
  "captcha_controller E uuid new_id now ip agent (Create_Challenge input) =
     answer Challenge_Reply (create_challenge_handler E new_id now input)"
| "captcha_controller E uuid new_id now ip agent (Get_Image i) =
     answer Image_Of_Challenge (with_id uuid i (image_endpoint E now i))"
| "captcha_controller E uuid new_id now ip agent (Verify_Challenge i guess) =
     answer Verify_Reply (with_id uuid i (verify_endpoint E new_id now i guess ip agent))"

end
