(* ===== verification/Captcha_Config_Properties.thy ===== *)
theory Captcha_Config_Properties
  imports Captcha_Controllers Captcha_Properties Request_Properties
begin

text \<open>
  The history of a template's configurations, over every interleaving of the requests to the two
  captcha controllers and of the generation jobs.  The invariant is proved for the module's own state
  and lifted to the server that embeds it.
\<close>

section \<open>What leaves the configurations alone\<close>

definition same_configs :: "('b, 'x) captcha_db_scheme \<Rightarrow> ('b, 'x) captcha_db_scheme \<Rightarrow> bool" where
  "same_configs s0 s = (configs s = configs s0 \<and> templates s = templates s0)"

lemma same_configs_refl [simp]: "same_configs s s"
  by (simp add: same_configs_def)

named_theorems same_intro

lemma same_configsI:
  "(\<And>s. configs (snd (m s)) = configs s) \<Longrightarrow> (\<And>s. templates (snd (m s)) = templates s) \<Longrightarrow> keeps (same_configs s0) m"
  by (simp add: keeps_def same_configs_def)

lemma same_configs_rows [same_intro]:
  "keeps (same_configs s0) (cap_create_asset i now a)"
  "keeps (same_configs s0) (cap_reserve_asset now i)"
  "keeps (same_configs s0) (cap_mark_asset_used i)"
  "keeps (same_configs s0) (cap_create_challenge i now h)"
  "keeps (same_configs s0) (cap_complete_challenge now i st)"
  "keeps (same_configs s0) (cap_increment_attempts i)"
  "keeps (same_configs s0) (cap_create_attempt x)"
  "keeps (same_configs s0) (pool_push key i)"
  "keeps (same_configs s0) (pool_pop key)"
  by (rule same_configsI; simp add: cap_create_asset_def cap_reserve_asset_def cap_mark_asset_used_def
      cap_create_challenge_def cap_complete_challenge_def cap_increment_attempts_def cap_create_attempt_def
      pool_push_def pool_pop_def Let_def split: option.split list.split)+

lemma same_configs_store [same_intro]:
  "keeps (same_configs s0) (storage_put S key body ct)" "keeps (same_configs s0) (storage_get S key)"
  by (rule same_configsI; simp add: storage_put_def storage_get_def adapter_upload_buffer_def adapter_download_def
      send_upload_def andThen_def split: prod.split sum.split)+

lemma same_configs_control [same_intro]:
  "(b \<Longrightarrow> keeps I m) \<Longrightarrow> (\<not> b \<Longrightarrow> keeps I m') \<Longrightarrow> keeps I (if b then m else m')"
  "keeps I m \<Longrightarrow> (\<And>y. keeps I (k y)) \<Longrightarrow> keeps I (case x of None \<Rightarrow> m | Some y \<Rightarrow> k y)"
  "(\<And>y z. keeps I (h y z)) \<Longrightarrow> keeps I (case p of (y, z) \<Rightarrow> h y z)"
  by (auto split: option.split prod.split)

lemmas [same_intro] = keeps_andThen keeps_ret keeps_throw keeps_fetch keeps_whenever

lemma same_configs_pop: "same_configs s (snd (pop_reserved now key s))"
proof (induction now key s rule: pop_reserved.induct)
  case (1 now key s)
  then show ?case
    by (subst pop_reserved.simps)
      (auto simp: pool_pop_def cap_reserve_asset_def same_configs_def split: list.split option.split)
qed

lemma same_configs_create [same_intro]: "keeps (same_configs s0) (create_challenge_handler E new_id now input)"
proof -
  have "keeps (same_configs s0) (\<lambda>s. let (r, s') = pop_reserved now key s in (Inr r, s'))" for key
    by (rule same_configsI) (simp_all add: split_beta same_configs_pop [unfolded same_configs_def])
  then show ?thesis unfolding create_challenge_handler_def Let_def by (intro same_intro)
qed

lemma same_configs_verify [same_intro]: "keeps (same_configs s0) (verify_handler E aid now i guess meta)"
  unfolding verify_handler_def verify_check_def verify_commit_def Let_def by (intro same_intro)

lemma same_configs_image [same_intro]: "keeps (same_configs s0) (image_handler E now i)"
  unfolding image_handler_def by (intro same_intro)

lemma same_configs_asset [same_intro]: "keeps (same_configs s0) (generate_asset E t c d i draw)"
  unfolding generate_asset_def Let_def by (intro same_intro)

lemma same_configs_generate [same_intro]: "keeps (same_configs s0) (generate_assets E t c d draws i n)"
  by (induction n arbitrary: i; simp only: generate_assets.simps; intro same_intro; assumption?)

lemma same_configs_process [same_intro]: "keeps (same_configs s0) (generation_process E draws job)"
  unfolding generation_process_def by (intro same_intro)

lemma same_configs_job: "same_configs s (run_generation_job E draws s)"
proof (cases "generation_queue s")
  case (Cons job rest)
  let ?run = "generation_process E draws job (s\<lparr>generation_queue := rest\<rparr>)"
  have "same_configs s (snd ?run)" by (rule keepsD [OF same_configs_process]) (simp add: same_configs_def)
  then show ?thesis by (cases ?run) (auto simp: run_generation_job_def Cons same_configs_def split: sum.split)
qed (simp add: run_generation_job_def)

lemma same_configs_answer [same_intro]:
  "keeps I m \<Longrightarrow> keeps I (answer f m)" "keeps I m \<Longrightarrow> keeps I (with_id uuid i m)"
  by (auto simp: answer_def with_id_def parse_uuid_def intro: keeps_andThen)

lemma same_configs_public: "keeps (same_configs s0) (captcha_controller E uuid new_id now ip agent q)"
  by (cases q; simp only: captcha_controller.simps image_endpoint_def verify_endpoint_def)
    (intro same_intro)+

section \<open>The invariant\<close>

definition config_ok :: "captcha_template list \<Rightarrow> captcha_config \<Rightarrow> bool" where
  "config_ok ts c = ((cf_status c = Cfg_Draft \<longleftrightarrow> cf_activatedAt c = None)
     \<and> config_json (validate_config (cf_configJson c)) = cf_configJson c
     \<and> (\<exists>t \<in> set ts. ct_id t = cf_templateId c \<and> ct_generator t = generator_code))"

definition of_template :: "ident \<Rightarrow> captcha_config list \<Rightarrow> captcha_config list" where
  "of_template tid cs = filter (\<lambda>c. cf_templateId c = tid) cs"

definition actives :: "ident \<Rightarrow> captcha_config list \<Rightarrow> nat" where
  "actives tid cs = count_rows (\<lambda>c. cf_templateId c = tid \<and> cf_status c = Cfg_Active) cs"

definition config_inv :: "('b, 'x) captcha_db_scheme \<Rightarrow> bool" where
  "config_inv s = (distinct (map cf_id (configs s))
     \<and> (\<forall>tid. map cf_version (of_template tid (configs s)) = map int [1..<Suc (length (of_template tid (configs s)))])
     \<and> (\<forall>tid. actives tid (configs s) \<le> 1)
     \<and> (\<forall>c \<in> set (configs s). config_ok (templates s) c))"

lemma config_inv_same: "same_configs s0 s \<Longrightarrow> config_inv s = config_inv s0"
  by (simp add: config_inv_def same_configs_def)

lemma validate_idem: "config_json (validate_config (config_json (validate_config j))) = config_json (validate_config j)"
  by (auto simp: config_json_def validate_config_def clamp_number_def default_alphabet_def split: option.split json.split)

lemma foldl_max_upto: "foldl max 1 (map int [2..<Suc (Suc n)]) = int (Suc n)"
  by (induction n) simp_all

lemma next_version:
  assumes "config_inv s"
  shows "cap_next_config_version tid s = int (Suc (length (of_template tid (configs s))))"
proof (cases "length (of_template tid (configs s))")
  case 0
  then show ?thesis by (simp add: cap_next_config_version_def of_template_def)
next
  case (Suc n)
  have "map cf_version (of_template tid (configs s)) = 1 # map int [2..<Suc (Suc n)]"
    using assms Suc by (simp add: config_inv_def upt_conv_Cons numeral_2_eq_2 del: upt_Suc)
  then show ?thesis
    using foldl_max_upto [of n] Suc by (simp add: cap_next_config_version_def of_template_def del: upt_Suc)
qed

lemma inv_add_template:
  assumes "config_inv s"
  shows "config_inv (snd (create_captcha_template_handler new_id now input s))"
  using assms by (auto simp: create_captcha_template_handler_def cap_create_template_def config_inv_def config_ok_def Let_def)

lemma inv_draft:
  assumes "config_inv s"
  shows "config_inv (snd (create_config_draft_handler new_id now tid json uid s))"
proof (cases "cap_find_template_by_id tid s")
  case (Some t)
  let ?row = "\<lparr>cf_id = new_id, cf_templateId = tid, cf_version = cap_next_config_version tid s, cf_status = Cfg_Draft,
    cf_configJson = config_json (validate_config json), cf_createdByUserId = uid, cf_createdAt = now, cf_activatedAt = None\<rparr>"
  let ?run = "create_config_draft_handler new_id now tid json uid s"
  show ?thesis
  proof (cases "snd ?run = s")
    case False
    then have fresh: "new_id \<notin> cf_id ` set (configs s)" and gen: "ct_generator t = generator_code"
      and run: "snd ?run = s\<lparr>configs := configs s @ [?row]\<rparr>"
      using Some by (auto simp: create_config_draft_handler_def andThen_def cap_create_config_def some_row_iff
          Let_def split: if_splits)
    have "t \<in> set (templates s)" "ct_id t = tid"
      using Some find_row_SomeD unfolding cap_find_template_by_id_def by fastforce+
    then have "config_ok (templates s) ?row" using gen by (auto simp: config_ok_def validate_idem)
    moreover have "of_template t' (configs s @ [?row]) = of_template t' (configs s) @ (if t' = tid then [?row] else [])" for t'
      by (simp add: of_template_def)
    moreover have "actives t' (configs s @ [?row]) = actives t' (configs s)" for t' by (simp add: actives_def)
    ultimately show ?thesis
      using assms fresh next_version [OF assms, of tid] by (auto simp: run config_inv_def)
  qed (simp add: assms)
qed (simp add: assms create_config_draft_handler_def andThen_def)

lemma count_rows_map: "count_rows P (map f rows) = count_rows (\<lambda>r. P (f r)) rows"
  by (induction rows) simp_all

lemma count_rows_mono: "(\<And>r. r \<in> set rows \<Longrightarrow> P r \<Longrightarrow> Q r) \<Longrightarrow> count_rows P rows \<le> count_rows Q rows"
  by (induction rows) (auto simp: le_SucI)

lemma count_rows_cong: "(\<And>r. r \<in> set rows \<Longrightarrow> P r = Q r) \<Longrightarrow> count_rows P rows = count_rows Q rows"
  by (induction rows) auto

lemma count_key: "distinct (map k rows) \<Longrightarrow> count_rows (\<lambda>r. k r = v) rows \<le> 1"
proof (induction rows)
  case (Cons r rows)
  then have "k r \<notin> k ` set rows" by simp
  then have "\<not> some_row (\<lambda>x. k x = k r) rows" unfolding some_row_iff by (metis image_eqI)
  with Cons show ?case by auto
qed simp

lemma inv_activate:
  assumes "config_inv s"
  shows "config_inv (snd (activate_config_handler now i s))"
proof (cases "cap_find_config_by_id i s")
  case (Some c)
  let ?arch = "\<lambda>x :: captcha_config. if cf_templateId x = cf_templateId c \<and> cf_status x = Cfg_Active then x\<lparr>cf_status := Cfg_Archived\<rparr> else x"
  let ?set = "\<lambda>x :: captcha_config. if cf_id x = i then x\<lparr>cf_status := Cfg_Active, cf_activatedAt := Some now\<rparr> else x"
  define f where "f = (\<lambda>x. ?set (?arch x))"
  have c: "c \<in> set (configs s)" "cf_id c = i"
    using Some find_row_SomeD unfolding cap_find_config_by_id_def by fastforce+
  have frame [simp]: "cf_id (f x) = cf_id x" "cf_templateId (f x) = cf_templateId x"
    "cf_version (f x) = cf_version x" "cf_configJson (f x) = cf_configJson x" for x by (simp_all add: f_def)
  have act: "update_rows (\<lambda>x. cf_id x = i) (\<lambda>x. x\<lparr>cf_status := Cfg_Active, cf_activatedAt := Some now\<rparr>)
      (update_rows (\<lambda>x. cf_templateId x = cf_templateId c \<and> cf_status x = Cfg_Active) (\<lambda>x. x\<lparr>cf_status := Cfg_Archived\<rparr>)
        (configs s)) = map f (configs s)"
    by (simp add: update_rows_def f_def)
  obtain row where "find_row (\<lambda>x. cf_id x = i) (map f (configs s)) = Some row"
    using c by (cases "find_row (\<lambda>x. cf_id x = i) (map f (configs s))") (auto simp: find_row_None)
  then have run: "snd (activate_config_handler now i s) = s\<lparr>configs := map f (configs s)\<rparr>"
    by (simp only: activate_config_handler_def cap_activate_config_def Some Let_def act option.case snd_conv)
  have keys: "distinct (map cf_id (configs s))" using assms by (simp add: config_inv_def)
  have part: "of_template t (map f cs) = map f (of_template t cs)" for t cs
    by (simp add: of_template_def filter_map comp_def)
  have one: "actives t (map f (configs s)) \<le> 1" for t
  proof (cases "t = cf_templateId c")
    case True
    have "actives t (map f (configs s)) \<le> count_rows (\<lambda>x. cf_id x = i) (configs s)"
      unfolding actives_def count_rows_map by (rule count_rows_mono) (auto simp: True f_def split: if_splits)
    then show ?thesis using count_key [OF keys, of i] by linarith
  next
    case False
    have "actives t (map f (configs s)) = actives t (configs s)"
      unfolding actives_def count_rows_map
      by (rule count_rows_cong) (use False c unique_key_eq [OF keys] in \<open>auto simp: f_def split: if_splits\<close>)
    then show ?thesis using assms by (simp add: config_inv_def)
  qed
  have "config_ok (templates s) (f x)" if "x \<in> set (configs s)" for x
  proof -
    have "config_ok (templates s) x" using assms that by (simp add: config_inv_def)
    then show ?thesis by (auto simp: config_ok_def f_def)
  qed
  with assms one show ?thesis
    unfolding run config_inv_def by (simp add: part comp_def)
qed (simp add: assms activate_config_handler_def cap_activate_config_def)

section \<open>The machine\<close>

text \<open>A request to the administrator's controller with its guards, a request to the public one, a job.\<close>

inductive captcha_http_step :: "'b captcha_env \<Rightarrow> captcha_admin_env
    \<Rightarrow> ('ab, 'b, 'x) captcha_server_scheme \<Rightarrow> ('ab, 'b, 'x) captcha_server_scheme \<Rightarrow> bool"
  for E :: "'b captcha_env" and A :: captcha_admin_env where
  http_admin: "captcha_http_step E A s (snd (captcha_admin_controller A fr G now req q s))"
| http_public: "captcha_http_step E A s (snd (on_captcha (captcha_controller E uuid new_id now ip agent p) s))"
| http_job: "captcha_http_step E A s (s\<lparr>captcha_part := run_generation_job E draws (captcha_part s)\<rparr>)"

definition no_configs :: "('ab, 'b, 'x) captcha_server_scheme \<Rightarrow> bool" where
  "no_configs s = (configs (captcha_part s) = [])"

lemma on_captcha_part [simp]: "captcha_part (snd (on_captcha m s)) = snd (m (captcha_part s))"
  by (simp add: on_captcha_def split: prod.split)

lemma inv_frame: "keeps (same_configs s) m \<Longrightarrow> config_inv s \<Longrightarrow> config_inv (snd (m s))"
  using keepsD [of "same_configs s" m s] config_inv_same by auto

lemma inv_answer: "config_inv (snd (m s)) \<Longrightarrow> config_inv (snd (answer f m s))"
  by (auto simp: answer_def andThen_def split: prod.split sum.split)

lemma inv_with_id: "config_inv s \<Longrightarrow> config_inv (snd (m s)) \<Longrightarrow> config_inv (snd (with_id uuid i m s))"
  by (simp add: with_id_def parse_uuid_def andThen_def)

lemma inv_admin_endpoint: "config_inv s \<Longrightarrow> config_inv (snd (captcha_admin_endpoint A fr now me q s))"
proof (cases q)
  case (Preview_Config i n d)
  have "keeps (same_configs s) (preview_endpoint (an_render A) (af_draws fr) i n d)"
    unfolding preview_endpoint_def preview_handler_def by (intro same_intro)
  then show "config_inv s \<Longrightarrow> ?thesis" by (simp add: Preview_Config inv_answer inv_with_id inv_frame)
next
  case (Generate_Batch i n d)
  have "keeps (same_configs s) (generate_batch_endpoint i n d)"
    by (rule same_configsI) (simp_all add: generate_batch_endpoint_def enqueue_batch_handler_def andThen_def split: option.split)
  then show "config_inv s \<Longrightarrow> ?thesis" by (simp add: Generate_Batch inv_answer inv_with_id inv_frame)
qed (simp_all add: inv_answer inv_with_id inv_add_template inv_draft inv_activate)

lemma inv_admin_controller:
  assumes "config_inv (captcha_part s)"
  shows "config_inv (captcha_part (snd (captcha_admin_controller A fr G now req q s)))"
proof (rule with_guardsE [of G now "Some (captcha_admin_action q, One_Subject S_CaptchaAdmin)" req
      "\<lambda>v. on_captcha (captcha_admin_endpoint A fr now (vj_userId v) q)" s], fold captcha_admin_controller_def)
qed (simp_all add: assms inv_admin_endpoint)

lemma captcha_http_inv:
  "captcha_http_step E A s s' \<Longrightarrow> config_inv (captcha_part s) \<Longrightarrow> config_inv (captcha_part s')"
proof (induction rule: captcha_http_step.induct)
  case (http_job s draws)
  then show ?case using config_inv_same [OF same_configs_job [where s = "captcha_part s"]] by simp
qed (simp_all add: inv_admin_controller inv_frame [OF same_configs_public])

interpretation config_machine: transitions no_configs "captcha_http_step E A" "\<lambda>s. config_inv (captcha_part s)"
  by unfold_locales (simp add: no_configs_def config_inv_def of_template_def actives_def, rule captcha_http_inv)

text \<open>C10. The configurations of a captcha template are a gap-free history, in every state that any sequence
  of guarded requests, public requests and generation jobs reaches: they are numbered 1, 2, 3 and so on
  in the order of their creation, at most one of them is active, a draft has no time of activation
  and every other one has, what is stored is a fixed point of the generator's validation, and the
  template exists and has the generator that can draw it.\<close>

theorem config_history:
  fixes s :: "('ab, 'b, 'x) captcha_server_scheme"
  assumes "reach no_configs (captcha_http_step E A) s"
  shows "let cs = filter (\<lambda>c. cf_templateId c = tid) (configs (captcha_part s)) in
     map cf_version cs = map int [1..<Suc (length cs)]
     \<and> length (filter (\<lambda>c. cf_status c = Cfg_Active) cs) \<le> 1
     \<and> list_all (\<lambda>c. (cf_status c = Cfg_Draft \<longleftrightarrow> cf_activatedAt c = None)
         \<and> config_json (validate_config (cf_configJson c)) = cf_configJson c
         \<and> list_ex (\<lambda>t. ct_id t = tid \<and> ct_generator t = generator_code) (templates (captcha_part s))) cs"
proof -
  have inv: "config_inv (captcha_part s)" by (rule config_machine.reach_inv [OF assms])
  then have "length (filter (\<lambda>c. cf_templateId c = tid \<and> cf_status c = Cfg_Active) (configs (captcha_part s))) \<le> 1"
    by (simp add: config_inv_def actives_def count_rows_def)
  with inv show ?thesis
    by (auto simp: Let_def config_inv_def of_template_def config_ok_def list_all_iff list_ex_iff conj_commute simp del: upt_Suc)
qed

section \<open>A concrete history\<close>

text \<open>A user whose role may create and update captchas makes two drafts and activates both.\<close>

definition demo_captcha_server :: "((perm_action \<times> perm_subject) list, (string \<times> string \<times> s3_object) list) captcha_server" where
  "demo_captcha_server = policy_state.extend (demo_policies\<lparr>permissions := map (\<lambda>(i, a). perm_insert_row i 0
       \<lparr>pp_roleType = USER, pp_action = a, pp_subject = S_CaptchaAdmin, pp_description = None, pp_isActive = None\<rparr>)
       [(''p1'', Create), (''p2'', Update)]\<rparr>)
     \<lparr>captcha_part = demo_store\<lparr>configs := []\<rparr>\<rparr>"

definition demo_captcha_env :: captcha_admin_env where
  "demo_captcha_env = \<lparr>an_uuid = (\<lambda>s. s \<noteq> []), an_render = (\<lambda>rnd answer c noise. answer), an_prefix = ''captcha''\<rparr>"

definition demo_captcha_request :: "ident \<Rightarrow> int \<Rightarrow> captcha_admin_request
    \<Rightarrow> ((perm_action \<times> perm_subject) list, (string \<times> string \<times> s3_object) list) captcha_server
    \<Rightarrow> ((perm_action \<times> perm_subject) list, (string \<times> string \<times> s3_object) list) captcha_server" where
  "demo_captcha_request new_id now q s = snd (captcha_admin_controller demo_captcha_env
     \<lparr>af_new_id = new_id, af_draws = (\<lambda>_ _. 0)\<rparr> demo_guards now (demo_request [] [(''accessToken'', ''u1'')]) q s)"

definition demo_history :: "((perm_action \<times> perm_subject) list, (string \<times> string \<times> s3_object) list) captcha_server" where
  "demo_history = demo_captcha_request ''x'' 8 (Activate_Config ''c2'') (demo_captcha_request ''x'' 7 (Activate_Config ''c1'')
     (demo_captcha_request ''c2'' 6 (Create_Config ''t'' []) (demo_captcha_request ''c1'' 5 (Create_Config ''t'' []) demo_captcha_server)))"

lemma demo_reach_request:
  "reach no_configs (captcha_http_step demo_env demo_captcha_env) s
   \<Longrightarrow> reach no_configs (captcha_http_step demo_env demo_captcha_env) (demo_captcha_request new_id now q s)"
  unfolding demo_captcha_request_def by (erule reach_step) (rule http_admin)

theorem config_history_witness:
  "map cf_version (configs (captcha_part demo_history)) = [1, 2]
   \<and> map cf_status (configs (captcha_part demo_history)) = [Cfg_Archived, Cfg_Active]"
proof -
  have "reach no_configs (captcha_http_step demo_env demo_captcha_env) demo_history"
    unfolding demo_history_def
    by (intro demo_reach_request reach_start) (simp add: no_configs_def demo_captcha_server_def policy_state.defs)
  from config_history [OF this, of "''t''"]
  have "map cf_version (filter (\<lambda>c. cf_templateId c = ''t'') (configs (captcha_part demo_history)))
      = map int [1..<Suc (length (filter (\<lambda>c. cf_templateId c = ''t'') (configs (captcha_part demo_history))))]"
    by (simp add: Let_def del: upt_Suc)
  moreover have "map (\<lambda>c. (cf_templateId c, cf_status c)) (configs (captcha_part demo_history))
      = [(''t'', Cfg_Archived), (''t'', Cfg_Active)]" by code_simp
  then obtain a b where "configs (captcha_part demo_history) = [a, b]" "cf_templateId a = ''t''" "cf_templateId b = ''t''"
    "cf_status a = Cfg_Archived" "cf_status b = Cfg_Active"
    by (auto simp: map_eq_Cons_conv)
  ultimately show ?thesis by (simp add: upt_conv_Cons)
qed

end
