(* ===== verification/Captcha_Svg.thy ===== *)
theory Captcha_Svg
  imports Captcha_Properties
begin

text \<open>
  The drawing of the generator \<open>svg_text\<close> (\<open>renderSvg\<close> of \<open>svg-text-captcha.generator.ts\<close>) and what a
  client can read in it.  The picture is a text document, every letter of the answer is a \<open>text\<close>
  element of its own and the elements stand in order: a program that looks for the closing tags reads the
  answer without looking at the picture.
\<close>

section \<open>The drawing\<close>

text \<open>\<open>randomInt(lo, hi)\<close> on the draw number \<open>k\<close>.\<close>

definition random_int :: "(nat \<Rightarrow> nat) \<Rightarrow> nat \<Rightarrow> int \<Rightarrow> int \<Rightarrow> int" where
  "random_int rnd k lo hi = lo + int (rnd k) mod (hi - lo)"

text \<open>\<open>Math.round(a / b)\<close>.  The width is at most 640 and the text has at most ten letters, so that the
  floating-point quotients of the layout round like the exact ones.\<close>

definition round_div :: "int \<Rightarrow> int \<Rightarrow> int" where
  "round_div a b = (2 * a + b) div (2 * b)"

text \<open>An attribute with its quotes, and the tags.\<close>

definition attr :: "string \<times> string \<Rightarrow> string" where
  "attr a = '' '' @ fst a @ ''='' @ [CHR 0x22] @ snd a @ [CHR 0x22]"

definition tag :: "string \<Rightarrow> (string \<times> string) list \<Rightarrow> string \<Rightarrow> string" where
  "tag name attrs closing = ''<'' @ name @ concat (map attr attrs) @ closing"

definition char_node :: "(nat \<Rightarrow> nat) \<Rightarrow> svg_text_config \<Rightarrow> nat \<Rightarrow> nat \<Rightarrow> char \<Rightarrow> string" where
  "char_node rnd config n i c =
     (let x = show_int (round_div (sv_width config * int (i + 1)) (int n + 1));
          y = show_int (round_div (sv_height config + 2 * random_int rnd (n + 2 * i) (- 10) 11) 2);
          rot = show_int (random_int rnd (n + 2 * i + 1) (- 16) 17)
      in tag ''text'' [(''x'', x), (''y'', y), (''transform'', ''rotate('' @ rot @ '' '' @ x @ '' '' @ y @ '')'')] ''>''
         @ [c] @ ''</text>'')"

text \<open>The opacity is a number of hundredths between 20 and 54.\<close>

definition noise_line :: "(nat \<Rightarrow> nat) \<Rightarrow> svg_text_config \<Rightarrow> nat \<Rightarrow> nat \<Rightarrow> string" where
  "noise_line rnd config n j =
     (let k = 3 * n + 5 * j in
      tag ''line'' [(''x1'', show_int (random_int rnd k 0 (sv_width config))),
        (''y1'', show_int (random_int rnd (k + 1) 0 (sv_height config))),
        (''x2'', show_int (random_int rnd (k + 2) 0 (sv_width config))),
        (''y2'', show_int (random_int rnd (k + 3) 0 (sv_height config))),
        (''opacity'', ''0.'' @ show_int (random_int rnd (k + 4) 20 55))] '' />'')"

definition render_svg :: svg_renderer where
  "render_svg rnd answer config noise =
     (let w = show_int (sv_width config); h = show_int (sv_height config); n = length answer;
          nodes = concat (map (\<lambda>i. char_node rnd config n i (answer ! i)) [0..<n]);
          lines = concat (map (noise_line rnd config n) [0..<nat noise]);
          newline = [CHR 0x0A]
      in tag ''svg'' [(''xmlns'', ''http://www.w3.org/2000/svg''), (''width'', w), (''height'', h),
           (''viewBox'', ''0 0 '' @ w @ '' '' @ h)] ''>'' @ newline
         @ ''  '' @ tag ''rect'' [(''width'', ''100%''), (''height'', ''100%''), (''fill'', ''#f8fafc'')] ''/>'' @ newline
         @ ''  '' @ tag ''g'' [(''stroke'', ''#64748b''), (''stroke-width'', ''1.4'')] ''>'' @ lines @ ''</g>'' @ newline
         @ ''  '' @ tag ''g'' [(''font-family'', ''Arial, sans-serif''), (''font-size'', ''30''), (''font-weight'', ''700''),
             (''text-anchor'', ''middle''), (''dominant-baseline'', ''middle''), (''fill'', ''#0f172a'')] ''>'' @ nodes @ ''</g>'' @ newline
         @ ''</svg>'')"

section \<open>Reading the answer in the document\<close>

text \<open>The letter in front of every closing tag of a \<open>text\<close> element.\<close>

fun reveal :: "string \<Rightarrow> string" where
  "reveal [] = []"
| "reveal (c # rest) = (if starts_with rest ''</text>'' then c # reveal rest else reveal rest)"

text \<open>What stands between the letters has no slash in front of a \<open>t\<close> and does not end in the middle of a tag.\<close>

fun no_slash_t :: "string \<Rightarrow> bool" where
  "no_slash_t (a # b # r) = ((a \<noteq> CHR ''/'' \<or> b \<noteq> CHR ''t'') \<and> no_slash_t (b # r))"
| "no_slash_t r = True"

definition plain :: "string \<Rightarrow> bool" where
  "plain p = (no_slash_t p \<and> (p \<noteq> [] \<longrightarrow> last p \<noteq> CHR ''<'' \<and> last p \<noteq> CHR ''/''))"

lemma starts_with_Cons [simp]: "starts_with (c # s) (a # p) = (c = a \<and> starts_with s p)" "starts_with s []"
  by (simp_all add: starts_with_def)

lemma starts_with_Nil [simp]: "\<not> starts_with [] (a # p)"
  by (simp add: starts_with_def)

lemma reveal_plain:
  assumes "plain p" "\<not> starts_with q ''</text>''"
  shows "reveal (p @ q) = reveal q"
  using assms
proof (induction p)
  case (Cons c p)
  have p: "plain p" using Cons.prems(1) by (cases p) (auto simp: plain_def)
  have "\<not> starts_with (p @ q) ''</text>''"
  proof (cases p)
    case Nil
    with Cons.prems(2) show ?thesis by simp
  next
    case (Cons a r)
    with p show ?thesis
      by (cases r; cases "tl r") (auto simp: plain_def)
  qed
  with Cons.IH [OF p Cons.prems(2)] show ?case by simp
qed simp

lemma no_slash_t_append:
  "no_slash_t p \<Longrightarrow> no_slash_t q \<Longrightarrow> (p \<noteq> [] \<Longrightarrow> last p \<noteq> CHR ''/'') \<Longrightarrow> no_slash_t (p @ q)"
proof (induction p)
  case (Cons a p)
  then show ?case by (cases p; cases q) auto
qed simp

lemma plain_append [intro]: "plain p \<Longrightarrow> plain q \<Longrightarrow> plain (p @ q)"
  by (cases "q = []") (auto simp: plain_def no_slash_t_append)

lemma plain_Nil [simp]: "plain []"
  by (simp add: plain_def)

lemma plain_concat [intro]: "(\<And>p. p \<in> set ps \<Longrightarrow> plain p) \<Longrightarrow> plain (concat ps)"
  by (induction ps) auto

text \<open>Numbers.\<close>

lemma no_slash_t_if: "CHR ''/'' \<notin> set p \<Longrightarrow> no_slash_t p"
  by (induction p rule: no_slash_t.induct) auto

lemma plain_if: "CHR ''/'' \<notin> set p \<Longrightarrow> CHR ''<'' \<notin> set p \<Longrightarrow> plain p"
  unfolding plain_def using no_slash_t_if last_in_set by metis

lemma decimal_rev_chars: "0 \<le> n \<Longrightarrow> c \<in> set (decimal_rev n) \<Longrightarrow> 0 \<le> char_digit c \<and> char_digit c < 10"
proof (induction n rule: decimal_rev.induct)
  case (1 n)
  then show ?case by (cases "n < 10") (auto simp: decimal_rev.simps [of n])
qed

lemma digit_not_tag: "0 \<le> char_digit c \<and> char_digit c < 10 \<Longrightarrow> c \<noteq> CHR ''/'' \<and> c \<noteq> CHR ''<''"
  by (auto simp: char_digit_def)

lemma plain_show_int [intro, simp]: "plain (show_int i)"
proof (rule plain_if)
  have "\<forall>c\<in>set (show_pos j). c \<noteq> CHR ''/'' \<and> c \<noteq> CHR ''<''" if "0 \<le> j" for j
    using decimal_rev_chars [OF that] digit_not_tag by (simp add: show_pos_def)
  from this [of i] this [of "- i"] show "CHR ''/'' \<notin> set (show_int i)" "CHR ''<'' \<notin> set (show_int i)"
    by (auto simp: show_int_def)
qed

text \<open>Tags.\<close>

lemma plain_attr [intro]: "plain name \<Longrightarrow> plain v \<Longrightarrow> plain (attr (name, v))"
  unfolding attr_def fst_conv snd_conv by (intro plain_append) (simp_all add: plain_def)

lemma plain_tag [intro]:
  assumes "plain name" "name \<noteq> []" "\<And>a v. (a, v) \<in> set attrs \<Longrightarrow> plain a \<and> plain v" "plain closing"
  shows "plain (tag name attrs closing)"
proof -
  have "plain (''<'' @ name)" using assms(1,2) by (cases name) (auto simp: plain_def)
  moreover have "plain (concat (map attr attrs))" using assms(3) by (intro plain_concat) auto
  ultimately have "plain ((''<'' @ name) @ concat (map attr attrs) @ closing)"
    using assms(4) by (blast intro: plain_append)
  then show ?thesis by (simp add: tag_def)
qed

lemma reveal_char_node:
  assumes "\<not> starts_with q ''</text>''"
  shows "reveal (char_node rnd config n i c @ q) = c # reveal q"
proof -
  let ?p = "tag ''text'' [(''x'', show_int (round_div (sv_width config * int (i + 1)) (int n + 1))),
     (''y'', show_int (round_div (sv_height config + 2 * random_int rnd (n + 2 * i) (- 10) 11) 2)),
     (''transform'', ''rotate('' @ show_int (random_int rnd (n + 2 * i + 1) (- 16) 17) @ '' ''
        @ show_int (round_div (sv_width config * int (i + 1)) (int n + 1)) @ '' ''
        @ show_int (round_div (sv_height config + 2 * random_int rnd (n + 2 * i) (- 10) 11) 2) @ '')'')] ''>''"
  have "plain (''rotate('' @ show_int a @ '' '' @ show_int b @ '' '' @ show_int c @ '')'')" for a b c
    by (intro plain_append plain_show_int) (simp_all add: plain_def)
  then have "plain ?p" by (intro plain_tag) (auto simp: plain_def [of "''x''"] plain_def [of "''y''"] plain_def [of "''>''"]
      plain_def [of "''text''"] plain_def [of "''transform''"])
  then have "reveal (?p @ c # ''</text>'' @ q) = reveal (c # ''</text>'' @ q)"
    by (rule reveal_plain) (cases "c = CHR ''<''"; simp)
  also have "\<dots> = c # reveal q" using assms by simp
  finally show ?thesis by (simp add: char_node_def Let_def)
qed

lemma char_node_start: "\<not> starts_with (char_node rnd config n i c @ q) ''</text>''"
  by (simp add: char_node_def Let_def tag_def)

lemma reveal_nodes:
  assumes "\<not> starts_with q ''</text>''"
  shows "reveal (concat (map (\<lambda>i. char_node rnd config n i (f i)) is) @ q) = map f is @ reveal q"
proof (induction "is")
  case (Cons i "is")
  have "\<not> starts_with (concat (map (\<lambda>i. char_node rnd config n i (f i)) is) @ q) ''</text>''"
    using assms char_node_start by (cases "is") simp_all
  with Cons.IH show ?case by (simp add: reveal_char_node)
qed simp

lemma plain_noise_line: "plain (noise_line rnd config n j)"
proof -
  have "plain (''0.'' @ show_int a)" for a by (intro plain_append plain_show_int) (simp add: plain_def)
  then show ?thesis unfolding noise_line_def Let_def
    by (intro plain_tag) (auto simp: plain_def [of "''x1''"] plain_def [of "''y1''"] plain_def [of "''x2''"]
      plain_def [of "''y2''"] plain_def [of "''opacity''"] plain_def [of "''line''"] plain_def [of "'' />''"])
qed

lemma reveal_render: "reveal (render_svg rnd answer config noise) = answer"
proof -
  let ?w = "show_int (sv_width config)" and ?h = "show_int (sv_height config)" and ?n = "length answer"
  define lines where "lines = concat (map (noise_line rnd config ?n) [0..<nat noise])"
  define nodes where "nodes = concat (map (\<lambda>i. char_node rnd config ?n i (answer ! i)) [0..<?n])"
  define svg where "svg = tag ''svg'' [(''xmlns'', ''http://www.w3.org/2000/svg''), (''width'', ?w), (''height'', ?h),
     (''viewBox'', ''0 0 '' @ ?w @ '' '' @ ?h)] ''>''"
  define rect where "rect = tag ''rect'' [(''width'', ''100%''), (''height'', ''100%''), (''fill'', ''#f8fafc'')] ''/>''"
  define g where "g = tag ''g'' [(''stroke'', ''#64748b''), (''stroke-width'', ''1.4'')] ''>''"
  define h where "h = tag ''g'' [(''font-family'', ''Arial, sans-serif''), (''font-size'', ''30''), (''font-weight'', ''700''),
     (''text-anchor'', ''middle''), (''dominant-baseline'', ''middle''), (''fill'', ''#0f172a'')] ''>''"
  define nl :: string where "nl = [CHR 0x0A]"
  define front where "front = svg @ nl @ ''  '' @ rect @ nl @ ''  '' @ g @ lines @ ''</g>'' @ nl @ ''  '' @ h"
  define post where "post = ''</g>'' @ nl @ ''</svg>''"
  have "plain (''0 0 '' @ show_int a @ '' '' @ show_int b)" for a b
    by (intro plain_append plain_show_int) (simp_all add: plain_def)
  then have "plain svg" unfolding svg_def
    by (intro plain_tag) (auto simp: plain_def [of "''svg''"] plain_def [of "''xmlns''"]
      plain_def [of "''http://www.w3.org/2000/svg''"] plain_def [of "''width''"] plain_def [of "''height''"]
      plain_def [of "''viewBox''"] plain_def [of "''>''"])
  moreover have "plain rect" "plain g" "plain h" by (simp_all add: rect_def g_def h_def plain_def tag_def attr_def)
  moreover have "plain lines" unfolding lines_def using plain_noise_line by (intro plain_concat) auto
  moreover have "plain nl" "plain ''  ''" "plain ''</g>''" by (simp_all add: nl_def plain_def)
  ultimately have front: "plain front" unfolding front_def by (intro plain_append)
  have post: "\<not> starts_with post ''</text>''" "reveal post = []" by (simp_all add: post_def nl_def)
  have start: "\<not> starts_with (nodes @ post) ''</text>''"
    unfolding nodes_def using char_node_start post(1) by (cases "[0..<?n]") simp_all
  have "render_svg rnd answer config noise = front @ nodes @ post"
    unfolding render_svg_def Let_def front_def post_def nodes_def lines_def svg_def rect_def g_def h_def nl_def
    by (simp only: append_assoc)
  then have "reveal (render_svg rnd answer config noise) = reveal (nodes @ post)"
    by (simp only: reveal_plain [OF front start])
  also have "\<dots> = map (\<lambda>i. answer ! i) [0..<?n] @ reveal post"
    unfolding nodes_def by (rule reveal_nodes) (rule post(1))
  finally show ?thesis by (simp only: post(2) map_nth append_Nil2)
qed

text \<open>
  C11. The captcha does not need a human.  Whoever fetches the image of a challenge and reads the letters in front
  of the closing tags has the answer: typed in, it passes.  The noise lines, the rotation and the
  difficulty make no difference.
\<close>

theorem image_reveals_answer:
  fixes s :: "('b, 'x) captcha_db_scheme"
  assumes "s3_ok (ce_s3 E)" "0 < ce_maxAttempts E" "gd_assetId draw \<noteq> []" "ce_render E = render_svg"
    and "generate_asset E t cf d i draw s = (Inr (), s1)" "waiting (pool_key (ce_prefix E) (ct_code t) d) s = []"
    and "cap_find_template_by_code (ct_code t) s = Some t" "ct_status t = Tpl_Active"
    and "create_challenge_handler E cid now \<lparr>ci_context = ctx, ci_riskScore = risk, ci_difficulty = Some d,
        ci_templateCode = Some (ct_code t), ci_subject = subj\<rparr> s1 = (Inr rep, s2)"
    and "now < gd_now draw + 24 * 60 * 60 * 1000" "now' < now + ce_ttl E * 1000"
    and "\<forall>c\<in>set (sv_alphabet (validate_config (cf_configJson cf))). js_word (js_lower_char c) \<and> \<not> js_space c"
  shows "\<exists>image. fst (image_handler E now' cid s2) = Inr (Some image, Some ''image/svg+xml; charset=utf-8'')
    \<and> fst (verify_handler E aid now' cid (reveal image) meta s2) = Inr (True, 0)"
proof -
  let ?drawn = "gc_answer (generate_captcha (ce_render E) (gd_rnd draw) (cf_configJson cf) d)"
  have "fst (image_handler E now' cid s2) = Inr
      (Some (ce_render E (gd_rnd draw) ?drawn (validate_config (cf_configJson cf)) (captcha_noise d)),
       Some ''image/svg+xml; charset=utf-8'')
    \<and> fst (verify_handler E aid now' cid ([] @ ?drawn @ []) meta s2) = Inr (True, 0)"
    by (rule generated_challenge_passes [OF assms(1-3,5-12) refl refl]) simp_all
  then show ?thesis by (simp add: assms(4) reveal_render)
qed

section \<open>The property at a concrete input\<close>

definition demo_svg_env :: "(string \<times> string \<times> s3_object) list captcha_env" where
  "demo_svg_env = demo_env\<lparr>ce_render := render_svg\<rparr>"

definition demo_drawn :: "(string \<times> string \<times> s3_object) list captcha_db" where
  "demo_drawn = snd (generate_asset demo_svg_env demo_template demo_cfg Medium 0 demo_gen demo_store)"

definition demo_asked :: "(string \<times> string \<times> s3_object) list captcha_db" where
  "demo_asked = snd (create_challenge_handler demo_svg_env ''q1'' 2000 demo_ask demo_drawn)"

lemma demo_drawn_run: "generate_asset demo_svg_env demo_template demo_cfg Medium 0 demo_gen demo_store = (Inr (), demo_drawn)"
proof -
  have "fst (generate_asset demo_svg_env demo_template demo_cfg Medium 0 demo_gen demo_store) = Inr ()" by code_simp
  then show ?thesis by (metis demo_drawn_def prod.collapse)
qed

lemma demo_asked_run: "create_challenge_handler demo_svg_env ''q1'' 2000 demo_ask demo_drawn
  = (Inr \<lparr>cr_challengeId = ''q1'', cr_imageUrl = ''/api/v1/captcha/challenges/q1/image'', cr_expiresIn = 180\<rparr>, demo_asked)"
proof -
  have "fst (create_challenge_handler demo_svg_env ''q1'' 2000 demo_ask demo_drawn)
    = Inr \<lparr>cr_challengeId = ''q1'', cr_imageUrl = ''/api/v1/captcha/challenges/q1/image'', cr_expiresIn = 180\<rparr>" by code_simp
  then show ?thesis by (metis demo_asked_def prod.collapse)
qed

theorem image_reveals_answer_witness:
  "\<exists>image. fst (image_handler demo_svg_env 3000 ''q1'' demo_asked) = Inr (Some image, Some ''image/svg+xml; charset=utf-8'')
    \<and> fst (verify_handler demo_svg_env ''x3'' 3000 ''q1'' (reveal image) demo_meta demo_asked) = Inr (True, 0)"
proof -
  have "0 < ce_maxAttempts demo_svg_env" "gd_assetId demo_gen \<noteq> []" "ct_status demo_template = Tpl_Active"
    "2000 < gd_now demo_gen + 24 * 60 * 60 * 1000" "3000 < 2000 + ce_ttl demo_svg_env * 1000" "ce_render demo_svg_env = render_svg"
    by (simp_all add: demo_svg_env_def demo_env_def demo_gen_def demo_template_def)
  note basics = this
  have "waiting (pool_key (ce_prefix demo_svg_env) (ct_code demo_template) Medium) demo_store = []"
    and "cap_find_template_by_code (ct_code demo_template) demo_store = Some demo_template" by code_simp+
  note facts = this
  have abc: "\<forall>c\<in>set (sv_alphabet (validate_config (cf_configJson demo_cfg))). js_word (js_lower_char c) \<and> \<not> js_space c"
    by (simp add: demo_cfg_def validate_config_def default_alphabet_def js_word_def js_space_def js_upper_def
        js_lower_char_def Let_def)
  have ask: "create_challenge_handler demo_svg_env ''q1'' 2000 \<lparr>ci_context = Ctx_Login, ci_riskScore = None,
        ci_difficulty = Some Medium, ci_templateCode = Some (ct_code demo_template), ci_subject = None\<rparr> demo_drawn
      = (Inr \<lparr>cr_challengeId = ''q1'', cr_imageUrl = ''/api/v1/captcha/challenges/q1/image'', cr_expiresIn = 180\<rparr>, demo_asked)"
    using demo_asked_run by (simp add: demo_ask_def demo_template_def)
  have s3: "s3_ok (ce_s3 demo_svg_env)" by (simp add: demo_svg_env_def demo_env_def demo_s3_ok)
  show ?thesis by (rule image_reveals_answer [OF s3 basics(1,2,6) demo_drawn_run facts basics(3) ask basics(4,5) abc])
qed

end
