(* ===== verification/Template_Service.thy ===== *)
theory Template_Service
  imports Mail_Service Demo_World
begin

text \<open>
  The service of the mail templates (\<open>mail/infrastructure/services/template.service.ts\<close>) with the query
  handlers it dispatches to, over the table and the handlers of \<open>Mail_Service\<close>, and the contract it
  promises its clients: a finite map from ids to templates, in which a name is never given twice.  The
  locale \<open>simulation\<close> lifts a contract of one call to every sequence of calls.
\<close>

section \<open>Contracts of sequences of calls\<close>

fun replies :: "('c \<Rightarrow> 's \<Rightarrow> 'r \<times> 's) \<Rightarrow> 'c list \<Rightarrow> 's \<Rightarrow> 'r list \<times> 's" where
  "replies run [] s = ([], s)"
| "replies run (c # cs) s = (case run c s of (r, s') \<Rightarrow> (case replies run cs s' of (rs, s'') \<Rightarrow> (r # rs, s'')))"

fun admits :: "('c \<Rightarrow> 'a \<Rightarrow> 'r \<Rightarrow> 'a \<Rightarrow> bool) \<Rightarrow> 'a \<Rightarrow> 'c list \<Rightarrow> 'r list \<Rightarrow> 'a \<Rightarrow> bool" where
  "admits spec a [] [] b = (b = a)"
| "admits spec a (c # cs) (r # rs) b = (\<exists>a'. spec c a r a' \<and> admits spec a' cs rs b)"
| "admits spec a cs rs b = False"

locale simulation =
  fixes run :: "'c \<Rightarrow> 's \<Rightarrow> 'r \<times> 's"
    and view :: "'s \<Rightarrow> 'a"
    and inv :: "'s \<Rightarrow> bool"
    and spec :: "'c \<Rightarrow> 'a \<Rightarrow> 'r \<Rightarrow> 'a \<Rightarrow> bool"
  assumes run_inv: "inv s \<Longrightarrow> inv (snd (run c s))"
    and run_spec: "inv s \<Longrightarrow> spec c (view s) (fst (run c s)) (view (snd (run c s)))"
begin

lemma replies_inv: "inv s \<Longrightarrow> inv (snd (replies run cs s))"
proof (induction cs arbitrary: s)
  case (Cons c cs)
  then show ?case using run_inv [of s c] by (simp split: prod.split) (metis snd_conv)
qed simp

lemma replies_admitted:
  "inv s \<Longrightarrow> admits spec (view s) cs (fst (replies run cs s)) (view (snd (replies run cs s)))"
proof (induction cs arbitrary: s)
  case (Cons c cs)
  obtain r s' where r: "run c s = (r, s')" by (cases "run c s")
  obtain rs s'' where rs: "replies run cs s' = (rs, s'')" by (cases "replies run cs s'")
  have "inv s'" using run_inv [OF Cons.prems, of c] by (simp add: r)
  from Cons.IH [OF this] run_spec [OF Cons.prems, of c] show ?case by (auto simp: r rs)
qed simp

end

section \<open>The service\<close>

definition get_template_handler :: "ident \<Rightarrow> ('x app_db_scheme, exn, mail_template option) comp" where
  "get_template_handler i = fetch (template_repo_find_by_id i)"

definition get_template_by_name_handler :: "mail_template_type \<Rightarrow> ('x app_db_scheme, exn, mail_template option) comp" where
  "get_template_by_name_handler n = fetch (template_repo_find_by_name n)"

definition get_all_templates_handler :: "('x app_db_scheme, exn, mail_template list) comp" where
  "get_all_templates_handler = fetch template_repo_find_all"

definition get_active_templates_handler :: "('x app_db_scheme, exn, mail_template list) comp" where
  "get_active_templates_handler = fetch template_repo_find_active"

text \<open>A call carries the id that the database would draw and the clock it reads.\<close>

datatype template_call =
    Create_Template ident int mail_template_type string string "bool option"
  | Update_Template int ident template_update
  | Delete_Template int ident
  | Get_Template ident
  | Get_Template_By_Name mail_template_type
  | Get_All_Templates
  | Get_Active_Templates

datatype template_reply =
    Template_Id ident
  | Template_Void
  | Template_Found "mail_template option"
  | Template_List "mail_template list"

definition reply_with :: "('a \<Rightarrow> template_reply) \<Rightarrow> ('x app_db_scheme, exn, 'a) comp
    \<Rightarrow> ('x app_db_scheme, exn, template_reply) comp" where
  "reply_with f m = andThen m (\<lambda>x. ret (f x))"

fun template_service :: "template_call \<Rightarrow> ('x app_db_scheme, exn, template_reply) comp" where
  "template_service (Create_Template i now name subject content active) =
     reply_with Template_Id (create_template_handler i now name subject content active)"
| "template_service (Update_Template now i p) = reply_with Template_Id (update_template_handler now i p)"
| "template_service (Delete_Template now i) = reply_with (\<lambda>_. Template_Void) (delete_template_handler now i)"
| "template_service (Get_Template i) = reply_with Template_Found (get_template_handler i)"
| "template_service (Get_Template_By_Name n) = reply_with Template_Found (get_template_by_name_handler n)"
| "template_service Get_All_Templates = reply_with Template_List get_all_templates_handler"
| "template_service Get_Active_Templates = reply_with Template_List get_active_templates_handler"

section \<open>The contract\<close>

text \<open>The live templates by id; the ids and the names that were ever given stay taken.\<close>

record template_store =
  ts_live :: "ident \<Rightarrow> mail_template option"
  ts_ids :: "ident set"
  ts_names :: "mail_template_type set"

definition template_store_of :: "'x app_db_scheme \<Rightarrow> template_store" where
  "template_store_of d = \<lparr>ts_live = (\<lambda>i. template_repo_find_by_id i d),
     ts_ids = mt_id ` set (mail_templates d), ts_names = mt_name ` set (mail_templates d)\<rparr>"

definition new_template :: "ident \<Rightarrow> int \<Rightarrow> mail_template_type \<Rightarrow> string \<Rightarrow> string \<Rightarrow> bool option \<Rightarrow> mail_template" where
  "new_template i now name subject content active = \<lparr>te_id = i, te_name = name, te_subject = subject,
     te_content = Some content, te_isActive = coalesce active True, te_createdAt = now, te_updatedAt = now\<rparr>"

definition lists_templates :: "(mail_template \<Rightarrow> bool) \<Rightarrow> template_store \<Rightarrow> mail_template list \<Rightarrow> bool" where
  "lists_templates P S ts = (distinct (map te_id ts) \<and> (\<forall>t. t \<in> set ts \<longleftrightarrow> ts_live S (te_id t) = Some t \<and> P t))"

fun template_spec :: "template_call \<Rightarrow> template_store \<Rightarrow> exn + template_reply \<Rightarrow> template_store \<Rightarrow> bool" where
  "template_spec (Create_Template i now name subject content active) S r S' =
     (if name \<in> ts_names S \<or> i \<in> ts_ids S then r = Inl (Pg_Exn ''23505'') \<and> S' = S
      else r = Inr (Template_Id i)
        \<and> S' = \<lparr>ts_live = (ts_live S)(i \<mapsto> new_template i now name subject content active),
             ts_ids = insert i (ts_ids S), ts_names = insert name (ts_names S)\<rparr>)"
| "template_spec (Update_Template now i p) S r S' =
     (case ts_live S i of
        None \<Rightarrow> r = Inl (Js_Exn ''mail.templateNotFound'') \<and> S' = S
      | Some t \<Rightarrow> r = Inr (Template_Id i)
          \<and> S' = S\<lparr>ts_live := (ts_live S)(i \<mapsto> template_entity_update now p t)\<rparr>)"
| "template_spec (Delete_Template now i) S r S' =
     (r = Inr Template_Void \<and> S' = S\<lparr>ts_live := (ts_live S)(i := None)\<rparr>)"
| "template_spec (Get_Template i) S r S' = (r = Inr (Template_Found (ts_live S i)) \<and> S' = S)"
| "template_spec (Get_Template_By_Name n) S r S' =
     (S' = S \<and> (\<exists>x. r = Inr (Template_Found x)
        \<and> (\<forall>t. x = Some t \<longleftrightarrow> ts_live S (te_id t) = Some t \<and> te_name t = n)))"
| "template_spec Get_All_Templates S r S' =
     (S' = S \<and> (\<exists>ts. r = Inr (Template_List ts) \<and> lists_templates (\<lambda>_. True) S ts))"
| "template_spec Get_Active_Templates S r S' =
     (S' = S \<and> (\<exists>ts. r = Inr (Template_List ts) \<and> lists_templates te_isActive S ts))"

section \<open>The table keeps its keys\<close>

definition templates_ok :: "'x app_db_scheme \<Rightarrow> bool" where
  "templates_ok d = (distinct (map mt_id (mail_templates d)) \<and> distinct (map mt_name (mail_templates d))
     \<and> list_all (\<lambda>t. mt_isActive t \<noteq> None) (mail_templates d))"

definition live_template :: "mail_template_row \<Rightarrow> bool" where
  "live_template t = (mt_deletedAt t = None)"

lemma to_template_simps [simp]:
  "te_id (to_template t) = mt_id t" "te_name (to_template t) = mt_name t"
  "mt_isActive t \<noteq> None \<Longrightarrow> te_isActive (to_template t) \<longleftrightarrow> mt_isActive t = Some True"
  by (auto simp: to_template_def)

lemma update_service_run:
  "template_service (Update_Template now i p) d =
     (let d' = d\<lparr>mail_templates := update_rows (live_template_id i) (apply_template_update now p) (mail_templates d)\<rparr>
      in case template_repo_find_by_id i d' of None \<Rightarrow> (Inl (Js_Exn ''mail.templateNotFound''), d')
         | Some t \<Rightarrow> (Inr (Template_Id (te_id t)), d'))"
  by (simp add: reply_with_def update_template_handler_def template_repo_update_def comp_simps Let_def split: option.split)

lemma delete_service_run:
  "template_service (Delete_Template now i) d =
     (Inr Template_Void, d\<lparr>mail_templates := update_rows (\<lambda>t. mt_id t = i)
        (\<lambda>t. t\<lparr>mt_deletedAt := Some now, mt_updatedAt := now\<rparr>) (mail_templates d)\<rparr>)"
  by (simp add: reply_with_def delete_template_handler_def template_repo_delete_def comp_simps)

lemma create_service_run:
  "template_service (Create_Template i now name subject content active) d =
     (if some_row (\<lambda>t. mt_name t = name \<or> mt_id t = i) (mail_templates d) then (Inl (Pg_Exn ''23505''), d)
      else (Inr (Template_Id i), d\<lparr>mail_templates := mail_templates d @ [\<lparr>mt_id = i, mt_createdAt = now,
        mt_updatedAt = now, mt_deletedAt = None, mt_name = name, mt_subject = subject, mt_content = Some content,
        mt_isActive = Some (coalesce active True)\<rparr>]\<rparr>))"
  by (simp add: reply_with_def create_template_handler_def template_repo_create_def comp_simps Let_def to_template_def)

lemma query_service_run:
  "template_service (Get_Template i) d = (Inr (Template_Found (template_repo_find_by_id i d)), d)"
  "template_service (Get_Template_By_Name n) d = (Inr (Template_Found (template_repo_find_by_name n d)), d)"
  "template_service Get_All_Templates d = (Inr (Template_List (template_repo_find_all d)), d)"
  "template_service Get_Active_Templates d = (Inr (Template_List (template_repo_find_active d)), d)"
  by (simp_all add: reply_with_def comp_simps get_template_handler_def get_template_by_name_handler_def
    get_all_templates_handler_def get_active_templates_handler_def)

lemmas service_run = update_service_run delete_service_run create_service_run query_service_run

declare template_service.simps [simp del]

lemma templates_ok_update:
  assumes "templates_ok d" "\<And>t. mt_id (f t) = mt_id t" "\<And>t. mt_name (f t) = mt_name t"
    "\<And>t. mt_isActive t \<noteq> None \<Longrightarrow> mt_isActive (f t) \<noteq> None"
  shows "templates_ok (d\<lparr>mail_templates := update_rows P f (mail_templates d)\<rparr>)"
  using assms by (auto simp: templates_ok_def map_update_rows list_all_iff elim!: in_update_rowsE)

lemma service_keeps_ok:
  assumes "templates_ok d"
  shows "templates_ok (snd (template_service c d))"
proof (cases c)
  case (Create_Template i now name subject content active)
  then show ?thesis using assms by (auto simp: service_run templates_ok_def some_row_iff)
next
  case (Update_Template now i p)
  have "snd (template_service c d)
    = d\<lparr>mail_templates := update_rows (live_template_id i) (apply_template_update now p) (mail_templates d)\<rparr>"
    by (simp add: Update_Template service_run Let_def split: option.split)
  then show ?thesis
    using templates_ok_update [OF assms, of "apply_template_update now p" "live_template_id i"]
    by (simp add: apply_template_update_def split: option.split)
next
  case (Delete_Template now i)
  then show ?thesis
    using templates_ok_update [OF assms, of "\<lambda>t. t\<lparr>mt_deletedAt := Some now, mt_updatedAt := now\<rparr>" "\<lambda>t. mt_id t = i"]
    by (simp add: service_run)
qed (use assms in \<open>simp_all add: service_run\<close>)

section \<open>Every call meets the contract\<close>

lemma find_by_id_iff:
  assumes "templates_ok d"
  shows "template_repo_find_by_id (te_id t) d = Some t
    \<longleftrightarrow> (\<exists>row\<in>set (mail_templates d). live_template row \<and> t = to_template row)"
proof
  assume "template_repo_find_by_id (te_id t) d = Some t"
  then obtain row where "find_row (live_template_id (te_id t)) (mail_templates d) = Some row" "t = to_template row"
    by (auto simp: template_repo_find_by_id_def)
  then show "\<exists>row\<in>set (mail_templates d). live_template row \<and> t = to_template row"
    by (auto simp: live_template_def live_template_id_def dest!: find_row_SomeD)
next
  assume "\<exists>row\<in>set (mail_templates d). live_template row \<and> t = to_template row"
  then obtain row where row: "row \<in> set (mail_templates d)" "live_template row" "t = to_template row" by blast
  have "find_row (live_template_id (mt_id row)) (mail_templates d) = Some row"
    by (rule find_row_unique_key [of mt_id])
      (use assms row in \<open>auto simp: templates_ok_def live_template_def live_template_id_def\<close>)
  with row(3) show "template_repo_find_by_id (te_id t) d = Some t" by (simp add: template_repo_find_by_id_def)
qed

lemma find_by_name_iff:
  assumes "templates_ok d"
  shows "template_repo_find_by_name n d = Some t
    \<longleftrightarrow> template_repo_find_by_id (te_id t) d = Some t \<and> te_name t = n"
proof
  assume "template_repo_find_by_name n d = Some t"
  then obtain row where "find_row (live_template_name n) (mail_templates d) = Some row" "t = to_template row"
    by (auto simp: template_repo_find_by_name_def)
  then show "template_repo_find_by_id (te_id t) d = Some t \<and> te_name t = n"
    unfolding find_by_id_iff [OF assms] by (auto simp: live_template_def live_template_name_def dest!: find_row_SomeD)
next
  assume r: "template_repo_find_by_id (te_id t) d = Some t \<and> te_name t = n"
  then obtain row where row: "row \<in> set (mail_templates d)" "live_template row" "t = to_template row"
    by (auto simp: find_by_id_iff [OF assms])
  have "find_row (live_template_name n) (mail_templates d) = Some row"
    by (rule find_row_unique_key [of mt_name])
      (use assms row r in \<open>auto simp: templates_ok_def live_template_def live_template_name_def\<close>)
  with row(3) show "template_repo_find_by_name n d = Some t" by (simp add: template_repo_find_by_name_def)
qed

lemma lists_filter:
  assumes "templates_ok d" "\<And>row. row \<in> set (mail_templates d) \<Longrightarrow> live_template row \<Longrightarrow> Q row = P (to_template row)"
  shows "lists_templates P (template_store_of d)
    (map to_template (filter (\<lambda>row. Q row \<and> live_template row) (mail_templates d)))"
  unfolding lists_templates_def
proof (intro conjI allI)
  show "distinct (map te_id (map to_template (filter (\<lambda>row. Q row \<and> live_template row) (mail_templates d))))"
    using assms(1) by (simp add: comp_def templates_ok_def distinct_map_filter)
next
  fix t
  show "t \<in> set (map to_template (filter (\<lambda>row. Q row \<and> live_template row) (mail_templates d)))
    \<longleftrightarrow> ts_live (template_store_of d) (te_id t) = Some t \<and> P t"
    using assms(2) by (auto simp: template_store_of_def find_by_id_iff [OF assms(1)])
qed

lemma update_store:
  assumes keys: "\<And>t. mt_id (f t) = mt_id t" "\<And>t. mt_name (f t) = mt_name t"
  shows "template_store_of (d\<lparr>mail_templates := update_rows P f (mail_templates d)\<rparr>)
    = (template_store_of d)\<lparr>ts_live := (\<lambda>j. map_option to_template
        (find_row (live_template_id j) (update_rows P f (mail_templates d))))\<rparr>"
proof -
  have "mt_id ` set (update_rows P f (mail_templates d)) = mt_id ` set (mail_templates d)"
    using map_update_rows [of P mt_id f "mail_templates d", OF keys(1)] by (metis set_map)
  moreover have "mt_name ` set (update_rows P f (mail_templates d)) = mt_name ` set (mail_templates d)"
    using map_update_rows [of P mt_name f "mail_templates d", OF keys(2)] by (metis set_map)
  ultimately show ?thesis by (simp add: template_store_of_def template_repo_find_by_id_def)
qed

lemma to_template_update: "to_template (apply_template_update now p t) = template_entity_update now p (to_template t)"
  by (cases "tu_content p"; cases "tu_isActive p")
    (simp_all add: to_template_def apply_template_update_def template_entity_update_def)

lemma live_template_id_simps [simp]:
  "live_template_id j (apply_template_update now p t) = live_template_id j t"
  "\<not> live_template_id j (t\<lparr>mt_deletedAt := Some now, mt_updatedAt := now\<rparr>)"
  by (simp_all add: live_template_id_def apply_template_update_def)

lemma live_template_id_eq: "live_template_id j t \<Longrightarrow> mt_id t = j"
  by (simp add: live_template_id_def)

lemma live_after_update:
  "map_option to_template (find_row (live_template_id j) (update_rows (live_template_id i) (apply_template_update now p) rows))
   = (if j = i then map_option (template_entity_update now p) (map_option to_template (find_row (live_template_id i) rows))
      else map_option to_template (find_row (live_template_id j) rows))"
  by (induction rows) (auto simp: to_template_update dest: live_template_id_eq)

lemma live_after_delete:
  "map_option to_template (find_row (live_template_id j)
     (update_rows (\<lambda>t. mt_id t = i) (\<lambda>t. t\<lparr>mt_deletedAt := Some now, mt_updatedAt := now\<rparr>) rows))
   = (if j = i then None else map_option to_template (find_row (live_template_id j) rows))"
  by (induction rows) (auto dest: live_template_id_eq)

lemma update_meets_spec:
  "template_spec (Update_Template now i p) (template_store_of d) (fst (template_service (Update_Template now i p) d))
     (template_store_of (snd (template_service (Update_Template now i p) d)))"
proof -
  let ?rows = "update_rows (live_template_id i) (apply_template_update now p) (mail_templates d)"
  let ?d = "d\<lparr>mail_templates := ?rows\<rparr>" and ?S = "template_store_of d"
  let ?L = "template_repo_find_by_id i d"
  have live: "template_repo_find_by_id j ?d = (if j = i then map_option (template_entity_update now p) ?L
      else template_repo_find_by_id j d)" for j
    by (simp add: template_repo_find_by_id_def live_after_update)
  have store: "template_store_of ?d = ?S\<lparr>ts_live := (\<lambda>j. template_repo_find_by_id j ?d)\<rparr>"
    using update_store [of "apply_template_update now p" "live_template_id i" d]
    by (simp add: apply_template_update_def template_repo_find_by_id_def)
  have L: "ts_live ?S = (\<lambda>j. template_repo_find_by_id j d)" by (simp add: template_store_of_def)
  show ?thesis
  proof (cases ?L)
    case None
    then have "(\<lambda>j. template_repo_find_by_id j ?d) = ts_live ?S" by (auto simp: live L)
    then have "template_store_of ?d = ?S" using store by simp
    then show ?thesis using None by (simp add: service_run Let_def live L)
  next
    case (Some t)
    then have "te_id t = i" by (auto simp: template_repo_find_by_id_def live_template_id_def dest!: find_row_SomeD)
    then have "te_id (template_entity_update now p t) = i" by (simp add: template_entity_update_def)
    moreover have "(\<lambda>j. template_repo_find_by_id j ?d) = (ts_live ?S)(i \<mapsto> template_entity_update now p t)"
      using Some by (auto simp: live L)
    ultimately show ?thesis using Some store by (simp add: service_run Let_def live L)
  qed
qed

lemma delete_meets_spec:
  "template_spec (Delete_Template now i) (template_store_of d) (fst (template_service (Delete_Template now i) d))
     (template_store_of (snd (template_service (Delete_Template now i) d)))"
proof -
  let ?f = "\<lambda>t. t\<lparr>mt_deletedAt := Some now, mt_updatedAt := now\<rparr>"
  have "(\<lambda>j. map_option to_template (find_row (live_template_id j) (update_rows (\<lambda>t. mt_id t = i) ?f (mail_templates d))))
    = (ts_live (template_store_of d))(i := None)"
    by (auto simp: live_after_delete template_store_of_def template_repo_find_by_id_def)
  then show ?thesis using update_store [of ?f "\<lambda>t. mt_id t = i" d] by (simp add: service_run)
qed

lemma create_meets_spec:
  "template_spec (Create_Template i now n s c a) (template_store_of d) (fst (template_service (Create_Template i now n s c a) d))
     (template_store_of (snd (template_service (Create_Template i now n s c a) d)))"
proof (cases "some_row (\<lambda>t. mt_name t = n \<or> mt_id t = i) (mail_templates d)")
  case True
  then have "n \<in> ts_names (template_store_of d) \<or> i \<in> ts_ids (template_store_of d)"
    by (auto simp: template_store_of_def some_row_iff)
  with True show ?thesis by (simp add: service_run)
next
  case False
  then have fresh: "n \<notin> ts_names (template_store_of d)" "i \<notin> ts_ids (template_store_of d)"
    by (auto simp: template_store_of_def some_row_iff)
  have none: "find_row (live_template_id i) (mail_templates d) = None"
    using False by (auto simp: find_row_None some_row_iff live_template_id_def)
  let ?row = "\<lparr>mt_id = i, mt_createdAt = now, mt_updatedAt = now, mt_deletedAt = None, mt_name = n, mt_subject = s,
    mt_content = Some c, mt_isActive = Some (coalesce a True)\<rparr>"
  have "to_template ?row = new_template i now n s c a" by (simp add: to_template_def new_template_def)
  then have "map_option to_template (find_row (live_template_id j) (mail_templates d @ [?row]))
    = ((\<lambda>j. map_option to_template (find_row (live_template_id j) (mail_templates d)))(i \<mapsto> new_template i now n s c a)) j" for j
    using none by (auto simp: find_row_append live_template_id_def split: option.split)
  then have "template_store_of (d\<lparr>mail_templates := mail_templates d @ [?row]\<rparr>)
    = \<lparr>ts_live = (ts_live (template_store_of d))(i \<mapsto> new_template i now n s c a),
       ts_ids = insert i (ts_ids (template_store_of d)), ts_names = insert n (ts_names (template_store_of d))\<rparr>"
    by (simp add: template_store_of_def template_repo_find_by_id_def fun_eq_iff)
  with False fresh show ?thesis by (simp add: service_run)
qed

lemma service_meets_spec:
  assumes "templates_ok d"
  shows "template_spec c (template_store_of d) (fst (template_service c d)) (template_store_of (snd (template_service c d)))"
proof (cases c)
  case Get_All_Templates
  have "lists_templates (\<lambda>_. True) (template_store_of d) (template_repo_find_all d)"
    using lists_filter [OF assms, of "\<lambda>_. True" "\<lambda>_. True"] by (simp add: template_repo_find_all_def live_template_def)
  then show ?thesis by (simp add: Get_All_Templates service_run)
next
  case Get_Active_Templates
  have "lists_templates te_isActive (template_store_of d) (template_repo_find_active d)"
    using assms lists_filter [OF assms, of "\<lambda>t. mt_isActive t = Some True" te_isActive]
    by (simp add: template_repo_find_active_def live_template_def templates_ok_def list_all_iff)
  then show ?thesis by (simp add: Get_Active_Templates service_run)
next
  case (Get_Template_By_Name n)
  show ?thesis unfolding Get_Template_By_Name service_run template_spec.simps fst_conv snd_conv
    by (intro conjI exI [of _ "template_repo_find_by_name n d"] refl allI)
      (simp add: find_by_name_iff [OF assms] template_store_of_def)
qed (simp_all only: update_meets_spec delete_meets_spec create_meets_spec,
    simp add: service_run template_store_of_def)

interpretation template_store: simulation template_service template_store_of templates_ok template_spec
  by unfold_locales (rule service_keeps_ok, assumption, rule service_meets_spec)

text \<open>
  C19.  The template service is a finite map from ids to templates.  For every sequence of its calls, the replies
  and the state it leaves are those of the contract: a creation adds an entry unless the name or the id was ever
  given, also to a deleted template; an update changes exactly what the entity's own update changes and fails
  on an id that is not live; a deletion removes the entry; the lookup by name finds the one entry of that name;
  the lists have every live (active) entry once.
\<close>

theorem template_service_refines:
  assumes "templates_ok d"
  shows "admits template_spec (template_store_of d) calls (fst (replies template_service calls d))
      (template_store_of (snd (replies template_service calls d)))
    \<and> templates_ok (snd (replies template_service calls d))"
  using template_store.replies_admitted [OF assms] template_store.replies_inv [OF assms] by blast

definition demo_template_calls :: "template_call list" where
  "demo_template_calls =
    [Delete_Template 10 (mail_template_type_str Welcome), Create_Template ''t9'' 11 Welcome ''Hello'' ''Hi'' None,
     Update_Template 12 (mail_template_type_str Reset_Password) \<lparr>tu_subject = Some ''New'', tu_content = None, tu_isActive = Some False\<rparr>,
     Get_Active_Templates]"

theorem template_service_refines_witness:
  "admits template_spec (template_store_of demo_db) demo_template_calls
     (fst (replies template_service demo_template_calls demo_db))
     (template_store_of (snd (replies template_service demo_template_calls demo_db)))"
proof -
  have "templates_ok demo_db" by code_simp
  from template_service_refines [OF this] show ?thesis by blast
qed

end
