(* ===== verification/Gelf.thy ===== *)
theory Gelf
  imports Translation Byte_Codec
begin

text \<open>
  The log transport \<open>utils/pino-gelf.mts\<close>: the conversion of a pino record to a GELF message, the
  split of a long message into chunks and the datagrams it sends.  The record is the JSON object that
  pino writes, the sockets are the lists of bytes given to them, \<open>deflate\<close> of \<open>node:zlib\<close> is an
  argument.  The chunk loop may run for ever, so it is a partial function.
\<close>

record gelf_options =
  ge_host :: string
  ge_port :: int
  ge_protocol :: "string option"
  ge_environment :: "string option"
  ge_facility :: "string option"
  ge_hostname :: "string option"
  ge_compression :: "bool option"
  ge_maxChunkSize :: "int option"

section \<open>Conversion\<close>

definition level_map :: "(int \<times> int) list" where
  "level_map = [(10, 7), (20, 7), (30, 6), (40, 4), (50, 3), (60, 2)]"

text \<open>The value \<open>0\<close> would be falsy, but the table has none.\<close>

definition map_pino_level :: "json option \<Rightarrow> int" where
  "map_pino_level level = (case level of
       Some (J_Num n) \<Rightarrow> coalesce (map_of level_map n) 6
     | _ \<Rightarrow> 6)"

text \<open>\<open>a || b\<close> on values, and \<open>a?.k\<close>.\<close>

definition json_or :: "json option \<Rightarrow> json option \<Rightarrow> json option" where
  "json_or a b = (case a of Some j \<Rightarrow> (if json_truthy j then a else b) | None \<Rightarrow> b)"

definition chain :: "string \<Rightarrow> json option \<Rightarrow> json option" where
  "chain k j = (case j of Some (J_Obj obj) \<Rightarrow> get k obj | _ \<Rightarrow> None)"

text \<open>The property \<open>length\<close> of a value, and \<open>substring\<close>, which only strings have.\<close>

definition json_length :: "json \<Rightarrow> int option" where
  "json_length j = (case j of
       J_Str s \<Rightarrow> Some (int (length s))
     | J_Arr xs \<Rightarrow> Some (int (length xs))
     | J_Obj obj \<Rightarrow> (case get ''length'' obj of Some (J_Num n) \<Rightarrow> Some n | _ \<Rightarrow> None)
     | _ \<Rightarrow> None)"

definition shorten :: "nat \<Rightarrow> json \<Rightarrow> exn + json" where
  "shorten limit j = (case json_length j of
       Some n \<Rightarrow> (if n > int limit
         then (case j of J_Str s \<Rightarrow> Inr (J_Str (take limit s @ ''...'')) | _ \<Rightarrow> Inl (Js_Exn ''TypeError''))
         else Inr j)
     | None \<Rightarrow> Inr j)"

definition reserved_keys :: "string list" where
  "reserved_keys = [''time'', ''level'', ''msg'', ''message'', ''pid'', ''hostname'', ''req'', ''res'', ''context'']"

fun add_fields :: "(string \<times> json) list \<Rightarrow> (string \<times> json) list \<Rightarrow> (string \<times> json) list" where
  "add_fields [] m = m"
| "add_fields ((k, v) # log) m = add_fields log (if k \<in> set reserved_keys then m else set_key (CHR ''_'' # k) v m)"

definition log_message :: "(string \<times> json) list \<Rightarrow> json" where
  "log_message log = the (json_or (get ''msg'' log) (json_or (get ''message'' log) (Some (J_Str ''No message''))))"

definition log_body :: "(string \<times> json) list \<Rightarrow> json option" where
  "log_body log = (case get ''body'' log of
       Some j \<Rightarrow> (if j = J_Null then chain ''body'' (get ''req'' log) else Some j)
     | None \<Rightarrow> chain ''body'' (get ''req'' log))"

definition short_body :: "json option \<Rightarrow> exn + json option" where
  "short_body b = (case b of
       Some j \<Rightarrow> (if json_truthy j then (case shorten 1000 j of Inl e \<Rightarrow> Inl e | Inr x \<Rightarrow> Inr (Some x)) else Inr b)
     | None \<Rightarrow> Inr None)"

definition log_seconds :: "int \<Rightarrow> (string \<times> json) list \<Rightarrow> int" where
  "log_seconds now log = (case get ''time'' log of
       Some (J_Num t) \<Rightarrow> (if t \<noteq> 0 then t div 1000 else now div 1000) | _ \<Rightarrow> now div 1000)"

definition gelf_fields ::
    "int \<Rightarrow> string option \<Rightarrow> gelf_options \<Rightarrow> (string \<times> json) list \<Rightarrow> json \<Rightarrow> json option \<Rightarrow> (string \<times> json) list" where
  "gelf_fields now env_hostname opts log short body = (let req = get ''req'' log; res = get ''res'' log;
       headers = chain ''headers'' req in
     [(''version'', J_Str ''1.1''),
      (''host'', J_Str (coalesce (ge_hostname opts) (or_else env_hostname ''localhost''))),
      (''short_message'', short), (''full_message'', log_message log),
      (''timestamp'', J_Num (log_seconds now log)),
      (''level'', J_Num (map_pino_level (get ''level'' log))),
      (''facility'', J_Str (coalesce (ge_facility opts) ''backend''))]
     @ field ''_service'' (json_or (get ''service'' log) (Some (J_Str ''backend'')))
     @ [(''_environment'', J_Str (coalesce (ge_environment opts) ''development''))]
     @ field ''_pid'' (get ''pid'' log) @ field ''_hostname'' (get ''hostname'' log)
     @ field ''_context'' (get ''context'' log) @ field ''_requestId'' (chain ''id'' req)
     @ field ''_userId'' (get ''userId'' log) @ field ''_method'' (chain ''method'' req)
     @ field ''_url'' (chain ''url'' req) @ field ''_body'' body
     @ field ''_statusCode'' (json_or (get ''statusCode'' log) (chain ''statusCode'' res))
     @ field ''_responseTime'' (get ''responseTime'' log) @ field ''_headers'' headers
     @ field ''_headers_response'' (chain ''headers'' res) @ field ''_userAgent'' (chain ''user-agent'' headers)
     @ field ''_ip'' (json_or (chain ''x-real-ip'' headers)
         (json_or (chain ''x-forwarded-for'' headers) (chain ''remoteAddress'' req))))"

definition convert_to_gelf ::
    "int \<Rightarrow> string option \<Rightarrow> gelf_options \<Rightarrow> (string \<times> json) list \<Rightarrow> exn + (string \<times> json) list" where
  "convert_to_gelf now env_hostname opts log = (case shorten 100 (log_message log) of
       Inl e \<Rightarrow> Inl e
     | Inr short \<Rightarrow> (case short_body (log_body log) of
           Inl e \<Rightarrow> Inl e
         | Inr body \<Rightarrow> Inr (add_fields log (gelf_fields now env_hostname opts log short body))))"

section \<open>Chunks\<close>

text \<open>\<open>Buffer.subarray(i, j)\<close> for \<open>i\<close> not negative.\<close>

definition subarray :: "int \<Rightarrow> int \<Rightarrow> nat list \<Rightarrow> nat list" where
  "subarray i j buffer = (let k = (if j < 0 then j + int (length buffer) else j) in
     take (nat (k - i)) (drop (nat i) buffer))"

partial_function (option) chunks_from :: "nat list \<Rightarrow> int \<Rightarrow> int \<Rightarrow> nat list list option" where
  "chunks_from buffer width i = (if i < int (length buffer)
     then Option.bind (chunks_from buffer width (i + width)) (\<lambda>rest. Some (subarray i (i + width) buffer # rest))
     else Some [])"

definition prepare_multiple_chunks :: "nat list \<Rightarrow> int \<Rightarrow> nat list list option" where
  "prepare_multiple_chunks buffer maxChunkSize = chunks_from buffer maxChunkSize 0"

text \<open>\<open>Array.prototype.concat\<close> appends a \<open>Buffer\<close> as one element and \<open>join\<close> prints every element:
  numbers in decimal, buffers as UTF-8 text.\<close>

definition prepare_datagram :: "nat list \<Rightarrow> nat \<Rightarrow> nat \<Rightarrow> nat list \<Rightarrow> nat list" where
  "prepare_datagram message_id i len chunk = utf8_bytes (show_int 0x1e @ show_int 0x0f @ utf8_decode message_id
     @ show_int (int i) @ show_int (int len) @ utf8_decode chunk)"

definition prepare_datagrams :: "nat list \<Rightarrow> nat list list \<Rightarrow> nat list list" where
  "prepare_datagrams message_id chunks =
     map (\<lambda>i. prepare_datagram message_id i (length chunks) (chunks ! i)) [0..<length chunks]"

text \<open>What one record puts on the UDP socket: \<open>None\<close> when the chunk loop does not end.\<close>

definition udp_datagrams :: "(nat list \<Rightarrow> nat list) \<Rightarrow> nat list \<Rightarrow> gelf_options \<Rightarrow> string \<Rightarrow> nat list list option" where
  "udp_datagrams deflate message_id opts message = (let
     raw = utf8_bytes message;
     buffer = (if coalesce (ge_compression opts) True then deflate raw else raw);
     width = (if coalesce (ge_maxChunkSize opts) 0 = 0 then 8192 else the (ge_maxChunkSize opts))
   in if int (length buffer) > coalesce (ge_maxChunkSize opts) 8192
      then map_option (prepare_datagrams message_id) (prepare_multiple_chunks buffer width)
      else Some [buffer])"

definition tcp_bytes :: "string \<Rightarrow> nat list" where
  "tcp_bytes message = utf8_bytes message @ [0]"

definition transport_config :: "gelf_options \<Rightarrow> exn + string" where
  "transport_config opts = (if ge_host opts = [] \<or> ge_port opts = 0
     then Inl (Js_Exn ''GELF transport requires host and port configuration'')
     else let protocol = coalesce (ge_protocol opts) ''udp'' in
       if protocol = ''udp'' \<or> protocol = ''tcp'' then Inr protocol else Inl (Js_Exn ''Invalid protocol''))"

section \<open>Properties\<close>

lemma subarray_nonneg: "0 \<le> i \<Longrightarrow> 0 < width \<Longrightarrow> subarray i (i + width) buffer = take (nat width) (drop (nat i) buffer)"
  by (simp add: subarray_def)

text \<open>With a positive width the loop ends: the chunks are non-empty, at most \<open>width\<close> long, and together
  they are the rest of the buffer.\<close>

lemma chunks_from_ends:
  assumes "0 < width" "0 \<le> i"
  shows "\<exists>cs. chunks_from buffer width i = Some cs \<and> concat cs = drop (nat i) buffer
    \<and> (\<forall>c\<in>set cs. c \<noteq> [] \<and> int (length c) \<le> width)"
  using assms(2)
proof (induction "nat (int (length buffer) - i)" arbitrary: i rule: less_induct)
  case less
  show ?case
  proof (cases "i < int (length buffer)")
    case False
    then show ?thesis using less.prems by (simp add: chunks_from.simps [of buffer width i])
  next
    case True
    then have "nat (int (length buffer) - (i + width)) < nat (int (length buffer) - i)" using assms(1) by linarith
    from less.hyps [OF this] less.prems assms(1) obtain cs where cs: "chunks_from buffer width (i + width) = Some cs"
      "concat cs = drop (nat (i + width)) buffer" "\<forall>c\<in>set cs. c \<noteq> [] \<and> int (length c) \<le> width" by auto
    let ?c = "take (nat width) (drop (nat i) buffer)"
    have "?c \<noteq> []" "int (length ?c) \<le> width" using True less.prems assms(1) by auto
    moreover have "?c @ drop (nat (i + width)) buffer = drop (nat i) buffer"
      using append_take_drop_id [of "nat width" "drop (nat i) buffer"] less.prems assms(1)
      by (simp add: nat_add_distrib add.commute)
    ultimately show ?thesis
      using True cs less.prems assms(1) by (simp add: chunks_from.simps [of buffer width i] subarray_nonneg)
  qed
qed

lemma chunks_from_runs: "chunks_from buffer width i = Some cs \<Longrightarrow> i < int (length buffer) \<longrightarrow> 0 < width"
proof (erule chunks_from.raw_induct [where P = "\<lambda>buffer width i y. i < int (length buffer) \<longrightarrow> 0 < width", rotated], rule impI)
  fix rec buffer width i and cs :: "nat list list"
  assume IH: "\<And>buffer width i cs. rec buffer width i = Some cs \<Longrightarrow> i < int (length buffer) \<longrightarrow> 0 < width"
    and run: "(if i < int (length buffer) then Option.bind (rec buffer width (i + width))
      (\<lambda>rest. Some (subarray i (i + width) buffer # rest)) else Some []) = Some cs"
    and i: "i < int (length buffer)"
  from run i obtain rest where "rec buffer width (i + width) = Some rest" by (auto simp: bind_eq_Some_conv)
  from IH [OF this] i show "0 < width" by linarith
qed

text \<open>C39. The split of a long log message ends exactly when the chunk size is positive or there is nothing
  to split; then the chunks are non-empty, no longer than the chunk size, and their concatenation is
  the message.  A negative \<open>maxChunkSize\<close> makes the transport loop for ever on the first message.\<close>

theorem chunking:
  "case prepare_multiple_chunks buffer width of
     Some cs \<Rightarrow> (buffer = [] \<or> 0 < width) \<and> concat cs = buffer \<and> (\<forall>c\<in>set cs. c \<noteq> [] \<and> int (length c) \<le> width)
   | None \<Rightarrow> buffer \<noteq> [] \<and> width \<le> 0"
proof (cases "0 < width")
  case True
  then show ?thesis using chunks_from_ends [of width 0 buffer] by (auto simp: prepare_multiple_chunks_def)
next
  case False
  show ?thesis
  proof (cases "prepare_multiple_chunks buffer width")
    case (Some cs)
    then have "buffer = []" using False chunks_from_runs [of buffer width 0 cs] by (auto simp: prepare_multiple_chunks_def)
    then show ?thesis by (simp add: prepare_multiple_chunks_def chunks_from.simps)
  next
    case None
    then show ?thesis using False by (auto simp: prepare_multiple_chunks_def chunks_from.simps)
  qed
qed

theorem chunking_witness:
  "\<exists>cs. prepare_multiple_chunks [1, 2, 3, 4, 5] 2 = Some cs \<and> concat cs = [1, 2, 3, 4, 5 :: nat]"
  using chunking [of "[1, 2, 3, 4, 5]" 2] by (auto split: option.splits)

lemma utf8_bytes_append: "utf8_bytes (s @ t) = utf8_bytes s @ utf8_bytes t"
  by (simp add: utf8_bytes_def)

lemma show_magic: "show_int 0x1e = ''30''" "show_int 0x0f = ''15''"
  by code_simp+

text \<open>A GELF chunk: the two magic bytes, the message id, the number and the count, then the data.\<close>

definition gelf_chunk :: "nat list \<Rightarrow> nat \<Rightarrow> nat \<Rightarrow> nat list \<Rightarrow> nat list" where
  "gelf_chunk message_id i len chunk = [0x1e, 0x0f] @ message_id @ [i, len] @ chunk"

lemma datagram_prefix: "take 4 (prepare_datagram message_id i len chunk) = [51, 48, 49, 53]"
  by (simp add: prepare_datagram_def show_magic utf8_bytes_append) (simp add: utf8_bytes_def utf8_char_def)

text \<open>What the transport sends over UDP: a message that fits is one datagram that inflates to it; a
  longer one leaves as datagrams that all begin with the characters \<open>3015\<close>, the decimal digits of the magic
  bytes, so none of them is a GELF chunk and no receiver can put the message together.\<close>

theorem udp_transport:
  assumes "\<And>bs. inflate (deflate bs) = bs" "coalesce (ge_compression opts) True"
  shows "case udp_datagrams deflate message_id opts message of
     None \<Rightarrow> \<exists>n < 0. ge_maxChunkSize opts = Some n
   | Some ds \<Rightarrow>
       if int (length (deflate (utf8_bytes message))) \<le> coalesce (ge_maxChunkSize opts) 8192
       then map inflate ds = [utf8_bytes message]
       else \<forall>d\<in>set ds. take 4 d = [51, 48, 49, 53] \<and> (\<forall>i len chunk. d \<noteq> gelf_chunk message_id i len chunk)"
proof -
  let ?buffer = "deflate (utf8_bytes message)"
  let ?width = "if coalesce (ge_maxChunkSize opts) 0 = 0 then 8192 else the (ge_maxChunkSize opts)"
  have run: "udp_datagrams deflate message_id opts message = (if int (length ?buffer) > coalesce (ge_maxChunkSize opts) 8192
      then map_option (prepare_datagrams message_id) (prepare_multiple_chunks ?buffer ?width) else Some [?buffer])"
    using assms(2) by (simp add: udp_datagrams_def Let_def)
  have magic: "take 4 d = [51, 48, 49, 53] \<and> (\<forall>i len chunk. d \<noteq> gelf_chunk message_id i len chunk)"
    if "d \<in> set (prepare_datagrams message_id cs)" for d cs
  proof -
    from that obtain i n c where d: "d = prepare_datagram message_id i n c" by (auto simp: prepare_datagrams_def)
    have "take 1 (take 4 d) = [51]" by (simp only: d datagram_prefix) simp
    then have "take 1 d \<noteq> [0x1e]" by simp
    then show ?thesis by (auto simp: d datagram_prefix gelf_chunk_def)
  qed
  show ?thesis
  proof (cases "int (length ?buffer) > coalesce (ge_maxChunkSize opts) 8192")
    case False
    then show ?thesis using assms(1) by (simp add: run)
  next
    case True
    show ?thesis
    proof (cases "prepare_multiple_chunks ?buffer ?width")
      case None
      with chunking [of ?buffer ?width] have "?width \<le> 0" by simp
      then have "\<exists>n < 0. ge_maxChunkSize opts = Some n"
        by (cases "ge_maxChunkSize opts") (auto split: if_splits)
      with None True show ?thesis by (simp add: run)
    next
      case (Some cs)
      with True magic show ?thesis by (simp add: run)
    qed
  qed
qed

theorem udp_transport_witness:
  "case udp_datagrams (\<lambda>bs. bs) [1, 2, 3, 4, 5, 6, 7, 8] \<lparr>ge_host = ''graylog'', ge_port = 12201, ge_protocol = None,
      ge_environment = None, ge_facility = None, ge_hostname = None, ge_compression = None, ge_maxChunkSize = Some 4\<rparr> ''message'' of
     None \<Rightarrow> False | Some ds \<Rightarrow> \<forall>d\<in>set ds. take 4 d = [51, 48, 49, 53]"
proof -
  let ?o = "\<lparr>ge_host = ''graylog'', ge_port = 12201, ge_protocol = None,
      ge_environment = None, ge_facility = None, ge_hostname = None, ge_compression = None, ge_maxChunkSize = Some 4\<rparr>"
  have "coalesce (ge_compression ?o) True" "(\<lambda>bs. bs) ((\<lambda>bs. bs) bs) = bs" for bs :: "nat list" by simp_all
  from udp_transport [OF this(2) this(1), where message_id = "[1, 2, 3, 4, 5, 6, 7, 8]" and message = "''message''"]
  have *: "case udp_datagrams (\<lambda>bs. bs) [1, 2, 3, 4, 5, 6, 7, 8] ?o ''message'' of
     None \<Rightarrow> \<exists>n < 0. ge_maxChunkSize ?o = Some n
   | Some ds \<Rightarrow>
       if int (length (utf8_bytes ''message'')) \<le> coalesce (ge_maxChunkSize ?o) 8192
       then map (\<lambda>bs. bs) ds = [utf8_bytes ''message'']
       else \<forall>d\<in>set ds. take 4 d = [51, 48, 49, 53] \<and> (\<forall>i len chunk. d \<noteq> gelf_chunk [1, 2, 3, 4, 5, 6, 7, 8] i len chunk)" .
  have "int (length (utf8_bytes ''message'')) = 7" by code_simp
  with * show ?thesis by (auto split: option.splits)
qed

section \<open>The message\<close>

lemma get_None_iff: "get k obj = None \<longleftrightarrow> k \<notin> fst ` set obj"
  by (simp add: get_def map_of_eq_None_iff)

lemma get_set_key: "get k' (set_key k v obj) = (if k' = k then Some v else get k' obj)"
proof -
  have "get k' (map (\<lambda>(a, b). (a, if a = k then v else b)) obj)
      = (if k' = k then map_option (\<lambda>_. v) (get k obj) else get k' obj)"
    by (induction obj) auto
  then show ?thesis
    using get_None_iff [of k obj]
    by (cases "k \<in> fst ` set obj"; cases "get k obj") (simp_all add: set_key_def split: option.split)
qed

lemma get_add_fields:
  "distinct (map fst log) \<Longrightarrow> get key (add_fields log m) =
     (case key of c # k \<Rightarrow> (if c = CHR ''_'' \<and> k \<notin> set reserved_keys \<and> get k log \<noteq> None then get k log else get key m)
      | [] \<Rightarrow> get key m)"
proof (induction log arbitrary: m)
  case (Cons x log)
  obtain a v where x: "x = (a, v)" by (cases x)
  with Cons.prems have "get a log = None" by (simp add: get_None_iff)
  with Cons x show ?case by (auto simp: get_set_key split: list.split)
qed (simp split: list.split)

lemma map_pino_level_range: "map_pino_level l \<in> {2, 3, 4, 6, 7}"
  by (auto simp: map_pino_level_def level_map_def split: option.split json.split)

lemma map_pino_level_severity:
  "map_of level_map m = Some a \<Longrightarrow> map_of level_map n = Some b \<Longrightarrow> m \<le> n \<Longrightarrow> b \<le> a"
  by (auto simp: level_map_def split: if_splits)

lemma shorten_length: "shorten limit j = Inr (J_Str s) \<Longrightarrow> length s \<le> limit + 3"
  by (auto simp: shorten_def json_length_def split: json.splits if_splits option.splits)

text \<open>A converted record has a GELF level between 2 and 7 that does not fall with the severity, a short
  message of at most 103 characters beside the full one, and every property of the record beyond the
  reserved ones under its name with an underscore, with the record's own value: a \<open>body\<close> of the record
  replaces the shortened \<open>_body\<close>.\<close>

theorem gelf_message:
  assumes "distinct (map fst log)" "convert_to_gelf now env_hostname opts log = Inr m"
  shows "(\<forall>k v. (k, v) \<in> set log \<and> k \<notin> set reserved_keys \<longrightarrow> get (CHR ''_'' # k) m = Some v)
    \<and> (\<exists>l \<in> {2, 3, 4, 6, 7}. get ''level'' m = Some (J_Num l))
    \<and> get ''full_message'' m = Some (log_message log)
    \<and> (\<forall>s. get ''short_message'' m = Some (J_Str s) \<longrightarrow> length s \<le> 103)"
proof -
  from assms(2) obtain short body where short: "shorten 100 (log_message log) = Inr short"
    and m: "m = add_fields log (gelf_fields now env_hostname opts log short body)"
    by (auto simp: convert_to_gelf_def split: sum.splits)
  have fixed: "get ''level'' m = Some (J_Num (map_pino_level (get ''level'' log)))"
    "get ''full_message'' m = Some (log_message log)" "get ''short_message'' m = Some short"
    using assms(1) by (simp_all add: m get_add_fields) (simp_all add: gelf_fields_def Let_def)
  have "get (CHR ''_'' # k) m = Some v" if "(k, v) \<in> set log" "k \<notin> set reserved_keys" for k v
    proof -
    have "get k log = Some v" using that(1) assms(1) by (simp add: get_def)
    with that(2) assms(1) show ?thesis by (simp add: m get_add_fields)
  qed
  moreover have "length s \<le> 103" if "get ''short_message'' m = Some (J_Str s)" for s
    using that fixed(3) short shorten_length [of 100 "log_message log" s] by simp
  ultimately show ?thesis using fixed map_pino_level_range by blast
qed

theorem gelf_message_witness:
  "\<exists>m. convert_to_gelf 0 None \<lparr>ge_host = ''graylog'', ge_port = 12201, ge_protocol = None,
      ge_environment = None, ge_facility = None, ge_hostname = None, ge_compression = None, ge_maxChunkSize = None\<rparr>
      [(''level'', J_Num 50), (''msg'', J_Str ''failed''), (''body'', J_Str ''b''), (''userId'', J_Str ''u1'')] = Inr m
    \<and> get ''_body'' m = Some (J_Str ''b'') \<and> get ''_userId'' m = Some (J_Str ''u1'')"
proof -
  let ?o = "\<lparr>ge_host = ''graylog'', ge_port = 12201, ge_protocol = None,
      ge_environment = None, ge_facility = None, ge_hostname = None, ge_compression = None, ge_maxChunkSize = None\<rparr>"
  let ?log = "[(''level'', J_Num 50), (''msg'', J_Str ''failed''), (''body'', J_Str ''b''), (''userId'', J_Str ''u1'')]"
  have "\<not> isl (convert_to_gelf 0 None ?o ?log)" by code_simp
  then obtain m where m: "convert_to_gelf 0 None ?o ?log = Inr m" by (metis sum.collapse(2))
  have "distinct (map fst ?log)" by simp
  from gelf_message [OF this m] have "\<forall>k v. (k, v) \<in> set ?log \<and> k \<notin> set reserved_keys \<longrightarrow> get (CHR ''_'' # k) m = Some v"
    by blast
  then have "get ''_body'' m = Some (J_Str ''b'')" "get ''_userId'' m = Some (J_Str ''u1'')"
    by (simp_all add: reserved_keys_def)
  with m show ?thesis by blast
qed

end
