(* ===== verification/Bootstrap.thy ===== *)
theory Bootstrap
  imports Gelf
begin

text \<open>
  How the programs start: the YAML configuration with its environment substitution
  (\<open>libs/common/configuration.ts\<close>), what \<open>main.ts\<close> decides at the edge of every request - the request
  id, the Basic authentication of the API documentation, the origins and the content policy - and the
  option factories of \<open>options/\<close>.  The environment, the files and the YAML parser are arguments.
\<close>

section \<open>Environment substitution\<close>

type_synonym environment = "string \<Rightarrow> string option"

text \<open>The class \<open>[A-Z0-9_]\<close> under the flag \<open>i\<close>.\<close>

definition env_char :: "char \<Rightarrow> bool" where
  "env_char c = (is_lower c \<or> is_upper c
     \<or> is_decimal c \<or> c = CHR ''_'')"

datatype env_operator = No_Operator | Or_Default string | Or_Error string

definition env_value :: "environment \<Rightarrow> string \<Rightarrow> env_operator \<Rightarrow> exn + string" where
  "env_value env name oper = (if truthy (env name) then Inr (the (env name))
     else (case oper of
         Or_Default v \<Rightarrow> Inr v
       | Or_Error v \<Rightarrow> Inl (Js_Exn (if v \<noteq> [] then v
           else ''Required environment variable '' @ name @ '' is not set''))
       | No_Operator \<Rightarrow> Inr []))"

text \<open>The rest of the pattern after the name: the closing brace, or an operator and everything up to the
  next closing brace.  No backtracking is needed: neither a colon nor a brace is a name character.\<close>

definition env_tail :: "string \<Rightarrow> (env_operator \<times> string) option" where
  "env_tail s = (case s of
       c # rest \<Rightarrow>
         (if c = CHR ''}'' then Some (No_Operator, rest)
          else if starts_with s '':-'' \<or> starts_with s '':?''
          then (let v = takeWhile (\<lambda>c. c \<noteq> CHR ''}'') (drop 2 s); after = dropWhile (\<lambda>c. c \<noteq> CHR ''}'') (drop 2 s) in
            if after = [] then None
            else Some (if starts_with s '':-'' then Or_Default v else Or_Error v, tl after))
          else None)
     | [] \<Rightarrow> None)"

definition env_reference :: "string \<Rightarrow> (string \<times> env_operator \<times> string) option" where
  "env_reference s = (if starts_with s ''${''
     then let name = takeWhile env_char (drop 2 s) in
       if name = [] then None
       else map_option (\<lambda>(oper, rest). (name, oper, rest)) (env_tail (dropWhile env_char (drop 2 s)))
     else None)"

lemma env_tail_shorter:
  assumes "env_tail s = Some (oper, rest)"
  shows "length rest < length s"
proof -
  obtain c cs where s: "s = c # cs" using assms by (cases s) (simp_all add: env_tail_def)
  let ?after = "dropWhile (\<lambda>c. c \<noteq> CHR ''}'') (drop 2 s)"
  have "rest = cs \<or> rest = tl ?after \<and> ?after \<noteq> []"
    using assms by (auto simp: env_tail_def s Let_def split: if_splits)
  then show ?thesis
  proof
    assume "rest = tl ?after \<and> ?after \<noteq> []"
    moreover have "length ?after \<le> length (drop 2 s)" by (rule length_dropWhile_le)
    ultimately show ?thesis by (cases ?after) (simp_all add: s)
  qed (simp add: s)
qed

lemma env_reference_shorter: "env_reference s = Some (name, oper, rest) \<Longrightarrow> length rest < length s"
proof -
  assume "env_reference s = Some (name, oper, rest)"
  then have "env_tail (dropWhile env_char (drop 2 s)) = Some (oper, rest)"
    by (auto simp: env_reference_def Let_def split: if_splits)
  then have "length rest < length (dropWhile env_char (drop 2 s))" by (rule env_tail_shorter)
  also have "\<dots> \<le> length s" by (metis diff_le_self le_trans length_drop length_dropWhile_le)
  finally show ?thesis .
qed

text \<open>\<open>String.replace\<close> with the global pattern: the text that a variable brings in is not read again.\<close>

function substitute_env :: "environment \<Rightarrow> string \<Rightarrow> exn + string" where
  "substitute_env env s = (case s of
       [] \<Rightarrow> Inr []
     | c # cs \<Rightarrow> (case env_reference s of
           Some (name, oper, rest) \<Rightarrow> (case env_value env name oper of
               Inl e \<Rightarrow> Inl e
             | Inr v \<Rightarrow> (case substitute_env env rest of Inl e \<Rightarrow> Inl e | Inr t \<Rightarrow> Inr (v @ t)))
         | None \<Rightarrow> (case substitute_env env cs of Inl e \<Rightarrow> Inl e | Inr t \<Rightarrow> Inr (c # t))))"
  by pat_completeness auto
termination substitute_env
  by (relation "measure (length \<circ> snd)") (auto dest: env_reference_shorter)

declare substitute_env.simps [simp del]

record file_system =
  fs_exists :: "string \<Rightarrow> bool"
  fs_read :: "string \<Rightarrow> string"
  fs_resolve :: "string \<Rightarrow> string"

definition default_config_filename :: "environment \<Rightarrow> string" where
  "default_config_filename env = (if env ''NODE_ENV'' = Some ''test'' then ''config.test.yaml'' else ''config.yaml'')"

text \<open>\<open>yaml\<close> is \<open>js-yaml\<close>'s \<open>load\<close>; an empty document is \<open>undefined\<close>.\<close>

definition load_configuration :: "environment \<Rightarrow> file_system \<Rightarrow> (string \<Rightarrow> exn + json option) \<Rightarrow> exn + json" where
  "load_configuration env fs yaml = (let path = fs_resolve fs (or_else (env ''CONFIG_FILE'') (default_config_filename env)) in
     if \<not> fs_exists fs path then Inl (Js_Exn (''Configuration file not found: '' @ path))
     else (case substitute_env env (fs_read fs path) of
         Inl e \<Rightarrow> Inl e
       | Inr txt \<Rightarrow> (case yaml txt of
             Inl e \<Rightarrow> Inl e
           | Inr (Some j) \<Rightarrow> Inr (if json_truthy j then j else J_Obj [])
           | Inr None \<Rightarrow> Inr (J_Obj []))))"

section \<open>Request ids\<close>

definition request_id_char :: "char \<Rightarrow> bool" where
  "request_id_char c = (is_upper c \<or> is_lower c
     \<or> is_decimal c \<or> c \<in> set ''._:-'')"

definition request_id_pattern :: "string \<Rightarrow> bool" where
  "request_id_pattern s = (1 \<le> length s \<and> length s \<le> 128 \<and> list_all request_id_char s)"

definition gen_req_id :: "string \<Rightarrow> header_value option \<Rightarrow> string" where
  "gen_req_id uuid header = (case header_first header of
       Some candidate \<Rightarrow> (if request_id_pattern candidate then candidate else uuid)
     | None \<Rightarrow> uuid)"

section \<open>The API documentation\<close>

definition timing_safe_equal :: "nat list \<Rightarrow> nat list \<Rightarrow> bool" where
  "timing_safe_equal a b = (a = b)"

text \<open>\<open>True\<close> lets the request pass, \<open>False\<close> answers 401 with the challenge.\<close>

definition basic_credentials :: "string \<Rightarrow> (string \<times> string) option" where
  "basic_credentials header = (if starts_with header ''Basic ''
     then let decoded = utf8_decode (b64_decode (drop 6 header)) in
       if CHR '':'' \<in> set decoded
       then Some (takeWhile (\<lambda>c. c \<noteq> CHR '':'') decoded, tl (dropWhile (\<lambda>c. c \<noteq> CHR '':'') decoded))
       else None
     else None)"

definition docs_hook :: "string \<Rightarrow> string \<Rightarrow> string \<Rightarrow> string option \<Rightarrow> bool" where
  "docs_hook docs_user docs_pass url authorization = (if \<not> starts_with url ''/api/docs'' then True
     else (case basic_credentials (coalesce authorization []) of
         Some (user, pass) \<Rightarrow>
           length (utf8_bytes user) = length (utf8_bytes docs_user)
           \<and> length (utf8_bytes pass) = length (utf8_bytes docs_pass)
           \<and> timing_safe_equal (utf8_bytes user) (utf8_bytes docs_user)
           \<and> timing_safe_equal (utf8_bytes pass) (utf8_bytes docs_pass)
       | None \<Rightarrow> False))"

definition docs_guarded :: "bool option \<Rightarrow> string option \<Rightarrow> string option \<Rightarrow> string \<Rightarrow> string option \<Rightarrow> bool" where
  "docs_guarded enabled docs_user docs_pass url authorization =
     (if coalesce enabled True \<and> truthy docs_user \<and> truthy docs_pass
      then docs_hook (the docs_user) (the docs_pass) url authorization else True)"

section \<open>Origins and the content policy\<close>

definition vite_origin :: string where
  "vite_origin = ''http://localhost:5173''"

definition allowed_origins :: "string \<Rightarrow> string \<Rightarrow> string list" where
  "allowed_origins environ host_origin = [host_origin] @ (if environ \<noteq> ''production'' then [vite_origin] else [])"

record content_policy =
  cp_defaultSrc :: "string list"
  cp_styleSrc :: "string list"
  cp_fontSrc :: "string list"
  cp_imgSrc :: "string list"
  cp_scriptSrc :: "string list"

definition quoted :: "string \<Rightarrow> string" where
  "quoted s = [CHR 0x27] @ s @ [CHR 0x27]"

definition content_policy_of :: "string \<Rightarrow> string \<Rightarrow> content_policy" where
  "content_policy_of environ host_origin = \<lparr>
     cp_defaultSrc = [quoted ''self''] @ allowed_origins environ host_origin
       @ (if environ \<noteq> ''production'' then [vite_origin] else []),
     cp_styleSrc = [quoted ''self'', quoted ''unsafe-inline''],
     cp_fontSrc = [quoted ''self'', ''data:''], cp_imgSrc = [quoted ''self'', ''data:''],
     cp_scriptSrc = [quoted ''self'']
       @ (if environ \<noteq> ''production'' then [quoted ''unsafe-inline'', quoted ''unsafe-eval''] else [])\<rparr>"

section \<open>Option factories\<close>

definition redis_database :: "string \<Rightarrow> int" where
  "redis_database environ = (if environ = ''development'' then 0 else if environ = ''production'' then 1 else 2)"

definition contains :: "string \<Rightarrow> string \<Rightarrow> bool" where
  "contains s p = list_ex (\<lambda>i. starts_with (drop i s) p) [0..<Suc (length s)]"

definition s3_endpoint :: "string \<Rightarrow> exn + string" where
  "s3_endpoint endpoint = (if contains endpoint ''http://'' \<or> contains endpoint ''https://''
     then Inr endpoint else Inl (Js_Exn ''s3.endpointInvalid''))"

record throttler =
  th_ttl :: int
  th_limit :: int

definition throttler_options :: "int option \<Rightarrow> int option \<Rightarrow> throttler" where
  "throttler_options ttl limit = \<lparr>th_ttl = coalesce ttl 60000, th_limit = coalesce limit 100\<rparr>"

text \<open>A target of pino: the pretty printer and the file at the configured level, the GELF transport and
  Elasticsearch at \<open>trace\<close>.\<close>

datatype log_target =
    Pretty_Target string bool
  | File_Target string string
  | Gelf_Target gelf_options
  | Elastic_Target string

record log_config =
  lg_level :: string
  lg_colorize :: "bool option"
  lg_fileEnabled :: "bool option"
  lg_filePath :: "string option"
  lg_graylogEnabled :: "bool option"
  lg_graylogHost :: "string option"
  lg_graylogPort :: "int option"
  lg_protocol :: "string option"
  lg_facility :: "string option"
  lg_hostname :: "string option"
  lg_environment :: "string option"
  lg_compression :: "bool option"
  lg_maxChunkSize :: "int option"
  lg_kibanaHost :: "string option"

definition gelf_target :: "environment \<Rightarrow> log_config \<Rightarrow> gelf_options" where
  "gelf_target env c = \<lparr>ge_host = the (lg_graylogHost c), ge_port = the (lg_graylogPort c),
     ge_protocol = Some (coalesce (lg_protocol c) ''udp''),
     ge_environment = Some (coalesce (lg_environment c) ''development''),
     ge_facility = Some (coalesce (lg_facility c) ''backend''),
     ge_hostname = Some (coalesce (lg_hostname c) (or_else (env ''HOSTNAME'') ''localhost'')),
     ge_compression = Some (coalesce (lg_compression c) True),
     ge_maxChunkSize = Some (coalesce (lg_maxChunkSize c) 8192)\<rparr>"

definition log_targets :: "environment \<Rightarrow> log_config \<Rightarrow> log_target list" where
  "log_targets env c = (let testing = (env ''NODE_ENV'' = Some ''test'') in
     [Pretty_Target (lg_level c) (coalesce (lg_colorize c) True)]
     @ (if coalesce (lg_fileEnabled c) False \<and> truthy (lg_filePath c) \<and> \<not> testing
        then [File_Target (lg_level c) (the (lg_filePath c))] else [])
     @ (if coalesce (lg_graylogEnabled c) True \<and> truthy (lg_graylogHost c)
          \<and> coalesce (lg_graylogPort c) 0 \<noteq> 0 \<and> \<not> testing
        then [Gelf_Target (gelf_target env c)] else [])
     @ (if truthy (lg_kibanaHost c) then [Elastic_Target (the (lg_kibanaHost c))] else []))"

definition grpc_url :: "int option \<Rightarrow> string" where
  "grpc_url port = ''0.0.0.0:'' @ show_int (coalesce port 50051)"

section \<open>Health\<close>

datatype health_result = Up string | Down string string

text \<open>\<open>failure\<close> is what the query \<open>select 1\<close> throws: the message of an \<open>Error\<close>, or another value.\<close>

definition ping_check :: "string \<Rightarrow> string option option \<Rightarrow> health_result" where
  "ping_check key failure = (case failure of
       None \<Rightarrow> Up key
     | Some m \<Rightarrow> Down key (coalesce m ''Database unavailable''))"

end
