(* ===== verification/Server_Settings.thy ===== *)
theory Server_Settings
  imports Bootstrap Backend_Auth
begin

text \<open>
  What \<open>main.ts\<close>, the option factories, the health controller and the request logger hand to the libraries:
  the limits of the server, the cross-origin options, the prefix of the routes, the redacted paths of the log, the
  connection of the mailer, of the database and of Redis, the checks behind the health routes, the record that
  is logged for a request, and what the GELF transport does with its sockets.  A value of the configuration
  that is not set is \<open>None\<close>; one that \<open>getOrThrow\<close> reads is an argument.
\<close>

section \<open>The server\<close>

record server_limits =
  sl_trustProxy :: bool
  sl_requestTimeout :: int
  sl_bodyLimit :: int

definition server_limits_of :: server_limits where
  "server_limits_of = \<lparr>sl_trustProxy = True, sl_requestTimeout = 300000, sl_bodyLimit = 1024 * 1024 * 50\<rparr>"

record multipart_limits =
  mu_fileSize :: int
  mu_files :: int
  mu_fields :: int
  mu_fieldSize :: int

definition multipart_limits_of :: multipart_limits where
  "multipart_limits_of = \<lparr>mu_fileSize = 1024 * 1024 * 50, mu_files = 10, mu_fields = 20, mu_fieldSize = 1024 * 1024\<rparr>"

definition REQUEST_ID_HEADER_RESPONSE :: string where
  "REQUEST_ID_HEADER_RESPONSE = ''X-Request-Id''"

text \<open>The hook \<open>onRequest\<close>: the effective id is on every reply.\<close>

definition echo_request_id :: "string \<Rightarrow> header_value option \<Rightarrow> (string \<times> string) list \<Rightarrow> (string \<times> string) list" where
  "echo_request_id uuid header reply_headers = reply_headers @ [(REQUEST_ID_HEADER_RESPONSE, gen_req_id uuid header)]"

section \<open>Cross-origin requests\<close>

record cors_settings =
  cs_enabled :: "bool option"
  cs_credentials :: "bool option"
  cs_methods :: "string list option"
  cs_allowedHeaders :: "string list option"

record cors_options =
  co_origin :: "string list"
  co_credentials :: bool
  co_methods :: "string list"
  co_allowedHeaders :: "string list"
  co_exposedHeaders :: "string list"

definition cors_options_of :: "cors_settings \<Rightarrow> string \<Rightarrow> string \<Rightarrow> cors_options option" where
  "cors_options_of c environ host_origin = (if coalesce (cs_enabled c) True
     then Some \<lparr>co_origin = allowed_origins environ host_origin, co_credentials = coalesce (cs_credentials c) True,
       co_methods = coalesce (cs_methods c) [''GET'', ''POST'', ''PUT'', ''DELETE'', ''PATCH'', ''OPTIONS''],
       co_allowedHeaders = coalesce (cs_allowedHeaders c) [''Content-Type'', ''Authorization'', ''Accept'',
         ''X-Requested-With'', ''X-CSRF-Token'', REQUEST_ID_HEADER_RESPONSE],
       co_exposedHeaders = [REQUEST_ID_HEADER_RESPONSE]\<rparr>
     else None)"

section \<open>Routes\<close>

text \<open>\<open>setGlobalPrefix\<close> with its exclusion \<open>internal/v1/*path\<close>.\<close>

definition excluded_route :: "string \<Rightarrow> bool" where
  "excluded_route path = (starts_with path ''/internal/v1/'' \<and> length path > length ''/internal/v1/'')"

definition mounted_path :: "string \<Rightarrow> string" where
  "mounted_path path = (if excluded_route path then path else ''/api/v1'' @ path)"

record listen_options =
  li_port :: int
  li_hostname :: string

definition listen_options_of :: "int option \<Rightarrow> string option \<Rightarrow> listen_options" where
  "listen_options_of port hostname = \<lparr>li_port = coalesce port 3000, li_hostname = coalesce hostname ''localhost''\<rparr>"

definition startup_messages :: "listen_options \<Rightarrow> string \<Rightarrow> bool option \<Rightarrow> (string \<times> string) list" where
  "startup_messages li environ zabbix =
     [(''log'', ''Application is running on: '' @ [CHR 0x22] @ ''http://'' @ li_hostname li @ '':'' @ show_int (li_port li)
        @ ''/'' @ [CHR 0x22] @ '' on environment: '' @ [CHR 0x22] @ environ @ [CHR 0x22])]
     @ (if coalesce zabbix False then [] else [(''warn'',
          ''Zabbix monitoring is disabled. Backend will continue to run and write local service logs only.'')])"

section \<open>Health\<close>

text \<open>\<open>heap\<close> and \<open>rss\<close> are the memory indicators of Terminus on a key and a limit, \<open>collect\<close> its reply.\<close>

record 'r health_lib =
  hl_heap :: "string \<Rightarrow> int \<Rightarrow> health_result"
  hl_rss :: "string \<Rightarrow> int \<Rightarrow> health_result"
  hl_check :: "health_result list \<Rightarrow> 'r"

definition health_check :: "'r health_lib \<Rightarrow> string option option \<Rightarrow> 'r" where
  "health_check L failure = hl_check L [ping_check ''database'' failure,
     hl_heap L ''memory_heap'' (1024 * 1024 * 1024), hl_rss L ''memory_rss'' (1536 * 1024 * 1024)]"

definition health_ready :: "'r health_lib \<Rightarrow> string option option \<Rightarrow> 'r" where
  "health_ready L failure = hl_check L [ping_check ''database'' failure]"

definition health_alive :: "int \<Rightarrow> int \<Rightarrow> (string \<times> json) list" where
  "health_alive now uptime = [(''status'', J_Str ''ok''), (''timestamp'', J_Str (to_iso_string now)), (''uptime'', J_Num uptime)]"

section \<open>Connections\<close>

record db_settings =
  ds_host :: "string option"
  ds_port :: "int option"
  ds_username :: string
  ds_password :: "json option"
  ds_database :: string
  ds_ssl :: "bool option"
  ds_poolMax :: "int option"

record db_connection =
  dc_host :: string
  dc_port :: int
  dc_user :: string
  dc_password :: string
  dc_database :: string
  dc_ssl :: "bool option"
  dc_poolMax :: "int option"

text \<open>\<open>as_string\<close> is JavaScript's \<open>String\<close> on the value of the YAML file.\<close>

definition db_connection_of :: "(json \<Rightarrow> string) \<Rightarrow> db_settings \<Rightarrow> db_connection" where
  "db_connection_of as_string c = \<lparr>dc_host = coalesce (ds_host c) ''localhost'', dc_port = coalesce (ds_port c) 5432,
     dc_user = ds_username c, dc_password = as_string (coalesce (ds_password c) (J_Str [])), dc_database = ds_database c,
     dc_ssl = Some (coalesce (ds_ssl c) False), dc_poolMax = Some (coalesce (ds_poolMax c) 10)\<rparr>"

datatype pg_ssl = Ssl_Off | Ssl_Unverified

record pg_pool =
  pp_host :: string
  pp_port :: int
  pp_user :: string
  pp_password :: string
  pp_database :: string
  pp_ssl :: pg_ssl
  pp_max :: int

definition create_drizzle_connection :: "db_connection \<Rightarrow> pg_pool" where
  "create_drizzle_connection c = \<lparr>pp_host = dc_host c, pp_port = dc_port c, pp_user = dc_user c,
     pp_password = dc_password c, pp_database = dc_database c,
     pp_ssl = (if coalesce (dc_ssl c) False then Ssl_Unverified else Ssl_Off), pp_max = coalesce (dc_poolMax c) 10\<rparr>"

record redis_connection =
  rc_host :: string
  rc_port :: int
  rc_password :: "string option"
  rc_db :: int

definition bullmq_connection :: "string \<Rightarrow> string \<Rightarrow> int \<Rightarrow> string option \<Rightarrow> redis_connection" where
  "bullmq_connection environ host port password =
     \<lparr>rc_host = host, rc_port = port, rc_password = password, rc_db = redis_database environ\<rparr>"

text \<open>The client of the token versions: no database is chosen, an empty password is none, one retry.\<close>

record redis_client_options =
  ro_host :: string
  ro_port :: int
  ro_password :: "string option"
  ro_maxRetries :: int

definition token_version_client :: "string \<Rightarrow> int \<Rightarrow> string option \<Rightarrow> redis_client_options" where
  "token_version_client host port password = \<lparr>ro_host = host, ro_port = port,
     ro_password = (if truthy password then password else None), ro_maxRetries = 1\<rparr>"

record mailer_options =
  mo_host :: string
  mo_port :: int
  mo_user :: string
  mo_pass :: string
  mo_secure :: bool
  mo_from :: string
  mo_templateDir :: string

definition mailer_options_of ::
    "string \<Rightarrow> string \<Rightarrow> int \<Rightarrow> string \<Rightarrow> string \<Rightarrow> bool option \<Rightarrow> string \<Rightarrow> mailer_options" where
  "mailer_options_of dirname host port user pass secure from_address = \<lparr>mo_host = host, mo_port = port, mo_user = user,
     mo_pass = pass, mo_secure = coalesce secure True, mo_from = from_address, mo_templateDir = dirname @ ''/templates''\<rparr>"

section \<open>The log\<close>

definition redact_paths :: "string list" where
  "redact_paths = (let q = (\<lambda>name. [CHR 0x5B, CHR 0x22] @ name @ [CHR 0x22, CHR 0x5D]) in
     map (\<lambda>h. ''req.headers.'' @ h) [''authorization'', ''cookie'', ''proxy-authorization'', ''set-cookie'', ''x-csrf-token'']
     @ map (\<lambda>h. ''req.headers'' @ q h) [''authorization'', ''cookie'', ''proxy-authorization'', ''set-cookie'', ''x-csrf-token'']
     @ [''res.headers.set-cookie'', ''res.headers'' @ q ''set-cookie'']
     @ map (\<lambda>k. ''req.body.'' @ k) [''password'', ''currentPassword'', ''newPassword'', ''refreshToken'', ''accessToken'',
         ''csrfToken'', ''token'']
     @ [''accessToken'', ''refreshToken'', ''csrfToken'', ''*.accessToken'', ''*.refreshToken'', ''*.csrfToken'',
        ''msg.accessToken'', ''msg.refreshToken'', ''msg.csrfToken''])"

text \<open>What \<open>LoggerInterceptor\<close> writes after a request.\<close>

record http_log =
  hg_requestId :: string
  hg_userId :: "string option"
  hg_roleId :: "string option"
  hg_roleType :: "string option"
  hg_language :: "string option"
  hg_context :: string
  hg_statusCode :: int
  hg_method :: string
  hg_url :: string
  hg_responseSummary :: "(string \<times> json) list"

record logged_request =
  lq_id :: string
  lq_userId :: "string option"
  lq_roleId :: "string option"
  lq_roleType :: "string option"
  lq_language :: "string option"
  lq_method :: string
  lq_url :: string

definition log_request :: "string \<Rightarrow> string \<Rightarrow> logged_request \<Rightarrow> int \<Rightarrow> json option \<Rightarrow> http_log option" where
  "log_request context_type class_name req status data = (if context_type \<noteq> ''http'' then None
     else Some \<lparr>hg_requestId = lq_id req, hg_userId = lq_userId req, hg_roleId = lq_roleId req,
       hg_roleType = lq_roleType req, hg_language = lq_language req, hg_context = class_name, hg_statusCode = status,
       hg_method = lq_method req, hg_url = lq_url req, hg_responseSummary = summarize_response data\<rparr>)"

section \<open>The sockets of the GELF transport\<close>

datatype gelf_socket = Udp_Socket | Tcp_Connection

text \<open>\<open>outcome d\<close> is the error that sending the datagram \<open>d\<close> ends with.  A failure is logged and nothing is
  sent again.\<close>

definition send_chunked_message ::
    "(nat list \<Rightarrow> string option) \<Rightarrow> nat list \<Rightarrow> nat list \<Rightarrow> int \<Rightarrow> (nat list list \<times> string list) option" where
  "send_chunked_message outcome message_id buffer width =
     map_option (\<lambda>chunks. let ds = prepare_datagrams message_id chunks in
       (ds, map (\<lambda>m. ''Failed to send GELF chunk: '' @ m) (List.map_filter outcome ds)))
       (prepare_multiple_chunks buffer width)"

text \<open>Closing: the open socket is closed, an error is logged.\<close>

definition close_transport :: "gelf_socket option \<Rightarrow> string option \<Rightarrow> gelf_socket list \<times> string list" where
  "close_transport socket err = ((case socket of None \<Rightarrow> [] | Some k \<Rightarrow> [k]),
     (case err of None \<Rightarrow> [] | Some m \<Rightarrow> [''Failed to close GELF destination: '' @ m]))"

section \<open>Dates in mails\<close>

text \<open>\<open>locale_string\<close> is \<open>Date.toLocaleString\<close> with a locale and the fields to show, in Moscow time.\<close>

datatype date_format = Full_Date_Time | Short_Date | Only_Time

fun date_fields :: "date_format \<Rightarrow> (string \<times> string) list" where
  "date_fields Full_Date_Time = [(''year'', ''numeric''), (''month'', ''long''), (''day'', ''numeric''),
     (''hour'', ''2-digit''), (''minute'', ''2-digit'')]"
| "date_fields Short_Date = [(''day'', ''2-digit''), (''month'', ''2-digit''), (''year'', ''numeric'')]"
| "date_fields Only_Time = [(''hour'', ''2-digit''), (''minute'', ''2-digit'')]"

definition format_to_msk ::
    "(string \<Rightarrow> (string \<times> string) list \<Rightarrow> int \<Rightarrow> string) \<Rightarrow> date_format \<Rightarrow> int option \<Rightarrow> string" where
  "format_to_msk locale_string f date = (case date of None \<Rightarrow> ''Not specified''
     | Some d \<Rightarrow> locale_string ''ru-RU'' ((''timeZone'', ''Europe/Moscow'') # date_fields f) d)"

section \<open>Lemmas\<close>

text \<open>The guard against cross-site requests sees the path of the route under the prefix, without the query.\<close>

lemma raw_url_mounted:
  assumes "CHR ''?'' \<notin> set path" "\<not> excluded_route path" "query = [] \<or> hd query = CHR ''?''"
  shows "raw_url (mounted_path path @ query) = path"
proof -
  have q: "takeWhile (\<lambda>c. c \<noteq> CHR ''?'') query = []" using assms(3) by (cases query) simp_all
  have "takeWhile (\<lambda>c. c \<noteq> CHR ''?'') ((''/api/v1'' @ path) @ query) = ''/api/v1'' @ path"
    using assms(1) q by (subst takeWhile_append2) auto
  then show ?thesis using assms(2) by (simp add: raw_url_def mounted_path_def Let_def starts_with_def)
qed

lemma production_origin: "cors_options_of c ''production'' host_origin = Some opts \<Longrightarrow> co_origin opts = [host_origin]"
  by (auto simp: cors_options_of_def allowed_origins_def split: if_splits)

text \<open>Every key that the summary hides in a response is also redacted in the body of a request.\<close>

lemma sensitive_body_redacted: "k \<in> set sensitive_keys \<Longrightarrow> ''req.body.'' @ k \<in> set redact_paths"
  by (auto simp: sensitive_keys_def redact_paths_def Let_def)

text \<open>The log of a request depends on the keys of an answer only, not on its values.\<close>

lemma log_hides_values:
  "map fst answer = map fst answer' \<Longrightarrow> log_request t c r status (Some (J_Obj answer)) = log_request t c r status (Some (J_Obj answer'))"
  by (simp add: log_request_def summarize_response_def)

lemma database_tls_unverified:
  "pp_ssl (create_drizzle_connection (db_connection_of f (c\<lparr>ds_ssl := Some True\<rparr>))) = Ssl_Unverified"
  by (simp add: create_drizzle_connection_def db_connection_of_def)

end
