(* ===== verification/Session_Properties.thy ===== *)
theory Session_Properties
  imports Auth_Http_Properties
begin

text \<open>
  The auth service and the guard of the backend, composed.  The guard decides on an access token by the
  token version alone, which the auth service reads and never writes: nothing it does - logging out, resetting
  or changing the password included - ends an access session before its token expires.
\<close>

section \<open>What the guard reads\<close>

definition version_key_of :: "user_row \<Rightarrow> ident \<times> int option \<times> int" where
  "version_key_of u = (u_id u, u_deletedAt u, u_tokenVersion u)"

definition same_versions :: "'x backend_scheme \<Rightarrow> 'x backend_scheme \<Rightarrow> bool" where
  "same_versions s0 s = (redis s = redis s0 \<and> map version_key_of (users s) = map version_key_of (users s0))"

lemma same_versions_refl [simp]: "same_versions s s"
  by (simp add: same_versions_def)

lemma same_versions_trans: "same_versions s0 s1 \<Longrightarrow> same_versions s1 s2 \<Longrightarrow> same_versions s0 s2"
  by (simp add: same_versions_def)

lemma live_version_cong:
  "map version_key_of us = map version_key_of us'
   \<Longrightarrow> map_option u_tokenVersion (find_row (live_id i) us) = map_option u_tokenVersion (find_row (live_id i) us')"
proof (induction us arbitrary: us')
  case (Cons u us)
  obtain u' us'' where us': "us' = u' # us''" using Cons.prems by (cases us') simp_all
  have "version_key_of u = version_key_of u'" using Cons.prems by (simp add: us')
  then have "live_id i u = live_id i u'" "u_tokenVersion u = u_tokenVersion u'"
    by (simp_all add: version_key_of_def live_id_def)
  moreover have "map_option u_tokenVersion (find_row (live_id i) us) = map_option u_tokenVersion (find_row (live_id i) us'')"
    by (rule Cons.IH) (use Cons.prems in \<open>simp add: us'\<close>)
  ultimately show ?case by (simp add: us')
qed simp

lemma fst_current_version:
  "fst (get_current_version fl i s) = (case cached_version fl i s of
     Some v \<Rightarrow> Inr v
   | None \<Rightarrow> (case map_option u_tokenVersion (find_row (live_id i) (users s)) of
       None \<Rightarrow> Inl (unauthorized ''user.notFound'') | Some v \<Rightarrow> Inr v))"
  by (auto simp: get_current_version_def restore_version_from_database_def user_repo_find_by_id_def andThen_def
      split: option.split)

lemma fst_assert_current:
  "fst (assert_current fl i (Some v) s) = (case fst (get_current_version fl i s) of Inl e \<Rightarrow> Inl e
     | Inr w \<Rightarrow> if w = v then Inr () else Inl (unauthorized ''user.auth.tokenStale''))"
  unfolding assert_run by (simp split: prod.split sum.split)

lemma fst_jwt_validate:
  "fst (jwt_validate fl c s) = (if \<not> truthy (c_sub c) \<or> \<not> truthy (c_rid c) \<or> \<not> truthy (c_rty c) \<or> \<not> truthy (c_lng c)
     then Inl (unauthorized ''user.auth.invalidJwtPayload'')
     else (case fst (assert_current fl (the (c_sub c)) (c_tv c) s) of Inl e \<Rightarrow> Inl e
       | Inr _ \<Rightarrow> Inr \<lparr>vj_userId = the (c_sub c), vj_roleId = the (c_rid c), vj_roleType = the (c_rty c),
           vj_language = the (c_lng c), vj_tokenVersion = c_tv c\<rparr>))"
  by (simp add: jwt_validate_def andThen_def split: prod.split sum.split)

lemma guard_reads_versions:
  assumes "same_versions s0 s"
  shows "fst (jwt_authenticate J cfg cookie fl now req s) = fst (jwt_authenticate J cfg cookie fl now req s0)"
proof -
  have c: "cached_version fl i s = cached_version fl i s0" for i
    using assms by (simp add: cached_version_def same_versions_def)
  have l: "map_option u_tokenVersion (find_row (live_id i) (users s))
      = map_option u_tokenVersion (find_row (live_id i) (users s0))" for i
    by (rule live_version_cong) (use assms in \<open>simp add: same_versions_def\<close>)
  have "fst (get_current_version fl i s) = fst (get_current_version fl i s0)" for i
    unfolding fst_current_version c l by (rule refl)
  then have "fst (assert_current fl i (Some v) s) = fst (assert_current fl i (Some v) s0)" for i v
    by (simp only: fst_assert_current)
  then have a: "fst (assert_current fl i tv s) = fst (assert_current fl i tv s0)" for i tv
    by (cases tv) (simp_all add: assert_current_def)
  have "fst (jwt_validate fl c s) = fst (jwt_validate fl c s0)" for c
    unfolding fst_jwt_validate a by (rule refl)
  then show ?thesis by (simp add: jwt_authenticate_def split: option.split)
qed

section \<open>What the auth service leaves alone\<close>

named_theorems versions_intro \<open>operations that keep every token version\<close>

lemma versions_user_update [versions_intro]:
  "up_tokenVersion p = None \<Longrightarrow> keeps (same_versions s0) (auth_user_update_row i p)"
  by (rule keepsI) (simp add: same_versions_def auth_user_update_row_def Let_def map_update_rows version_key_of_def
      apply_auth_update_def)

lemma versions_tokens [versions_intro]:
  "keeps (same_versions s0) (refresh_create i now p)"
  "keeps (same_versions s0) (refresh_revoke_by_id i)" "keeps (same_versions s0) (refresh_revoke_all_for_user i)"
  "keeps (same_versions s0) (refresh_revoke_by_token t)"
  "keeps (same_versions s0) (reset_create i now n)" "keeps (same_versions s0) (reset_mark_used i)"
  by (rule keepsI; simp add: same_versions_def refresh_create_def refresh_run refresh_revoke_by_token_def reset_create_def
      reset_mark_used_run Let_def)+

lemma versions_queue_mail [versions_intro]: "keeps (same_versions s0) (queue_mail i now p)"
  by (rule keepsI) (simp add: same_versions_def queue_mail_def split: option.split)

lemma no_update_version [simp]: "up_tokenVersion no_update = None"
  by (simp add: no_update_def)

lemma versions_reject: "keeps (same_versions s0) (reject_invalid_credentials fr now u)"
  by (auto simp: reject_invalid_credentials_def queue_account_locked_email_def Let_def
      intro!: keeps_andThen keeps_swallow versions_intro split: prod.split option.split)

lemma versions_issue: "keeps (same_versions s0) (issue_login_tokens E fr now cmd u)"
  by (auto simp: issue_login_tokens_def intro!: keeps_andThen versions_intro split: prod.split)

lemma versions_login: "keeps (same_versions s0) (login_handler E fr now cmd)"
  by (auto simp: login_handler_def migrate_password_hash_def clear_failed_logins_def Let_def
      intro!: keeps_andThen keeps_whenever versions_reject versions_issue versions_intro split: option.split)

lemma versions_rotate: "keeps (same_versions s0) (rotate_tokens E fr now cmd r u)"
  by (auto simp: rotate_tokens_def intro!: keeps_andThen versions_intro split: prod.split)

lemma versions_refresh: "keeps (same_versions s0) (refresh_handler E fr now cmd)"
  by (auto simp: refresh_handler_def intro!: keeps_andThen versions_rotate versions_intro split: option.split)

lemma versions_others:
  "keeps (same_versions s0) (logout_handler E now t)" "keeps (same_versions s0) (forgot_password_handler E ff now e)"
  "keeps (same_versions s0) (reset_password_handler E salt now t pw)"
  "keeps (same_versions s0) (change_password_handler E salt uid cur pw)"
  by (auto simp: logout_handler_def forgot_password_handler_def reset_password_handler_def
      change_password_handler_def Let_def intro!: keeps_andThen versions_intro split: option.split)

section \<open>Sequences of calls\<close>

text \<open>A call of the gateway with the values it draws and its time.\<close>

datatype auth_operation =
    Op_Login login_command
  | Op_Refresh refresh_command
  | Op_Logout string
  | Op_Forgot string
  | Op_Reset string string
  | Op_Change ident string string

fun run_operation :: "'s auth_port \<Rightarrow> auth_operation \<Rightarrow> 's \<Rightarrow> 's" where
  "run_operation gw (Op_Login c) s = snd (gw_login gw c s)"
| "run_operation gw (Op_Refresh c) s = snd (gw_refresh gw c s)"
| "run_operation gw (Op_Logout t) s = snd (gw_logout gw t s)"
| "run_operation gw (Op_Forgot e) s = snd (gw_forgot gw e s)"
| "run_operation gw (Op_Reset t pw) s = snd (gw_reset gw t pw s)"
| "run_operation gw (Op_Change i cur pw) s = snd (gw_change gw i cur pw s)"

fun run_operations :: "auth_env \<Rightarrow> (exn \<Rightarrow> exn) \<Rightarrow> (grpc_fresh \<times> int \<times> auth_operation) list
    \<Rightarrow> 'x backend_scheme \<Rightarrow> 'x backend_scheme" where
  "run_operations E f [] s = s"
| "run_operations E f ((gf, now, x) # xs) s = run_operations E f xs (run_operation (auth_grpc_gateway E f gf now) x s)"

lemma over_rpc_versions: "keeps (same_versions s) m \<Longrightarrow> same_versions s (snd (over_rpc f m s))"
  using keepsD [of "same_versions s" m s] by (auto simp: over_rpc_def split: prod.splits sum.splits)

lemma operation_keeps_versions: "same_versions s (run_operation (auth_grpc_gateway E f gf now) x s)"
  by (cases x) (simp_all add: auth_grpc_gateway_def over_rpc_versions versions_login versions_refresh versions_others)

lemma operations_keep_versions: "same_versions s (run_operations E f xs s)"
  by (induction E f xs s rule: run_operations.induct) (auto intro: same_versions_trans operation_keeps_versions)

text \<open>
  C22.  Access sessions end by expiry or by a bump of the token version only.  After any sequence of logins,
  refreshes, logouts, requested and redeemed password resets and password changes, of whatever account and with whatever outcome, the
  guard gives every request the verdict that it gave before: a stolen access token survives the change of its
  owner's password.
\<close>

theorem access_sessions_survive:
  "fst (jwt_authenticate J cfg cookie fl now req (run_operations E f xs s)) = fst (jwt_authenticate J cfg cookie fl now req s)"
  by (rule guard_reads_versions) (rule operations_keep_versions)

end
