(* ===== verification/Domain_Entities.thy ===== *)
theory Domain_Entities
  imports Backend_Auth
begin

text \<open>
  The factories of the backend's domain entities, and the code that exists twice: the backend has a reset-token
  entity and repository of its own beside those of the auth service, on the same table.  The lemmas show that the
  two implementations agree, so that a token an administrator creates in the backend is redeemed by the auth
  service, and that the factories build what the handlers insert.
\<close>

section \<open>Magic links\<close>

record new_magic_link =
  nm_email :: string
  nm_token :: string
  nm_expiresAt :: int
  nm_isUsed :: bool
  nm_fingerprint :: string
  nm_userAgent :: string

definition magic_link_create :: "string \<Rightarrow> string \<Rightarrow> int \<Rightarrow> string \<Rightarrow> string \<Rightarrow> new_magic_link" where
  "magic_link_create email token expires_at fingerprint agent = \<lparr>nm_email = email, nm_token = token,
     nm_expiresAt = expires_at, nm_isUsed = False, nm_fingerprint = fingerprint, nm_userAgent = agent\<rparr>"

lemma created_magic_link:
  assumes "magic_repo_create i now email token expires_at fingerprint agent d = (Inr t, d')"
  shows "\<lparr>nm_email = mk_email t, nm_token = mk_token t, nm_expiresAt = mk_expiresAt t, nm_isUsed = mk_isUsed t,
      nm_fingerprint = mk_fingerprint t, nm_userAgent = mk_userAgent t\<rparr>
    = magic_link_create email token expires_at fingerprint agent
    \<and> (magic_is_valid now' t \<longleftrightarrow> now' < expires_at)"
  using assms by (auto simp: magic_repo_create_def to_magic_token_def magic_link_create_def Let_def magic_is_valid_def
      magic_is_expired_def split: if_splits)

section \<open>Reset tokens of the backend\<close>

record backend_reset_token =
  bt_id :: ident
  bt_userId :: ident
  bt_token :: string
  bt_expiresAt :: int
  bt_isUsed :: bool
  bt_createdAt :: int

record backend_new_reset_token =
  bn_userId :: ident
  bn_token :: string
  bn_expiresAt :: int
  bn_isUsed :: bool

definition backend_reset_token_create :: "ident \<Rightarrow> string \<Rightarrow> int \<Rightarrow> backend_new_reset_token" where
  "backend_reset_token_create user_id token expires_at =
     \<lparr>bn_userId = user_id, bn_token = token, bn_expiresAt = expires_at, bn_isUsed = False\<rparr>"

definition backend_reset_is_expired :: "int \<Rightarrow> backend_reset_token \<Rightarrow> bool" where
  "backend_reset_is_expired now t = (now \<ge> bt_expiresAt t)"

definition backend_reset_is_valid :: "int \<Rightarrow> backend_reset_token \<Rightarrow> bool" where
  "backend_reset_is_valid now t = (\<not> bt_isUsed t \<and> \<not> backend_reset_is_expired now t)"

definition backend_to_reset_token :: "reset_row \<Rightarrow> backend_reset_token" where
  "backend_to_reset_token row = \<lparr>bt_id = prt_id row, bt_userId = prt_userId row, bt_token = prt_token row,
     bt_expiresAt = prt_expiresAt row, bt_isUsed = prt_isUsed row, bt_createdAt = prt_createdAt row\<rparr>"

definition backend_reset_insert ::
    "ident \<Rightarrow> int \<Rightarrow> backend_new_reset_token \<Rightarrow> ('x users_db_scheme, exn, backend_reset_token) comp" where
  "backend_reset_insert new_id now n d =
     (let row = \<lparr>prt_id = new_id, prt_createdAt = now, prt_userId = bn_userId n, prt_token = bn_token n,
        prt_expiresAt = bn_expiresAt n, prt_isUsed = bn_isUsed n\<rparr>
      in if some_row (\<lambda>r. prt_token r = bn_token n \<or> prt_id r = new_id) (resets d) then (Inl (Pg_Exn ''23505''), d)
         else (Inr (backend_to_reset_token row), d\<lparr>resets := resets d @ [row]\<rparr>))"

definition backend_reset_find_by_token :: "string \<Rightarrow> 'x users_db_scheme \<Rightarrow> backend_reset_token option" where
  "backend_reset_find_by_token token d = map_option backend_to_reset_token (find_row (\<lambda>r. prt_token r = token) (resets d))"

definition backend_reset_mark_used :: "ident \<Rightarrow> ('x users_db_scheme, exn, unit) comp" where
  "backend_reset_mark_used i = modify (\<lambda>d. d\<lparr>resets :=
     update_rows (\<lambda>r. prt_id r = i) (\<lambda>r. r\<lparr>prt_isUsed := True\<rparr>) (resets d)\<rparr>)"

lemma reset_repositories_agree:
  "snd (backend_reset_insert i now (backend_reset_token_create u t e) d) = snd (reset_create i now (reset_token_create u t e) d)"
  "isl (fst (backend_reset_insert i now (backend_reset_token_create u t e) d)) = isl (fst (reset_create i now (reset_token_create u t e) d))"
  "map_option (backend_reset_is_valid now') (backend_reset_find_by_token t d) = map_option (reset_is_valid now') (reset_find_by_token t d)"
  "backend_reset_mark_used i d = reset_mark_used i d"
  by (simp_all add: backend_reset_insert_def reset_create_def backend_reset_token_create_def reset_token_create_def Let_def
      backend_reset_find_by_token_def reset_find_by_token_def backend_reset_is_valid_def reset_is_valid_def
      backend_reset_is_expired_def reset_is_expired_def backend_to_reset_token_def to_reset_token_def comp_def
      backend_reset_mark_used_def reset_mark_used_def option.map_comp)

text \<open>A token inserted by the backend is found by the auth service, valid until it expires.\<close>

lemma backend_token_redeemable:
  assumes "backend_reset_insert i now (backend_reset_token_create u t e) d = (Inr r, d')"
  shows "\<exists>x. reset_find_by_token t d' = Some x \<and> pt_userId x = u \<and> (reset_is_valid now' x \<longleftrightarrow> now' < e)"
proof -
  have "find_row (\<lambda>r. prt_token r = t) (resets d) = None" if "\<not> some_row (\<lambda>r. prt_token r = t \<or> prt_id r = i) (resets d)"
    using that by (auto simp: some_row_iff find_row_None)
  then show ?thesis using assms
    by (auto simp: backend_reset_insert_def backend_reset_token_create_def Let_def reset_find_by_token_def find_row_append
        to_reset_token_def reset_is_valid_def reset_is_expired_def split: if_splits)
qed

section \<open>Aggregates\<close>

text \<open>\<open>Users.create\<close> and \<open>Roles.create\<close>: a list with the number of all rows.\<close>

definition users_aggregate :: "user list \<Rightarrow> int option \<Rightarrow> user list \<times> int" where
  "users_aggregate us total_count = (us, coalesce total_count (int (length us)))"

definition roles_aggregate :: "user_role list \<Rightarrow> int option \<Rightarrow> user_role list \<times> int" where
  "roles_aggregate rs total_count = (rs, coalesce total_count (int (length rs)))"

lemma found_users_aggregate: "user_repo_find_by_ids is d = users_aggregate (fst (user_repo_find_by_ids is d)) None"
  by (simp add: user_repo_find_by_ids_def users_aggregate_def Let_def)

section \<open>Mails by status\<close>

definition find_pending_mails :: "'x app_db_scheme \<Rightarrow> mail list" where
  "find_pending_mails = mail_repo_find_by_status Mail_Pending"

definition find_failed_mails :: "'x app_db_scheme \<Rightarrow> mail list" where
  "find_failed_mails = mail_repo_find_by_status Mail_Failed"

end
