(* ===== verification/Bootstrap_Properties.thy ===== *)
theory Bootstrap_Properties
  imports Bootstrap
begin

text \<open>
  The substitution of environment variables agrees with a reading of the file as a sequence of plain
  texts and references; request ids are harmless; the documentation opens to its credentials alone.
\<close>

section \<open>Substitution\<close>

datatype segment = Plain string | Reference string env_operator

fun operator_text :: "env_operator \<Rightarrow> string" where
  "operator_text No_Operator = []"
| "operator_text (Or_Default v) = '':-'' @ v"
| "operator_text (Or_Error v) = '':?'' @ v"

fun segment_text :: "segment \<Rightarrow> string" where
  "segment_text (Plain s) = s"
| "segment_text (Reference name oper) = ''${'' @ name @ operator_text oper @ ''}''"

fun segment_ok :: "segment \<Rightarrow> bool" where
  "segment_ok (Plain s) = (CHR ''$'' \<notin> set s)"
| "segment_ok (Reference name oper) =
     (name \<noteq> [] \<and> list_all env_char name \<and> CHR ''}'' \<notin> set (operator_text oper))"

text \<open>The reference reading: the values in order, or the first error.\<close>

fun segments_value :: "environment \<Rightarrow> segment list \<Rightarrow> exn + string" where
  "segments_value env [] = Inr []"
| "segments_value env (Plain s # segs) = (case segments_value env segs of Inl e \<Rightarrow> Inl e | Inr t \<Rightarrow> Inr (s @ t))"
| "segments_value env (Reference name oper # segs) = (case env_value env name oper of
     Inl e \<Rightarrow> Inl e
   | Inr v \<Rightarrow> (case segments_value env segs of Inl e \<Rightarrow> Inl e | Inr t \<Rightarrow> Inr (v @ t)))"

lemma env_char_punctuation [simp]: "\<not> env_char CHR '':''" "\<not> env_char CHR ''}''" "\<not> env_char CHR ''$''"
  by code_simp+

lemma env_tail_operator:
  assumes "CHR ''}'' \<notin> set (operator_text oper)"
  shows "env_tail (operator_text oper @ CHR ''}'' # rest) = Some (oper, rest)"
proof -
  have scan: "takeWhile (\<lambda>c. c \<noteq> CHR ''}'') (v @ CHR ''}'' # rest) = v"
    "dropWhile (\<lambda>c. c \<noteq> CHR ''}'') (v @ CHR ''}'' # rest) = CHR ''}'' # rest" if "CHR ''}'' \<notin> set v" for v
    using that by (induction v) auto
  show ?thesis
    using assms by (cases oper) (auto simp: env_tail_def starts_with_def scan Let_def)
qed

lemma env_reference_text:
  assumes "segment_ok (Reference name oper)"
  shows "env_reference (segment_text (Reference name oper) @ rest) = Some (name, oper, rest)"
proof -
  let ?tail = "operator_text oper @ CHR ''}'' # rest"
  have name: "name \<noteq> []" "\<And>c. c \<in> set name \<Longrightarrow> env_char c" using assms by (auto simp: list_all_iff)
  have stop: "takeWhile env_char ?tail = [] \<and> dropWhile env_char ?tail = ?tail" by (cases oper) simp_all
  have "takeWhile env_char (name @ ?tail) = name" "dropWhile env_char (name @ ?tail) = ?tail"
    using name(2) stop by (simp_all add: takeWhile_append2 dropWhile_append2)
  moreover have "env_tail ?tail = Some (oper, rest)" using assms by (intro env_tail_operator) simp
  ultimately show ?thesis using name(1) by (simp add: env_reference_def starts_with_def Let_def)
qed

lemma substitute_plain:
  "CHR ''$'' \<notin> set s \<Longrightarrow> substitute_env env (s @ t) = (case substitute_env env t of Inl e \<Rightarrow> Inl e | Inr u \<Rightarrow> Inr (s @ u))"
proof (induction s)
  case (Cons c s)
  then have "env_reference (c # s @ t) = None" by (auto simp: env_reference_def starts_with_def)
  with Cons show ?case by (simp add: substitute_env.simps [of env "c # s @ t"] split: sum.split)
qed (simp split: sum.split)

lemma substitute_reference_step:
  assumes "env_reference s = Some (name, oper, rest)"
  shows "substitute_env env s = (case env_value env name oper of
    Inl e \<Rightarrow> Inl e | Inr v \<Rightarrow> (case substitute_env env rest of Inl e \<Rightarrow> Inl e | Inr t \<Rightarrow> Inr (v @ t)))"
proof (cases s)
  case Nil
  with assms show ?thesis by (simp add: env_reference_def starts_with_def)
next
  case (Cons c cs)
  have "env_reference (c # cs) = Some (name, oper, rest)" using assms by (simp only: Cons)
  then show ?thesis by (simp only: Cons substitute_env.simps [of env "c # cs"] list.case option.case prod.case)
qed

text \<open>C34. The substitution of environment variables does what the comment in the loader says: a file made of
  plain text and references becomes the plain text with the values in place - the variable if it is
  set and not empty, else the default, else the empty text - and the first required variable that is
  missing is the error; values are inserted as they are and not read again.\<close>

theorem substitution_reference:
  assumes "list_all segment_ok segs"
  shows "substitute_env env (concat (map segment_text segs)) = segments_value env segs"
  using assms
proof (induction segs)
  case Nil
  show ?case by (simp add: substitute_env.simps)
next
  case (Cons seg segs)
  show ?case
  proof (cases seg)
    case (Plain s)
    with Cons show ?thesis by (simp add: substitute_plain)
  next
    case (Reference name oper)
    let ?rest = "concat (map segment_text segs)"
    have ref: "env_reference (segment_text seg @ ?rest) = Some (name, oper, ?rest)"
      using Cons.prems env_reference_text [of name oper ?rest] by (simp add: Reference)
    have IH: "substitute_env env ?rest = segments_value env segs" using Cons by simp
    from substitute_reference_step [OF ref, of env, unfolded IH] show ?thesis by (simp add: Reference)
  qed
qed

theorem substitution_reference_witness:
  "substitute_env (\<lambda>n. if n = ''PORT'' then Some ''8080'' else None)
     ''port: ${PORT:-3000}, host: ${HOST:-localhost}'' = Inr ''port: 8080, host: localhost''"
proof -
  let ?segs = "[Plain ''port: '', Reference ''PORT'' (Or_Default ''3000''), Plain '', host: '',
     Reference ''HOST'' (Or_Default ''localhost'')]"
  have "list_all segment_ok ?segs" by code_simp
  from substitution_reference [OF this, of "\<lambda>n. if n = ''PORT'' then Some ''8080'' else None"]
  show ?thesis by (simp add: env_value_def)
qed

section \<open>Request ids\<close>

lemma request_id_no_control: "request_id_char c \<Longrightarrow> (32 :: nat) < of_char c \<and> (of_char c :: nat) < 127"
  by (auto simp: request_id_char_def char_classes less_eq_char_def)

text \<open>The request id that is logged and echoed in the response header is never chosen freely by the
  client: it is the generated one, or the client's with 1 to 128 characters, all of them letters,
  digits or one of \<open>. _ : -\<close>; in particular no line break can be smuggled into the header.\<close>

theorem request_id_safe:
  assumes "request_id_pattern uuid"
  shows "request_id_pattern (gen_req_id uuid header)
    \<and> (\<forall>c\<in>set (gen_req_id uuid header). (32 :: nat) < of_char c \<and> (of_char c :: nat) < 127)
    \<and> (gen_req_id uuid header = uuid \<or> header_first header = Some (gen_req_id uuid header))"
proof -
  have "request_id_pattern (gen_req_id uuid header)" using assms by (simp add: gen_req_id_def split: option.split)
  moreover from this have "\<forall>c\<in>set (gen_req_id uuid header). (32 :: nat) < of_char c \<and> (of_char c :: nat) < 127"
    using request_id_no_control by (auto simp: request_id_pattern_def list_all_iff)
  moreover have "gen_req_id uuid header = uuid \<or> header_first header = Some (gen_req_id uuid header)"
    by (simp add: gen_req_id_def split: option.split)
  ultimately show ?thesis by blast
qed

theorem request_id_safe_witness:
  "request_id_pattern (gen_req_id ''3f2504e0-4f89-41d3'' (Some (One (''x'' @ [CHR 0x0A] @ ''Set-Cookie: a=b''))))"
proof -
  have "request_id_pattern ''3f2504e0-4f89-41d3''" by code_simp
  from request_id_safe [OF this] show ?thesis by blast
qed

section \<open>The API documentation\<close>

lemma split_colon:
  "CHR '':'' \<in> set s \<Longrightarrow> takeWhile (\<lambda>c. c \<noteq> CHR '':'') s = u \<and> tl (dropWhile (\<lambda>c. c \<noteq> CHR '':'') s) = p
    \<longleftrightarrow> s = u @ '':'' @ p \<and> CHR '':'' \<notin> set u"
proof (induction s arbitrary: u)
  case (Cons c s)
  then show ?case by (cases u) (auto split: if_splits)
qed simp

lemma basic_credentials_iff:
  "basic_credentials h = Some (u, p) \<longleftrightarrow> starts_with h ''Basic ''
     \<and> utf8_decode (b64_decode (drop 6 h)) = u @ '':'' @ p \<and> CHR '':'' \<notin> set u"
  using split_colon [of "utf8_decode (b64_decode (drop 6 h))" u p]
  by (cases "CHR '':'' \<in> set (utf8_decode (b64_decode (drop 6 h)))") (auto simp: basic_credentials_def Let_def)

lemma utf8_bytes_eq_iff [simp]: "utf8_bytes s = utf8_bytes t \<longleftrightarrow> s = t"
  by (metis utf8_roundtrip)

lemma docs_hook_iff:
  assumes "starts_with url ''/api/docs''"
  shows "docs_hook u p url authorization \<longleftrightarrow> basic_credentials (coalesce authorization []) = Some (u, p)"
  using assms by (cases "basic_credentials (coalesce authorization [])")
    (auto simp: docs_hook_def timing_safe_equal_def)

text \<open>With credentials configured, a request for the documentation passes exactly when its
  \<open>Authorization\<close> header is \<open>Basic\<close> and decodes to \<open>user:password\<close>, split at the first colon; the
  header that a browser builds from the configured credentials is such a header, if the user name
  has no colon.  Requests whose URL does not begin with \<open>/api/docs\<close>, as it is written, are not asked.\<close>

theorem docs_credentials:
  assumes "u \<noteq> []" "p \<noteq> []" "coalesce enabled True"
  defines "passes \<equiv> docs_guarded enabled (Some u) (Some p)"
  shows "(starts_with url ''/api/docs'' \<longrightarrow>
      (passes url authorization \<longleftrightarrow> (\<exists>header. authorization = Some header \<and> starts_with header ''Basic ''
         \<and> utf8_decode (b64_decode (drop 6 header)) = u @ '':'' @ p \<and> CHR '':'' \<notin> set u)))
    \<and> (CHR '':'' \<notin> set u \<longrightarrow> passes url (Some (''Basic '' @ b64_encode (utf8_bytes (u @ '':'' @ p)))))
    \<and> (\<not> starts_with url ''/api/docs'' \<longrightarrow> passes url authorization)"
proof -
  have passes: "passes url a \<longleftrightarrow> docs_hook u p url a" for url a
    using assms(1-3) by (simp add: passes_def docs_guarded_def)
  let ?header = "''Basic '' @ b64_encode (utf8_bytes (u @ '':'' @ p))"
  have "\<forall>b\<in>set (utf8_bytes (u @ '':'' @ p)). b < 256" using utf8_bytes_byte by blast
  then have "utf8_decode (b64_decode (drop 6 ?header)) = u @ '':'' @ p"
    by (simp add: b64_roundtrip)
  then have built: "CHR '':'' \<notin> set u \<Longrightarrow> basic_credentials ?header = Some (u, p)"
    by (simp only: basic_credentials_iff starts_with_append simp_thms)
  have none: "basic_credentials [] = None" by code_simp
  show ?thesis
  proof (cases "starts_with url ''/api/docs''")
    case True
    then show ?thesis
      using built none by (cases authorization) (simp_all only: passes docs_hook_iff coalesce.simps basic_credentials_iff, auto)
  next
    case False
    then show ?thesis by (simp add: passes docs_hook_def)
  qed
qed

theorem docs_credentials_witness:
  "docs_guarded None (Some ''dev'') (Some ''pw'') ''/api/docs-json'' (Some (''Basic '' @ b64_encode (utf8_bytes (''dev'' @ '':'' @ ''pw''))))"
proof -
  have "coalesce (None :: bool option) True" by simp
  from docs_credentials [OF _ _ this, of "''dev''" "''pw''" "''/api/docs-json''" None] show ?thesis by simp
qed

text \<open>The comparison is on the URL as the client wrote it: another spelling of the same path is not asked
  for credentials.\<close>

lemma docs_encoded_path: "docs_guarded None (Some ''dev'') (Some ''pw'') ''/api/%64ocs'' None"
  by code_simp

text \<open>An endpoint that merely contains a scheme is accepted.\<close>

lemma s3_endpoint_contains: "s3_endpoint ''minio?http://'' = Inr ''minio?http://''"
  by code_simp

end
