(* ===== verification/Spec2Isabelle.thy ===== *)
theory Spec2Isabelle
  imports Account_Properties Auth_Http_Properties Policy_Properties Captcha_Properties Notification_Properties File_Properties
    Response_Properties Encryption Password_Generator Admin_Properties Request_Properties Captcha_Config_Properties Captcha_Svg Template_Service Server_Settings Session_Properties Domain_Entities Bootstrap_Properties
begin

text \<open>
  A verification development for the REST backend template: a NestJS backend (\<open>apps/backend\<close>), an
  authentication service behind gRPC (\<open>apps/auth-service\<close>) and the libraries both share (\<open>libs\<close>).  The two
  programs share one PostgreSQL database; Redis caches token versions, holds the pool of captchas and carries the
  BullMQ queues; an S3 store holds files.

  \<^bold>\<open>How the program is put together.\<close>
  A request enters through \<open>main.ts\<close> (request id, origins, documentation password), passes the guards (JWT with
  the token version, CSRF, policies), the validation pipe and a controller, and reaches a command or query
  handler.  Authentication commands go through a gateway to the auth service, which owns the passwords, the
  failed-login columns, the refresh and the reset tokens and which queues mails.  Handlers work on repositories over
  the tables, publish events (audit trail, welcome mail, notifications) and fill queues that workers empty.  The
  reply passes the interceptors (log, translation, envelope); whatever was thrown passes the exception filter.

  \<^bold>\<open>How it is modelled.\<close>
  An async method is a \<open>comp\<close>: a function from a state to a result and the state it leaves, the result being
  \<open>Inl\<close> of what is thrown or \<open>Inr\<close> of the value (theory \<open>Prelude\<close>).  Writes made before a throw stay; the one
  database transaction of the code, in the file repository, is written out.  A table is the list of its rows, a row is a
  record with the columns of the schema, a nullable column is an \<open>option\<close>; unique indexes are
  checks that end in the PostgreSQL error 23505.  The state of a component extends the record of the component
  below it (\<open>users_db\<close>, \<open>app_db\<close>, \<open>backend\<close>, then the notifications, the files, the audit tables and the
  captcha database), so that an operation of a lower component runs on every larger state.  Clocks, ids and random
  draws are arguments; a time is a number of milliseconds.  Strings are lists of 8-bit characters: the model covers
  Latin-1 text.  JavaScript's numbers are integers here, where the code computes with integers.

  \<^bold>\<open>The theories.\<close>
  \<^item> Foundations.  \<open>Prelude\<close> (computations, tables, the locale \<open>transitions\<close> for state machines), \<open>Js_Values\<close> (the
    JavaScript library that the code uses, JSON, what can be thrown), \<open>Byte_Codec\<close> (base64, UTF-8), \<open>Pagination\<close>
    (\<open>common/Paginated.ts\<close>), \<open>Users_Schema\<close> (\<open>libs/database/users.schema.ts\<close>), \<open>Demo_World\<close> (the instances of the
    outside world at which the witnesses evaluate).
  \<^item> Auth service.  \<open>Auth_Repositories\<close> (its drizzle repositories), \<open>Password_Service\<close> (\<open>libs/auth\<close>: Argon2id with
    migration from HMAC), \<open>Token_Issuer\<close> (\<open>token-issuer.service.ts\<close>, \<open>mail-producer.service.ts\<close>), \<open>Login\<close>
    (\<open>login.handler.ts\<close>), \<open>Account_Handlers\<close> (refresh, logout, forgotten, reset and changed passwords, the gRPC
    controller).  \<open>Login_Lockout\<close> states the failed-login counter of one account as an abstract machine and proves
    that the handler refines it; \<open>Login_Properties\<close> carries the bound on guesses, the invariant of the columns and
    the session of a successful login over to sequences; \<open>One_Way\<close> (locale \<open>one_way\<close>) and \<open>Account_Properties\<close>
    show that refresh and reset tokens are used once.
  \<^item> Users and authentication in the backend.  \<open>Backend_Users\<close> (entities, repositories), \<open>Token_Version\<close>
    (\<open>auth-token-version.service.ts\<close>, \<open>jwt.strategy.ts\<close>), \<open>User_Handlers\<close>, \<open>Backend_Auth\<close> (cookies, gateway,
    \<open>auth.controller.ts\<close>, \<open>csrf.guard.ts\<close>, magic links, administrator's reset), \<open>Request_Validation\<close> (DTO
    classes and the validation pipe), \<open>User_Controllers\<close> (all routes of users and roles with their guards),
    \<open>Domain_Entities\<close> (factories; the backend's own reset-token repository agrees with the auth service's).
    \<open>Token_Version_Properties\<close>: a bump revokes tokens, and the interleaving with which a concurrent request
    revives them.  \<open>Auth_Http_Properties\<close> (locale \<open>auth_gateway\<close>): what the controller does for any gateway that keeps
    the contract, and the gRPC gateway keeps it.  \<open>Session_Properties\<close> composes the auth service with the guard.
    \<open>User_Properties\<close> and \<open>Request_Properties\<close>: who may change whose row, what reaches the tables.
  \<^item> Policies.  \<open>Policies\<close> (permissions, ability cache, guard), \<open>Role_Seeding\<close> (what the boot writes),
    \<open>Policy_Properties\<close> (locale \<open>permission_store\<close>): the guard decides as the table of grants does.
  \<^item> Mail.  \<open>Mail_Service\<close> (entities, repositories, queue, worker, handlers, seeding), \<open>Mail_Properties\<close> (the queue
    as a state machine), \<open>Template_Service\<close> (the service of the templates refines a finite map; locale \<open>simulation\<close>).
  \<^item> Notifications.  \<open>Notification\<close>, \<open>Notification_Properties\<close>: the table and the queue under every order of
    creations, worker runs, cron runs and reads.
  \<^item> Files.  \<open>Object_Store\<close> (\<open>s3.adapter.ts\<close>), \<open>File_Module\<close>, \<open>File_Properties\<close>.
  \<^item> Captcha.  \<open>Captcha\<close> (repository, pool, hashing, normaliser, generator, worker, handlers), \<open>Captcha_Controllers\<close>,
    \<open>Captcha_Properties\<close> (locale \<open>fifo\<close>; the life of a challenge), \<open>Captcha_Config_Properties\<close> (the versions of a
    configuration), \<open>Captcha_Svg\<close> (the drawing, and the answer that can be read in it).
  \<^item> Administration.  \<open>Admin\<close>, \<open>Admin_Properties\<close>: access log, settings, dashboard, audit trail.
  \<^item> The edge.  \<open>Translation\<close> (i18n and interceptors), \<open>Exception_Filter\<close>, \<open>Response_Properties\<close>; \<open>Encryption\<close> and
    \<open>Password_Generator\<close> (\<open>common/crypto\<close>, \<open>common/generate-password.ts\<close>); \<open>Gelf\<close> (\<open>utils/pino-gelf.mts\<close>),
    \<open>Bootstrap\<close>, \<open>Bootstrap_Properties\<close> and \<open>Server_Settings\<close> (configuration, \<open>main.ts\<close>, \<open>options\<close>, health,
    connections, the request log).

  \<^bold>\<open>What is shown.\<close>
  Invariants of the reachable states of the failed-login columns, the mail queue, the notifications, the file tables, the
  captcha tables and configurations; refinement of abstract specifications by the login handler, the policies guard
  and the template service; round trips (upload and download, generated captcha and answer, encryption, forgotten
  and reset password, CSRF cookie and header); who may read and change what; what a client may see of an error; delivery of
  every notification under repeated worker runs; termination of the chunk loop; equivalence of the environment
  substitution with a reading of the file as texts and references.  Several theorems state behaviour that is not
  what the documentation of the program promises; they are marked in their texts.

  \<^bold>\<open>Parameters.\<close>
  Code outside the repository is an argument, with its documented contract as a named hypothesis where a theorem
  needs one: Argon2 and HMAC (\<open>crypto\<close>, \<open>argon2_ok\<close>, \<open>hmac_ok\<close>), jsonwebtoken (\<open>jwt_lib\<close>, \<open>jwt_ok\<close>), CASL (\<open>casl\<close>,
  \<open>casl_ok\<close>), S3 (\<open>s3_client\<close>, \<open>s3_ok\<close>), AES-GCM and SHA-256 (\<open>cipher\<close>), class-validator (\<open>validator\<close>), Handlebars and
  SMTP (\<open>mail_env\<close>), js-yaml, zlib, slugify, Terminus, Intl, the dictionaries of \<open>i18n\<close>, the failures of
  Redis (\<open>redis_faults\<close>) and what the gRPC client makes of an exception.  \<open>Demo_World\<close> and the end of each property
  theory instantiate them.

  \<^bold>\<open>Bounds.\<close>
  Recursion is structural or has a measure; no definition uses fuel.  The chunk loop of the log transport, which may run
  for ever, is a partial function, and \<open>chunking\<close> says exactly when it returns.  Delivery
  is stated for a number of worker runs that the theorem gives.

  \<^bold>\<open>Not modelled.\<close>
  \<^item> The wiring of the Nest modules (\<open>app.module.ts\<close>, \<open>users.module.ts\<close>, \<open>mail.module.ts\<close> and the others),
    abstract repository and port classes, command, query and event classes: they compute nothing; the operations they
    lead to take the fields as arguments.
  \<^item> The libraries: the throttler, drizzle's query builder (its SQL is what the table operations state), BullMQ beyond the
    order and the retries of jobs, Fastify's plugins, Swagger, Terminus, pino and its pretty printer, Handlebars.
  \<^item> The protobuf encoding of the gRPC calls, the generated SQL migrations, foreign keys, concurrency inside one handler
    except where a theorem interleaves requests step by step.
  \<^item> The stream plumbing of the S3 adapter and of the GELF transport, the opening of its sockets.
  \<^item> The branch of the seeding that truncates tables when \<open>NODE_ENV\<close> is \<open>test\<close>; the tests and the container files.
\<close>

end
